(* ===== verification/Prelude.thy ===== *)
theory Prelude
  imports Complex_Main "HOL-Library.Word" "HOL-Library.Finite_Map" "HOL-Library.Sublist"
begin

text \<open>
  Shared vocabulary of the development: the machine integers, times and durations of the Go
  code, decimal printing, bounded histories, and the lemma collections the component theories
  extend.

  A Go \<open>int32\<close> is a \<open>32 word\<close> read as two's complement: \<open>+\<close>, \<open>-\<close> wrap around as in Go, the
  comparisons \<open>a <s b\<close> and \<open>a <=s b\<close> of HOL-Library.Word are the signed ones.  A Go \<open>int\<close> that
  only counts or is only compared is an \<open>int\<close> or \<open>nat\<close>.  A \<open>string\<close> is a Go string, a list of
  bytes.  A Go map is a finite map (\<open>fmap\<close>).
\<close>

section \<open>Lemma collections\<close>

named_theorems guard_simps \<open>facts that evaluate the replica guards\<close>
named_theorems step_simps \<open>definitions of the reconcile steps\<close>

section \<open>Fixed-width integers\<close>

type_synonym int32 = "32 word"
type_synonym int64 = "64 word"

abbreviation int32_min :: int where "int32_min \<equiv> - 2147483648"
abbreviation int32_max :: int where "int32_max \<equiv> 2147483647"

lemma sint32_range: "int32_min \<le> sint (a :: int32)" "sint a \<le> int32_max"
  using sint_ge [of a] sint_lt [of a] by simp_all

lemma sint32_inject: "sint (a :: int32) = sint b \<longleftrightarrow> a = b"
  by (auto intro: signed_word_eqI)

lemma signed_take_bit_31 [simp]:
  "int32_min \<le> x \<Longrightarrow> x \<le> int32_max \<Longrightarrow> signed_take_bit 31 x = x"
  by (rule signed_take_bit_int_eq_self) simp_all

lemma sint32_add:
  "int32_min \<le> sint a + sint b \<Longrightarrow> sint a + sint b \<le> int32_max
    \<Longrightarrow> sint (a + b :: int32) = sint a + sint b"
  by (simp add: sint_word_ariths)

lemma sint32_sub:
  "int32_min \<le> sint a - sint b \<Longrightarrow> sint a - sint b \<le> int32_max
    \<Longrightarrow> sint (a - b :: int32) = sint a - sint b"
  by (simp add: sint_word_ariths)

lemma sint32_neg: "sint a \<noteq> int32_min \<Longrightarrow> sint (- a :: int32) = - sint a"
  using sint32_range [of a] by (simp add: sint_word_ariths)

lemmas sless_sint = word_sless_alt word_sle_eq

lemma sint32_0 [simp]: "sint (0 :: int32) = 0" and sint32_1 [simp]: "sint (1 :: int32) = 1"
  by simp_all

section \<open>Times and durations\<close>

text \<open>
  A \<open>time.Time\<close> is a count of nanoseconds on one clock, a \<open>time.Duration\<close> a count of
  nanoseconds.  \<open>Time.Sub\<close> saturates at the ends of the \<open>int64\<close> range, as its documentation
  says; the zero \<open>time.Time\<close> is the first of January of year 1.
\<close>

type_synonym time = int
type_synonym duration = int

definition min_duration :: duration where "min_duration = - (2 ^ 63)"
definition max_duration :: duration where "max_duration = 2 ^ 63 - 1"

definition time_sub :: "time \<Rightarrow> time \<Rightarrow> duration" where
  "time_sub t u = max min_duration (min max_duration (t - u))"

definition zero_time :: time where "zero_time = - 62135596800000000000"

definition second :: duration where "second = 1000000000"
definition minute :: duration where "minute = 60 * second"
definition hour :: duration where "hour = 60 * minute"

lemmas duration_defs = second_def minute_def hour_def min_duration_def max_duration_def

text \<open>\<open>time.Duration(secs) * time.Second\<close>, on \<open>int64\<close>.\<close>

definition seconds :: "int \<Rightarrow> duration" where
  "seconds n = sint (word_of_int (n * second) :: int64)"

lemma seconds_mod: "seconds n = (n * second + 2 ^ 63) mod 2 ^ 64 - 2 ^ 63"
  unfolding seconds_def int_word_sint by simp

lemma seconds_exact:
  assumes "0 \<le> n" and "n \<le> 9223372036"
  shows "seconds n = n * second"
proof -
  have "0 \<le> n * second" "n * second \<le> 9223372036 * second"
    using assms by (simp_all add: second_def)
  then show ?thesis by (simp add: seconds_mod second_def)
qed

lemma time_sub_mono: "t \<le> t' \<Longrightarrow> time_sub t u \<le> time_sub t' u"
  by (simp add: time_sub_def)

lemma time_sub_exact:
  "min_duration \<le> t - u \<Longrightarrow> t - u \<le> max_duration \<Longrightarrow> time_sub t u = t - u"
  by (simp add: time_sub_def)

lemma time_sub_less_iff: "d \<le> max_duration \<Longrightarrow> min_duration < d \<Longrightarrow> time_sub t u < d \<longleftrightarrow> t - u < d"
  by (auto simp: time_sub_def min_duration_def max_duration_def)

lemma time_sub_ge_iff: "d \<le> max_duration \<Longrightarrow> min_duration < d \<Longrightarrow> d \<le> time_sub t u \<longleftrightarrow> d \<le> t - u"
  using time_sub_less_iff [of d t u] by (simp add: not_less [symmetric])

section \<open>Decimal printing (the verb %d)\<close>

fun show_nat :: "nat \<Rightarrow> string" where
  "show_nat n = (if n < 10 then [char_of (48 + n)]
                 else show_nat (n div 10) @ [char_of (48 + n mod 10)])"

declare show_nat.simps [simp del]

definition show_int :: "int \<Rightarrow> string" where
  "show_int i = (if i < 0 then ''-'' @ show_nat (nat (- i)) else show_nat (nat i))"

definition show_int32 :: "int32 \<Rightarrow> string" where
  "show_int32 a = show_int (sint a)"

definition show_bool :: "bool \<Rightarrow> string" where
  "show_bool b = (if b then ''true'' else ''false'')"

section \<open>Strings of the standard library\<close>

fun join_with :: "string \<Rightarrow> string list \<Rightarrow> string" where
  "join_with sep [] = []"
| "join_with sep [s] = s"
| "join_with sep (s # t # ts) = s @ sep @ join_with sep (t # ts)"

text \<open>The UTF-8 bytes of the em dash and of the arrow the code prints, and the newline.\<close>

definition em_dash :: string where
  "em_dash = [CHR 0xE2, CHR 0x80, CHR 0x94]"

definition right_arrow :: string where
  "right_arrow = [CHR 0xE2, CHR 0x86, CHR 0x92]"

definition nl :: string where
  "nl = [CHR 0x0A]"

section \<open>Results\<close>

text \<open>
  A Go function with an error result returns \<open>Inl\<close> of the error's text or \<open>Inr\<close> of the value.
  Errors of the Kubernetes client keep the class \<open>apierrors\<close> gives them.
\<close>

type_synonym go_error = string

datatype api_error =
  ApiNotFound (api_error_text: string)
| ApiConflict (api_error_text: string)
| ApiOther (api_error_text: string)

definition is_not_found :: "api_error \<Rightarrow> bool" where
  "is_not_found e = (case e of ApiNotFound _ \<Rightarrow> True | _ \<Rightarrow> False)"

definition is_conflict :: "api_error \<Rightarrow> bool" where
  "is_conflict e = (case e of ApiConflict _ \<Rightarrow> True | _ \<Rightarrow> False)"

section \<open>Lists\<close>

lemma find_Some_set: "List.find P xs = Some x \<Longrightarrow> x \<in> set xs \<and> P x"
  by (auto simp: find_Some_iff)

lemma find_None_all: "List.find P xs = None \<longleftrightarrow> (\<forall>x\<in>set xs. \<not> P x)"
  by (auto simp: find_None_iff)

definition first_some :: "('a \<Rightarrow> 'b option) \<Rightarrow> 'a list \<Rightarrow> 'b option" where
  "first_some f xs = (case List.map_filter f xs of [] \<Rightarrow> None | y # _ \<Rightarrow> Some y)"

lemma first_some_Nil [simp]: "first_some f [] = None"
  by (simp add: first_some_def map_filter_simps)

lemma first_some_Cons [simp]:
  "first_some f (x # xs) = (case f x of None \<Rightarrow> first_some f xs | Some y \<Rightarrow> Some y)"
  by (simp add: first_some_def map_filter_simps split: option.split)

lemma first_some_append:
  "first_some f (xs @ ys) = (case first_some f xs of None \<Rightarrow> first_some f ys | Some y \<Rightarrow> Some y)"
  by (induction xs) (auto split: option.split)

lemma first_some_SomeD: "first_some f xs = Some y \<Longrightarrow> \<exists>x\<in>set xs. f x = Some y"
  by (induction xs) (auto split: option.splits)

lemma first_some_None: "first_some f xs = None \<longleftrightarrow> (\<forall>x\<in>set xs. f x = None)"
  by (induction xs) (auto split: option.splits)

end
