(* ===== verification/Float64.thy ===== *)
theory Float64
  imports Prelude
begin

text \<open>
  The type \<open>float64\<close> of Go: IEEE 754 binary64 with rounding to nearest, ties to even, as the
  language specification says.  A value is its bit pattern, a sign and the 63 lower bits, so
  every value of the HOL type is a value of the Go type.  The magnitude patterns are ordered as
  the numbers they stand for; \<open>inf_pat\<close> is infinity and every larger pattern is a NaN.

  All operations compute on integers (mantissa and exponent), never on rationals, so closed
  terms evaluate in the kernel.  The lemmas relate them to the rational value \<open>val\<close>: rounding
  is monotone and exact on representable numbers (\<open>rounds_mono\<close>, \<open>rounds_exact\<close>), which gives
  the sign and order facts the components use (\<open>margin_sign\<close>, \<open>f_of_int_val\<close>).
\<close>

section \<open>Representation\<close>

datatype float64 = F64 (f_neg: bool) (f_mag: "63 word")

definition pat_step :: nat where "pat_step = 2 ^ 52"
definition inf_pat :: nat where "inf_pat = 2047 * 2 ^ 52"
definition emin :: int where "emin = - 1074"

lemma pat_step_pos [simp]: "0 < pat_step"
  by (simp add: pat_step_def)

text \<open>A finite magnitude is \<open>mant n * 2 ^ (expo n)\<close>.\<close>

definition mant :: "nat \<Rightarrow> nat" where
  "mant n = (if n < pat_step then n else pat_step + n mod pat_step)"

definition expo :: "nat \<Rightarrow> int" where
  "expo n = (if n < pat_step then emin else int (n div pat_step) + emin - 1)"

datatype fview = VNaN | VInf bool | VFin bool nat int

definition view :: "float64 \<Rightarrow> fview" where
  "view a = (let n = unat (f_mag a) in
     if n < inf_pat then VFin (f_neg a) (mant n) (expo n)
     else if n = inf_pat then VInf (f_neg a) else VNaN)"

definition is_nan :: "float64 \<Rightarrow> bool" where
  "is_nan a = (inf_pat < unat (f_mag a))"

definition is_finite :: "float64 \<Rightarrow> bool" where
  "is_finite a = (unat (f_mag a) < inf_pat)"

definition f_inf :: "bool \<Rightarrow> float64" where "f_inf s = F64 s (of_nat inf_pat)"
definition f_zero :: "bool \<Rightarrow> float64" where "f_zero s = F64 s 0"
definition f_nan :: float64 where "f_nan = F64 False (of_nat (inf_pat + 2 ^ 51))"

section \<open>Rounding\<close>

fun ilog2 :: "nat \<Rightarrow> nat" where
  "ilog2 n = (if n < 2 then 0 else Suc (ilog2 (n div 2)))"

declare ilog2.simps [simp del]

definition rne :: "nat \<Rightarrow> nat \<Rightarrow> nat" where
  "rne a b = (let q = a div b; r = a mod b in
     if 2 * r < b \<or> (2 * r = b \<and> even q) then q else Suc q)"

text \<open>The floor of the binary logarithm of \<open>num / den\<close>.\<close>

definition qlog2 :: "nat \<Rightarrow> nat \<Rightarrow> int" where
  "qlog2 num den = (let l = int (ilog2 num) - int (ilog2 den) in
     if den * 2 ^ nat l \<le> num * 2 ^ nat (- l) then l else l - 1)"

text \<open>The magnitude pattern of \<open>num / den * 2 ^ k\<close>, rounded.\<close>

definition round_pos :: "nat \<Rightarrow> nat \<Rightarrow> int \<Rightarrow> nat" where
  "round_pos num den k =
     (let e = max emin (qlog2 num den + k - 52);
          m = rne (num * 2 ^ nat (k - e)) (den * 2 ^ nat (e - k))
      in min inf_pat (nat (e - emin) * pat_step + m))"

definition f_round :: "bool \<Rightarrow> nat \<Rightarrow> nat \<Rightarrow> int \<Rightarrow> float64" where
  "f_round s num den k = F64 s (of_nat (round_pos num den k))"

section \<open>Arithmetic, comparison, conversion\<close>

definition f_signed :: "int \<Rightarrow> nat \<Rightarrow> int \<Rightarrow> float64" where
  "f_signed i den k = (if i = 0 then f_zero False else f_round (i < 0) (nat \<bar>i\<bar>) den k)"

definition f_of_int :: "int \<Rightarrow> float64" where
  "f_of_int i = f_signed i 1 0"

definition f_lit :: "int \<Rightarrow> nat \<Rightarrow> float64" where
  "f_lit i d = f_signed i d 0"

definition signed_mant :: "bool \<Rightarrow> nat \<Rightarrow> int" where
  "signed_mant s m = (if s then - int m else int m)"

definition f_add :: "float64 \<Rightarrow> float64 \<Rightarrow> float64" where
  "f_add a b = (case (view a, view b) of
       (VFin s m e, VFin t k d) \<Rightarrow>
         (let g = min e d;
              x = signed_mant s m * 2 ^ nat (e - g) + signed_mant t k * 2 ^ nat (d - g)
          in if x = 0 then f_zero (s \<and> t) else f_signed x 1 g)
     | (VInf s, VFin _ _ _) \<Rightarrow> f_inf s
     | (VFin _ _ _, VInf t) \<Rightarrow> f_inf t
     | (VInf s, VInf t) \<Rightarrow> (if s = t then f_inf s else f_nan)
     | _ \<Rightarrow> f_nan)"

definition f_mul :: "float64 \<Rightarrow> float64 \<Rightarrow> float64" where
  "f_mul a b = (case (view a, view b) of
       (VFin s m e, VFin t k d) \<Rightarrow>
         (if m = 0 \<or> k = 0 then f_zero (s \<noteq> t) else f_round (s \<noteq> t) (m * k) 1 (e + d))
     | (VInf s, VFin t k _) \<Rightarrow> (if k = 0 then f_nan else f_inf (s \<noteq> t))
     | (VFin s m _, VInf t) \<Rightarrow> (if m = 0 then f_nan else f_inf (s \<noteq> t))
     | (VInf s, VInf t) \<Rightarrow> f_inf (s \<noteq> t)
     | _ \<Rightarrow> f_nan)"

definition f_div :: "float64 \<Rightarrow> float64 \<Rightarrow> float64" where
  "f_div a b = (case (view a, view b) of
       (VFin s m e, VFin t k d) \<Rightarrow>
         (if k = 0 then (if m = 0 then f_nan else f_inf (s \<noteq> t))
          else if m = 0 then f_zero (s \<noteq> t)
          else f_round (s \<noteq> t) m k (e - d))
     | (VInf s, VFin t _ _) \<Rightarrow> f_inf (s \<noteq> t)
     | (VFin s _ _, VInf t) \<Rightarrow> f_zero (s \<noteq> t)
     | _ \<Rightarrow> f_nan)"

text \<open>The order of the bit patterns; both zeros have key 0.\<close>

definition f_key :: "float64 \<Rightarrow> int" where
  "f_key a = (if f_neg a then - int (unat (f_mag a)) else int (unat (f_mag a)))"

instantiation float64 :: "{zero, one, uminus, plus, minus, times, inverse, ord}"
begin

definition zero_float64 :: float64 where "0 = f_zero False"
definition one_float64 :: float64 where "1 = f_of_int 1"
definition uminus_float64 :: "float64 \<Rightarrow> float64" where
  "- a = F64 (\<not> f_neg a) (f_mag a)"
definition plus_float64 :: "float64 \<Rightarrow> float64 \<Rightarrow> float64" where "a + b = f_add a b"
definition minus_float64 :: "float64 \<Rightarrow> float64 \<Rightarrow> float64" where
  "a - b = f_add a (F64 (\<not> f_neg b) (f_mag b))"
definition times_float64 :: "float64 \<Rightarrow> float64 \<Rightarrow> float64" where "a * b = f_mul a b"
definition divide_float64 :: "float64 \<Rightarrow> float64 \<Rightarrow> float64" where "a div b = f_div a b"
definition inverse_float64 :: "float64 \<Rightarrow> float64" where "inverse a = f_div (f_of_int 1) a"
definition less_float64 :: "float64 \<Rightarrow> float64 \<Rightarrow> bool" where
  "a < b \<longleftrightarrow> \<not> is_nan a \<and> \<not> is_nan b \<and> f_key a < f_key b"
definition less_eq_float64 :: "float64 \<Rightarrow> float64 \<Rightarrow> bool" where
  "a \<le> b \<longleftrightarrow> \<not> is_nan a \<and> \<not> is_nan b \<and> f_key a \<le> f_key b"

instance ..

end

text \<open>Go's \<open>==\<close> on floats, and the builtin minimum of the package \<open>math\<close>.\<close>

definition f_eq :: "float64 \<Rightarrow> float64 \<Rightarrow> bool" where
  "f_eq a b \<longleftrightarrow> \<not> is_nan a \<and> \<not> is_nan b \<and> f_key a = f_key b"

text \<open>
  The conversion \<open>int32(a)\<close> truncates towards zero; where the truncated value is not an
  \<open>int32\<close> (or \<open>a\<close> is not finite) the language leaves the result to the implementation, the
  parameter \<open>oor\<close>.
\<close>

definition f_trunc :: "bool \<Rightarrow> nat \<Rightarrow> int \<Rightarrow> int" where
  "f_trunc s m e = signed_mant s (m * 2 ^ nat e div 2 ^ nat (- e))"

definition f_to_int32 :: "(float64 \<Rightarrow> int32) \<Rightarrow> float64 \<Rightarrow> int32" where
  "f_to_int32 oor a = (case view a of
       VFin s m e \<Rightarrow> (let t = f_trunc s m e in
         if int32_min \<le> t \<and> t \<le> int32_max then word_of_int t else oor a)
     | _ \<Rightarrow> oor a)"

text \<open>The verb \<open>%.pf\<close> of package fmt: the exact value, rounded half to even to \<open>p\<close> digits.\<close>

definition show_fixed :: "nat \<Rightarrow> nat \<Rightarrow> string" where
  "show_fixed p q = (let ds = show_nat q;
       ds' = replicate (Suc p - length ds) (CHR ''0'') @ ds;
       k = length ds' - p
     in if p = 0 then ds' else take k ds' @ ''.'' @ drop k ds')"

definition show_f :: "nat \<Rightarrow> float64 \<Rightarrow> string" where
  "show_f p a = (case view a of
       VNaN \<Rightarrow> ''NaN''
     | VInf s \<Rightarrow> (if s then ''-Inf'' else ''+Inf'')
     | VFin s m e \<Rightarrow> (if s then ''-'' else '''') @
         show_fixed p (rne (m * 10 ^ p * 2 ^ nat e) (2 ^ nat (- e))))"

section \<open>Facts about rounding\<close>

lemma ilog2_bounds: "0 < n \<Longrightarrow> 2 ^ ilog2 n \<le> n \<and> n < 2 ^ Suc (ilog2 n)"
proof (induction n rule: ilog2.induct)
  case (1 n)
  show ?case
  proof (cases "n < 2")
    case True
    with "1.prems" show ?thesis by (simp add: ilog2.simps [of n])
  next
    case False
    with "1.IH" have "2 ^ ilog2 (n div 2) \<le> n div 2" "n div 2 < 2 ^ Suc (ilog2 (n div 2))"
      by simp_all
    moreover have "n = 2 * (n div 2) \<or> n = Suc (2 * (n div 2))" by presburger
    ultimately show ?thesis
      using False unfolding ilog2.simps [of n] by auto
  qed
qed

lemma ilog2_powi:
  assumes "0 < n"
  shows "(2 :: rat) powi int (ilog2 n) \<le> of_nat n \<and> of_nat n < (2 :: rat) powi (int (ilog2 n) + 1)"
proof -
  have "of_nat (2 ^ ilog2 n) \<le> (of_nat n :: rat)" "(of_nat n :: rat) < of_nat (2 ^ Suc (ilog2 n))"
    using ilog2_bounds [OF assms] by (simp_all only: of_nat_le_iff of_nat_less_iff)
  then show ?thesis by (simp add: power_int_add)
qed

lemma powi_nat_diff: "(2 :: rat) powi k = 2 ^ nat k / 2 ^ nat (- k)"
  by (cases "0 \<le> k") (simp_all add: power_int_def field_simps)

lemma qlog2_bounds:
  assumes "0 < num" and "0 < den"
  shows "(2 :: rat) powi qlog2 num den \<le> of_nat num / of_nat den
    \<and> (of_nat num / of_nat den :: rat) < 2 powi (qlog2 num den + 1)"
proof -
  define a b where "a = int (ilog2 num)" and "b = int (ilog2 den)"
  have n: "(2 :: rat) powi a \<le> of_nat num" "(of_nat num :: rat) < 2 powi (a + 1)"
    and d: "(2 :: rat) powi b \<le> of_nat den" "(of_nat den :: rat) < 2 powi (b + 1)"
    using ilog2_powi [OF assms(1)] ilog2_powi [OF assms(2)] by (simp_all add: a_def b_def)
  have "(2 :: rat) powi (a - b - 1) = 2 powi a / 2 powi (b + 1)"
    by (simp add: power_int_add power_int_diff)
  also have "\<dots> \<le> of_nat num / of_nat den"
    using n d assms by (intro frac_le) auto
  finally have lo: "(2 :: rat) powi (a - b - 1) \<le> of_nat num / of_nat den" .
  have "(of_nat num / of_nat den :: rat) < 2 powi (a + 1) / 2 powi b"
    using n d assms by (intro frac_less) auto
  also have "\<dots> = 2 powi (a - b + 1)"
    by (simp add: power_int_add power_int_diff)
  finally have hi: "(of_nat num / of_nat den :: rat) < 2 powi (a - b + 1)" .
  have test: "den * 2 ^ nat (a - b) \<le> num * 2 ^ nat (- (a - b))
      \<longleftrightarrow> (2 :: rat) powi (a - b) \<le> of_nat num / of_nat den"
  proof -
    have "den * 2 ^ nat (a - b) \<le> num * 2 ^ nat (- (a - b))
      \<longleftrightarrow> (of_nat den * 2 ^ nat (a - b) :: rat) \<le> of_nat num * 2 ^ nat (- (a - b))"
      by (metis (mono_tags, lifting) of_nat_le_iff of_nat_mult of_nat_numeral of_nat_power)
    then show ?thesis
      using assms by (simp add: powi_nat_diff field_simps)
  qed
  show ?thesis
  proof (cases "(2 :: rat) powi (a - b) \<le> of_nat num / of_nat den")
    case True
    then have "qlog2 num den = a - b"
      using test by (simp add: qlog2_def Let_def a_def b_def)
    with True hi show ?thesis by simp
  next
    case False
    then have "qlog2 num den = a - b - 1"
      using test by (simp add: qlog2_def Let_def a_def b_def)
    with False lo show ?thesis by simp
  qed
qed

text \<open>\<open>near y m\<close>: \<open>m\<close> is the natural number nearest to \<open>y\<close>, the even one of two.\<close>

definition near :: "rat \<Rightarrow> nat \<Rightarrow> bool" where
  "near y m \<longleftrightarrow> of_nat m - 1/2 \<le> y \<and> y \<le> of_nat m + 1/2 \<and>
     (y = of_nat m - 1/2 \<or> y = of_nat m + 1/2 \<longrightarrow> even m)"

lemma near_mono:
  assumes "near y m" and "near y' m'" and "y \<le> y'"
  shows "m \<le> m'"
proof (rule ccontr)
  assume "\<not> m \<le> m'"
  then have "of_nat m' + 1 \<le> (of_nat m :: rat)"
    by (simp add: Suc_le_eq flip: of_nat_Suc)
  with assms have "y = of_nat m - 1/2" and "y' = of_nat m' + 1/2" and eq: "of_nat m = (of_nat m' + 1 :: rat)"
    unfolding near_def by linarith+
  with assms have "even m" and "even m'"
    by (auto simp: near_def)
  moreover from eq have "m = Suc m'"
    by (metis Suc_eq_plus1 of_nat_1 of_nat_add of_nat_eq_iff)
  ultimately show False by simp
qed

lemma near_of_nat: "near (of_nat m) m"
  by (simp add: near_def)

lemma near_rne:
  assumes "0 < b"
  shows "near (of_nat a / of_nat b) (rne a b)"
proof -
  define q r where "q = a div b" and "r = a mod b"
  have r: "r < b" and a: "a = q * b + r"
    using assms by (simp_all add: q_def r_def)
  have y: "(of_nat a / of_nat b :: rat) = of_nat q + of_nat r / of_nat b"
    using assms by (simp add: a field_simps)
  have rb: "(of_nat r / of_nat b :: rat) < 1" "0 \<le> (of_nat r / of_nat b :: rat)"
    using r by simp_all
  have half: "2 * r < b \<longleftrightarrow> (of_nat r / of_nat b :: rat) < 1/2" "2 * r = b \<longleftrightarrow> (of_nat r / of_nat b :: rat) = 1/2"
  proof -
    have "2 * r < b \<longleftrightarrow> of_nat (2 * r) < (of_nat b :: rat)" "2 * r = b \<longleftrightarrow> of_nat (2 * r) = (of_nat b :: rat)"
      by (simp_all only: of_nat_less_iff of_nat_eq_iff)
    moreover have "(of_nat r / of_nat b :: rat) < 1/2 \<longleftrightarrow> of_nat (2 * r) < (of_nat b :: rat)"
      using assms by (simp add: field_simps)
    moreover have "(of_nat r / of_nat b :: rat) = 1/2 \<longleftrightarrow> of_nat (2 * r) = (of_nat b :: rat)"
      using assms by (auto simp: frac_eq_eq mult.commute)
    ultimately show "2 * r < b \<longleftrightarrow> (of_nat r / of_nat b :: rat) < 1/2"
        "2 * r = b \<longleftrightarrow> (of_nat r / of_nat b :: rat) = 1/2"
      by blast+
  qed
  show ?thesis
  proof -
    define f where "f = (of_nat r / of_nat b :: rat)"
    have f: "f < 1" "0 \<le> f" using rb by (simp_all add: f_def)
    then show ?thesis
      unfolding near_def rne_def Let_def y q_def [symmetric] r_def [symmetric] half f_def [symmetric]
      by auto
  qed
qed


lemma rne_exact: "0 < b \<Longrightarrow> rne (m * b) b = m"
  by (simp add: rne_def Let_def)

text \<open>
  \<open>rounds x n\<close>: the magnitude pattern of the positive number \<open>x\<close>.  The exponent \<open>e\<close> leaves 53
  bits before the point, or is the smallest one; the mantissa is the nearest integer.
\<close>

definition rounds :: "rat \<Rightarrow> nat \<Rightarrow> bool" where
  "rounds x n \<longleftrightarrow> (\<exists>l m. 2 powi l \<le> x \<and> x < 2 powi (l + 1) \<and>
     near (x / 2 powi max emin (l - 52)) m \<and>
     n = min inf_pat (nat (max emin (l - 52) - emin) * pat_step + m))"

lemma rounds_round_pos:
  assumes "0 < num" and "0 < den"
  shows "rounds (of_nat num / of_nat den * 2 powi k) (round_pos num den k)"
proof -
  define l where "l = qlog2 num den + k"
  define e where "e = max emin (l - 52)"
  define x where "x = (of_nat num / of_nat den * 2 powi k :: rat)"
  define m where "m = rne (num * 2 ^ nat (k - e)) (den * 2 ^ nat (e - k))"
  have "2 powi l = (2 :: rat) powi qlog2 num den * 2 powi k"
    and "2 powi (l + 1) = (2 :: rat) powi (qlog2 num den + 1) * 2 powi k"
    by (simp_all add: l_def power_int_add)
  then have l: "2 powi l \<le> x" "x < 2 powi (l + 1)"
    using qlog2_bounds [OF assms] unfolding x_def
    by (auto intro: mult_right_mono mult_strict_right_mono simp del: times_divide_eq_left)
  have "x / 2 powi e = of_nat num / of_nat den * 2 powi (k - e)"
    by (simp add: x_def power_int_diff)
  also have "\<dots> = of_nat (num * 2 ^ nat (k - e)) / of_nat (den * 2 ^ nat (e - k))"
    using assms by (simp add: powi_nat_diff field_simps)
  finally have "near (x / 2 powi e) m"
    using near_rne [of "den * 2 ^ nat (e - k)" "num * 2 ^ nat (k - e)"] assms
    by (simp add: m_def)
  moreover have "round_pos num den k = min inf_pat (nat (e - emin) * pat_step + m)"
    by (simp add: round_pos_def Let_def m_def e_def l_def)
  ultimately show ?thesis
    unfolding rounds_def x_def [symmetric] e_def using l by blast
qed

lemma powi_mono2: "k \<le> l \<Longrightarrow> (2 :: rat) powi k \<le> 2 powi l"
  by (rule power_int_increasing) auto

lemma powi_less_cancel: "(2 :: rat) powi k < 2 powi l \<Longrightarrow> k < l"
  using powi_mono2 [of l k] by linarith

lemma rounds_mono:
  assumes "rounds x n" and "rounds y k" and "x \<le> y"
  shows "n \<le> k"
proof -
  obtain l m where x: "2 powi l \<le> x" "x < 2 powi (l + 1)" "near (x / 2 powi max emin (l - 52)) m"
      "n = min inf_pat (nat (max emin (l - 52) - emin) * pat_step + m)"
    using assms(1) unfolding rounds_def by blast
  obtain l' m' where y: "2 powi l' \<le> y" "y < 2 powi (l' + 1)" "near (y / 2 powi max emin (l' - 52)) m'"
      "k = min inf_pat (nat (max emin (l' - 52) - emin) * pat_step + m')"
    using assms(2) unfolding rounds_def by blast
  define e e' where "e = max emin (l - 52)" and "e' = max emin (l' - 52)"
  have "(2 :: rat) powi l < 2 powi (l' + 1)" using x y assms(3) by linarith
  then have "l \<le> l'" using powi_less_cancel by force
  then have "e \<le> e'" by (simp add: e_def e'_def)
  have "nat (e - emin) * pat_step + m \<le> nat (e' - emin) * pat_step + m'"
  proof (cases "e = e'")
    case True
    have "x / 2 powi e \<le> y / 2 powi e'" using assms(3) True by (simp add: divide_right_mono)
    then have "m \<le> m'" using x(3) y(3) near_mono unfolding e_def e'_def by blast
    then show ?thesis using True by simp
  next
    case False
    with \<open>e \<le> e'\<close> have lt: "e < e'" by simp
    then have e': "e' = l' - 52" and e1074: "emin \<le> e" by (auto simp: e_def e'_def)
    have "x / 2 powi e \<le> of_nat (2 ^ 53)"
    proof -
      have "(2 :: rat) powi (l + 1) \<le> 2 powi (e + 53)" by (rule powi_mono2) (simp add: e_def)
      with x(2) have "x \<le> 2 powi (e + 53)" by linarith
      then show ?thesis by (simp add: power_int_add field_simps)
    qed
    then have m: "m \<le> 2 ^ 53" using near_mono [OF _ near_of_nat] x(3) e_def by blast
    have "of_nat (2 ^ 52) \<le> y / 2 powi e'"
      using y(1) by (simp add: e' power_int_diff field_simps)
    then have m': "2 ^ 52 \<le> m'" using near_mono [OF near_of_nat] y(3) e'_def by blast
    have "nat (e - emin) * pat_step + pat_step \<le> nat (e' - emin) * pat_step"
      using lt e1074 mult_le_mono1 [of "Suc (nat (e - emin))" "nat (e' - emin)" pat_step] by (simp add: add.commute nat_less_eq_zless Suc_le_eq)
    then show ?thesis using m m' by (simp add: pat_step_def)
  qed
  then show ?thesis unfolding x(4) y(4) e_def e'_def by simp
qed

section \<open>The value of a magnitude\<close>

definition mval :: "nat \<Rightarrow> rat" where
  "mval n = of_nat (mant n) * 2 powi expo n"

lemma mant_bounds: "pat_step \<le> n \<Longrightarrow> pat_step \<le> mant n \<and> mant n < 2 * pat_step"
  by (simp add: mant_def)

lemma mval_binade:
  assumes "pat_step \<le> n"
  shows "2 powi (expo n + 52) \<le> mval n \<and> mval n < 2 powi (expo n + 53)"
proof -
  have "of_nat (2 ^ 52) \<le> (of_nat (mant n) :: rat)" "(of_nat (mant n) :: rat) < of_nat (2 ^ 53)"
    using mant_bounds [OF assms] by (simp_all only: of_nat_le_iff of_nat_less_iff) (simp_all add: pat_step_def)
  then show ?thesis by (simp add: mval_def power_int_add)
qed

lemma rounds_exact:
  assumes "0 < n" and "n < inf_pat"
  shows "rounds (mval n) n"
proof (cases "n < pat_step")
  case True
  define l where "l = int (ilog2 n) + emin"
  have "2 ^ ilog2 n < (2 :: nat) ^ 52"
    using ilog2_bounds [OF assms(1)] True unfolding pat_step_def by linarith
  then have "ilog2 n < 52" by (rule power_less_imp_less_exp [rotated]) simp
  then have e: "max emin (l - 52) = emin" by (simp add: l_def)
  have v: "mval n = of_nat n * 2 powi emin" using True by (simp add: mval_def mant_def expo_def)
  have "2 powi l = (2 :: rat) powi int (ilog2 n) * 2 powi emin"
    "2 powi (l + 1) = (2 :: rat) powi (int (ilog2 n) + 1) * 2 powi emin"
    unfolding l_def by (simp_all add: power_int_add)
  then have "2 powi l \<le> mval n" "mval n < 2 powi (l + 1)"
    using ilog2_powi [OF assms(1)] unfolding v by simp_all
  moreover have "near (mval n / 2 powi max emin (l - 52)) n"
    unfolding e v using near_of_nat by simp
  ultimately show ?thesis
    unfolding rounds_def using assms e by (intro exI [of _ l] exI [of _ n]) simp
next
  case False
  then have b: "2 powi (expo n + 52) \<le> mval n" "mval n < 2 powi (expo n + 52 + 1)"
    using mval_binade [of n] by (simp_all add: add.commute)
  have "pat_step div pat_step \<le> n div pat_step" using False by (intro div_le_mono) simp
  then have d: "1 \<le> n div pat_step" by simp
  then have e: "max emin (expo n + 52 - 52) = expo n" using False by (simp add: expo_def)
  have "n = nat (expo n - emin) * pat_step + mant n"
  proof -
    have "nat (expo n - emin) = n div pat_step - 1" using False by (simp add: expo_def nat_diff_distrib)
    moreover have "(n div pat_step - 1) * pat_step + pat_step = n div pat_step * pat_step"
      using d by (metis Suc_diff_1 add.commute less_eq_Suc_le mult_Suc One_nat_def)
    moreover have "n = n div pat_step * pat_step + n mod pat_step" by simp
    moreover have "mant n = pat_step + n mod pat_step" using False by (simp add: mant_def)
    ultimately show ?thesis by (metis add.assoc)
  qed
  moreover have "near (mval n / 2 powi max emin (expo n + 52 - 52)) (mant n)"
    unfolding e mval_def using near_of_nat by simp
  ultimately show ?thesis
    unfolding rounds_def using assms b e by (intro exI [of _ "expo n + 52"] exI [of _ "mant n"]) simp
qed


lemma mval_0 [simp]: "mval 0 = 0"
  by (simp add: mval_def mant_def)

lemma mval_strict_mono:
  assumes "n < k"
  shows "mval n < mval k"
proof (cases "n div pat_step = k div pat_step")
  case True
  then have e: "n < pat_step \<longleftrightarrow> k < pat_step"
    by (metis div_eq_0_iff not_gr_zero pat_step_pos)
  have "n mod pat_step < k mod pat_step"
    using assms True div_mult_mod_eq [of n pat_step] div_mult_mod_eq [of k pat_step]
    by (metis add_less_cancel_left)
  then have "mant n < mant k" and "expo n = expo k"
    using assms e True by (auto simp: mant_def expo_def)
  then show ?thesis by (simp add: mval_def)
next
  case False
  with assms have lt: "n div pat_step < k div pat_step"
    by (simp add: div_le_mono le_neq_implies_less less_imp_le)
  then have k: "pat_step \<le> k"
    by (metis div_less gr_implies_not0 leI)
  have "mval n < 2 powi (expo k + 52)"
  proof (cases "n < pat_step")
    case True
    then have "(of_nat n :: rat) < of_nat (2 ^ 52)"
      unfolding of_nat_less_iff by (simp add: pat_step_def)
    then have "mval n < 2 powi (emin + 52)"
      using True by (simp add: mval_def mant_def expo_def power_int_add)
    moreover have "emin + 52 \<le> expo k + 52" using k lt True by (simp add: expo_def)
    ultimately show ?thesis using powi_mono2 [of "emin + 52" "expo k + 52"] by linarith
  next
    case False
    then have "mval n < 2 powi (expo n + 53)" using mval_binade [of n] by simp
    moreover have "expo n + 53 \<le> expo k + 52" using lt k False by (simp add: expo_def)
    ultimately show ?thesis using powi_mono2 [of "expo n + 53" "expo k + 52"] by linarith
  qed
  then show ?thesis using mval_binade [OF k] by linarith
qed

lemma mval_less_iff: "mval n < mval k \<longleftrightarrow> n < k"
  using mval_strict_mono [of n k] mval_strict_mono [of k n] by (cases n k rule: linorder_cases) auto

lemma mval_le_iff: "mval n \<le> mval k \<longleftrightarrow> n \<le> k"
  using mval_less_iff [of k n] by (simp add: not_less [symmetric])

lemma mval_nonneg [simp]: "0 \<le> mval n"
  using mval_le_iff [of 0 n] by simp

lemma mval_pos_iff: "0 < mval n \<longleftrightarrow> 0 < n"
  using mval_less_iff [of 0 n] by simp

text \<open>Rounding never passes a representable number.\<close>

lemma rounds_ge: "rounds x n \<Longrightarrow> 0 < k \<Longrightarrow> k < inf_pat \<Longrightarrow> mval k \<le> x \<Longrightarrow> k \<le> n"
  using rounds_mono [OF rounds_exact] by blast

lemma rounds_le: "rounds x n \<Longrightarrow> 0 < k \<Longrightarrow> k < inf_pat \<Longrightarrow> x \<le> mval k \<Longrightarrow> n \<le> k"
  using rounds_mono [OF _ rounds_exact] by blast

lemma rounds_le_inf: "rounds x n \<Longrightarrow> n \<le> inf_pat"
  by (auto simp: rounds_def)

section \<open>Values and order of floats\<close>

lemma inf_pat_lt: "inf_pat < 2 ^ 63"
  by (simp add: inf_pat_def)

lemma inf_pat_pos: "0 < inf_pat" and one_less_inf_pat: "1 < inf_pat"
  by (simp_all add: inf_pat_def)

lemma unat_mag [simp]: "n \<le> inf_pat \<Longrightarrow> unat (of_nat n :: 63 word) = n"
  using inf_pat_lt by (simp add: unat_of_nat)

definition val :: "float64 \<Rightarrow> rat" where
  "val a = (if f_neg a then - mval (unat (f_mag a)) else mval (unat (f_mag a)))"

lemma mval_eq_0_iff [simp]: "mval n = 0 \<longleftrightarrow> n = 0"
  using mval_pos_iff [of n] mval_nonneg [of n] by (cases "n = 0") auto

lemma val_key_less: "val a < val b \<longleftrightarrow> f_key a < f_key b"
proof -
  define m n where "m = unat (f_mag a)" and "n = unat (f_mag b)"
  have "mval m + mval n = 0 \<longleftrightarrow> m = 0 \<and> n = 0"
    by (simp add: add_nonneg_eq_0_iff)
  moreover have "mval m + mval n \<noteq> 0 \<longleftrightarrow> - mval m < mval n"
    using mval_nonneg [of m] mval_nonneg [of n] by linarith
  moreover have "\<not> (m = 0 \<and> n = 0) \<longleftrightarrow> - int m < int n" by arith
  ultimately have "- mval m < mval n \<longleftrightarrow> - int m < int n" by simp
  moreover have "\<not> mval m < - mval n"
    using mval_nonneg [of m] mval_nonneg [of n] by linarith
  ultimately show ?thesis
    unfolding val_def f_key_def m_def [symmetric] n_def [symmetric]
    by (auto simp: mval_less_iff)
qed


lemma is_finite_not_nan: "is_finite a \<Longrightarrow> \<not> is_nan a"
  by (simp add: is_finite_def is_nan_def)

lemma f_less_iff: "a < b \<longleftrightarrow> \<not> is_nan a \<and> \<not> is_nan b \<and> val a < val b"
  by (simp add: less_float64_def val_key_less)

lemma f_le_iff: "a \<le> b \<longleftrightarrow> \<not> is_nan a \<and> \<not> is_nan b \<and> val a \<le> val b"
  using val_key_less [of b a] by (auto simp: less_eq_float64_def not_less [symmetric])

lemma f_key_zero [simp]: "f_key 0 = 0" and zero_finite [simp]: "is_finite 0"
  and zero_not_nan [simp]: "\<not> is_nan 0" and val_zero [simp]: "val 0 = 0"
  by (simp_all add: zero_float64_def f_zero_def f_key_def is_finite_def is_nan_def val_def inf_pat_def)

lemma f_less_zero_iff: "a < 0 \<longleftrightarrow> \<not> is_nan a \<and> val a < 0"
  by (simp add: f_less_iff)

lemma view_cases:
  obtains (fin) "is_finite a" "view a = VFin (f_neg a) (mant (unat (f_mag a))) (expo (unat (f_mag a)))"
  | (inf) "\<not> is_finite a" "\<not> is_nan a" "view a = VInf (f_neg a)" "a = f_inf (f_neg a)"
  | (nan) "\<not> is_finite a" "is_nan a" "view a = VNaN"
proof (cases "is_finite a")
  case True
  then show ?thesis by (intro fin) (simp_all add: view_def is_finite_def Let_def)
next
  case False
  show ?thesis
  proof (cases "is_nan a")
    case True
    then show ?thesis using False by (intro nan) (simp_all add: view_def is_finite_def is_nan_def)
  next
    case nn: False
    then have "unat (f_mag a) = inf_pat" using False by (simp add: is_finite_def is_nan_def)
    then have "f_mag a = of_nat inf_pat" by (metis unat_mag order_refl word_unat_eq_iff)
    then show ?thesis using False nn \<open>unat (f_mag a) = inf_pat\<close>
      by (intro inf) (simp_all add: view_def f_inf_def Let_def, metis float64.collapse)
  qed
qed

lemma val_signed:
  "val a = of_int (signed_mant (f_neg a) (mant (unat (f_mag a)))) * 2 powi expo (unat (f_mag a))"
  by (simp add: val_def mval_def signed_mant_def)

lemma val_inf: "val (f_inf s) = (if s then - mval inf_pat else mval inf_pat)"
  by (simp add: val_def f_inf_def)

lemma inf_not_nan [simp]: "\<not> is_nan (f_inf s)" and nan_is_nan [simp]: "is_nan f_nan"
proof -
  show "\<not> is_nan (f_inf s)" by (simp add: is_nan_def f_inf_def)
  show "is_nan f_nan" by (simp add: is_nan_def f_nan_def inf_pat_def)
qed

lemma view_inf [simp]: "view (f_inf s) = VInf s" and view_nan [simp]: "view f_nan = VNaN"
proof -
  show "view (f_inf s) = VInf s" by (simp add: view_def f_inf_def)
  show "view f_nan = VNaN" by (simp add: view_def f_nan_def inf_pat_def)
qed

lemma nan_view: "is_nan a \<longleftrightarrow> view a = VNaN"
  by (cases a rule: view_cases) (auto simp: is_finite_not_nan)

text \<open>\<open>is_rounding x a\<close>: the float \<open>a\<close> is the nonzero number \<open>x\<close>, rounded.\<close>

definition is_rounding :: "rat \<Rightarrow> float64 \<Rightarrow> bool" where
  "is_rounding x a \<longleftrightarrow> x \<noteq> 0 \<and> (\<exists>n. a = F64 (x < 0) (of_nat n) \<and> rounds \<bar>x\<bar> n)"

lemma is_rounding_signed:
  assumes "0 < x" and "rounds x n"
  shows "is_rounding ((if s then - 1 else 1) * x) (F64 s (of_nat n))"
  using assms unfolding is_rounding_def by (cases s) (auto intro!: exI [of _ n])

lemma f_round_rounding:
  assumes "0 < num" and "0 < den"
  shows "is_rounding ((if s then - 1 else 1) * (of_nat num / of_nat den * 2 powi k)) (f_round s num den k)"
  unfolding f_round_def using assms
  by (intro is_rounding_signed rounds_round_pos) simp_all

lemma f_signed_rounding:
  assumes "i \<noteq> 0" and "0 < den"
  shows "is_rounding (of_int i / of_nat den * 2 powi k) (f_signed i den k)"
proof -
  have "is_rounding ((if i < 0 then - 1 else 1) * (of_nat (nat \<bar>i\<bar>) / of_nat den * 2 powi k))
      (f_round (i < 0) (nat \<bar>i\<bar>) den k)"
    using assms by (intro f_round_rounding) auto
  moreover have "(if i < 0 then - 1 else 1) * (of_nat (nat \<bar>i\<bar>) :: rat) = of_int i"
    by (simp add: of_nat_nat)
  ultimately show ?thesis
    using assms by (auto simp: f_signed_def mult.assoc [symmetric] times_divide_eq_right [symmetric] simp del: times_divide_eq_right)
qed

lemma rounding_finite_or_inf: "is_rounding x a \<Longrightarrow> \<not> is_nan a"
  by (auto simp: is_rounding_def is_nan_def dest!: rounds_le_inf)

lemma rounding_neg: "is_rounding x a \<Longrightarrow> f_neg a \<longleftrightarrow> x < 0"
  by (auto simp: is_rounding_def)

lemma rounding_mag:
  assumes "is_rounding x a"
  shows "rounds \<bar>x\<bar> (unat (f_mag a))"
proof -
  obtain n where "a = F64 (x < 0) (of_nat n)" "rounds \<bar>x\<bar> n"
    using assms by (auto simp: is_rounding_def)
  then show ?thesis using rounds_le_inf [of "\<bar>x\<bar>" n] by simp
qed


lemma view_F64:
  "view (F64 (\<not> f_neg b) (f_mag b)) = (case view b of VFin s m e \<Rightarrow> VFin (\<not> s) m e | VInf s \<Rightarrow> VInf (\<not> s) | VNaN \<Rightarrow> VNaN)"
  by (simp add: view_def Let_def)

lemma val_uminus [simp]: "val (F64 (\<not> f_neg b) (f_mag b)) = - val b"
  by (simp add: val_def)

lemma val_uminus2: "val a + val (F64 (\<not> f_neg b) (f_mag b)) = val a - val b"
  by simp

lemma finite_uminus [simp]: "is_finite (F64 s (f_mag b)) = is_finite b" "is_nan (F64 s (f_mag b)) = is_nan b"
  by (simp_all add: is_finite_def is_nan_def)

lemma add_rounding:
  assumes "is_finite a" and "is_finite b"
  shows "if val a + val b = 0 then val (f_add a b) = 0 \<and> is_finite (f_add a b)
         else is_rounding (val a + val b) (f_add a b)"
proof -
  define m e k d where v: "m = mant (unat (f_mag a))" "e = expo (unat (f_mag a))"
      "k = mant (unat (f_mag b))" "d = expo (unat (f_mag b))"
  define g where "g = min e d"
  define x where "x = signed_mant (f_neg a) m * 2 ^ nat (e - g) + signed_mant (f_neg b) k * 2 ^ nat (d - g)"
  have va: "view a = VFin (f_neg a) m e" and vb: "view b = VFin (f_neg b) k d"
    using assms is_finite_not_nan view_cases unfolding v by metis+
  have split: "(2 :: rat) powi i = 2 ^ nat (i - g) * 2 powi g" if "g \<le> i" for i
  proof -
    have "(2 :: rat) powi i = 2 powi ((i - g) + g)" by simp
    also have "\<dots> = 2 powi (i - g) * 2 powi g" by (rule power_int_add) simp
    finally show ?thesis using that by (simp add: power_int_def [of _ "i - g"])
  qed
  have "val a + val b = of_int x * 2 powi g"
    unfolding val_signed v [symmetric] x_def
    using split [of e] split [of d] by (simp add: g_def algebra_simps)
  moreover have "f_add a b = (if x = 0 then f_zero (f_neg a \<and> f_neg b) else f_signed x 1 g)"
    by (simp add: f_add_def va vb Let_def g_def x_def)
  moreover have "val (f_zero s) = 0" "is_finite (f_zero s)" for s
    by (simp_all add: f_zero_def val_def is_finite_def inf_pat_pos)
  ultimately show ?thesis
    using f_signed_rounding [of x 1 g] by simp
qed

lemma minus_rounding:
  assumes "is_finite a" and "is_finite b"
  shows "if val a - val b = 0 then val (a - b) = 0 \<and> is_finite (a - b)
         else is_rounding (val a - val b) (a - b)"
  using add_rounding [of a "F64 (\<not> f_neg b) (f_mag b)"] assms
  by (simp only: val_uminus2 minus_float64_def finite_uminus simp_thms True_implies_equals)

lemma finite_view: "is_finite a \<Longrightarrow> view a = VFin (f_neg a) (mant (unat (f_mag a))) (expo (unat (f_mag a)))"
  by (simp add: view_def is_finite_def Let_def)

lemma mant_eq_0: "mant n = 0 \<longleftrightarrow> n = 0"
  using mval_eq_0_iff [of n] by (simp add: mval_def)

lemma mant_val: "mant (unat (f_mag a)) = 0 \<longleftrightarrow> val a = 0"
  using mant_eq_0 by (simp add: val_def)

lemma sgn_val: "val a = (if f_neg a then - 1 else 1) * mval (unat (f_mag a))"
  by (simp add: val_def)

lemma div_rounding:
  assumes "is_finite a" and "is_finite b" and "val b \<noteq> 0"
  shows "if val a = 0 then val (a div b) = 0 \<and> is_finite (a div b)
         else is_rounding (val a / val b) (a div b)"
proof -
  define m e k d where v: "m = mant (unat (f_mag a))" "e = expo (unat (f_mag a))"
      "k = mant (unat (f_mag b))" "d = expo (unat (f_mag b))"
  have k: "0 < k" using assms(3) mant_val [of b] by (simp add: v(3))
  have z: "val (f_zero s) = 0" "is_finite (f_zero s)" for s
    by (simp_all add: f_zero_def val_def is_finite_def inf_pat_pos)
  show ?thesis
  proof (cases "m = 0")
    case True
    then have "val a = 0" using mant_val [of a] by (simp add: v(1))
    moreover have "a div b = f_zero (f_neg a \<noteq> f_neg b)"
      using True k unfolding divide_float64_def f_div_def finite_view [OF assms(1)] finite_view [OF assms(2)] v [symmetric]
      by simp
    ultimately show ?thesis using z by simp
  next
    case False
    then have "val a \<noteq> 0" using mant_val [of a] by (simp add: v(1))
    moreover have "a div b = f_round (f_neg a \<noteq> f_neg b) m k (e - d)"
      using False k unfolding divide_float64_def f_div_def finite_view [OF assms(1)] finite_view [OF assms(2)] v [symmetric]
      by simp
    moreover have "val a / val b = (if f_neg a \<noteq> f_neg b then - 1 else 1) * (of_nat m / of_nat k * 2 powi (e - d))"
      unfolding sgn_val mval_def v [symmetric] by (simp add: power_int_diff)
    ultimately show ?thesis
      using f_round_rounding [of m k] False k by simp
  qed
qed

lemma mul_rounding:
  assumes "is_finite a" and "is_finite b"
  shows "if val a * val b = 0 then val (a * b) = 0 \<and> is_finite (a * b)
         else is_rounding (val a * val b) (a * b)"
proof -
  define m e k d where v: "m = mant (unat (f_mag a))" "e = expo (unat (f_mag a))"
      "k = mant (unat (f_mag b))" "d = expo (unat (f_mag b))"
  have z: "val (f_zero s) = 0" "is_finite (f_zero s)" for s
    by (simp_all add: f_zero_def val_def is_finite_def inf_pat_pos)
  have zero: "val a = 0 \<longleftrightarrow> m = 0" "val b = 0 \<longleftrightarrow> k = 0"
    using mant_val by (simp_all add: v)
  have eq: "a * b = (if m = 0 \<or> k = 0 then f_zero (f_neg a \<noteq> f_neg b)
      else f_round (f_neg a \<noteq> f_neg b) (m * k) 1 (e + d))"
    unfolding times_float64_def f_mul_def finite_view [OF assms(1)] finite_view [OF assms(2)] v [symmetric]
    by simp
  have "val a * val b = (if f_neg a \<noteq> f_neg b then - 1 else 1) * (of_nat (m * k) / of_nat 1 * 2 powi (e + d))"
    unfolding sgn_val mval_def v [symmetric] by (simp add: power_int_add)
  then show ?thesis
    using f_round_rounding [of "m * k" 1 "f_neg a \<noteq> f_neg b" "e + d"] zero z by (auto simp: eq)
qed


section \<open>Signs of results\<close>

lemma val_F64: "n \<le> inf_pat \<Longrightarrow> val (F64 s (of_nat n)) = (if s then - mval n else mval n)"
  by (simp add: val_def)

lemma rounding_val_nonneg: "is_rounding x b \<Longrightarrow> 0 < x \<Longrightarrow> 0 \<le> val b"
  by (auto simp: is_rounding_def val_F64 dest: rounds_le_inf)

lemma rounding_val_nonpos: "is_rounding x b \<Longrightarrow> x < 0 \<Longrightarrow> val b \<le> 0"
  by (auto simp: is_rounding_def val_F64 dest: rounds_le_inf)

lemma rounding_val_le:
  assumes "is_rounding x b" and "0 < k" and "k < inf_pat" and "x \<le> - mval k"
  shows "val b \<le> - mval k"
proof -
  have neg: "x < 0" using assms(2,4) mval_pos_iff [of k] by linarith
  with assms(1) obtain n where n: "b = F64 True (of_nat n)" "rounds (- x) n"
    by (auto simp: is_rounding_def)
  have "k \<le> n" using rounds_ge [OF n(2) assms(2,3)] assms(4) by simp
  then show ?thesis using rounds_le_inf [OF n(2)] by (simp add: n(1) val_F64 mval_le_iff)
qed

lemma powi_representable:
  assumes "emin \<le> e" and "e \<le> 1023"
  shows "\<exists>k. 0 < k \<and> k < inf_pat \<and> mval k = 2 powi e"
proof (cases "e < emin + 52")
  case True
  define k where "k = (2 :: nat) ^ nat (e - emin)"
  have "k < 2 ^ 52" unfolding k_def using True by (intro power_strict_increasing) auto
  then have k: "k < pat_step" by (simp add: pat_step_def)
  have "mval k = 2 ^ nat (e - emin) * 2 powi emin"
    using k by (simp add: mval_def mant_def expo_def k_def)
  also have "(2 :: rat) ^ nat (e - emin) = 2 powi (e - emin)"
    using assms by (simp add: power_int_def)
  also have "\<dots> * 2 powi emin = 2 powi e" by (simp flip: power_int_add)
  finally have "mval k = 2 powi e" .
  moreover have "k < inf_pat" using k by (simp add: pat_step_def inf_pat_def)
  ultimately show ?thesis by (intro exI [of _ k]) (simp add: k_def)
next
  case False
  define q where "q = nat (e - emin - 51)"
  define k where "k = q * pat_step"
  have q: "1 \<le> q" "q < 2047" using False assms by (auto simp: q_def emin_def)
  have m: "mant k = pat_step" and x: "expo k = e - 52"
    using q False by (simp_all add: mant_def expo_def k_def q_def)
  have "mval k = 2 ^ 52 * 2 powi (e - 52)" by (simp add: mval_def m x pat_step_def)
  also have "\<dots> = 2 powi e" by (simp add: power_int_diff)
  finally have "mval k = 2 powi e" .
  moreover have "k < inf_pat" using q by (simp add: k_def inf_pat_def pat_step_def)
  ultimately show ?thesis using q by (intro exI [of _ k]) (simp add: k_def)
qed

lemma mval_gap:
  assumes "n < m"
  shows "2 powi expo n \<le> mval m - mval n"
proof -
  have "mval n + 2 powi expo n \<le> mval (Suc n)"
  proof (cases "Suc n < pat_step")
    case True
    then show ?thesis by (simp add: mval_def mant_def expo_def algebra_simps)
  next
    case c1: False
    show ?thesis
    proof (cases "Suc n = pat_step")
      case True
      then show ?thesis by (simp add: mval_def mant_def expo_def algebra_simps flip: True)
    next
      case False
      with c1 have n: "pat_step \<le> n" by simp
      show ?thesis
      proof (cases "Suc (n mod pat_step) = pat_step")
        case True
        then have "Suc n mod pat_step = 0" "Suc n div pat_step = Suc (n div pat_step)"
          by (simp_all add: mod_Suc div_Suc)
        then have "mval (Suc n) = of_nat pat_step * 2 powi (expo n + 1)"
          using n by (simp add: mval_def mant_def expo_def algebra_simps)
        also have "\<dots> = of_nat (2 * pat_step) * 2 powi expo n"
          by (simp add: power_int_add)
        finally have "mval (Suc n) = of_nat (2 * pat_step) * 2 powi expo n" .
        moreover have "Suc (mant n) = 2 * pat_step" using True n by (simp add: mant_def)
        then have "of_nat (2 * pat_step) = (of_nat (mant n) + 1 :: rat)"
          by (metis add.commute of_nat_Suc)
        ultimately show ?thesis by (simp only: mval_def [of n]) (simp add: algebra_simps)
      next
        case False
        then have "Suc n mod pat_step = Suc (n mod pat_step)" "Suc n div pat_step = n div pat_step"
          by (simp_all add: mod_Suc div_Suc)
        then show ?thesis
          using n by (simp add: mval_def mant_def expo_def algebra_simps)
      qed
    qed
  qed
  moreover have "mval (Suc n) \<le> mval m" using assms by (simp add: mval_le_iff)
  ultimately show ?thesis by linarith
qed


lemma expo_range:
  assumes "n < inf_pat"
  shows "emin \<le> expo n" and "expo n \<le> 971"
proof -
  show "emin \<le> expo n"
    using div_greater_zero_iff [of n pat_step] by (auto simp: expo_def)
  have "n div pat_step < 2047"
    using assms by (intro less_mult_imp_div_less) (simp add: inf_pat_def pat_step_def)
  then show "expo n \<le> 971" by (simp add: expo_def emin_def)
qed

lemma mval_less_powi: "mval n < 2 powi (expo n + 53)"
proof (cases "n < pat_step")
  case True
  then have "(of_nat n :: rat) < of_nat (2 ^ 53)"
    unfolding of_nat_less_iff by (simp add: pat_step_def)
  then show ?thesis using True by (simp add: mval_def mant_def expo_def power_int_add)
next
  case False
  then show ?thesis using mval_binade [of n] by simp
qed

text \<open>
  A difference of floats, divided by a positive float and scaled by another of at least 1, keeps
  the sign of the difference: the quotient of a gap by the number below it cannot underflow.
\<close>

lemma finite_pos_val: "0 < val t \<Longrightarrow> val t = mval (unat (f_mag t))"
  using mval_nonneg [of "unat (f_mag t)"] by (cases "f_neg t") (simp_all add: val_def del: mval_nonneg)

lemma inf_val: "\<not> is_finite a \<Longrightarrow> \<not> is_nan a \<Longrightarrow> a = f_inf (f_neg a)"
  by (cases a rule: view_cases) auto

lemma gap_below:
  assumes t: "is_finite t" "0 < val t" and a: "is_finite a" "val t < val a"
  shows "\<not> is_nan (t - a) \<and> val (t - a) \<le> - (2 powi expo (unat (f_mag t)))"
proof -
  define n m where "n = unat (f_mag t)" and "m = unat (f_mag a)"
  have v: "val t = mval n" "val a = mval m"
    using t a finite_pos_val [of t] finite_pos_val [of a] by (simp_all add: n_def m_def)
  then have "n < m" using a(2) mval_less_iff by simp
  have "emin \<le> expo n" "expo n \<le> 1023"
    using expo_range [of n] t(1) by (simp_all add: n_def is_finite_def)
  then obtain k where k: "0 < k" "k < inf_pat" "mval k = 2 powi expo n"
    using powi_representable by blast
  have r: "is_rounding (val t - val a) (t - a)"
    using minus_rounding [OF t(1) a(1)] a(2) by simp
  have "val t - val a \<le> - mval k"
    using mval_gap [OF \<open>n < m\<close>] k(3) by (simp add: v)
  from rounding_val_le [OF r k(1,2) this] rounding_finite_or_inf [OF r] k(3)
  show ?thesis by (simp add: n_def)
qed


lemma f_inf_div: "is_finite t \<Longrightarrow> 0 < val t \<Longrightarrow> f_inf s div t = f_inf s"
  and f_inf_mul: "is_finite t \<Longrightarrow> 0 < val t \<Longrightarrow> f_inf s * t = f_inf s"
proof -
  assume t: "is_finite t" "0 < val t"
  then have neg: "\<not> f_neg t"
    using mval_nonneg [of "unat (f_mag t)"] by (simp add: val_def del: mval_nonneg split: if_splits)
  have "mant (unat (f_mag t)) \<noteq> 0" using mant_val [of t] t by simp
  with neg show "f_inf s div t = f_inf s" "f_inf s * t = f_inf s"
    unfolding divide_float64_def f_div_def times_float64_def f_mul_def finite_view [OF t(1)] by simp_all
qed

lemma nan_div: "is_nan a \<Longrightarrow> is_nan (a div b)"
  and nan_mul: "is_nan a \<Longrightarrow> is_nan (a * b)"
  and nan_minus: "is_nan a \<Longrightarrow> is_nan (b - a)" "is_nan a \<Longrightarrow> is_nan (a - b)"
  unfolding nan_view [of a]
  by (simp_all add: divide_float64_def f_div_def times_float64_def f_mul_def minus_float64_def f_add_def view_F64 split: fview.split)

lemma minus_inf: "is_finite t \<Longrightarrow> t - f_inf s = f_inf (\<not> s)" "is_finite t \<Longrightarrow> f_inf s - t = f_inf s"
proof -
  assume t: "is_finite t"
  show "t - f_inf s = f_inf (\<not> s)"
    unfolding minus_float64_def f_add_def view_F64 view_inf finite_view [OF t] by simp
  show "f_inf s - t = f_inf s"
    unfolding minus_float64_def f_add_def view_F64 view_inf finite_view [OF t] by simp
qed

lemma mval_inf_pos: "0 < mval inf_pat"
  using mval_pos_iff inf_pat_pos by simp

lemma val_inf_neg_iff: "val (f_inf s) < 0 \<longleftrightarrow> s" "0 \<le> val (f_inf s) \<longleftrightarrow> \<not> s"
  using mval_inf_pos by (auto simp: val_inf)

lemma div_neg:
  assumes r: "\<not> is_nan r" "val r \<le> - (2 powi expo (unat (f_mag t)))" and t: "is_finite t" "0 < val t"
  shows "\<not> is_nan (r div t) \<and> val (r div t) \<le> - (2 powi (- 53))"
proof -
  obtain k where k: "0 < k" "k < inf_pat" "mval k = 2 powi (- 53)"
    using powi_representable [of "- 53"] by (auto simp: emin_def)
  have pos: "(0 :: rat) < 2 powi expo (unat (f_mag t))" by simp
  then have neg: "val r < 0" using r(2) by linarith
  show ?thesis
  proof (cases "is_finite r")
    case True
    have rd: "is_rounding (val r / val t) (r div t)"
      using div_rounding [OF True t(1)] t(2) neg by simp
    have "val t < 2 powi (expo (unat (f_mag t)) + 53)"
      using mval_less_powi finite_pos_val [OF t(2)] by simp
    also have "\<dots> = 2 powi expo (unat (f_mag t)) * 2 powi 53"
      by (rule power_int_add) simp
    finally have "val t * 2 powi (- 53) \<le> 2 powi expo (unat (f_mag t))"
      by (simp add: power_int_minus field_simps)
    then have "val r \<le> - (2 powi (- 53) * val t)"
      using r(2) by (simp only: mult.commute)
    then have "val r / val t \<le> - mval k"
      unfolding k(3) using t(2) by (simp only: pos_divide_le_eq mult_minus_left)
    from rounding_val_le [OF rd k(1,2) this] rounding_finite_or_inf [OF rd] k(3)
    show ?thesis by simp
  next
    case False
    then obtain s where s: "r = f_inf s" using inf_val r(1) by blast
    then have "s" using neg val_inf_neg_iff by simp
    moreover have "mval k \<le> mval inf_pat" using k(2) by (simp add: mval_le_iff)
    ultimately show ?thesis using k(3) by (simp add: s f_inf_div t val_inf)
  qed
qed

lemma mul_neg:
  assumes r: "\<not> is_nan r" "val r \<le> - mval k" and k: "0 < k" "k < inf_pat" and t: "is_finite t" "1 \<le> val t"
  shows "r * t < 0"
proof -
  have pos: "0 < val t" using t(2) by simp
  have neg: "val r < 0" using r(2) k mval_pos_iff [of k] by linarith
  show ?thesis
  proof (cases "is_finite r")
    case True
    have rd: "is_rounding (val r * val t) (r * t)"
      using mul_rounding [OF True t(1)] pos neg by simp
    have "val r * val t \<le> val r * 1" using neg t(2) by (intro mult_left_mono_neg) simp_all
    then have "val r * val t \<le> - mval k" using r(2) by simp
    from rounding_val_le [OF rd k this] rounding_finite_or_inf [OF rd] k mval_pos_iff [of k]
    show ?thesis by (simp add: f_less_zero_iff)
  next
    case False
    then obtain s where s: "r = f_inf s" using inf_val r(1) by blast
    then show ?thesis using neg by (simp add: s f_inf_mul [OF t(1) pos] f_less_zero_iff)
  qed
qed

lemma div_nonneg:
  assumes r: "\<not> is_nan r" "0 \<le> val r" and t: "is_finite t" "0 < val t"
  shows "\<not> is_nan (r div t) \<and> 0 \<le> val (r div t)"
proof (cases "is_finite r")
  case True
  show ?thesis
    using div_rounding [OF True t(1)] t(2) r(2) is_finite_not_nan rounding_finite_or_inf
      rounding_val_nonneg [of "val r / val t" "r div t"]
    by (cases "val r = 0") auto
next
  case False
  then obtain s where "r = f_inf s" using inf_val r(1) by blast
  then show ?thesis using r by (simp add: f_inf_div t)
qed

lemma mul_nonneg:
  assumes r: "\<not> is_nan r" "0 \<le> val r" and t: "is_finite t" "0 < val t"
  shows "\<not> r * t < 0"
proof (cases "is_finite r")
  case True
  show ?thesis
    using mul_rounding [OF True t(1)] t(2) r(2) rounding_val_nonneg [of "val r * val t" "r * t"]
    by (cases "val r = 0") (auto simp: f_less_zero_iff not_less)
next
  case False
  then obtain s where "r = f_inf s" using inf_val r(1) by blast
  then show ?thesis using r by (simp add: f_inf_mul t f_less_zero_iff)
qed

lemma minus_nonneg:
  assumes "is_finite a" and "is_finite b" and "val b \<le> val a"
  shows "\<not> is_nan (a - b) \<and> 0 \<le> val (a - b)"
  using minus_rounding [OF assms(1,2)] assms(3) is_finite_not_nan rounding_finite_or_inf
    rounding_val_nonneg [of "val a - val b" "a - b"]
  by (cases "val a = val b") auto


theorem margin_sign:
  assumes t: "is_finite t" "0 < t" and c: "is_finite c" "1 \<le> val c"
  shows "(t - a) div t * c < 0 \<longleftrightarrow> t < a"
proof -
  have pos: "0 < val t" and posc: "0 < val c" using t(2) c(2) by (simp_all add: f_less_iff)
  have nt: "\<not> is_nan t" using t(1) is_finite_not_nan by blast
  obtain k where k: "0 < k" "k < inf_pat" "mval k = 2 powi (- 53)"
    using powi_representable [of "- 53"] by (auto simp: emin_def)
  show ?thesis
  proof (cases a rule: view_cases)
    case nan
    then have "is_nan ((t - a) div t * c)" using nan_minus nan_div nan_mul by blast
    then show ?thesis using nan(2) by (simp add: f_less_iff)
  next
    case inf
    obtain s where a: "a = f_inf s" using inf(4) by blast
    have "val t < mval inf_pat"
      using finite_pos_val [OF pos] t(1) by (simp add: mval_less_iff is_finite_def)
    then have "t < a \<longleftrightarrow> \<not> s"
      using nt pos mval_inf_pos by (auto simp: a f_less_iff val_inf)
    then show ?thesis
      by (simp add: a minus_inf t f_inf_div pos f_inf_mul c posc f_less_zero_iff val_inf_neg_iff)
  next
    case fin
    then have nna: "\<not> is_nan a" using is_finite_not_nan by blast
    show ?thesis
    proof (cases "val t < val a")
      case True
      from gap_below [OF t(1) pos fin(1) True] have "(t - a) div t * c < 0"
        using div_neg [of "t - a" t] mul_neg [of "(t - a) div t" k c] t(1) pos k c by simp
      then show ?thesis using True nt nna by (simp add: f_less_iff)
    next
      case False
      then have "val a \<le> val t" by simp
      from minus_nonneg [OF t(1) fin(1) this] have "\<not> (t - a) div t * c < 0"
        using div_nonneg [of "t - a" t] mul_nonneg [of "(t - a) div t" c] t(1) pos c posc by simp
      then show ?thesis using False by (simp add: f_less_iff)
    qed
  qed
qed

text \<open>Integers below \<open>2 ^ 53\<close> are represented exactly.\<close>

lemma int_representable:
  assumes "0 < i" and "i < (2 :: nat) ^ 53"
  shows "\<exists>n. 0 < n \<and> n < inf_pat \<and> mval n = of_nat i"
proof -
  define l where "l = ilog2 i"
  have l: "2 ^ l \<le> i" "i < 2 ^ Suc l" using ilog2_bounds [OF assms(1)] by (simp_all add: l_def)
  have "(2 :: nat) ^ l < 2 ^ 53" using l(1) assms(2) by linarith
  then have l52: "l \<le> 52" using power_less_imp_less_exp [of "2 :: nat" l 53] by simp
  define m where "m = i * 2 ^ (52 - l)"
  have e: "(2 :: nat) ^ l * 2 ^ (52 - l) = 2 ^ 52" using l52 by (simp flip: power_add)
  have "2 ^ l * 2 ^ (52 - l) \<le> m" "m < 2 ^ Suc l * 2 ^ (52 - l)"
    unfolding m_def using l by (intro mult_right_mono mult_strict_right_mono, simp_all)+
  then have m: "pat_step \<le> m" "m < 2 * pat_step" using e by (simp_all add: pat_step_def)
  define n where "n = (l + 1023) * pat_step + (m - pat_step)"
  have r: "m - pat_step < pat_step" using m by simp
  have nd: "n div pat_step = l + 1023" "n mod pat_step = m - pat_step"
    unfolding n_def using r by simp_all
  have np: "\<not> n < pat_step" using nd(1) by (metis add_is_0 div_less numeral_neq_zero)
  have "mant n = m" using np nd m by (simp add: mant_def)
  moreover have "expo n = int l - 52" using np nd by (simp add: expo_def emin_def)
  ultimately have "mval n = of_nat i * (2 ^ (52 - l) * 2 powi (int l - 52))"
    by (simp add: mval_def m_def)
  also have "(2 :: rat) ^ (52 - l) = 2 powi int (52 - l)" by simp
  also have "2 powi int (52 - l) * (2 :: rat) powi (int l - 52) = 1"
    using l52 by (simp add: of_nat_diff flip: power_int_add)
  finally have "mval n = of_nat i" by simp
  moreover have "n < inf_pat"
  proof -
    have "n < (l + 1024) * pat_step" using r by (simp add: n_def algebra_simps)
    also have "\<dots> \<le> 2047 * pat_step" using l52 by (intro mult_right_mono) simp_all
    finally show ?thesis by (simp add: inf_pat_def pat_step_def)
  qed
  moreover have "0 < n" using np by (metis gr0I pat_step_pos)
  ultimately show ?thesis by blast
qed

lemma f_of_int_val:
  assumes "\<bar>i\<bar> < 2 ^ 53"
  shows "is_finite (f_of_int i)" and "val (f_of_int i) = of_int i"
proof -
  have "is_finite (f_of_int i) \<and> val (f_of_int i) = of_int i"
  proof (cases "i = 0")
    case True
    then show ?thesis
      by (simp add: f_of_int_def f_signed_def f_zero_def val_def is_finite_def inf_pat_pos)
  next
    case False
    define j where "j = nat \<bar>i\<bar>"
    have j: "0 < j" "j < 2 ^ 53"
      using assms False nat_less_iff [of "\<bar>i\<bar>" "2 ^ 53"] by (simp_all add: j_def)
    then obtain n where n: "0 < n" "n < inf_pat" "mval n = of_nat j" using int_representable by blast
    have ij: "\<bar>of_int i\<bar> = (of_nat j :: rat)" by (simp add: j_def of_nat_nat)
    obtain m where m: "f_of_int i = F64 (i < 0) (of_nat m)" "rounds (mval n) m"
      using f_signed_rounding [of i 1 0] False n(3) ij by (auto simp: is_rounding_def f_of_int_def)
    have "m = n" using rounds_ge [OF m(2) n(1,2)] rounds_le [OF m(2) n(1,2)] by simp
    then show ?thesis using m(1) n ij by (auto simp: is_finite_def val_F64 abs_if split: if_splits)
  qed
  then show "is_finite (f_of_int i)" "val (f_of_int i) = of_int i" by blast+
qed

lemma f_of_int_not_nan: "\<bar>i\<bar> < 2 ^ 53 \<Longrightarrow> \<not> is_nan (f_of_int i)"
  using f_of_int_val(1) is_finite_not_nan by blast

lemma f_of_int_less: "\<bar>i\<bar> < 2 ^ 53 \<Longrightarrow> \<bar>j\<bar> < 2 ^ 53 \<Longrightarrow> f_of_int i < f_of_int j \<longleftrightarrow> i < j"
  by (simp add: f_less_iff f_of_int_val f_of_int_not_nan)

lemma f_of_int_le: "\<bar>i\<bar> < 2 ^ 53 \<Longrightarrow> \<bar>j\<bar> < 2 ^ 53 \<Longrightarrow> f_of_int i \<le> f_of_int j \<longleftrightarrow> i \<le> j"
  by (simp add: f_le_iff f_of_int_val f_of_int_not_nan)

lemma f_eq_iff: "f_eq a b \<longleftrightarrow> \<not> is_nan a \<and> \<not> is_nan b \<and> val a = val b"
  using val_key_less [of a b] val_key_less [of b a] by (auto simp: f_eq_def)

lemma float_zero_of_int: "0 = f_of_int 0"
  by (simp add: zero_float64_def f_of_int_def f_signed_def)

lemma float_one_finite [simp]: "is_finite 1" "\<not> is_nan 1" and float_one_val [simp]: "val 1 = 1"
  using f_of_int_val [of 1] f_of_int_not_nan [of 1] by (simp_all add: one_float64_def)

lemma float_hundred: "is_finite (f_of_int 100)" "val (f_of_int 100) = 100"
  using f_of_int_val [of 100] by simp_all

lemma zero_less_one_float [simp]: "(0 :: float64) < 1"
  by (simp add: f_less_iff)

text \<open>Definitions that evaluate closed float terms.\<close>

lemmas float_eval = f_lit_def f_of_int_def f_signed_def f_round_def round_pos_def qlog2_def
  ilog2.simps rne_def is_nan_def is_finite_def f_key_def inf_pat_def emin_def pat_step_def
  less_float64_def less_eq_float64_def f_eq_def

end
