(* ===== verification/Go_Heap.thy ===== *)
theory Go_Heap
  imports Float64 "HOL-Library.AList"
begin

text \<open>
  The part of Go's memory that a deep copy is about.  A value is a scalar, a struct of named
  fields, a pointer, a slice or a map; the last three are references into a heap of cells and may
  be \<open>nil\<close>.  A pointer refers to a variable, a slice to a window (offset and length) of a backing
  array, a map to a table of entries with string keys.  New cells get the next free address.

  The statements \<open>controller-gen\<close> emits are functions from a value and a heap to the value written
  and the new heap.  \<open>denotes h T v t as\<close> reads a value of type \<open>T\<close> as a tree without addresses and
  lists the addresses passed on the way; \<open>deep C T\<close> says that what \<open>C\<close> writes denotes the same
  tree, through new cells only and each of them once, and changes no old cell.  The rules at the
  end give \<open>deep\<close> for each statement form, and for a method made of them.
\<close>

section \<open>Values, types and the heap\<close>

datatype scalar = Str string | Bool bool | Int32 int32 | Float float64

datatype kind = KString | KBool | KInt32 | KFloat64

fun kind_of :: "scalar \<Rightarrow> kind" where
  "kind_of (Str _) = KString"
| "kind_of (Bool _) = KBool"
| "kind_of (Int32 _) = KInt32"
| "kind_of (Float _) = KFloat64"

type_synonym address = nat

datatype val =
    Scalar scalar
  | Struct "(string \<times> val) list"
  | Pointer "address option"
  | Slice "(address \<times> nat \<times> nat) option" \<comment> \<open>backing array, offset, length\<close>
  | Dict "address option"

text \<open>The declared type of a value: what the copied heap is read with.\<close>

datatype layout =
    TScalar kind
  | TStruct "(string \<times> layout) list"
  | TPointer layout
  | TSlice layout
  | TDict \<comment> \<open>\<open>map[string]string\<close>\<close>

text \<open>A table lists its entries in the order in which \<open>range\<close> happens to visit them.\<close>

datatype cell = Var val | Array "val list" | Table "(string \<times> string) list"

record heap =
  limit :: address
  cells :: "address \<Rightarrow> cell"

definition allocate :: "cell \<Rightarrow> heap \<Rightarrow> address \<times> heap" where
  "allocate c h = (limit h, \<lparr>limit = Suc (limit h), cells = (cells h)(limit h := c)\<rparr>)"

definition store :: "address \<Rightarrow> cell \<Rightarrow> heap \<Rightarrow> heap" where
  "store a c h = h\<lparr>cells := (cells h)(a := c)\<rparr>"

lemma store_simps [simp]:
  "limit (store a c h) = limit h" "cells (store a c h) = (cells h)(a := c)"
  by (simp_all add: store_def)

lemma store_same: "cells h a = c \<Longrightarrow> store a c h = h"
  by (auto simp: store_def)

text \<open>Go's type system lets a reference of each sort only meet a cell of that sort.\<close>

definition var :: "heap \<Rightarrow> address \<Rightarrow> val" where
  "var h a = (case cells h a of Var v \<Rightarrow> v | _ \<Rightarrow> Struct [])"

definition array :: "heap \<Rightarrow> address \<Rightarrow> val list" where
  "array h a = (case cells h a of Array vs \<Rightarrow> vs | _ \<Rightarrow> [])"

definition window :: "heap \<Rightarrow> address \<Rightarrow> nat \<Rightarrow> nat \<Rightarrow> val list" where
  "window h a off n = take n (drop off (array h a))"

definition entries :: "heap \<Rightarrow> address \<Rightarrow> (string \<times> string) list" where
  "entries h a = (case cells h a of Table kvs \<Rightarrow> kvs | _ \<Rightarrow> [])"

fun zero_scalar :: "kind \<Rightarrow> scalar" where
  "zero_scalar KString = Str []"
| "zero_scalar KBool = Bool False"
| "zero_scalar KInt32 = Int32 0"
| "zero_scalar KFloat64 = Float (f_zero False)"

text \<open>The zero value of a type, which \<open>new\<close> and \<open>make\<close> fill their cells with.\<close>

fun zero_val :: "layout \<Rightarrow> val" where
  "zero_val (TScalar k) = Scalar (zero_scalar k)"
| "zero_val (TStruct fs) = Struct (map (\<lambda>(f, T). (f, zero_val T)) fs)"
| "zero_val (TPointer T) = Pointer None"
| "zero_val (TSlice T) = Slice None"
| "zero_val TDict = Dict None"

section \<open>The statements of a generated copy\<close>

type_synonym copier = "val \<Rightarrow> heap \<Rightarrow> val \<times> heap"

text \<open>\<open>out.F = in.F\<close>, and \<open>**out = **in\<close>.\<close>

definition shallow :: copier where
  "shallow v h = (v, h)"

text \<open>
  \<open>if in.F != nil { in, out := &in.F, &out.F; *out = new(T); (*in).DeepCopyInto(*out) }\<close>.
  A \<open>nil\<close> field was copied by \<open>*out = *in\<close>.
\<close>

definition new_copy :: "layout \<Rightarrow> copier \<Rightarrow> copier" where
  "new_copy T C v h = (case v of
     Pointer (Some a) \<Rightarrow>
       let (p, h1) = allocate (Var (zero_val T)) h;
           (w, h2) = C (var h1 a) h1
       in (Pointer (Some p), store p (Var w) h2)
   | _ \<Rightarrow> (v, h))"

text \<open>\<open>if in.F != nil { *out = make([]T, len(*in)); copy(*out, *in) }\<close>.\<close>

definition make_copy :: "layout \<Rightarrow> copier" where
  "make_copy T v h = (case v of
     Slice (Some (a, off, n)) \<Rightarrow>
       let (s, h1) = allocate (Array (replicate n (zero_val T))) h
       in (Slice (Some (s, 0, n)), store s (Array (window h1 a off n)) h1)
   | _ \<Rightarrow> (v, h))"

text \<open>\<open>for i := range *in { (*in)[i].DeepCopyInto(&(*out)[i]) }\<close>, the elements of \<open>*in\<close> from \<open>i\<close> on.\<close>

fun copy_elements :: "copier \<Rightarrow> address \<Rightarrow> nat \<Rightarrow> val list \<Rightarrow> heap \<Rightarrow> heap" where
  "copy_elements C s i [] h = h"
| "copy_elements C s i (v # vs) h =
     (let (w, h1) = C v h
      in copy_elements C s (Suc i) vs (store s (Array ((array h1 s)[i := w])) h1))"

text \<open>\<open>if in.F != nil { *out = make([]T, len(*in)); for i := range *in { \<dots> } }\<close>.\<close>

definition make_elements :: "layout \<Rightarrow> copier \<Rightarrow> copier" where
  "make_elements T C v h = (case v of
     Slice (Some (a, off, n)) \<Rightarrow>
       let (s, h1) = allocate (Array (replicate n (zero_val T))) h
       in (Slice (Some (s, 0, n)), copy_elements C s 0 (window h1 a off n) h1)
   | _ \<Rightarrow> (v, h))"

text \<open>\<open>if in.F != nil { *out = make(map[string]string, len(*in)); for key, val := range *in { (*out)[key] = val } }\<close>.\<close>

definition make_dict :: copier where
  "make_dict v h = (case v of
     Dict (Some a) \<Rightarrow>
       let (m, h1) = allocate (Table []) h
       in (Dict (Some m),
           fold (\<lambda>(k, x) h. store m (Table (AList.update k x (entries h m))) h) (entries h1 a) h1)
   | _ \<Rightarrow> (v, h))"

text \<open>
  A \<open>DeepCopyInto\<close>: \<open>*out = *in\<close>, then its statements in order, each reading a field of \<open>in\<close> and
  writing the field of \<open>out\<close> of the same name.
\<close>

type_synonym statement = "string \<times> copier"

definition field :: "string \<Rightarrow> (string \<times> val) list \<Rightarrow> val" where
  "field f vs = the (map_of vs f)"

definition set_field :: "string \<Rightarrow> val \<Rightarrow> (string \<times> val) list \<Rightarrow> (string \<times> val) list" where
  "set_field f w = map (\<lambda>(g, v). (g, if g = f then w else v))"

fun run_statements ::
  "statement list \<Rightarrow> (string \<times> val) list \<Rightarrow> (string \<times> val) list \<Rightarrow> heap \<Rightarrow> (string \<times> val) list \<times> heap"
where
  "run_statements [] ins outs h = (outs, h)"
| "run_statements ((f, C) # ss) ins outs h =
     (let (w, h1) = C (field f ins) h in run_statements ss ins (set_field f w outs) h1)"

definition copy_into :: "statement list \<Rightarrow> copier" where
  "copy_into ss v h = (case v of
     Struct ins \<Rightarrow> let (outs, h1) = run_statements ss ins ins h in (Struct outs, h1)
   | _ \<Rightarrow> (v, h))"

text \<open>
  \<open>DeepCopyObject\<close>: the pointer as a \<open>runtime.Object\<close>, the \<open>nil\<close> interface when \<open>DeepCopy\<close> returned
  a \<open>nil\<close> pointer.
\<close>

definition as_object :: "copier \<Rightarrow> copier" where
  "as_object C v h = (case C v h of
     (Pointer (Some c), h1) \<Rightarrow> (Pointer (Some c), h1)
   | (_, h1) \<Rightarrow> (Pointer None, h1))"

section \<open>What a value denotes\<close>

datatype tree =
    Leaf scalar
  | Node "tree list"
  | Nil
  | Ref tree
  | Items "tree list"
  | Entries "(string \<times> string) list"

text \<open>
  \<open>denotes h T v t as\<close>: in heap \<open>h\<close> the value \<open>v\<close> of type \<open>T\<close> denotes the tree \<open>t\<close> and reaches the
  cells \<open>as\<close>, each listed as often as a path leads to it.
\<close>

inductive denotes :: "heap \<Rightarrow> layout \<Rightarrow> val \<Rightarrow> tree \<Rightarrow> address list \<Rightarrow> bool"
  and denotes_fields :: "heap \<Rightarrow> (string \<times> layout) list \<Rightarrow> (string \<times> val) list \<Rightarrow> tree list \<Rightarrow> address list \<Rightarrow> bool"
  and denotes_elements :: "heap \<Rightarrow> layout \<Rightarrow> val list \<Rightarrow> tree list \<Rightarrow> address list \<Rightarrow> bool"
  for h :: heap
where
  scalar: "kind_of s = k \<Longrightarrow> denotes h (TScalar k) (Scalar s) (Leaf s) []"
| struct: "denotes_fields h fs vs ts as \<Longrightarrow> denotes h (TStruct fs) (Struct vs) (Node ts) as"
| nil_pointer: "denotes h (TPointer T) (Pointer None) Nil []"
| pointer: "a < limit h \<Longrightarrow> cells h a = Var v \<Longrightarrow> denotes h T v t as
    \<Longrightarrow> denotes h (TPointer T) (Pointer (Some a)) (Ref t) (a # as)"
| nil_slice: "denotes h (TSlice T) (Slice None) Nil []"
| slice: "a < limit h \<Longrightarrow> cells h a = Array vs \<Longrightarrow> off + n \<le> length vs
    \<Longrightarrow> denotes_elements h T (take n (drop off vs)) ts as
    \<Longrightarrow> denotes h (TSlice T) (Slice (Some (a, off, n))) (Items ts) (a # as)"
| nil_dict: "denotes h TDict (Dict None) Nil []"
| dict: "a < limit h \<Longrightarrow> cells h a = Table kvs \<Longrightarrow> distinct (map fst kvs)
    \<Longrightarrow> denotes h TDict (Dict (Some a)) (Entries kvs) [a]"
| no_field: "denotes_fields h [] [] [] []"
| next_field: "denotes h T v t as \<Longrightarrow> denotes_fields h fs vs ts bs \<Longrightarrow> f \<notin> fst ` set fs
    \<Longrightarrow> denotes_fields h ((f, T) # fs) ((f, v) # vs) (t # ts) (as @ bs)"
| no_element: "denotes_elements h T [] [] []"
| next_element: "denotes h T v t as \<Longrightarrow> denotes_elements h T vs ts bs
    \<Longrightarrow> denotes_elements h T (v # vs) (t # ts) (as @ bs)"

lemmas denotes_intros [intro] =
  denotes_denotes_fields_denotes_elements.intros

inductive_simps denotes_simps:
  "denotes h (TScalar k) (Scalar s) t as" "denotes h (TStruct fs) (Struct vs) t as"
  "denotes h (TPointer T) (Pointer None) t as" "denotes h (TPointer T) (Pointer (Some a)) t as"
  "denotes h (TSlice T) (Slice None) t as" "denotes h (TSlice T) (Slice (Some (a, off, n))) t as"
  "denotes h TDict (Dict None) t as" "denotes h TDict (Dict (Some a)) t as"
  "denotes_fields h [] [] ts as" "denotes_fields h ((f, T) # fs) ((g, v) # vs) ts as"
  "denotes_elements h T [] ts as" "denotes_elements h T (v # vs) ts as"

inductive_cases denotes_pointerE: "denotes h (TPointer T) v t as"
inductive_cases denotes_sliceE: "denotes h (TSlice T) v t as"
inductive_cases denotes_dictE: "denotes h TDict v t as"
inductive_cases denotes_structE: "denotes h (TStruct fs) v t as"

section \<open>Frames\<close>

text \<open>A value denotes the same in every heap that agrees on the cells it reaches.\<close>

lemma denotes_frame:
  "denotes h T v t as \<Longrightarrow> set as \<subseteq> {..< limit h'} \<Longrightarrow> \<forall>a \<in> set as. cells h' a = cells h a
    \<Longrightarrow> denotes h' T v t as"
  "denotes_fields h fs vs ts as \<Longrightarrow> set as \<subseteq> {..< limit h'} \<Longrightarrow> \<forall>a \<in> set as. cells h' a = cells h a
    \<Longrightarrow> denotes_fields h' fs vs ts as"
  "denotes_elements h T us ts as \<Longrightarrow> set as \<subseteq> {..< limit h'} \<Longrightarrow> \<forall>a \<in> set as. cells h' a = cells h a
    \<Longrightarrow> denotes_elements h' T us ts as"
  by (induction rule: denotes_denotes_fields_denotes_elements.inducts) auto

lemma denotes_bound:
  "denotes h T v t as \<Longrightarrow> set as \<subseteq> {..< limit h}"
  "denotes_fields h fs vs ts as \<Longrightarrow> set as \<subseteq> {..< limit h}"
  "denotes_elements h T us ts as \<Longrightarrow> set as \<subseteq> {..< limit h}"
  by (induction rule: denotes_denotes_fields_denotes_elements.inducts) auto

text \<open>A value denotes one tree, and reaches one list of cells.\<close>

lemma denotes_functional:
  "denotes h T v t as \<Longrightarrow> denotes h T v t' as' \<Longrightarrow> t' = t \<and> as' = as"
  "denotes_fields h fs vs ts as \<Longrightarrow> denotes_fields h fs vs ts' as' \<Longrightarrow> ts' = ts \<and> as' = as"
  "denotes_elements h T us ts as \<Longrightarrow> denotes_elements h T us ts' as' \<Longrightarrow> ts' = ts \<and> as' = as"
proof (induction arbitrary: t' as' and ts' as' and ts' as'
    rule: denotes_denotes_fields_denotes_elements.inducts)
  case (next_field T v t as fs vs ts bs f)
  from next_field.prems obtain t1 as1 ts1 bs1 where
    "ts' = t1 # ts1" "as' = as1 @ bs1" "denotes h T v t1 as1" "denotes_fields h fs vs ts1 bs1"
    by (auto simp: denotes_simps)
  then show ?case using next_field.IH by blast
next
  case (next_element T v t as vs ts bs)
  from next_element.prems obtain t1 as1 ts1 bs1 where
    "ts' = t1 # ts1" "as' = as1 @ bs1" "denotes h T v t1 as1" "denotes_elements h T vs ts1 bs1"
    by (auto simp: denotes_simps)
  then show ?case using next_element.IH by blast
next
  case (pointer a v T t as)
  then show ?case unfolding denotes_simps by (metis cell.inject(1))
next
  case (slice a vs off n T ts as)
  then show ?case unfolding denotes_simps by (metis cell.inject(2))
next
  case (struct fs vs ts as)
  then show ?case unfolding denotes_simps by blast
qed (simp_all add: denotes_simps)

definition extends :: "heap \<Rightarrow> heap \<Rightarrow> bool" where
  "extends h h' \<longleftrightarrow> limit h \<le> limit h' \<and> (\<forall>a < limit h. cells h' a = cells h a)"

lemma extends_refl [simp, intro]: "extends h h"
  by (simp add: extends_def)

lemma extends_trans: "extends h1 h2 \<Longrightarrow> extends h2 h3 \<Longrightarrow> extends h1 h3"
  by (auto simp: extends_def)

lemma extends_denotes:
  "denotes h T v t as \<Longrightarrow> extends h h' \<Longrightarrow> denotes h' T v t as"
  "denotes_fields h fs vs ts as \<Longrightarrow> extends h h' \<Longrightarrow> denotes_fields h' fs vs ts as"
  "denotes_elements h T us ts as \<Longrightarrow> extends h h' \<Longrightarrow> denotes_elements h' T us ts as"
  by (frule denotes_bound, erule denotes_frame, auto simp: extends_def)+

text \<open>
  The cells from \<open>n\<close> to below \<open>m\<close>: those a copy may use.  \<open>copied\<close> is what a copy that starts in \<open>h\<close> and
  ends in \<open>h'\<close> keeps, whatever it writes.
\<close>

definition fresh :: "heap \<Rightarrow> heap \<Rightarrow> address list \<Rightarrow> bool" where
  "fresh h h' as \<longleftrightarrow> distinct as \<and> set as \<subseteq> {limit h ..< limit h'} \<and> extends h h'"

lemma freshD:
  assumes "fresh h h' as"
  shows "distinct as" "set as \<subseteq> {limit h ..< limit h'}" "extends h h'"
  using assms by (simp_all add: fresh_def)

lemma fresh_Nil [simp, intro]: "fresh h h []"
  by (simp add: fresh_def)

lemma fresh_append: "fresh h h1 as \<Longrightarrow> fresh h1 h2 bs \<Longrightarrow> fresh h h2 (as @ bs)"
  by (fastforce simp: fresh_def extends_def)

section \<open>Deep copies\<close>

definition deep :: "copier \<Rightarrow> layout \<Rightarrow> bool" where
  "deep C T \<longleftrightarrow> (\<forall>h v t as. denotes h T v t as \<longrightarrow>
     (\<exists>w h' bs. C v h = (w, h') \<and> denotes h' T w t bs \<and> fresh h h' bs))"

lemma deepI:
  "(\<And>h v t as. denotes h T v t as \<Longrightarrow> \<exists>w h' bs. C v h = (w, h') \<and> denotes h' T w t bs \<and> fresh h h' bs)
    \<Longrightarrow> deep C T"
  by (simp add: deep_def)

lemma deepE:
  assumes "deep C T" "denotes h T v t as"
  obtains w h' bs where "C v h = (w, h')" "denotes h' T w t bs" "fresh h h' bs"
  using assms unfolding deep_def by blast

text \<open>A type without references: a shallow copy of it is deep.\<close>

fun flat :: "layout \<Rightarrow> bool" where
  "flat (TScalar k) = True"
| "flat (TStruct fs) = list_all (\<lambda>(f, T). flat T) fs"
| "flat _ = False"

lemma flat_denotes:
  "denotes h T v t as \<Longrightarrow> flat T \<Longrightarrow> as = []"
  "denotes_fields h fs vs ts as \<Longrightarrow> list_all (\<lambda>(f, T). flat T) fs \<Longrightarrow> as = []"
  "denotes_elements h T us ts as \<Longrightarrow> flat T \<Longrightarrow> as = []"
  by (induction rule: denotes_denotes_fields_denotes_elements.inducts) auto

lemma deep_shallow: "flat T \<Longrightarrow> deep shallow T"
  using flat_denotes(1) by (fastforce intro!: deepI simp: shallow_def)

lemma allocate_extends: "allocate c h = (p, h1) \<Longrightarrow> extends h h1"
  by (auto simp: allocate_def extends_def)

text \<open>The new cell itself, filled after the copy that started behind it.\<close>

lemma fresh_store:
  assumes "allocate c h = (p, h1)" "fresh h1 h2 bs"
  shows "fresh h (store p c' h2) (p # bs)" "p \<notin> set bs" "p < limit h2" "p = limit h"
  using assms by (auto simp: fresh_def extends_def allocate_def)

lemma denotes_store:
  "denotes h T v t as \<Longrightarrow> p \<notin> set as \<Longrightarrow> denotes (store p c h) T v t as"
  "denotes_fields h fs vs ts as \<Longrightarrow> p \<notin> set as \<Longrightarrow> denotes_fields (store p c h) fs vs ts as"
  "denotes_elements h T us ts as \<Longrightarrow> p \<notin> set as \<Longrightarrow> denotes_elements (store p c h) T us ts as"
  by (frule denotes_bound, erule denotes_frame, auto)+

lemma deep_new_copy:
  assumes "deep C T"
  shows "deep (new_copy T C) (TPointer T)"
proof (rule deepI)
  fix h v t as assume *: "denotes h (TPointer T) v t as"
  obtain p h1 where al: "allocate (Var (zero_val T)) h = (p, h1)" by fastforce
  show "\<exists>w h' bs. new_copy T C v h = (w, h') \<and> denotes h' (TPointer T) w t bs \<and> fresh h h' bs"
    using *
  proof (rule denotes_pointerE)
    assume "v = Pointer None" "t = Nil"
    then show ?thesis by (auto simp: new_copy_def intro!: exI [of _ "[]"])
  next
    fix a u t' as'
    assume 2: "v = Pointer (Some a)" "t = Ref t'" "a < limit h" "cells h a = Var u" "denotes h T u t' as'"
    then have "denotes h1 T u t' as'" "var h1 a = u"
      using allocate_extends [OF al] by (auto intro: extends_denotes simp: extends_def var_def)
    then obtain w h2 bs where C: "C (var h1 a) h1 = (w, h2)" "denotes h2 T w t' bs" "fresh h1 h2 bs"
      using deepE [OF assms] by metis
    note fr = fresh_store(1) [OF al C(3), of "Var w"] fresh_store(2-) [OF al C(3)]
    have "denotes (store p (Var w) h2) (TPointer T) (Pointer (Some p)) (Ref t') (p # bs)"
      using C(2) fr by (intro denotes_intros) (auto intro: denotes_store)
    then show ?thesis
      using al C fr(1) 2 by (auto simp: new_copy_def)
  qed
qed

lemma deep_make_copy:
  assumes "flat T"
  shows "deep (make_copy T) (TSlice T)"
proof (rule deepI)
  fix h v t as assume *: "denotes h (TSlice T) v t as"
  show "\<exists>w h' bs. make_copy T v h = (w, h') \<and> denotes h' (TSlice T) w t bs \<and> fresh h h' bs"
    using *
  proof (rule denotes_sliceE)
    assume "v = Slice None" "t = Nil"
    then show ?thesis by (auto simp: make_copy_def intro!: exI [of _ "[]"])
  next
    fix a us off n ts as'
    assume 2: "v = Slice (Some (a, off, n))" "t = Items ts" "a < limit h" "cells h a = Array us"
      "off + n \<le> length us" "denotes_elements h T (take n (drop off us)) ts as'"
    obtain s h1 where al: "allocate (Array (replicate n (zero_val T))) h = (s, h1)" by fastforce
    let ?es = "take n (drop off us)" and ?h = "store s (Array (take n (drop off us))) h1"
    have es: "window h1 a off n = ?es" "length ?es = n"
      using 2 allocate_extends [OF al] by (simp_all add: window_def array_def extends_def)
    note fr = fresh_store(1) [OF al fresh_Nil, of "Array ?es"] fresh_store(2-) [OF al fresh_Nil]
    have "denotes_elements ?h T ?es ts []"
      using flat_denotes(3) [OF 2(6) assms] 2(6) denotes_frame(3) by fastforce
    then have "denotes ?h (TSlice T) (Slice (Some (s, 0, n))) (Items ts) [s]"
      using slice [of s ?h ?es 0 n T ts "[]"] fr es(2) by simp
    then show ?thesis
      using al es fr(1) 2 by (auto simp: make_copy_def)
  qed
qed

lemma copy_elements_deep:
  assumes "deep C T"
  shows "denotes_elements h T vs ts as \<Longrightarrow> s < limit h \<Longrightarrow> s \<notin> set as \<Longrightarrow> cells h s = Array ws
    \<Longrightarrow> i + length vs = length ws \<Longrightarrow> copy_elements C s i vs h = h'
    \<Longrightarrow> \<exists>us bs. cells h' s = Array (take i ws @ us) \<and> length us = length vs
      \<and> denotes_elements h' T us ts bs \<and> distinct bs \<and> set bs \<subseteq> {limit h ..< limit h'}
      \<and> limit h \<le> limit h' \<and> (\<forall>a < limit h. a \<noteq> s \<longrightarrow> cells h' a = cells h a)"
proof (induction vs arbitrary: h ts as ws i)
  case Nil
  then show ?case by (auto simp: denotes_simps intro!: exI [of _ "[]"])
next
  case (Cons v vs)
  obtain t ts' as1 as2 where d: "ts = t # ts'" "as = as1 @ as2" "denotes h T v t as1"
      "denotes_elements h T vs ts' as2"
    using Cons.prems(1) by (auto simp: denotes_simps)
  obtain w h1 bs where C: "C v h = (w, h1)" "denotes h1 T w t bs" "fresh h h1 bs"
    using deepE [OF assms d(3)] .
  let ?ws = "ws[i := w]" and ?h = "store s (Array (ws[i := w])) h1"
  have h1: "extends h h1" "cells h1 s = Array ws"
    using C(3) Cons.prems(2,4) by (auto simp: fresh_def extends_def)
  have s: "s \<notin> set bs" using C(3) Cons.prems(2) by (auto simp: fresh_def)
  have elems: "denotes_elements ?h T vs ts' as2"
    using extends_denotes(3) [OF d(4) h1(1)] Cons.prems(3) d(2) by (auto intro: denotes_store)
  have "copy_elements C s (Suc i) vs ?h = h'"
    using Cons.prems(6) C(1) h1(2) by (simp add: array_def)
  then obtain us cs where us: "cells h' s = Array (take (Suc i) ?ws @ us)" "length us = length vs"
      "denotes_elements h' T us ts' cs" "distinct cs" "set cs \<subseteq> {limit h1 ..< limit h'}"
      "limit h1 \<le> limit h'" "\<forall>a < limit h1. a \<noteq> s \<longrightarrow> cells h' a = cells ?h a"
    using Cons.IH [OF elems, of ?ws "Suc i"] Cons.prems h1 d(2) by (auto simp: extends_def)
  have "denotes h' T w t bs"
    by (rule denotes_frame(1) [OF C(2)]) (use s us(6,7) freshD(2) [OF C(3)] in force)+
  then have "denotes_elements h' T (w # us) ts (bs @ cs)"
    using us(3) d(1) by auto
  moreover have "take (Suc i) ?ws @ us = take i ws @ w # us"
    using Cons.prems(5) by (simp add: take_Suc_conv_app_nth)
  moreover have "set bs \<inter> set cs = {}"
    using us(5) freshD(2) [OF C(3)] by fastforce
  ultimately show ?case
    using us C(3) h1 Cons.prems(5) d(1)
    by (intro exI [of _ "w # us"] exI [of _ "bs @ cs"]) (auto simp: fresh_def extends_def)
qed

lemma deep_make_elements:
  assumes "deep C T"
  shows "deep (make_elements T C) (TSlice T)"
proof (rule deepI)
  fix h v t as assume *: "denotes h (TSlice T) v t as"
  show "\<exists>w h' bs. make_elements T C v h = (w, h') \<and> denotes h' (TSlice T) w t bs \<and> fresh h h' bs"
    using *
  proof (rule denotes_sliceE)
    assume "v = Slice None" "t = Nil"
    then show ?thesis by (auto simp: make_elements_def intro!: exI [of _ "[]"])
  next
    fix a us off n ts as'
    assume 2: "v = Slice (Some (a, off, n))" "t = Items ts" "a < limit h" "cells h a = Array us"
      "off + n \<le> length us" "denotes_elements h T (take n (drop off us)) ts as'"
    obtain s h1 where al: "allocate (Array (replicate n (zero_val T))) h = (s, h1)" by fastforce
    let ?es = "take n (drop off us)"
    have es: "window h1 a off n = ?es" "length ?es = n"
      using 2 allocate_extends [OF al] by (simp_all add: window_def array_def extends_def)
    have s: "s = limit h" "limit h1 = Suc s" "cells h1 s = Array (replicate n (zero_val T))"
        "\<forall>a < limit h. cells h1 a = cells h a"
      using al by (auto simp: allocate_def)
    have "s \<notin> set as'" using denotes_bound(3) [OF 2(6)] s by auto
    then obtain ws bs where w: "cells (copy_elements C s 0 ?es h1) s = Array ws" "length ws = n"
        "denotes_elements (copy_elements C s 0 ?es h1) T ws ts bs" "distinct bs"
        "set bs \<subseteq> {limit h1 ..< limit (copy_elements C s 0 ?es h1)}"
        "limit h1 \<le> limit (copy_elements C s 0 ?es h1)"
        "\<forall>a < limit h1. a \<noteq> s \<longrightarrow> cells (copy_elements C s 0 ?es h1) a = cells h1 a"
      using copy_elements_deep [OF assms extends_denotes(3) [OF 2(6) allocate_extends [OF al]], of s
          "replicate n (zero_val T)" 0 "copy_elements C s 0 ?es h1"] s es(2)
      by auto
    then have "denotes (copy_elements C s 0 ?es h1) (TSlice T) (Slice (Some (s, 0, n))) (Items ts) (s # bs)"
      using s by (intro denotes_intros) auto
    moreover have "fresh h (copy_elements C s 0 ?es h1) (s # bs)"
      using w s by (auto simp: fresh_def extends_def)
    ultimately show ?thesis
      using al es 2 by (auto simp: make_elements_def)
  qed
qed

text \<open>The entries of a table have different keys, so each one is appended.\<close>

lemma fold_entries:
  "m < limit h \<Longrightarrow> cells h m = Table acc \<Longrightarrow> distinct (map fst (acc @ kvs))
    \<Longrightarrow> fold (\<lambda>(k, x) h. store m (Table (AList.update k x (entries h m))) h) kvs h
      = (if kvs = [] then h else store m (Table (acc @ kvs)) h)"
proof (induction kvs arbitrary: h acc)
  case (Cons kv kvs)
  obtain k x where [simp]: "kv = (k, x)" by fastforce
  have "AList.update k x acc = acc @ [(k, x)]"
    using Cons.prems(3) by (induction acc) auto
  then show ?case
    using Cons.IH [of "store m (Table (acc @ [(k, x)])) h" "acc @ [(k, x)]"] Cons.prems
    by (auto simp: entries_def store_def)
qed simp

lemma deep_make_dict: "deep make_dict TDict"
proof (rule deepI)
  fix h v t as assume *: "denotes h TDict v t as"
  show "\<exists>w h' bs. make_dict v h = (w, h') \<and> denotes h' TDict w t bs \<and> fresh h h' bs"
    using *
  proof (rule denotes_dictE)
    assume "v = Dict None" "t = Nil"
    then show ?thesis by (auto simp: make_dict_def intro!: exI [of _ "[]"])
  next
    fix a kvs
    assume 2: "v = Dict (Some a)" "t = Entries kvs" "a < limit h" "cells h a = Table kvs"
      "distinct (map fst kvs)"
    obtain m h1 where al: "allocate (Table []) h = (m, h1)" by fastforce
    let ?h = "store m (Table kvs) h1"
    have m: "m < limit h1" "cells h1 m = Table []" "entries h1 a = kvs" "m = limit h"
      using al 2 by (auto simp: allocate_def entries_def)
    have "make_dict v h = (Dict (Some m), ?h)"
      using fold_entries [of m h1 "[]" kvs] m al 2 by (auto simp: make_dict_def store_same)
    moreover have "denotes ?h TDict (Dict (Some m)) t [m]"
      using m 2 by auto
    ultimately show ?thesis
      using fresh_store(1) [OF al fresh_Nil] by auto
  qed
qed

text \<open>
  \<open>covers ss fs\<close>: the statements follow the fields of the struct; a field that has one gets a deep
  copy, and a field that has none holds no reference.
\<close>

inductive covers :: "statement list \<Rightarrow> (string \<times> layout) list \<Rightarrow> bool" where
  covers_Nil: "covers [] []"
| covers_skip: "flat T \<Longrightarrow> covers ss fs \<Longrightarrow> f \<notin> fst ` set ss \<Longrightarrow> f \<notin> fst ` set fs
    \<Longrightarrow> covers ss ((f, T) # fs)"
| covers_copy: "deep C T \<Longrightarrow> covers ss fs \<Longrightarrow> f \<notin> fst ` set ss \<Longrightarrow> f \<notin> fst ` set fs
    \<Longrightarrow> covers ((f, C) # ss) ((f, T) # fs)"

lemma run_statements_other:
  "f \<notin> fst ` set ss \<Longrightarrow>
    run_statements ss ((f, v) # ins) ((f, w) # outs) h
      = (let (os, h1) = run_statements ss ins outs h in ((f, w) # os, h1))"
  by (induction ss arbitrary: outs h)
     (auto simp: field_def set_field_def split: prod.splits)

lemma set_field_Cons: "set_field f w ((f, v) # vs) = (f, w) # set_field f w vs"
  by (simp add: set_field_def)

lemma set_field_other: "f \<notin> fst ` set vs \<Longrightarrow> set_field f w vs = vs"
  by (induction vs) (auto simp: set_field_def)

lemma denotes_fields_names: "denotes_fields h fs vs ts as \<Longrightarrow> map fst vs = map fst fs"
  by (induction fs arbitrary: vs ts as) (auto elim: denotes_fields.cases)

lemma run_statements_deep:
  "covers ss fs \<Longrightarrow> denotes_fields h fs vs ts as
    \<Longrightarrow> \<exists>ws h' bs. run_statements ss vs vs h = (ws, h') \<and> denotes_fields h' fs ws ts bs \<and> fresh h h' bs"
proof (induction arbitrary: h vs ts as rule: covers.induct)
  case covers_Nil
  then show ?case by (auto elim!: denotes_fields.cases intro!: exI [of _ "[]"])
next
  case (covers_skip T ss fs f)
  from covers_skip.prems obtain v vs' t ts' as1 as2 where
    d: "vs = (f, v) # vs'" "ts = t # ts'" "denotes h T v t as1" "denotes_fields h fs vs' ts' as2"
    by (auto elim: denotes_fields.cases)
  obtain ws h' bs where r: "run_statements ss vs' vs' h = (ws, h')" "denotes_fields h' fs ws ts' bs"
      "fresh h h' bs"
    using covers_skip.IH [OF d(4)] by blast
  have "denotes h' T v t []"
    using flat_denotes(1) [OF d(3) covers_skip.hyps(1)] d(3) extends_denotes(1) [OF d(3) freshD(3) [OF r(3)]]
    by simp
  from next_field [OF this r(2) covers_skip.hyps(4)] show ?case
    using r d covers_skip.hyps by (auto simp: run_statements_other)
next
  case (covers_copy C T ss fs f)
  from covers_copy.prems obtain v vs' t ts' as1 as2 where
    d: "vs = (f, v) # vs'" "ts = t # ts'" "denotes h T v t as1" "denotes_fields h fs vs' ts' as2"
    by (auto elim: denotes_fields.cases)
  obtain w h1 bs1 where C: "C v h = (w, h1)" "denotes h1 T w t bs1" "fresh h h1 bs1"
    using deepE [OF covers_copy.hyps(1) d(3)] .
  obtain ws h' bs where r: "run_statements ss vs' vs' h1 = (ws, h')" "denotes_fields h' fs ws ts' bs"
      "fresh h1 h' bs"
    using covers_copy.IH [OF extends_denotes(2) [OF d(4) freshD(3) [OF C(3)]]] by blast
  have "f \<notin> fst ` set vs'"
    using denotes_fields_names [OF d(4)] covers_copy.hyps(4) by (metis list.set_map)
  then have "run_statements ((f, C) # ss) vs vs h = ((f, w) # ws, h')"
    using C(1) r(1) d(1) covers_copy.hyps(3)
    by (simp add: field_def set_field_Cons set_field_other run_statements_other)
  then show ?case
    using next_field [OF extends_denotes(1) [OF C(2) freshD(3) [OF r(3)]] r(2) covers_copy.hyps(4)]
      fresh_append [OF C(3) r(3)] d(2) by blast
qed

lemma deep_copy_into:
  assumes "covers ss fs"
  shows "deep (copy_into ss) (TStruct fs)"
proof (rule deepI)
  fix h v t as assume "denotes h (TStruct fs) v t as"
  then obtain vs ts where v: "v = Struct vs" "t = Node ts" "denotes_fields h fs vs ts as"
    by (auto elim: denotes_structE)
  then show "\<exists>w h' bs. copy_into ss v h = (w, h') \<and> denotes h' (TStruct fs) w t bs \<and> fresh h h' bs"
    using run_statements_deep [OF assms v(3)] by (fastforce simp: copy_into_def)
qed

lemma deep_as_object:
  assumes "deep C (TPointer T)"
  shows "deep (as_object C) (TPointer T)"
proof (rule deepI)
  fix h v t as assume "denotes h (TPointer T) v t as"
  then obtain w h' bs where "C v h = (w, h')" "denotes h' (TPointer T) w t bs" "fresh h h' bs"
    by (rule deepE [OF assms])
  moreover from this have "as_object C v h = (w, h')"
    by (auto simp: as_object_def elim!: denotes_pointerE)
  ultimately show "\<exists>w h' bs. as_object C v h = (w, h') \<and> denotes h' (TPointer T) w t bs \<and> fresh h h' bs"
    by blast
qed

text \<open>The rules as conditional rewrite rules, the field names compared first.\<close>

named_theorems deep_rules \<open>rules that find a deep copy from its statements\<close>

lemma covers_next_skip:
  "f \<notin> fst ` set ss \<Longrightarrow> f \<notin> fst ` set fs \<Longrightarrow> flat T \<Longrightarrow> covers ss fs \<Longrightarrow> covers ss ((f, T) # fs)"
  by (rule covers_skip)

lemma covers_next_copy:
  "f \<notin> fst ` set ss \<Longrightarrow> f \<notin> fst ` set fs \<Longrightarrow> deep C T \<Longrightarrow> covers ss fs
    \<Longrightarrow> covers ((f, C) # ss) ((f, T) # fs)"
  by (rule covers_copy)

lemmas [deep_rules] =
  deep_shallow deep_new_copy deep_make_copy deep_make_elements deep_make_dict deep_copy_into
  deep_as_object covers_Nil covers_next_skip covers_next_copy

section \<open>A copied type, and what its clients may rely on\<close>

text \<open>
  The contract between a type with a generated copy and the code that asks for one: the copier and
  the layout may depend on a library \<open>lib\<close> whose own types meet \<open>lawful\<close>.
\<close>

locale copied_type =
  fixes lawful :: "'lib \<Rightarrow> bool"
    and into :: "'lib \<Rightarrow> copier"
    and layout :: "'lib \<Rightarrow> layout"
  assumes into_deep: "lawful lib \<Longrightarrow> deep (into lib) (layout lib)"
begin

lemma new_deep: "lawful lib \<Longrightarrow> deep (new_copy (layout lib) (into lib)) (TPointer (layout lib))"
  by (rule deep_new_copy) (rule into_deep)

lemma object_deep:
  "lawful lib \<Longrightarrow> deep (as_object (new_copy (layout lib) (into lib))) (TPointer (layout lib))"
  by (rule deep_as_object) (rule new_deep)

end

text \<open>
  What a deep copy is for.  The copy denotes what the original denotes and shares no cell with it; a
  later write to cells of the copy, or to new ones, leaves the original as it was, and a later write
  to cells of the original leaves the copy.
\<close>

definition agrees_outside :: "address set \<Rightarrow> heap \<Rightarrow> heap \<Rightarrow> bool" where
  "agrees_outside A h h' \<longleftrightarrow> limit h \<le> limit h' \<and> (\<forall>a < limit h. a \<notin> A \<longrightarrow> cells h' a = cells h a)"

lemma agrees_outside_denotes:
  "denotes h T v t as \<Longrightarrow> set as \<inter> A = {} \<Longrightarrow> agrees_outside A h h' \<Longrightarrow> denotes h' T v t as"
  by (frule denotes_bound(1), erule denotes_frame) (auto simp: agrees_outside_def)

lemma deep_separate:
  assumes "deep C T" "denotes h T v t as"
  obtains w h' bs where "C v h = (w, h')" "denotes h' T w t bs" "extends h h'"
    "distinct bs" "set as \<inter> set bs = {}"
    "\<And>h''. agrees_outside (set bs) h' h'' \<Longrightarrow> denotes h'' T v t as"
    "\<And>h''. agrees_outside (set as) h' h'' \<Longrightarrow> denotes h'' T w t bs"
proof -
  obtain w h' bs where C: "C v h = (w, h')" "denotes h' T w t bs" "fresh h h' bs"
    using deepE [OF assms] .
  have v: "denotes h' T v t as" using extends_denotes(1) [OF assms(2) freshD(3) [OF C(3)]] .
  have "set as \<inter> set bs = {}" using denotes_bound(1) [OF assms(2)] C(3) by (fastforce simp: fresh_def)
  with C freshD(1,3) [OF C(3)] show thesis
    using agrees_outside_denotes [OF v, of "set bs"] agrees_outside_denotes [OF C(2), of "set as"]
    by (intro that [of w h' bs]) (auto simp: Int_commute)
qed

end
