(* ===== verification/Api_Layouts.thy ===== *)
theory Api_Layouts
  imports Go_Heap
begin

text \<open>
  How the structs of \<open>api/v1\<close> lie in memory: for each struct its fields in order with their Go
  types, read from the \<open>*_types.go\<close> files (an embedded struct is a field of its type's name).  The
  types of apimachinery are parameters, with the copy functions the generated methods call on
  them.  \<open>lawful\<close> is what their documentation promises: \<open>TypeMeta\<close> (two strings) and \<open>Duration\<close> (a
  wrapper around \<open>time.Duration\<close>) hold no reference, and their generated or hand-written
  \<open>DeepCopy\<close> and \<open>DeepCopyInto\<close> are deep copies.
\<close>

record apimachinery =
  TypeMeta_type :: layout
  Duration_type :: layout
  ObjectMeta_type :: layout
  ListMeta_type :: layout
  Time_type :: layout
  LabelSelector_type :: layout
  Condition_type :: layout
  Quantity_type :: layout
  ObjectMeta_into :: copier
  ListMeta_into :: copier
  Time_into :: copier
  Time_copy :: copier \<comment> \<open>\<open>(*Time).DeepCopy\<close>, from pointer to pointer\<close>
  LabelSelector_into :: copier
  Condition_into :: copier
  Quantity_copy :: copier \<comment> \<open>\<open>Quantity.DeepCopy\<close>, from value to value\<close>

definition lawful :: "apimachinery \<Rightarrow> bool" where
  "lawful lib \<longleftrightarrow>
     flat (TypeMeta_type lib) \<and> flat (Duration_type lib) \<and>
     deep (ObjectMeta_into lib) (ObjectMeta_type lib) \<and>
     deep (ListMeta_into lib) (ListMeta_type lib) \<and>
     deep (Time_into lib) (Time_type lib) \<and>
     deep (Time_copy lib) (TPointer (Time_type lib)) \<and>
     deep (LabelSelector_into lib) (LabelSelector_type lib) \<and>
     deep (Condition_into lib) (Condition_type lib) \<and>
     deep (Quantity_copy lib) (Quantity_type lib)"

section \<open>The structs, in the order in which they use each other\<close>

definition TargetRef_layout :: layout where
  "TargetRef_layout = TStruct [
    (''Name'', TScalar KString),
    (''Namespace'', TScalar KString),
    (''APIVersion'', TScalar KString),
    (''Kind'', TScalar KString)]"

lemma TargetRef_flat [deep_rules]: "flat TargetRef_layout"
  by (simp add: TargetRef_layout_def deep_rules lawful_def)

definition ScalingConstraints_layout :: layout where
  "ScalingConstraints_layout = TStruct [
    (''MinReplicas'', TScalar KInt32),
    (''MaxReplicas'', TScalar KInt32),
    (''MaxScaleStep'', TScalar KInt32),
    (''MinConfidence'', TScalar KFloat64)]"

lemma ScalingConstraints_flat [deep_rules]: "flat ScalingConstraints_layout"
  by (simp add: ScalingConstraints_layout_def deep_rules lawful_def)

definition SecretRef_layout :: layout where
  "SecretRef_layout = TStruct [
    (''Name'', TScalar KString),
    (''Namespace'', TScalar KString),
    (''Key'', TScalar KString)]"

lemma SecretRef_flat [deep_rules]: "flat SecretRef_layout"
  by (simp add: SecretRef_layout_def deep_rules lawful_def)

definition SignalSourceConfig_layout :: layout where
  "SignalSourceConfig_layout = TStruct [
    (''Name'', TScalar KString),
    (''Required'', TScalar KBool),
    (''Config'', TDict),
    (''SecretRef'', TPointer SecretRef_layout)]"

definition LLMConfig_layout :: "apimachinery \<Rightarrow> layout" where
  "LLMConfig_layout lib = TStruct [
    (''Primary'', TScalar KString),
    (''Fallback'', TPointer (TScalar KString)),
    (''Model'', TScalar KString),
    (''APIKeySecret'', TPointer SecretRef_layout),
    (''OllamaBaseURL'', TScalar KString),
    (''CacheTTL'', Duration_type lib),
    (''CircuitBreakerThreshold'', TScalar KInt32),
    (''CircuitBreakerTimeout'', Duration_type lib)]"

definition AlertRule_layout :: "apimachinery \<Rightarrow> layout" where
  "AlertRule_layout lib = TStruct [
    (''Name'', TScalar KString),
    (''Condition'', TScalar KString),
    (''Severity'', TScalar KString),
    (''For'', Duration_type lib)]"

lemma AlertRule_flat [deep_rules]: "lawful lib \<Longrightarrow> flat (AlertRule_layout lib)"
  by (simp add: AlertRule_layout_def deep_rules lawful_def)

definition AlertingConfig_layout :: "apimachinery \<Rightarrow> layout" where
  "AlertingConfig_layout lib = TStruct [
    (''Enabled'', TScalar KBool),
    (''Rules'', TSlice (AlertRule_layout lib)),
    (''WebhookURL'', TScalar KString),
    (''WebhookSecret'', TPointer SecretRef_layout)]"

definition SLO_layout :: layout where
  "SLO_layout = TStruct [
    (''Name'', TScalar KString),
    (''Metric'', TScalar KString),
    (''Target'', TScalar KFloat64),
    (''Priority'', TScalar KInt32)]"

lemma SLO_flat [deep_rules]: "flat SLO_layout"
  by (simp add: SLO_layout_def deep_rules lawful_def)

definition CostConfig_layout :: layout where
  "CostConfig_layout = TStruct [
    (''MonthlyBudget'', TScalar KFloat64),
    (''OpenCostURL'', TScalar KString),
    (''OptimizeForCost'', TScalar KBool)]"

lemma CostConfig_flat [deep_rules]: "flat CostConfig_layout"
  by (simp add: CostConfig_layout_def deep_rules lawful_def)

definition CostConstraints_layout :: layout where
  "CostConstraints_layout = TStruct [
    (''MaxHourlyCost'', TScalar KFloat64),
    (''MaxMonthlyCost'', TScalar KFloat64),
    (''Currency'', TScalar KString),
    (''Enforcement'', TScalar KString)]"

lemma CostConstraints_flat [deep_rules]: "flat CostConstraints_layout"
  by (simp add: CostConstraints_layout_def deep_rules lawful_def)

definition VerticalConstraints_layout :: "apimachinery \<Rightarrow> layout" where
  "VerticalConstraints_layout lib = TStruct [
    (''MinCPURequest'', Quantity_type lib),
    (''MaxCPURequest'', Quantity_type lib),
    (''MinMemoryRequest'', Quantity_type lib),
    (''MaxMemoryRequest'', Quantity_type lib),
    (''MaxCPUStepPercent'', TScalar KInt32),
    (''MaxMemoryStepPercent'', TScalar KInt32)]"

definition ContainerVerticalConfig_layout :: layout where
  "ContainerVerticalConfig_layout = TStruct [
    (''Name'', TScalar KString),
    (''Enabled'', TScalar KBool)]"

lemma ContainerVerticalConfig_flat [deep_rules]: "flat ContainerVerticalConfig_layout"
  by (simp add: ContainerVerticalConfig_layout_def deep_rules lawful_def)

definition VerticalScalingConfig_layout :: "apimachinery \<Rightarrow> layout" where
  "VerticalScalingConfig_layout lib = TStruct [
    (''Enabled'', TScalar KBool),
    (''ResizePolicy'', TScalar KString),
    (''Constraints'', VerticalConstraints_layout lib),
    (''Containers'', TSlice ContainerVerticalConfig_layout)]"

definition ApplicationProfile_layout :: "apimachinery \<Rightarrow> layout" where
  "ApplicationProfile_layout lib = TStruct [
    (''ColdStartDuration'', Duration_type lib),
    (''WarmUpDuration'', Duration_type lib),
    (''GracefulShutdownDuration'', Duration_type lib)]"

lemma ApplicationProfile_flat [deep_rules]: "lawful lib \<Longrightarrow> flat (ApplicationProfile_layout lib)"
  by (simp add: ApplicationProfile_layout_def deep_rules lawful_def)

definition ResourceSet_layout :: "apimachinery \<Rightarrow> layout" where
  "ResourceSet_layout lib = TStruct [
    (''CPURequest'', Quantity_type lib),
    (''MemoryRequest'', Quantity_type lib)]"

definition ResourceProfile_layout :: "apimachinery \<Rightarrow> layout" where
  "ResourceProfile_layout lib = TStruct [
    (''Name'', TScalar KString),
    (''Schedule'', TScalar KString),
    (''Resources'', ResourceSet_layout lib)]"

definition ResourceStatus_layout :: "apimachinery \<Rightarrow> layout" where
  "ResourceStatus_layout lib = TStruct [
    (''CPURequest'', Quantity_type lib),
    (''MemoryRequest'', Quantity_type lib),
    (''CPULimit'', Quantity_type lib),
    (''MemoryLimit'', Quantity_type lib),
    (''LastResizeTime'', TPointer (Time_type lib)),
    (''LastResizeStrategy'', TScalar KString)]"

definition VerticalDecision_layout :: "apimachinery \<Rightarrow> layout" where
  "VerticalDecision_layout lib = TStruct [
    (''CPURequest'', Quantity_type lib),
    (''MemoryRequest'', Quantity_type lib),
    (''CPULimit'', Quantity_type lib),
    (''MemoryLimit'', Quantity_type lib),
    (''ResizeStrategy'', TScalar KString)]"

definition PredictiveEvent_layout :: "apimachinery \<Rightarrow> layout" where
  "PredictiveEvent_layout lib = TStruct [
    (''Name'', TScalar KString),
    (''Start'', Time_type lib),
    (''End'', Time_type lib),
    (''ExpectedLoadMultiplier'', TScalar KFloat64),
    (''PreScaleMinutes'', TScalar KInt32)]"

definition PredictiveScalingConfig_layout :: "apimachinery \<Rightarrow> layout" where
  "PredictiveScalingConfig_layout lib = TStruct [
    (''Enabled'', TScalar KBool),
    (''LookaheadWindow'', Duration_type lib),
    (''HistoryDays'', TScalar KInt32),
    (''ConfidenceThreshold'', TScalar KFloat64),
    (''Events'', TSlice (PredictiveEvent_layout lib))]"

definition PredictionStatus_layout :: layout where
  "PredictionStatus_layout = TStruct [
    (''PredictedCPU30m'', TScalar KFloat64),
    (''PredictedReplicas30m'', TScalar KFloat64),
    (''Confidence'', TScalar KFloat64)]"

lemma PredictionStatus_flat [deep_rules]: "flat PredictionStatus_layout"
  by (simp add: PredictionStatus_layout_def deep_rules lawful_def)

definition DirectionPolicy_layout :: "apimachinery \<Rightarrow> layout" where
  "DirectionPolicy_layout lib = TStruct [
    (''MaxStep'', TScalar KInt32),
    (''Cooldown'', Duration_type lib),
    (''RequireConfidence'', TScalar KFloat64),
    (''RequireSLOHeadroom'', TScalar KBool)]"

lemma DirectionPolicy_flat [deep_rules]: "lawful lib \<Longrightarrow> flat (DirectionPolicy_layout lib)"
  by (simp add: DirectionPolicy_layout_def deep_rules lawful_def)

definition CircuitBreakerConfig_layout :: "apimachinery \<Rightarrow> layout" where
  "CircuitBreakerConfig_layout lib = TStruct [
    (''Enabled'', TScalar KBool),
    (''TripAfter'', TScalar KInt32),
    (''ResetAfter'', Duration_type lib),
    (''TripConditions'', TSlice (TScalar KString))]"

definition AutoRollbackConfig_layout :: layout where
  "AutoRollbackConfig_layout = TStruct [
    (''Enabled'', TScalar KBool),
    (''Conditions'', TSlice (TScalar KString))]"

definition SafetyConfig_layout :: "apimachinery \<Rightarrow> layout" where
  "SafetyConfig_layout lib = TStruct [
    (''ScaleUp'', TPointer (DirectionPolicy_layout lib)),
    (''ScaleDown'', TPointer (DirectionPolicy_layout lib)),
    (''CircuitBreaker'', TPointer (CircuitBreakerConfig_layout lib)),
    (''AutoRollback'', TPointer AutoRollbackConfig_layout),
    (''MaxReplicaChangePerMinute'', TScalar KInt32),
    (''MaxWorkloadsChangedPerMinute'', TScalar KInt32)]"

definition LLMRateLimit_layout :: layout where
  "LLMRateLimit_layout = TStruct [
    (''MaxCallsPerMinute'', TScalar KInt32),
    (''MaxCallsPerHour'', TScalar KInt32),
    (''MaxConcurrentCalls'', TScalar KInt32)]"

lemma LLMRateLimit_flat [deep_rules]: "flat LLMRateLimit_layout"
  by (simp add: LLMRateLimit_layout_def deep_rules lawful_def)

definition LLMTelemetry_layout :: layout where
  "LLMTelemetry_layout = TStruct [
    (''TotalCallsToday'', TScalar KInt32),
    (''AverageLatencyMs'', TScalar KFloat64),
    (''ErrorRate'', TScalar KFloat64),
    (''FallbackRate'', TScalar KFloat64)]"

lemma LLMTelemetry_flat [deep_rules]: "flat LLMTelemetry_layout"
  by (simp add: LLMTelemetry_layout_def deep_rules lawful_def)

definition CoscaleRef_layout :: layout where
  "CoscaleRef_layout = TStruct [
    (''TargetRef'', TargetRef_layout),
    (''Ratio'', TScalar KFloat64)]"

lemma CoscaleRef_flat [deep_rules]: "flat CoscaleRef_layout"
  by (simp add: CoscaleRef_layout_def deep_rules lawful_def)

definition DependencyConfig_layout :: layout where
  "DependencyConfig_layout = TStruct [
    (''UpstreamOf'', TSlice TargetRef_layout),
    (''DownstreamOf'', TSlice TargetRef_layout),
    (''CoscalesWith'', TSlice CoscaleRef_layout)]"

definition SLOViolationBudget_layout :: "apimachinery \<Rightarrow> layout" where
  "SLOViolationBudget_layout lib = TStruct [
    (''Window'', Duration_type lib),
    (''MaxViolationPercent'', TScalar KFloat64)]"

lemma SLOViolationBudget_flat [deep_rules]: "lawful lib \<Longrightarrow> flat (SLOViolationBudget_layout lib)"
  by (simp add: SLOViolationBudget_layout_def deep_rules lawful_def)

definition ApprovalTrigger_layout :: layout where
  "ApprovalTrigger_layout = TStruct [
    (''Type'', TScalar KString),
    (''Threshold'', TScalar KFloat64)]"

lemma ApprovalTrigger_flat [deep_rules]: "flat ApprovalTrigger_layout"
  by (simp add: ApprovalTrigger_layout_def deep_rules lawful_def)

definition NotificationChannel_layout :: layout where
  "NotificationChannel_layout = TStruct [
    (''Type'', TScalar KString),
    (''Endpoint'', TScalar KString),
    (''SecretRef'', TPointer SecretRef_layout)]"

definition ApprovalConfig_layout :: "apimachinery \<Rightarrow> layout" where
  "ApprovalConfig_layout lib = TStruct [
    (''Enabled'', TScalar KBool),
    (''RequireApprovalWhen'', TSlice ApprovalTrigger_layout),
    (''Channels'', TSlice NotificationChannel_layout),
    (''ApprovalTimeout'', Duration_type lib),
    (''AutoApproveAfterTimeout'', TScalar KBool)]"

definition PrecedenceConfig_layout :: layout where
  "PrecedenceConfig_layout = TStruct [
    (''CostEnforcement'', TScalar KString),
    (''ScheduleOverridesLLM'', TScalar KBool),
    (''ReactiveRulesOverrideLLM'', TScalar KBool),
    (''SLOAlwaysWins'', TScalar KBool),
    (''LogConflicts'', TScalar KBool)]"

lemma PrecedenceConfig_flat [deep_rules]: "flat PrecedenceConfig_layout"
  by (simp add: PrecedenceConfig_layout_def deep_rules lawful_def)

definition PrecedenceConflict_layout :: layout where
  "PrecedenceConflict_layout = TStruct [
    (''Layer'', TScalar KString),
    (''Message'', TScalar KString)]"

lemma PrecedenceConflict_flat [deep_rules]: "flat PrecedenceConflict_layout"
  by (simp add: PrecedenceConflict_layout_def deep_rules lawful_def)

definition ActiveOverride_layout :: layout where
  "ActiveOverride_layout = TStruct [
    (''Layer'', TScalar KString),
    (''ExpiresAt'', TScalar KString)]"

lemma ActiveOverride_flat [deep_rules]: "flat ActiveOverride_layout"
  by (simp add: ActiveOverride_layout_def deep_rules lawful_def)

definition PrecedenceStatus_layout :: layout where
  "PrecedenceStatus_layout = TStruct [
    (''ResolvedReplicas'', TScalar KInt32),
    (''Conflicts'', TSlice PrecedenceConflict_layout),
    (''ActiveOverrides'', TSlice ActiveOverride_layout)]"

definition FeedbackConfig_layout :: "apimachinery \<Rightarrow> layout" where
  "FeedbackConfig_layout lib = TStruct [
    (''Enabled'', TScalar KBool),
    (''EvaluationDelay'', Duration_type lib),
    (''HistoryDepth'', TScalar KInt32),
    (''IncludeInPrompt'', TScalar KInt32)]"

lemma FeedbackConfig_flat [deep_rules]: "lawful lib \<Longrightarrow> flat (FeedbackConfig_layout lib)"
  by (simp add: FeedbackConfig_layout_def deep_rules lawful_def)

definition FeedbackStatus_layout :: layout where
  "FeedbackStatus_layout = TStruct [
    (''TotalDecisions'', TScalar KInt32),
    (''EffectiveRate'', TScalar KFloat64)]"

lemma FeedbackStatus_flat [deep_rules]: "flat FeedbackStatus_layout"
  by (simp add: FeedbackStatus_layout_def deep_rules lawful_def)

definition StatefulSetPolicy_layout :: "apimachinery \<Rightarrow> layout" where
  "StatefulSetPolicy_layout lib = TStruct [
    (''ScaleDownPolicy'', TScalar KString),
    (''DrainTimeout'', Duration_type lib),
    (''PVCRetention'', TScalar KString)]"

lemma StatefulSetPolicy_flat [deep_rules]: "lawful lib \<Longrightarrow> flat (StatefulSetPolicy_layout lib)"
  by (simp add: StatefulSetPolicy_layout_def deep_rules lawful_def)

definition KEDAIntegration_layout :: layout where
  "KEDAIntegration_layout = TStruct [
    (''Enabled'', TScalar KBool),
    (''ScaledObjectRef'', TargetRef_layout),
    (''Mode'', TScalar KString)]"

lemma KEDAIntegration_flat [deep_rules]: "flat KEDAIntegration_layout"
  by (simp add: KEDAIntegration_layout_def deep_rules lawful_def)

definition CostStatus_layout :: layout where
  "CostStatus_layout = TStruct [
    (''CurrentHourlyCost'', TScalar KFloat64),
    (''CurrentMonthlyCost'', TScalar KFloat64),
    (''WastePercent'', TScalar KFloat64),
    (''BudgetUtilization'', TScalar KFloat64)]"

lemma CostStatus_flat [deep_rules]: "flat CostStatus_layout"
  by (simp add: CostStatus_layout_def deep_rules lawful_def)

definition PrometheusConfig_layout :: layout where
  "PrometheusConfig_layout = TStruct [
    (''BaseURL'', TScalar KString),
    (''P95LatencyQuery'', TScalar KString),
    (''ErrorRateQuery'', TScalar KString)]"

lemma PrometheusConfig_flat [deep_rules]: "flat PrometheusConfig_layout"
  by (simp add: PrometheusConfig_layout_def deep_rules lawful_def)

definition AIScalerSpec_layout :: "apimachinery \<Rightarrow> layout" where
  "AIScalerSpec_layout lib = TStruct [
    (''TargetRef'', TargetRef_layout),
    (''Constraints'', ScalingConstraints_layout),
    (''LLM'', LLMConfig_layout lib),
    (''Prometheus'', PrometheusConfig_layout),
    (''Signals'', TSlice SignalSourceConfig_layout),
    (''Alerting'', TPointer (AlertingConfig_layout lib)),
    (''Cost'', TPointer CostConfig_layout),
    (''CostConstraints'', TPointer CostConstraints_layout),
    (''SLOs'', TSlice SLO_layout),
    (''SLOViolationBudget'', TPointer (SLOViolationBudget_layout lib)),
    (''VerticalScaling'', TPointer (VerticalScalingConfig_layout lib)),
    (''ApplicationProfile'', TPointer (ApplicationProfile_layout lib)),
    (''ResourceProfiles'', TSlice (ResourceProfile_layout lib)),
    (''PredictiveScaling'', TPointer (PredictiveScalingConfig_layout lib)),
    (''Safety'', TPointer (SafetyConfig_layout lib)),
    (''LLMRateLimit'', TPointer LLMRateLimit_layout),
    (''Tier'', TScalar KString),
    (''Dependencies'', TPointer DependencyConfig_layout),
    (''KEDAIntegration'', TPointer KEDAIntegration_layout),
    (''Approval'', TPointer (ApprovalConfig_layout lib)),
    (''Precedence'', TPointer PrecedenceConfig_layout),
    (''Feedback'', TPointer (FeedbackConfig_layout lib)),
    (''StatefulSetPolicy'', TPointer (StatefulSetPolicy_layout lib)),
    (''EvaluationInterval'', Duration_type lib),
    (''CooldownPeriod'', Duration_type lib),
    (''DryRun'', TScalar KBool),
    (''RequireApproval'', TScalar KBool)]"

definition AIScalerStatus_layout :: "apimachinery \<Rightarrow> layout" where
  "AIScalerStatus_layout lib = TStruct [
    (''Phase'', TScalar KString),
    (''CurrentReplicas'', TScalar KInt32),
    (''DesiredReplicas'', TScalar KInt32),
    (''LastScaleTime'', TPointer (Time_type lib)),
    (''LastDecisionReason'', TScalar KString),
    (''LastProvider'', TScalar KString),
    (''LastDecisionID'', TScalar KString),
    (''CurrentResources'', TPointer (ResourceStatus_layout lib)),
    (''Prediction'', TPointer PredictionStatus_layout),
    (''Cost'', TPointer CostStatus_layout),
    (''LLMTelemetry'', TPointer LLMTelemetry_layout),
    (''Precedence'', TPointer PrecedenceStatus_layout),
    (''Feedback'', TPointer FeedbackStatus_layout),
    (''Conditions'', TSlice (Condition_type lib))]"

definition AIScaler_layout :: "apimachinery \<Rightarrow> layout" where
  "AIScaler_layout lib = TStruct [
    (''TypeMeta'', TypeMeta_type lib),
    (''ObjectMeta'', ObjectMeta_type lib),
    (''Spec'', AIScalerSpec_layout lib),
    (''Status'', AIScalerStatus_layout lib)]"

definition AIScalerList_layout :: "apimachinery \<Rightarrow> layout" where
  "AIScalerList_layout lib = TStruct [
    (''TypeMeta'', TypeMeta_type lib),
    (''ListMeta'', ListMeta_type lib),
    (''Items'', TSlice (AIScaler_layout lib))]"

definition AnalysisConfig_layout :: "apimachinery \<Rightarrow> layout" where
  "AnalysisConfig_layout lib = TStruct [
    (''Window'', Duration_type lib),
    (''Schedule'', TScalar KString),
    (''MinSamplePercent'', TScalar KFloat64),
    (''BufferStrategy'', TScalar KString),
    (''BufferPercent'', TScalar KFloat64)]"

lemma AnalysisConfig_flat [deep_rules]: "lawful lib \<Longrightarrow> flat (AnalysisConfig_layout lib)"
  by (simp add: AnalysisConfig_layout_def deep_rules lawful_def)

definition ResourceRecommendationSpec_layout :: "apimachinery \<Rightarrow> layout" where
  "ResourceRecommendationSpec_layout lib = TStruct [
    (''TargetRef'', TargetRef_layout),
    (''Analysis'', AnalysisConfig_layout lib),
    (''AutoApply'', TScalar KBool)]"

lemma ResourceRecommendationSpec_flat [deep_rules]: "lawful lib \<Longrightarrow> flat (ResourceRecommendationSpec_layout lib)"
  by (simp add: ResourceRecommendationSpec_layout_def deep_rules lawful_def)

definition UsagePercentiles_layout :: layout where
  "UsagePercentiles_layout = TStruct [
    (''CPUP50'', TScalar KFloat64),
    (''CPUP95'', TScalar KFloat64),
    (''CPUP99'', TScalar KFloat64),
    (''CPUMax'', TScalar KFloat64),
    (''MemoryP50'', TScalar KFloat64),
    (''MemoryP95'', TScalar KFloat64),
    (''MemoryP99'', TScalar KFloat64),
    (''MemoryMax'', TScalar KFloat64)]"

lemma UsagePercentiles_flat [deep_rules]: "flat UsagePercentiles_layout"
  by (simp add: UsagePercentiles_layout_def deep_rules lawful_def)

definition RecommendedResources_layout :: "apimachinery \<Rightarrow> layout" where
  "RecommendedResources_layout lib = TStruct [
    (''CPURequest'', Quantity_type lib),
    (''MemoryRequest'', Quantity_type lib),
    (''CPULimit'', Quantity_type lib),
    (''MemoryLimit'', Quantity_type lib)]"

definition ResourceRecommendationStatus_layout :: "apimachinery \<Rightarrow> layout" where
  "ResourceRecommendationStatus_layout lib = TStruct [
    (''Phase'', TScalar KString),
    (''RecommendedResources'', TPointer (RecommendedResources_layout lib)),
    (''Usage'', TPointer UsagePercentiles_layout),
    (''EstimatedMonthlySavings'', TScalar KFloat64),
    (''Risk'', TScalar KString),
    (''LastAnalyzedAt'', TPointer (Time_type lib)),
    (''Message'', TScalar KString)]"

definition ResourceRecommendation_layout :: "apimachinery \<Rightarrow> layout" where
  "ResourceRecommendation_layout lib = TStruct [
    (''TypeMeta'', TypeMeta_type lib),
    (''ObjectMeta'', ObjectMeta_type lib),
    (''Spec'', ResourceRecommendationSpec_layout lib),
    (''Status'', ResourceRecommendationStatus_layout lib)]"

definition ResourceRecommendationList_layout :: "apimachinery \<Rightarrow> layout" where
  "ResourceRecommendationList_layout lib = TStruct [
    (''TypeMeta'', TypeMeta_type lib),
    (''ListMeta'', ListMeta_type lib),
    (''Items'', TSlice (ResourceRecommendation_layout lib))]"

definition ProposedAction_layout :: layout where
  "ProposedAction_layout = TStruct [
    (''Type'', TScalar KString),
    (''CurrentReplicas'', TScalar KInt32),
    (''TargetReplicas'', TScalar KInt32),
    (''Reasoning'', TScalar KString),
    (''Confidence'', TScalar KFloat64),
    (''EstimatedCostDelta'', TScalar KFloat64),
    (''TriggerReason'', TScalar KString)]"

lemma ProposedAction_flat [deep_rules]: "flat ProposedAction_layout"
  by (simp add: ProposedAction_layout_def deep_rules lawful_def)

definition ScalingApprovalSpec_layout :: "apimachinery \<Rightarrow> layout" where
  "ScalingApprovalSpec_layout lib = TStruct [
    (''AIScalerRef'', TargetRef_layout),
    (''ProposedAction'', ProposedAction_layout),
    (''ExpiresAt'', TPointer (Time_type lib))]"

definition ScalingApprovalStatus_layout :: "apimachinery \<Rightarrow> layout" where
  "ScalingApprovalStatus_layout lib = TStruct [
    (''Phase'', TScalar KString),
    (''ApprovedBy'', TScalar KString),
    (''ApprovedAt'', TPointer (Time_type lib)),
    (''Message'', TScalar KString)]"

definition ScalingApproval_layout :: "apimachinery \<Rightarrow> layout" where
  "ScalingApproval_layout lib = TStruct [
    (''TypeMeta'', TypeMeta_type lib),
    (''ObjectMeta'', ObjectMeta_type lib),
    (''Spec'', ScalingApprovalSpec_layout lib),
    (''Status'', ScalingApprovalStatus_layout lib)]"

definition ScalingApprovalList_layout :: "apimachinery \<Rightarrow> layout" where
  "ScalingApprovalList_layout lib = TStruct [
    (''TypeMeta'', TypeMeta_type lib),
    (''ListMeta'', ListMeta_type lib),
    (''Items'', TSlice (ScalingApproval_layout lib))]"

definition ScalingPolicyDefaults_layout :: "apimachinery \<Rightarrow> layout" where
  "ScalingPolicyDefaults_layout lib = TStruct [
    (''Safety'', TPointer (SafetyConfig_layout lib)),
    (''CostConstraints'', TPointer CostConstraints_layout),
    (''SLOs'', TSlice SLO_layout),
    (''LLMRateLimit'', TPointer LLMRateLimit_layout)]"

definition ScalingPolicySpec_layout :: "apimachinery \<Rightarrow> layout" where
  "ScalingPolicySpec_layout lib = TStruct [
    (''Defaults'', ScalingPolicyDefaults_layout lib),
    (''NamespaceSelector'', TPointer (LabelSelector_type lib))]"

definition ScalingPolicyStatus_layout :: layout where
  "ScalingPolicyStatus_layout = TStruct [
    (''AppliedTo'', TScalar KInt32),
    (''Phase'', TScalar KString)]"

lemma ScalingPolicyStatus_flat [deep_rules]: "flat ScalingPolicyStatus_layout"
  by (simp add: ScalingPolicyStatus_layout_def deep_rules lawful_def)

definition ScalingPolicy_layout :: "apimachinery \<Rightarrow> layout" where
  "ScalingPolicy_layout lib = TStruct [
    (''TypeMeta'', TypeMeta_type lib),
    (''ObjectMeta'', ObjectMeta_type lib),
    (''Spec'', ScalingPolicySpec_layout lib),
    (''Status'', ScalingPolicyStatus_layout)]"

definition ScalingPolicyList_layout :: "apimachinery \<Rightarrow> layout" where
  "ScalingPolicyList_layout lib = TStruct [
    (''TypeMeta'', TypeMeta_type lib),
    (''ListMeta'', ListMeta_type lib),
    (''Items'', TSlice (ScalingPolicy_layout lib))]"

definition ScheduleSpec_layout :: "apimachinery \<Rightarrow> layout" where
  "ScheduleSpec_layout lib = TStruct [
    (''Type'', TScalar KString),
    (''Timezone'', TScalar KString),
    (''Recurrence'', TScalar KString),
    (''StartTime'', TPointer (Time_type lib)),
    (''EndTime'', TPointer (Time_type lib)),
    (''Expression'', TScalar KString)]"

definition SchedulePolicy_layout :: layout where
  "SchedulePolicy_layout = TStruct [
    (''MinReplicas'', TPointer (TScalar KInt32)),
    (''MaxReplicas'', TPointer (TScalar KInt32)),
    (''TargetReplicas'', TPointer (TScalar KInt32))]"

definition ScheduledScalingSpec_layout :: "apimachinery \<Rightarrow> layout" where
  "ScheduledScalingSpec_layout lib = TStruct [
    (''TargetRef'', TargetRef_layout),
    (''Schedule'', ScheduleSpec_layout lib),
    (''Policy'', SchedulePolicy_layout),
    (''TTLAfterCompletion'', TPointer (Duration_type lib))]"

definition ScheduledScalingStatus_layout :: "apimachinery \<Rightarrow> layout" where
  "ScheduledScalingStatus_layout lib = TStruct [
    (''Active'', TScalar KBool),
    (''Phase'', TScalar KString),
    (''NextActivation'', TPointer (Time_type lib)),
    (''LastActivation'', TPointer (Time_type lib)),
    (''CompiledFrom'', TScalar KString),
    (''CompilationConf'', TScalar KFloat64)]"

definition ScheduledScaling_layout :: "apimachinery \<Rightarrow> layout" where
  "ScheduledScaling_layout lib = TStruct [
    (''TypeMeta'', TypeMeta_type lib),
    (''ObjectMeta'', ObjectMeta_type lib),
    (''Spec'', ScheduledScalingSpec_layout lib),
    (''Status'', ScheduledScalingStatus_layout lib)]"

definition ScheduledScalingList_layout :: "apimachinery \<Rightarrow> layout" where
  "ScheduledScalingList_layout lib = TStruct [
    (''TypeMeta'', TypeMeta_type lib),
    (''ListMeta'', ListMeta_type lib),
    (''Items'', TSlice (ScheduledScaling_layout lib))]"

end
