(* ===== verification/Deep_Copy_Methods.thy ===== *)
theory Deep_Copy_Methods
  imports Api_Layouts
begin

text \<open>
  The methods of \<open>api/v1/zz_generated.deepcopy.go\<close>: for each struct \<open>DeepCopyInto\<close> as the list of its
  statements after \<open>*out = *in\<close>, \<open>DeepCopy\<close>, which returns \<open>nil\<close> for a \<open>nil\<close> receiver and otherwise a
  new struct filled by \<open>DeepCopyInto\<close>, and for the ten kinds of objects \<open>DeepCopyObject\<close>.  Behind each
  \<open>DeepCopyInto\<close> stands the fact that it copies the struct of \<open>Api_Layouts\<close> deeply: a field of
  reference type for which the method had no statement would make it false.
\<close>

definition TargetRef_DeepCopyInto :: copier where
  "TargetRef_DeepCopyInto = copy_into []"

lemma TargetRef_deep [deep_rules]: "deep TargetRef_DeepCopyInto TargetRef_layout"
  by (simp add: TargetRef_DeepCopyInto_def TargetRef_layout_def deep_rules lawful_def)

definition TargetRef_DeepCopy :: copier where
  "TargetRef_DeepCopy = new_copy TargetRef_layout TargetRef_DeepCopyInto"

definition ScalingConstraints_DeepCopyInto :: copier where
  "ScalingConstraints_DeepCopyInto = copy_into []"

lemma ScalingConstraints_deep [deep_rules]: "deep ScalingConstraints_DeepCopyInto ScalingConstraints_layout"
  by (simp add: ScalingConstraints_DeepCopyInto_def ScalingConstraints_layout_def deep_rules lawful_def)

definition ScalingConstraints_DeepCopy :: copier where
  "ScalingConstraints_DeepCopy = new_copy ScalingConstraints_layout ScalingConstraints_DeepCopyInto"

definition SecretRef_DeepCopyInto :: copier where
  "SecretRef_DeepCopyInto = copy_into []"

lemma SecretRef_deep [deep_rules]: "deep SecretRef_DeepCopyInto SecretRef_layout"
  by (simp add: SecretRef_DeepCopyInto_def SecretRef_layout_def deep_rules lawful_def)

definition SecretRef_DeepCopy :: copier where
  "SecretRef_DeepCopy = new_copy SecretRef_layout SecretRef_DeepCopyInto"

definition SignalSourceConfig_DeepCopyInto :: copier where
  "SignalSourceConfig_DeepCopyInto = copy_into [
    (''Config'', make_dict),
    (''SecretRef'', new_copy SecretRef_layout shallow)]"

lemma SignalSourceConfig_deep [deep_rules]: "deep SignalSourceConfig_DeepCopyInto SignalSourceConfig_layout"
  by (simp add: SignalSourceConfig_DeepCopyInto_def SignalSourceConfig_layout_def deep_rules lawful_def)

definition SignalSourceConfig_DeepCopy :: copier where
  "SignalSourceConfig_DeepCopy = new_copy SignalSourceConfig_layout SignalSourceConfig_DeepCopyInto"

definition LLMConfig_DeepCopyInto :: copier where
  "LLMConfig_DeepCopyInto = copy_into [
    (''Fallback'', new_copy (TScalar KString) shallow),
    (''APIKeySecret'', new_copy SecretRef_layout shallow),
    (''CacheTTL'', shallow),
    (''CircuitBreakerTimeout'', shallow)]"

lemma LLMConfig_deep [deep_rules]: "lawful lib \<Longrightarrow> deep LLMConfig_DeepCopyInto (LLMConfig_layout lib)"
  by (simp add: LLMConfig_DeepCopyInto_def LLMConfig_layout_def deep_rules lawful_def)

definition LLMConfig_DeepCopy :: "apimachinery \<Rightarrow> copier" where
  "LLMConfig_DeepCopy lib = new_copy (LLMConfig_layout lib) LLMConfig_DeepCopyInto"

definition AlertRule_DeepCopyInto :: copier where
  "AlertRule_DeepCopyInto = copy_into [
    (''For'', shallow)]"

lemma AlertRule_deep [deep_rules]: "lawful lib \<Longrightarrow> deep AlertRule_DeepCopyInto (AlertRule_layout lib)"
  by (simp add: AlertRule_DeepCopyInto_def AlertRule_layout_def deep_rules lawful_def)

definition AlertRule_DeepCopy :: "apimachinery \<Rightarrow> copier" where
  "AlertRule_DeepCopy lib = new_copy (AlertRule_layout lib) AlertRule_DeepCopyInto"

definition AlertingConfig_DeepCopyInto :: "apimachinery \<Rightarrow> copier" where
  "AlertingConfig_DeepCopyInto lib = copy_into [
    (''Rules'', make_copy (AlertRule_layout lib)),
    (''WebhookSecret'', new_copy SecretRef_layout shallow)]"

lemma AlertingConfig_deep [deep_rules]: "lawful lib \<Longrightarrow> deep (AlertingConfig_DeepCopyInto lib) (AlertingConfig_layout lib)"
  by (simp add: AlertingConfig_DeepCopyInto_def AlertingConfig_layout_def deep_rules lawful_def)

definition AlertingConfig_DeepCopy :: "apimachinery \<Rightarrow> copier" where
  "AlertingConfig_DeepCopy lib = new_copy (AlertingConfig_layout lib) (AlertingConfig_DeepCopyInto lib)"

definition SLO_DeepCopyInto :: copier where
  "SLO_DeepCopyInto = copy_into []"

lemma SLO_deep [deep_rules]: "deep SLO_DeepCopyInto SLO_layout"
  by (simp add: SLO_DeepCopyInto_def SLO_layout_def deep_rules lawful_def)

definition SLO_DeepCopy :: copier where
  "SLO_DeepCopy = new_copy SLO_layout SLO_DeepCopyInto"

definition CostConfig_DeepCopyInto :: copier where
  "CostConfig_DeepCopyInto = copy_into []"

lemma CostConfig_deep [deep_rules]: "deep CostConfig_DeepCopyInto CostConfig_layout"
  by (simp add: CostConfig_DeepCopyInto_def CostConfig_layout_def deep_rules lawful_def)

definition CostConfig_DeepCopy :: copier where
  "CostConfig_DeepCopy = new_copy CostConfig_layout CostConfig_DeepCopyInto"

definition CostConstraints_DeepCopyInto :: copier where
  "CostConstraints_DeepCopyInto = copy_into []"

lemma CostConstraints_deep [deep_rules]: "deep CostConstraints_DeepCopyInto CostConstraints_layout"
  by (simp add: CostConstraints_DeepCopyInto_def CostConstraints_layout_def deep_rules lawful_def)

definition CostConstraints_DeepCopy :: copier where
  "CostConstraints_DeepCopy = new_copy CostConstraints_layout CostConstraints_DeepCopyInto"

definition VerticalConstraints_DeepCopyInto :: "apimachinery \<Rightarrow> copier" where
  "VerticalConstraints_DeepCopyInto lib = copy_into [
    (''MinCPURequest'', Quantity_copy lib),
    (''MaxCPURequest'', Quantity_copy lib),
    (''MinMemoryRequest'', Quantity_copy lib),
    (''MaxMemoryRequest'', Quantity_copy lib)]"

lemma VerticalConstraints_deep [deep_rules]: "lawful lib \<Longrightarrow> deep (VerticalConstraints_DeepCopyInto lib) (VerticalConstraints_layout lib)"
  by (simp add: VerticalConstraints_DeepCopyInto_def VerticalConstraints_layout_def deep_rules lawful_def)

definition VerticalConstraints_DeepCopy :: "apimachinery \<Rightarrow> copier" where
  "VerticalConstraints_DeepCopy lib = new_copy (VerticalConstraints_layout lib) (VerticalConstraints_DeepCopyInto lib)"

definition ContainerVerticalConfig_DeepCopyInto :: copier where
  "ContainerVerticalConfig_DeepCopyInto = copy_into []"

lemma ContainerVerticalConfig_deep [deep_rules]: "deep ContainerVerticalConfig_DeepCopyInto ContainerVerticalConfig_layout"
  by (simp add: ContainerVerticalConfig_DeepCopyInto_def ContainerVerticalConfig_layout_def deep_rules lawful_def)

definition ContainerVerticalConfig_DeepCopy :: copier where
  "ContainerVerticalConfig_DeepCopy = new_copy ContainerVerticalConfig_layout ContainerVerticalConfig_DeepCopyInto"

definition VerticalScalingConfig_DeepCopyInto :: "apimachinery \<Rightarrow> copier" where
  "VerticalScalingConfig_DeepCopyInto lib = copy_into [
    (''Constraints'', VerticalConstraints_DeepCopyInto lib),
    (''Containers'', make_copy ContainerVerticalConfig_layout)]"

lemma VerticalScalingConfig_deep [deep_rules]: "lawful lib \<Longrightarrow> deep (VerticalScalingConfig_DeepCopyInto lib) (VerticalScalingConfig_layout lib)"
  by (simp add: VerticalScalingConfig_DeepCopyInto_def VerticalScalingConfig_layout_def deep_rules lawful_def)

definition VerticalScalingConfig_DeepCopy :: "apimachinery \<Rightarrow> copier" where
  "VerticalScalingConfig_DeepCopy lib = new_copy (VerticalScalingConfig_layout lib) (VerticalScalingConfig_DeepCopyInto lib)"

definition ApplicationProfile_DeepCopyInto :: copier where
  "ApplicationProfile_DeepCopyInto = copy_into [
    (''ColdStartDuration'', shallow),
    (''WarmUpDuration'', shallow),
    (''GracefulShutdownDuration'', shallow)]"

lemma ApplicationProfile_deep [deep_rules]: "lawful lib \<Longrightarrow> deep ApplicationProfile_DeepCopyInto (ApplicationProfile_layout lib)"
  by (simp add: ApplicationProfile_DeepCopyInto_def ApplicationProfile_layout_def deep_rules lawful_def)

definition ApplicationProfile_DeepCopy :: "apimachinery \<Rightarrow> copier" where
  "ApplicationProfile_DeepCopy lib = new_copy (ApplicationProfile_layout lib) ApplicationProfile_DeepCopyInto"

definition ResourceSet_DeepCopyInto :: "apimachinery \<Rightarrow> copier" where
  "ResourceSet_DeepCopyInto lib = copy_into [
    (''CPURequest'', Quantity_copy lib),
    (''MemoryRequest'', Quantity_copy lib)]"

lemma ResourceSet_deep [deep_rules]: "lawful lib \<Longrightarrow> deep (ResourceSet_DeepCopyInto lib) (ResourceSet_layout lib)"
  by (simp add: ResourceSet_DeepCopyInto_def ResourceSet_layout_def deep_rules lawful_def)

definition ResourceSet_DeepCopy :: "apimachinery \<Rightarrow> copier" where
  "ResourceSet_DeepCopy lib = new_copy (ResourceSet_layout lib) (ResourceSet_DeepCopyInto lib)"

definition ResourceProfile_DeepCopyInto :: "apimachinery \<Rightarrow> copier" where
  "ResourceProfile_DeepCopyInto lib = copy_into [
    (''Resources'', ResourceSet_DeepCopyInto lib)]"

lemma ResourceProfile_deep [deep_rules]: "lawful lib \<Longrightarrow> deep (ResourceProfile_DeepCopyInto lib) (ResourceProfile_layout lib)"
  by (simp add: ResourceProfile_DeepCopyInto_def ResourceProfile_layout_def deep_rules lawful_def)

definition ResourceProfile_DeepCopy :: "apimachinery \<Rightarrow> copier" where
  "ResourceProfile_DeepCopy lib = new_copy (ResourceProfile_layout lib) (ResourceProfile_DeepCopyInto lib)"

definition ResourceStatus_DeepCopyInto :: "apimachinery \<Rightarrow> copier" where
  "ResourceStatus_DeepCopyInto lib = copy_into [
    (''CPURequest'', Quantity_copy lib),
    (''MemoryRequest'', Quantity_copy lib),
    (''CPULimit'', Quantity_copy lib),
    (''MemoryLimit'', Quantity_copy lib),
    (''LastResizeTime'', Time_copy lib)]"

lemma ResourceStatus_deep [deep_rules]: "lawful lib \<Longrightarrow> deep (ResourceStatus_DeepCopyInto lib) (ResourceStatus_layout lib)"
  by (simp add: ResourceStatus_DeepCopyInto_def ResourceStatus_layout_def deep_rules lawful_def)

definition ResourceStatus_DeepCopy :: "apimachinery \<Rightarrow> copier" where
  "ResourceStatus_DeepCopy lib = new_copy (ResourceStatus_layout lib) (ResourceStatus_DeepCopyInto lib)"

definition VerticalDecision_DeepCopyInto :: "apimachinery \<Rightarrow> copier" where
  "VerticalDecision_DeepCopyInto lib = copy_into [
    (''CPURequest'', Quantity_copy lib),
    (''MemoryRequest'', Quantity_copy lib),
    (''CPULimit'', Quantity_copy lib),
    (''MemoryLimit'', Quantity_copy lib)]"

lemma VerticalDecision_deep [deep_rules]: "lawful lib \<Longrightarrow> deep (VerticalDecision_DeepCopyInto lib) (VerticalDecision_layout lib)"
  by (simp add: VerticalDecision_DeepCopyInto_def VerticalDecision_layout_def deep_rules lawful_def)

definition VerticalDecision_DeepCopy :: "apimachinery \<Rightarrow> copier" where
  "VerticalDecision_DeepCopy lib = new_copy (VerticalDecision_layout lib) (VerticalDecision_DeepCopyInto lib)"

definition PredictiveEvent_DeepCopyInto :: "apimachinery \<Rightarrow> copier" where
  "PredictiveEvent_DeepCopyInto lib = copy_into [
    (''Start'', Time_into lib),
    (''End'', Time_into lib)]"

lemma PredictiveEvent_deep [deep_rules]: "lawful lib \<Longrightarrow> deep (PredictiveEvent_DeepCopyInto lib) (PredictiveEvent_layout lib)"
  by (simp add: PredictiveEvent_DeepCopyInto_def PredictiveEvent_layout_def deep_rules lawful_def)

definition PredictiveEvent_DeepCopy :: "apimachinery \<Rightarrow> copier" where
  "PredictiveEvent_DeepCopy lib = new_copy (PredictiveEvent_layout lib) (PredictiveEvent_DeepCopyInto lib)"

definition PredictiveScalingConfig_DeepCopyInto :: "apimachinery \<Rightarrow> copier" where
  "PredictiveScalingConfig_DeepCopyInto lib = copy_into [
    (''LookaheadWindow'', shallow),
    (''Events'', make_elements (PredictiveEvent_layout lib) (PredictiveEvent_DeepCopyInto lib))]"

lemma PredictiveScalingConfig_deep [deep_rules]: "lawful lib \<Longrightarrow> deep (PredictiveScalingConfig_DeepCopyInto lib) (PredictiveScalingConfig_layout lib)"
  by (simp add: PredictiveScalingConfig_DeepCopyInto_def PredictiveScalingConfig_layout_def deep_rules lawful_def)

definition PredictiveScalingConfig_DeepCopy :: "apimachinery \<Rightarrow> copier" where
  "PredictiveScalingConfig_DeepCopy lib = new_copy (PredictiveScalingConfig_layout lib) (PredictiveScalingConfig_DeepCopyInto lib)"

definition PredictionStatus_DeepCopyInto :: copier where
  "PredictionStatus_DeepCopyInto = copy_into []"

lemma PredictionStatus_deep [deep_rules]: "deep PredictionStatus_DeepCopyInto PredictionStatus_layout"
  by (simp add: PredictionStatus_DeepCopyInto_def PredictionStatus_layout_def deep_rules lawful_def)

definition PredictionStatus_DeepCopy :: copier where
  "PredictionStatus_DeepCopy = new_copy PredictionStatus_layout PredictionStatus_DeepCopyInto"

definition DirectionPolicy_DeepCopyInto :: copier where
  "DirectionPolicy_DeepCopyInto = copy_into [
    (''Cooldown'', shallow)]"

lemma DirectionPolicy_deep [deep_rules]: "lawful lib \<Longrightarrow> deep DirectionPolicy_DeepCopyInto (DirectionPolicy_layout lib)"
  by (simp add: DirectionPolicy_DeepCopyInto_def DirectionPolicy_layout_def deep_rules lawful_def)

definition DirectionPolicy_DeepCopy :: "apimachinery \<Rightarrow> copier" where
  "DirectionPolicy_DeepCopy lib = new_copy (DirectionPolicy_layout lib) DirectionPolicy_DeepCopyInto"

definition CircuitBreakerConfig_DeepCopyInto :: copier where
  "CircuitBreakerConfig_DeepCopyInto = copy_into [
    (''ResetAfter'', shallow),
    (''TripConditions'', make_copy (TScalar KString))]"

lemma CircuitBreakerConfig_deep [deep_rules]: "lawful lib \<Longrightarrow> deep CircuitBreakerConfig_DeepCopyInto (CircuitBreakerConfig_layout lib)"
  by (simp add: CircuitBreakerConfig_DeepCopyInto_def CircuitBreakerConfig_layout_def deep_rules lawful_def)

definition CircuitBreakerConfig_DeepCopy :: "apimachinery \<Rightarrow> copier" where
  "CircuitBreakerConfig_DeepCopy lib = new_copy (CircuitBreakerConfig_layout lib) CircuitBreakerConfig_DeepCopyInto"

definition AutoRollbackConfig_DeepCopyInto :: copier where
  "AutoRollbackConfig_DeepCopyInto = copy_into [
    (''Conditions'', make_copy (TScalar KString))]"

lemma AutoRollbackConfig_deep [deep_rules]: "deep AutoRollbackConfig_DeepCopyInto AutoRollbackConfig_layout"
  by (simp add: AutoRollbackConfig_DeepCopyInto_def AutoRollbackConfig_layout_def deep_rules lawful_def)

definition AutoRollbackConfig_DeepCopy :: copier where
  "AutoRollbackConfig_DeepCopy = new_copy AutoRollbackConfig_layout AutoRollbackConfig_DeepCopyInto"

definition SafetyConfig_DeepCopyInto :: "apimachinery \<Rightarrow> copier" where
  "SafetyConfig_DeepCopyInto lib = copy_into [
    (''ScaleUp'', new_copy (DirectionPolicy_layout lib) shallow),
    (''ScaleDown'', new_copy (DirectionPolicy_layout lib) shallow),
    (''CircuitBreaker'', new_copy (CircuitBreakerConfig_layout lib) CircuitBreakerConfig_DeepCopyInto),
    (''AutoRollback'', new_copy AutoRollbackConfig_layout AutoRollbackConfig_DeepCopyInto)]"

lemma SafetyConfig_deep [deep_rules]: "lawful lib \<Longrightarrow> deep (SafetyConfig_DeepCopyInto lib) (SafetyConfig_layout lib)"
  by (simp add: SafetyConfig_DeepCopyInto_def SafetyConfig_layout_def deep_rules lawful_def)

definition SafetyConfig_DeepCopy :: "apimachinery \<Rightarrow> copier" where
  "SafetyConfig_DeepCopy lib = new_copy (SafetyConfig_layout lib) (SafetyConfig_DeepCopyInto lib)"

definition LLMRateLimit_DeepCopyInto :: copier where
  "LLMRateLimit_DeepCopyInto = copy_into []"

lemma LLMRateLimit_deep [deep_rules]: "deep LLMRateLimit_DeepCopyInto LLMRateLimit_layout"
  by (simp add: LLMRateLimit_DeepCopyInto_def LLMRateLimit_layout_def deep_rules lawful_def)

definition LLMRateLimit_DeepCopy :: copier where
  "LLMRateLimit_DeepCopy = new_copy LLMRateLimit_layout LLMRateLimit_DeepCopyInto"

definition LLMTelemetry_DeepCopyInto :: copier where
  "LLMTelemetry_DeepCopyInto = copy_into []"

lemma LLMTelemetry_deep [deep_rules]: "deep LLMTelemetry_DeepCopyInto LLMTelemetry_layout"
  by (simp add: LLMTelemetry_DeepCopyInto_def LLMTelemetry_layout_def deep_rules lawful_def)

definition LLMTelemetry_DeepCopy :: copier where
  "LLMTelemetry_DeepCopy = new_copy LLMTelemetry_layout LLMTelemetry_DeepCopyInto"

definition CoscaleRef_DeepCopyInto :: copier where
  "CoscaleRef_DeepCopyInto = copy_into [
    (''TargetRef'', shallow)]"

lemma CoscaleRef_deep [deep_rules]: "deep CoscaleRef_DeepCopyInto CoscaleRef_layout"
  by (simp add: CoscaleRef_DeepCopyInto_def CoscaleRef_layout_def deep_rules lawful_def)

definition CoscaleRef_DeepCopy :: copier where
  "CoscaleRef_DeepCopy = new_copy CoscaleRef_layout CoscaleRef_DeepCopyInto"

definition DependencyConfig_DeepCopyInto :: copier where
  "DependencyConfig_DeepCopyInto = copy_into [
    (''UpstreamOf'', make_copy TargetRef_layout),
    (''DownstreamOf'', make_copy TargetRef_layout),
    (''CoscalesWith'', make_copy CoscaleRef_layout)]"

lemma DependencyConfig_deep [deep_rules]: "deep DependencyConfig_DeepCopyInto DependencyConfig_layout"
  by (simp add: DependencyConfig_DeepCopyInto_def DependencyConfig_layout_def deep_rules lawful_def)

definition DependencyConfig_DeepCopy :: copier where
  "DependencyConfig_DeepCopy = new_copy DependencyConfig_layout DependencyConfig_DeepCopyInto"

definition SLOViolationBudget_DeepCopyInto :: copier where
  "SLOViolationBudget_DeepCopyInto = copy_into [
    (''Window'', shallow)]"

lemma SLOViolationBudget_deep [deep_rules]: "lawful lib \<Longrightarrow> deep SLOViolationBudget_DeepCopyInto (SLOViolationBudget_layout lib)"
  by (simp add: SLOViolationBudget_DeepCopyInto_def SLOViolationBudget_layout_def deep_rules lawful_def)

definition SLOViolationBudget_DeepCopy :: "apimachinery \<Rightarrow> copier" where
  "SLOViolationBudget_DeepCopy lib = new_copy (SLOViolationBudget_layout lib) SLOViolationBudget_DeepCopyInto"

definition ApprovalTrigger_DeepCopyInto :: copier where
  "ApprovalTrigger_DeepCopyInto = copy_into []"

lemma ApprovalTrigger_deep [deep_rules]: "deep ApprovalTrigger_DeepCopyInto ApprovalTrigger_layout"
  by (simp add: ApprovalTrigger_DeepCopyInto_def ApprovalTrigger_layout_def deep_rules lawful_def)

definition ApprovalTrigger_DeepCopy :: copier where
  "ApprovalTrigger_DeepCopy = new_copy ApprovalTrigger_layout ApprovalTrigger_DeepCopyInto"

definition NotificationChannel_DeepCopyInto :: copier where
  "NotificationChannel_DeepCopyInto = copy_into [
    (''SecretRef'', new_copy SecretRef_layout shallow)]"

lemma NotificationChannel_deep [deep_rules]: "deep NotificationChannel_DeepCopyInto NotificationChannel_layout"
  by (simp add: NotificationChannel_DeepCopyInto_def NotificationChannel_layout_def deep_rules lawful_def)

definition NotificationChannel_DeepCopy :: copier where
  "NotificationChannel_DeepCopy = new_copy NotificationChannel_layout NotificationChannel_DeepCopyInto"

definition ApprovalConfig_DeepCopyInto :: copier where
  "ApprovalConfig_DeepCopyInto = copy_into [
    (''RequireApprovalWhen'', make_copy ApprovalTrigger_layout),
    (''Channels'', make_elements NotificationChannel_layout NotificationChannel_DeepCopyInto),
    (''ApprovalTimeout'', shallow)]"

lemma ApprovalConfig_deep [deep_rules]: "lawful lib \<Longrightarrow> deep ApprovalConfig_DeepCopyInto (ApprovalConfig_layout lib)"
  by (simp add: ApprovalConfig_DeepCopyInto_def ApprovalConfig_layout_def deep_rules lawful_def)

definition ApprovalConfig_DeepCopy :: "apimachinery \<Rightarrow> copier" where
  "ApprovalConfig_DeepCopy lib = new_copy (ApprovalConfig_layout lib) ApprovalConfig_DeepCopyInto"

definition PrecedenceConfig_DeepCopyInto :: copier where
  "PrecedenceConfig_DeepCopyInto = copy_into []"

lemma PrecedenceConfig_deep [deep_rules]: "deep PrecedenceConfig_DeepCopyInto PrecedenceConfig_layout"
  by (simp add: PrecedenceConfig_DeepCopyInto_def PrecedenceConfig_layout_def deep_rules lawful_def)

definition PrecedenceConfig_DeepCopy :: copier where
  "PrecedenceConfig_DeepCopy = new_copy PrecedenceConfig_layout PrecedenceConfig_DeepCopyInto"

definition PrecedenceConflict_DeepCopyInto :: copier where
  "PrecedenceConflict_DeepCopyInto = copy_into []"

lemma PrecedenceConflict_deep [deep_rules]: "deep PrecedenceConflict_DeepCopyInto PrecedenceConflict_layout"
  by (simp add: PrecedenceConflict_DeepCopyInto_def PrecedenceConflict_layout_def deep_rules lawful_def)

definition PrecedenceConflict_DeepCopy :: copier where
  "PrecedenceConflict_DeepCopy = new_copy PrecedenceConflict_layout PrecedenceConflict_DeepCopyInto"

definition ActiveOverride_DeepCopyInto :: copier where
  "ActiveOverride_DeepCopyInto = copy_into []"

lemma ActiveOverride_deep [deep_rules]: "deep ActiveOverride_DeepCopyInto ActiveOverride_layout"
  by (simp add: ActiveOverride_DeepCopyInto_def ActiveOverride_layout_def deep_rules lawful_def)

definition ActiveOverride_DeepCopy :: copier where
  "ActiveOverride_DeepCopy = new_copy ActiveOverride_layout ActiveOverride_DeepCopyInto"

definition PrecedenceStatus_DeepCopyInto :: copier where
  "PrecedenceStatus_DeepCopyInto = copy_into [
    (''Conflicts'', make_copy PrecedenceConflict_layout),
    (''ActiveOverrides'', make_copy ActiveOverride_layout)]"

lemma PrecedenceStatus_deep [deep_rules]: "deep PrecedenceStatus_DeepCopyInto PrecedenceStatus_layout"
  by (simp add: PrecedenceStatus_DeepCopyInto_def PrecedenceStatus_layout_def deep_rules lawful_def)

definition PrecedenceStatus_DeepCopy :: copier where
  "PrecedenceStatus_DeepCopy = new_copy PrecedenceStatus_layout PrecedenceStatus_DeepCopyInto"

definition FeedbackConfig_DeepCopyInto :: copier where
  "FeedbackConfig_DeepCopyInto = copy_into [
    (''EvaluationDelay'', shallow)]"

lemma FeedbackConfig_deep [deep_rules]: "lawful lib \<Longrightarrow> deep FeedbackConfig_DeepCopyInto (FeedbackConfig_layout lib)"
  by (simp add: FeedbackConfig_DeepCopyInto_def FeedbackConfig_layout_def deep_rules lawful_def)

definition FeedbackConfig_DeepCopy :: "apimachinery \<Rightarrow> copier" where
  "FeedbackConfig_DeepCopy lib = new_copy (FeedbackConfig_layout lib) FeedbackConfig_DeepCopyInto"

definition FeedbackStatus_DeepCopyInto :: copier where
  "FeedbackStatus_DeepCopyInto = copy_into []"

lemma FeedbackStatus_deep [deep_rules]: "deep FeedbackStatus_DeepCopyInto FeedbackStatus_layout"
  by (simp add: FeedbackStatus_DeepCopyInto_def FeedbackStatus_layout_def deep_rules lawful_def)

definition FeedbackStatus_DeepCopy :: copier where
  "FeedbackStatus_DeepCopy = new_copy FeedbackStatus_layout FeedbackStatus_DeepCopyInto"

definition StatefulSetPolicy_DeepCopyInto :: copier where
  "StatefulSetPolicy_DeepCopyInto = copy_into [
    (''DrainTimeout'', shallow)]"

lemma StatefulSetPolicy_deep [deep_rules]: "lawful lib \<Longrightarrow> deep StatefulSetPolicy_DeepCopyInto (StatefulSetPolicy_layout lib)"
  by (simp add: StatefulSetPolicy_DeepCopyInto_def StatefulSetPolicy_layout_def deep_rules lawful_def)

definition StatefulSetPolicy_DeepCopy :: "apimachinery \<Rightarrow> copier" where
  "StatefulSetPolicy_DeepCopy lib = new_copy (StatefulSetPolicy_layout lib) StatefulSetPolicy_DeepCopyInto"

definition KEDAIntegration_DeepCopyInto :: copier where
  "KEDAIntegration_DeepCopyInto = copy_into [
    (''ScaledObjectRef'', shallow)]"

lemma KEDAIntegration_deep [deep_rules]: "deep KEDAIntegration_DeepCopyInto KEDAIntegration_layout"
  by (simp add: KEDAIntegration_DeepCopyInto_def KEDAIntegration_layout_def deep_rules lawful_def)

definition KEDAIntegration_DeepCopy :: copier where
  "KEDAIntegration_DeepCopy = new_copy KEDAIntegration_layout KEDAIntegration_DeepCopyInto"

definition CostStatus_DeepCopyInto :: copier where
  "CostStatus_DeepCopyInto = copy_into []"

lemma CostStatus_deep [deep_rules]: "deep CostStatus_DeepCopyInto CostStatus_layout"
  by (simp add: CostStatus_DeepCopyInto_def CostStatus_layout_def deep_rules lawful_def)

definition CostStatus_DeepCopy :: copier where
  "CostStatus_DeepCopy = new_copy CostStatus_layout CostStatus_DeepCopyInto"

definition PrometheusConfig_DeepCopyInto :: copier where
  "PrometheusConfig_DeepCopyInto = copy_into []"

lemma PrometheusConfig_deep [deep_rules]: "deep PrometheusConfig_DeepCopyInto PrometheusConfig_layout"
  by (simp add: PrometheusConfig_DeepCopyInto_def PrometheusConfig_layout_def deep_rules lawful_def)

definition PrometheusConfig_DeepCopy :: copier where
  "PrometheusConfig_DeepCopy = new_copy PrometheusConfig_layout PrometheusConfig_DeepCopyInto"

definition AIScalerSpec_DeepCopyInto :: "apimachinery \<Rightarrow> copier" where
  "AIScalerSpec_DeepCopyInto lib = copy_into [
    (''TargetRef'', shallow),
    (''Constraints'', shallow),
    (''LLM'', LLMConfig_DeepCopyInto),
    (''Prometheus'', shallow),
    (''Signals'', make_elements SignalSourceConfig_layout SignalSourceConfig_DeepCopyInto),
    (''Alerting'', new_copy (AlertingConfig_layout lib) (AlertingConfig_DeepCopyInto lib)),
    (''Cost'', new_copy CostConfig_layout shallow),
    (''CostConstraints'', new_copy CostConstraints_layout shallow),
    (''SLOs'', make_copy SLO_layout),
    (''SLOViolationBudget'', new_copy (SLOViolationBudget_layout lib) shallow),
    (''VerticalScaling'', new_copy (VerticalScalingConfig_layout lib) (VerticalScalingConfig_DeepCopyInto lib)),
    (''ApplicationProfile'', new_copy (ApplicationProfile_layout lib) shallow),
    (''ResourceProfiles'', make_elements (ResourceProfile_layout lib) (ResourceProfile_DeepCopyInto lib)),
    (''PredictiveScaling'', new_copy (PredictiveScalingConfig_layout lib) (PredictiveScalingConfig_DeepCopyInto lib)),
    (''Safety'', new_copy (SafetyConfig_layout lib) (SafetyConfig_DeepCopyInto lib)),
    (''LLMRateLimit'', new_copy LLMRateLimit_layout shallow),
    (''Dependencies'', new_copy DependencyConfig_layout DependencyConfig_DeepCopyInto),
    (''KEDAIntegration'', new_copy KEDAIntegration_layout shallow),
    (''Approval'', new_copy (ApprovalConfig_layout lib) ApprovalConfig_DeepCopyInto),
    (''Precedence'', new_copy PrecedenceConfig_layout shallow),
    (''Feedback'', new_copy (FeedbackConfig_layout lib) shallow),
    (''StatefulSetPolicy'', new_copy (StatefulSetPolicy_layout lib) shallow),
    (''EvaluationInterval'', shallow),
    (''CooldownPeriod'', shallow)]"

lemma AIScalerSpec_deep [deep_rules]: "lawful lib \<Longrightarrow> deep (AIScalerSpec_DeepCopyInto lib) (AIScalerSpec_layout lib)"
  by (simp add: AIScalerSpec_DeepCopyInto_def AIScalerSpec_layout_def deep_rules lawful_def)

definition AIScalerSpec_DeepCopy :: "apimachinery \<Rightarrow> copier" where
  "AIScalerSpec_DeepCopy lib = new_copy (AIScalerSpec_layout lib) (AIScalerSpec_DeepCopyInto lib)"

definition AIScalerStatus_DeepCopyInto :: "apimachinery \<Rightarrow> copier" where
  "AIScalerStatus_DeepCopyInto lib = copy_into [
    (''LastScaleTime'', Time_copy lib),
    (''CurrentResources'', new_copy (ResourceStatus_layout lib) (ResourceStatus_DeepCopyInto lib)),
    (''Prediction'', new_copy PredictionStatus_layout shallow),
    (''Cost'', new_copy CostStatus_layout shallow),
    (''LLMTelemetry'', new_copy LLMTelemetry_layout shallow),
    (''Precedence'', new_copy PrecedenceStatus_layout PrecedenceStatus_DeepCopyInto),
    (''Feedback'', new_copy FeedbackStatus_layout shallow),
    (''Conditions'', make_elements (Condition_type lib) (Condition_into lib))]"

lemma AIScalerStatus_deep [deep_rules]: "lawful lib \<Longrightarrow> deep (AIScalerStatus_DeepCopyInto lib) (AIScalerStatus_layout lib)"
  by (simp add: AIScalerStatus_DeepCopyInto_def AIScalerStatus_layout_def deep_rules lawful_def)

definition AIScalerStatus_DeepCopy :: "apimachinery \<Rightarrow> copier" where
  "AIScalerStatus_DeepCopy lib = new_copy (AIScalerStatus_layout lib) (AIScalerStatus_DeepCopyInto lib)"

definition AIScaler_DeepCopyInto :: "apimachinery \<Rightarrow> copier" where
  "AIScaler_DeepCopyInto lib = copy_into [
    (''TypeMeta'', shallow),
    (''ObjectMeta'', ObjectMeta_into lib),
    (''Spec'', AIScalerSpec_DeepCopyInto lib),
    (''Status'', AIScalerStatus_DeepCopyInto lib)]"

lemma AIScaler_deep [deep_rules]: "lawful lib \<Longrightarrow> deep (AIScaler_DeepCopyInto lib) (AIScaler_layout lib)"
  by (simp add: AIScaler_DeepCopyInto_def AIScaler_layout_def deep_rules lawful_def)

definition AIScaler_DeepCopy :: "apimachinery \<Rightarrow> copier" where
  "AIScaler_DeepCopy lib = new_copy (AIScaler_layout lib) (AIScaler_DeepCopyInto lib)"

definition AIScaler_DeepCopyObject :: "apimachinery \<Rightarrow> copier" where
  "AIScaler_DeepCopyObject lib = as_object (AIScaler_DeepCopy lib)"

definition AIScalerList_DeepCopyInto :: "apimachinery \<Rightarrow> copier" where
  "AIScalerList_DeepCopyInto lib = copy_into [
    (''TypeMeta'', shallow),
    (''ListMeta'', ListMeta_into lib),
    (''Items'', make_elements (AIScaler_layout lib) (AIScaler_DeepCopyInto lib))]"

lemma AIScalerList_deep [deep_rules]: "lawful lib \<Longrightarrow> deep (AIScalerList_DeepCopyInto lib) (AIScalerList_layout lib)"
  by (simp add: AIScalerList_DeepCopyInto_def AIScalerList_layout_def deep_rules lawful_def)

definition AIScalerList_DeepCopy :: "apimachinery \<Rightarrow> copier" where
  "AIScalerList_DeepCopy lib = new_copy (AIScalerList_layout lib) (AIScalerList_DeepCopyInto lib)"

definition AIScalerList_DeepCopyObject :: "apimachinery \<Rightarrow> copier" where
  "AIScalerList_DeepCopyObject lib = as_object (AIScalerList_DeepCopy lib)"

definition AnalysisConfig_DeepCopyInto :: copier where
  "AnalysisConfig_DeepCopyInto = copy_into [
    (''Window'', shallow)]"

lemma AnalysisConfig_deep [deep_rules]: "lawful lib \<Longrightarrow> deep AnalysisConfig_DeepCopyInto (AnalysisConfig_layout lib)"
  by (simp add: AnalysisConfig_DeepCopyInto_def AnalysisConfig_layout_def deep_rules lawful_def)

definition AnalysisConfig_DeepCopy :: "apimachinery \<Rightarrow> copier" where
  "AnalysisConfig_DeepCopy lib = new_copy (AnalysisConfig_layout lib) AnalysisConfig_DeepCopyInto"

definition ResourceRecommendationSpec_DeepCopyInto :: copier where
  "ResourceRecommendationSpec_DeepCopyInto = copy_into [
    (''TargetRef'', shallow),
    (''Analysis'', shallow)]"

lemma ResourceRecommendationSpec_deep [deep_rules]: "lawful lib \<Longrightarrow> deep ResourceRecommendationSpec_DeepCopyInto (ResourceRecommendationSpec_layout lib)"
  by (simp add: ResourceRecommendationSpec_DeepCopyInto_def ResourceRecommendationSpec_layout_def deep_rules lawful_def)

definition ResourceRecommendationSpec_DeepCopy :: "apimachinery \<Rightarrow> copier" where
  "ResourceRecommendationSpec_DeepCopy lib = new_copy (ResourceRecommendationSpec_layout lib) ResourceRecommendationSpec_DeepCopyInto"

definition UsagePercentiles_DeepCopyInto :: copier where
  "UsagePercentiles_DeepCopyInto = copy_into []"

lemma UsagePercentiles_deep [deep_rules]: "deep UsagePercentiles_DeepCopyInto UsagePercentiles_layout"
  by (simp add: UsagePercentiles_DeepCopyInto_def UsagePercentiles_layout_def deep_rules lawful_def)

definition UsagePercentiles_DeepCopy :: copier where
  "UsagePercentiles_DeepCopy = new_copy UsagePercentiles_layout UsagePercentiles_DeepCopyInto"

definition RecommendedResources_DeepCopyInto :: "apimachinery \<Rightarrow> copier" where
  "RecommendedResources_DeepCopyInto lib = copy_into [
    (''CPURequest'', Quantity_copy lib),
    (''MemoryRequest'', Quantity_copy lib),
    (''CPULimit'', Quantity_copy lib),
    (''MemoryLimit'', Quantity_copy lib)]"

lemma RecommendedResources_deep [deep_rules]: "lawful lib \<Longrightarrow> deep (RecommendedResources_DeepCopyInto lib) (RecommendedResources_layout lib)"
  by (simp add: RecommendedResources_DeepCopyInto_def RecommendedResources_layout_def deep_rules lawful_def)

definition RecommendedResources_DeepCopy :: "apimachinery \<Rightarrow> copier" where
  "RecommendedResources_DeepCopy lib = new_copy (RecommendedResources_layout lib) (RecommendedResources_DeepCopyInto lib)"

definition ResourceRecommendationStatus_DeepCopyInto :: "apimachinery \<Rightarrow> copier" where
  "ResourceRecommendationStatus_DeepCopyInto lib = copy_into [
    (''RecommendedResources'', new_copy (RecommendedResources_layout lib) (RecommendedResources_DeepCopyInto lib)),
    (''Usage'', new_copy UsagePercentiles_layout shallow),
    (''LastAnalyzedAt'', Time_copy lib)]"

lemma ResourceRecommendationStatus_deep [deep_rules]: "lawful lib \<Longrightarrow> deep (ResourceRecommendationStatus_DeepCopyInto lib) (ResourceRecommendationStatus_layout lib)"
  by (simp add: ResourceRecommendationStatus_DeepCopyInto_def ResourceRecommendationStatus_layout_def deep_rules lawful_def)

definition ResourceRecommendationStatus_DeepCopy :: "apimachinery \<Rightarrow> copier" where
  "ResourceRecommendationStatus_DeepCopy lib = new_copy (ResourceRecommendationStatus_layout lib) (ResourceRecommendationStatus_DeepCopyInto lib)"

definition ResourceRecommendation_DeepCopyInto :: "apimachinery \<Rightarrow> copier" where
  "ResourceRecommendation_DeepCopyInto lib = copy_into [
    (''TypeMeta'', shallow),
    (''ObjectMeta'', ObjectMeta_into lib),
    (''Spec'', shallow),
    (''Status'', ResourceRecommendationStatus_DeepCopyInto lib)]"

lemma ResourceRecommendation_deep [deep_rules]: "lawful lib \<Longrightarrow> deep (ResourceRecommendation_DeepCopyInto lib) (ResourceRecommendation_layout lib)"
  by (simp add: ResourceRecommendation_DeepCopyInto_def ResourceRecommendation_layout_def deep_rules lawful_def)

definition ResourceRecommendation_DeepCopy :: "apimachinery \<Rightarrow> copier" where
  "ResourceRecommendation_DeepCopy lib = new_copy (ResourceRecommendation_layout lib) (ResourceRecommendation_DeepCopyInto lib)"

definition ResourceRecommendation_DeepCopyObject :: "apimachinery \<Rightarrow> copier" where
  "ResourceRecommendation_DeepCopyObject lib = as_object (ResourceRecommendation_DeepCopy lib)"

definition ResourceRecommendationList_DeepCopyInto :: "apimachinery \<Rightarrow> copier" where
  "ResourceRecommendationList_DeepCopyInto lib = copy_into [
    (''TypeMeta'', shallow),
    (''ListMeta'', ListMeta_into lib),
    (''Items'', make_elements (ResourceRecommendation_layout lib) (ResourceRecommendation_DeepCopyInto lib))]"

lemma ResourceRecommendationList_deep [deep_rules]: "lawful lib \<Longrightarrow> deep (ResourceRecommendationList_DeepCopyInto lib) (ResourceRecommendationList_layout lib)"
  by (simp add: ResourceRecommendationList_DeepCopyInto_def ResourceRecommendationList_layout_def deep_rules lawful_def)

definition ResourceRecommendationList_DeepCopy :: "apimachinery \<Rightarrow> copier" where
  "ResourceRecommendationList_DeepCopy lib = new_copy (ResourceRecommendationList_layout lib) (ResourceRecommendationList_DeepCopyInto lib)"

definition ResourceRecommendationList_DeepCopyObject :: "apimachinery \<Rightarrow> copier" where
  "ResourceRecommendationList_DeepCopyObject lib = as_object (ResourceRecommendationList_DeepCopy lib)"

definition ProposedAction_DeepCopyInto :: copier where
  "ProposedAction_DeepCopyInto = copy_into []"

lemma ProposedAction_deep [deep_rules]: "deep ProposedAction_DeepCopyInto ProposedAction_layout"
  by (simp add: ProposedAction_DeepCopyInto_def ProposedAction_layout_def deep_rules lawful_def)

definition ProposedAction_DeepCopy :: copier where
  "ProposedAction_DeepCopy = new_copy ProposedAction_layout ProposedAction_DeepCopyInto"

definition ScalingApprovalSpec_DeepCopyInto :: "apimachinery \<Rightarrow> copier" where
  "ScalingApprovalSpec_DeepCopyInto lib = copy_into [
    (''AIScalerRef'', shallow),
    (''ProposedAction'', shallow),
    (''ExpiresAt'', Time_copy lib)]"

lemma ScalingApprovalSpec_deep [deep_rules]: "lawful lib \<Longrightarrow> deep (ScalingApprovalSpec_DeepCopyInto lib) (ScalingApprovalSpec_layout lib)"
  by (simp add: ScalingApprovalSpec_DeepCopyInto_def ScalingApprovalSpec_layout_def deep_rules lawful_def)

definition ScalingApprovalSpec_DeepCopy :: "apimachinery \<Rightarrow> copier" where
  "ScalingApprovalSpec_DeepCopy lib = new_copy (ScalingApprovalSpec_layout lib) (ScalingApprovalSpec_DeepCopyInto lib)"

definition ScalingApprovalStatus_DeepCopyInto :: "apimachinery \<Rightarrow> copier" where
  "ScalingApprovalStatus_DeepCopyInto lib = copy_into [
    (''ApprovedAt'', Time_copy lib)]"

lemma ScalingApprovalStatus_deep [deep_rules]: "lawful lib \<Longrightarrow> deep (ScalingApprovalStatus_DeepCopyInto lib) (ScalingApprovalStatus_layout lib)"
  by (simp add: ScalingApprovalStatus_DeepCopyInto_def ScalingApprovalStatus_layout_def deep_rules lawful_def)

definition ScalingApprovalStatus_DeepCopy :: "apimachinery \<Rightarrow> copier" where
  "ScalingApprovalStatus_DeepCopy lib = new_copy (ScalingApprovalStatus_layout lib) (ScalingApprovalStatus_DeepCopyInto lib)"

definition ScalingApproval_DeepCopyInto :: "apimachinery \<Rightarrow> copier" where
  "ScalingApproval_DeepCopyInto lib = copy_into [
    (''TypeMeta'', shallow),
    (''ObjectMeta'', ObjectMeta_into lib),
    (''Spec'', ScalingApprovalSpec_DeepCopyInto lib),
    (''Status'', ScalingApprovalStatus_DeepCopyInto lib)]"

lemma ScalingApproval_deep [deep_rules]: "lawful lib \<Longrightarrow> deep (ScalingApproval_DeepCopyInto lib) (ScalingApproval_layout lib)"
  by (simp add: ScalingApproval_DeepCopyInto_def ScalingApproval_layout_def deep_rules lawful_def)

definition ScalingApproval_DeepCopy :: "apimachinery \<Rightarrow> copier" where
  "ScalingApproval_DeepCopy lib = new_copy (ScalingApproval_layout lib) (ScalingApproval_DeepCopyInto lib)"

definition ScalingApproval_DeepCopyObject :: "apimachinery \<Rightarrow> copier" where
  "ScalingApproval_DeepCopyObject lib = as_object (ScalingApproval_DeepCopy lib)"

definition ScalingApprovalList_DeepCopyInto :: "apimachinery \<Rightarrow> copier" where
  "ScalingApprovalList_DeepCopyInto lib = copy_into [
    (''TypeMeta'', shallow),
    (''ListMeta'', ListMeta_into lib),
    (''Items'', make_elements (ScalingApproval_layout lib) (ScalingApproval_DeepCopyInto lib))]"

lemma ScalingApprovalList_deep [deep_rules]: "lawful lib \<Longrightarrow> deep (ScalingApprovalList_DeepCopyInto lib) (ScalingApprovalList_layout lib)"
  by (simp add: ScalingApprovalList_DeepCopyInto_def ScalingApprovalList_layout_def deep_rules lawful_def)

definition ScalingApprovalList_DeepCopy :: "apimachinery \<Rightarrow> copier" where
  "ScalingApprovalList_DeepCopy lib = new_copy (ScalingApprovalList_layout lib) (ScalingApprovalList_DeepCopyInto lib)"

definition ScalingApprovalList_DeepCopyObject :: "apimachinery \<Rightarrow> copier" where
  "ScalingApprovalList_DeepCopyObject lib = as_object (ScalingApprovalList_DeepCopy lib)"

definition ScalingPolicyDefaults_DeepCopyInto :: "apimachinery \<Rightarrow> copier" where
  "ScalingPolicyDefaults_DeepCopyInto lib = copy_into [
    (''Safety'', new_copy (SafetyConfig_layout lib) (SafetyConfig_DeepCopyInto lib)),
    (''CostConstraints'', new_copy CostConstraints_layout shallow),
    (''SLOs'', make_copy SLO_layout),
    (''LLMRateLimit'', new_copy LLMRateLimit_layout shallow)]"

lemma ScalingPolicyDefaults_deep [deep_rules]: "lawful lib \<Longrightarrow> deep (ScalingPolicyDefaults_DeepCopyInto lib) (ScalingPolicyDefaults_layout lib)"
  by (simp add: ScalingPolicyDefaults_DeepCopyInto_def ScalingPolicyDefaults_layout_def deep_rules lawful_def)

definition ScalingPolicyDefaults_DeepCopy :: "apimachinery \<Rightarrow> copier" where
  "ScalingPolicyDefaults_DeepCopy lib = new_copy (ScalingPolicyDefaults_layout lib) (ScalingPolicyDefaults_DeepCopyInto lib)"

definition ScalingPolicySpec_DeepCopyInto :: "apimachinery \<Rightarrow> copier" where
  "ScalingPolicySpec_DeepCopyInto lib = copy_into [
    (''Defaults'', ScalingPolicyDefaults_DeepCopyInto lib),
    (''NamespaceSelector'', new_copy (LabelSelector_type lib) (LabelSelector_into lib))]"

lemma ScalingPolicySpec_deep [deep_rules]: "lawful lib \<Longrightarrow> deep (ScalingPolicySpec_DeepCopyInto lib) (ScalingPolicySpec_layout lib)"
  by (simp add: ScalingPolicySpec_DeepCopyInto_def ScalingPolicySpec_layout_def deep_rules lawful_def)

definition ScalingPolicySpec_DeepCopy :: "apimachinery \<Rightarrow> copier" where
  "ScalingPolicySpec_DeepCopy lib = new_copy (ScalingPolicySpec_layout lib) (ScalingPolicySpec_DeepCopyInto lib)"

definition ScalingPolicyStatus_DeepCopyInto :: copier where
  "ScalingPolicyStatus_DeepCopyInto = copy_into []"

lemma ScalingPolicyStatus_deep [deep_rules]: "deep ScalingPolicyStatus_DeepCopyInto ScalingPolicyStatus_layout"
  by (simp add: ScalingPolicyStatus_DeepCopyInto_def ScalingPolicyStatus_layout_def deep_rules lawful_def)

definition ScalingPolicyStatus_DeepCopy :: copier where
  "ScalingPolicyStatus_DeepCopy = new_copy ScalingPolicyStatus_layout ScalingPolicyStatus_DeepCopyInto"

definition ScalingPolicy_DeepCopyInto :: "apimachinery \<Rightarrow> copier" where
  "ScalingPolicy_DeepCopyInto lib = copy_into [
    (''TypeMeta'', shallow),
    (''ObjectMeta'', ObjectMeta_into lib),
    (''Spec'', ScalingPolicySpec_DeepCopyInto lib),
    (''Status'', shallow)]"

lemma ScalingPolicy_deep [deep_rules]: "lawful lib \<Longrightarrow> deep (ScalingPolicy_DeepCopyInto lib) (ScalingPolicy_layout lib)"
  by (simp add: ScalingPolicy_DeepCopyInto_def ScalingPolicy_layout_def deep_rules lawful_def)

definition ScalingPolicy_DeepCopy :: "apimachinery \<Rightarrow> copier" where
  "ScalingPolicy_DeepCopy lib = new_copy (ScalingPolicy_layout lib) (ScalingPolicy_DeepCopyInto lib)"

definition ScalingPolicy_DeepCopyObject :: "apimachinery \<Rightarrow> copier" where
  "ScalingPolicy_DeepCopyObject lib = as_object (ScalingPolicy_DeepCopy lib)"

definition ScalingPolicyList_DeepCopyInto :: "apimachinery \<Rightarrow> copier" where
  "ScalingPolicyList_DeepCopyInto lib = copy_into [
    (''TypeMeta'', shallow),
    (''ListMeta'', ListMeta_into lib),
    (''Items'', make_elements (ScalingPolicy_layout lib) (ScalingPolicy_DeepCopyInto lib))]"

lemma ScalingPolicyList_deep [deep_rules]: "lawful lib \<Longrightarrow> deep (ScalingPolicyList_DeepCopyInto lib) (ScalingPolicyList_layout lib)"
  by (simp add: ScalingPolicyList_DeepCopyInto_def ScalingPolicyList_layout_def deep_rules lawful_def)

definition ScalingPolicyList_DeepCopy :: "apimachinery \<Rightarrow> copier" where
  "ScalingPolicyList_DeepCopy lib = new_copy (ScalingPolicyList_layout lib) (ScalingPolicyList_DeepCopyInto lib)"

definition ScalingPolicyList_DeepCopyObject :: "apimachinery \<Rightarrow> copier" where
  "ScalingPolicyList_DeepCopyObject lib = as_object (ScalingPolicyList_DeepCopy lib)"

definition ScheduleSpec_DeepCopyInto :: "apimachinery \<Rightarrow> copier" where
  "ScheduleSpec_DeepCopyInto lib = copy_into [
    (''StartTime'', Time_copy lib),
    (''EndTime'', Time_copy lib)]"

lemma ScheduleSpec_deep [deep_rules]: "lawful lib \<Longrightarrow> deep (ScheduleSpec_DeepCopyInto lib) (ScheduleSpec_layout lib)"
  by (simp add: ScheduleSpec_DeepCopyInto_def ScheduleSpec_layout_def deep_rules lawful_def)

definition ScheduleSpec_DeepCopy :: "apimachinery \<Rightarrow> copier" where
  "ScheduleSpec_DeepCopy lib = new_copy (ScheduleSpec_layout lib) (ScheduleSpec_DeepCopyInto lib)"

definition SchedulePolicy_DeepCopyInto :: copier where
  "SchedulePolicy_DeepCopyInto = copy_into [
    (''MinReplicas'', new_copy (TScalar KInt32) shallow),
    (''MaxReplicas'', new_copy (TScalar KInt32) shallow),
    (''TargetReplicas'', new_copy (TScalar KInt32) shallow)]"

lemma SchedulePolicy_deep [deep_rules]: "deep SchedulePolicy_DeepCopyInto SchedulePolicy_layout"
  by (simp add: SchedulePolicy_DeepCopyInto_def SchedulePolicy_layout_def deep_rules lawful_def)

definition SchedulePolicy_DeepCopy :: copier where
  "SchedulePolicy_DeepCopy = new_copy SchedulePolicy_layout SchedulePolicy_DeepCopyInto"

definition ScheduledScalingSpec_DeepCopyInto :: "apimachinery \<Rightarrow> copier" where
  "ScheduledScalingSpec_DeepCopyInto lib = copy_into [
    (''TargetRef'', shallow),
    (''Schedule'', ScheduleSpec_DeepCopyInto lib),
    (''Policy'', SchedulePolicy_DeepCopyInto),
    (''TTLAfterCompletion'', new_copy (Duration_type lib) shallow)]"

lemma ScheduledScalingSpec_deep [deep_rules]: "lawful lib \<Longrightarrow> deep (ScheduledScalingSpec_DeepCopyInto lib) (ScheduledScalingSpec_layout lib)"
  by (simp add: ScheduledScalingSpec_DeepCopyInto_def ScheduledScalingSpec_layout_def deep_rules lawful_def)

definition ScheduledScalingSpec_DeepCopy :: "apimachinery \<Rightarrow> copier" where
  "ScheduledScalingSpec_DeepCopy lib = new_copy (ScheduledScalingSpec_layout lib) (ScheduledScalingSpec_DeepCopyInto lib)"

definition ScheduledScalingStatus_DeepCopyInto :: "apimachinery \<Rightarrow> copier" where
  "ScheduledScalingStatus_DeepCopyInto lib = copy_into [
    (''NextActivation'', Time_copy lib),
    (''LastActivation'', Time_copy lib)]"

lemma ScheduledScalingStatus_deep [deep_rules]: "lawful lib \<Longrightarrow> deep (ScheduledScalingStatus_DeepCopyInto lib) (ScheduledScalingStatus_layout lib)"
  by (simp add: ScheduledScalingStatus_DeepCopyInto_def ScheduledScalingStatus_layout_def deep_rules lawful_def)

definition ScheduledScalingStatus_DeepCopy :: "apimachinery \<Rightarrow> copier" where
  "ScheduledScalingStatus_DeepCopy lib = new_copy (ScheduledScalingStatus_layout lib) (ScheduledScalingStatus_DeepCopyInto lib)"

definition ScheduledScaling_DeepCopyInto :: "apimachinery \<Rightarrow> copier" where
  "ScheduledScaling_DeepCopyInto lib = copy_into [
    (''TypeMeta'', shallow),
    (''ObjectMeta'', ObjectMeta_into lib),
    (''Spec'', ScheduledScalingSpec_DeepCopyInto lib),
    (''Status'', ScheduledScalingStatus_DeepCopyInto lib)]"

lemma ScheduledScaling_deep [deep_rules]: "lawful lib \<Longrightarrow> deep (ScheduledScaling_DeepCopyInto lib) (ScheduledScaling_layout lib)"
  by (simp add: ScheduledScaling_DeepCopyInto_def ScheduledScaling_layout_def deep_rules lawful_def)

definition ScheduledScaling_DeepCopy :: "apimachinery \<Rightarrow> copier" where
  "ScheduledScaling_DeepCopy lib = new_copy (ScheduledScaling_layout lib) (ScheduledScaling_DeepCopyInto lib)"

definition ScheduledScaling_DeepCopyObject :: "apimachinery \<Rightarrow> copier" where
  "ScheduledScaling_DeepCopyObject lib = as_object (ScheduledScaling_DeepCopy lib)"

definition ScheduledScalingList_DeepCopyInto :: "apimachinery \<Rightarrow> copier" where
  "ScheduledScalingList_DeepCopyInto lib = copy_into [
    (''TypeMeta'', shallow),
    (''ListMeta'', ListMeta_into lib),
    (''Items'', make_elements (ScheduledScaling_layout lib) (ScheduledScaling_DeepCopyInto lib))]"

lemma ScheduledScalingList_deep [deep_rules]: "lawful lib \<Longrightarrow> deep (ScheduledScalingList_DeepCopyInto lib) (ScheduledScalingList_layout lib)"
  by (simp add: ScheduledScalingList_DeepCopyInto_def ScheduledScalingList_layout_def deep_rules lawful_def)

definition ScheduledScalingList_DeepCopy :: "apimachinery \<Rightarrow> copier" where
  "ScheduledScalingList_DeepCopy lib = new_copy (ScheduledScalingList_layout lib) (ScheduledScalingList_DeepCopyInto lib)"

definition ScheduledScalingList_DeepCopyObject :: "apimachinery \<Rightarrow> copier" where
  "ScheduledScalingList_DeepCopyObject lib = as_object (ScheduledScalingList_DeepCopy lib)"

end
