(* ===== verification/Deep_Copy.thy ===== *)
theory Deep_Copy
  imports Deep_Copy_Methods
begin

text \<open>
  What the rest of the operator relies on when an object is copied: informers and clients hand out
  deep copies of what they hold, and a reconcile changes its own copy.  The ten kinds with
  \<open>DeepCopyObject\<close> are the instances of \<open>copied_type\<close>; the tables list every generated method with the
  type it copies, and \<open>deep_copies_are_separate\<close> is their common contract.  With it, the values the
  other theories pass around stand for objects nobody else can change.
\<close>

section \<open>The kinds that are runtime objects\<close>

interpretation AIScaler_type: copied_type lawful AIScaler_DeepCopyInto AIScaler_layout
  by unfold_locales (rule AIScaler_deep)

interpretation AIScalerList_type: copied_type lawful AIScalerList_DeepCopyInto AIScalerList_layout
  by unfold_locales (rule AIScalerList_deep)

interpretation ResourceRecommendation_type: copied_type lawful ResourceRecommendation_DeepCopyInto ResourceRecommendation_layout
  by unfold_locales (rule ResourceRecommendation_deep)

interpretation ResourceRecommendationList_type: copied_type lawful ResourceRecommendationList_DeepCopyInto ResourceRecommendationList_layout
  by unfold_locales (rule ResourceRecommendationList_deep)

interpretation ScalingApproval_type: copied_type lawful ScalingApproval_DeepCopyInto ScalingApproval_layout
  by unfold_locales (rule ScalingApproval_deep)

interpretation ScalingApprovalList_type: copied_type lawful ScalingApprovalList_DeepCopyInto ScalingApprovalList_layout
  by unfold_locales (rule ScalingApprovalList_deep)

interpretation ScalingPolicy_type: copied_type lawful ScalingPolicy_DeepCopyInto ScalingPolicy_layout
  by unfold_locales (rule ScalingPolicy_deep)

interpretation ScalingPolicyList_type: copied_type lawful ScalingPolicyList_DeepCopyInto ScalingPolicyList_layout
  by unfold_locales (rule ScalingPolicyList_deep)

interpretation ScheduledScaling_type: copied_type lawful ScheduledScaling_DeepCopyInto ScheduledScaling_layout
  by unfold_locales (rule ScheduledScaling_deep)

interpretation ScheduledScalingList_type: copied_type lawful ScheduledScalingList_DeepCopyInto ScheduledScalingList_layout
  by unfold_locales (rule ScheduledScalingList_deep)

definition object_methods :: "apimachinery \<Rightarrow> (string \<times> copier \<times> layout) list" where
  "object_methods lib = [
    (''AIScaler'', AIScaler_DeepCopyObject lib, AIScaler_layout lib),
    (''AIScalerList'', AIScalerList_DeepCopyObject lib, AIScalerList_layout lib),
    (''ResourceRecommendation'', ResourceRecommendation_DeepCopyObject lib, ResourceRecommendation_layout lib),
    (''ResourceRecommendationList'', ResourceRecommendationList_DeepCopyObject lib, ResourceRecommendationList_layout lib),
    (''ScalingApproval'', ScalingApproval_DeepCopyObject lib, ScalingApproval_layout lib),
    (''ScalingApprovalList'', ScalingApprovalList_DeepCopyObject lib, ScalingApprovalList_layout lib),
    (''ScalingPolicy'', ScalingPolicy_DeepCopyObject lib, ScalingPolicy_layout lib),
    (''ScalingPolicyList'', ScalingPolicyList_DeepCopyObject lib, ScalingPolicyList_layout lib),
    (''ScheduledScaling'', ScheduledScaling_DeepCopyObject lib, ScheduledScaling_layout lib),
    (''ScheduledScalingList'', ScheduledScalingList_DeepCopyObject lib, ScheduledScalingList_layout lib)]"

lemmas object_copy_defs =
  AIScaler_DeepCopyObject_def AIScaler_DeepCopy_def
  AIScalerList_DeepCopyObject_def AIScalerList_DeepCopy_def
  ResourceRecommendation_DeepCopyObject_def ResourceRecommendation_DeepCopy_def
  ResourceRecommendationList_DeepCopyObject_def ResourceRecommendationList_DeepCopy_def
  ScalingApproval_DeepCopyObject_def ScalingApproval_DeepCopy_def
  ScalingApprovalList_DeepCopyObject_def ScalingApprovalList_DeepCopy_def
  ScalingPolicy_DeepCopyObject_def ScalingPolicy_DeepCopy_def
  ScalingPolicyList_DeepCopyObject_def ScalingPolicyList_DeepCopy_def
  ScheduledScaling_DeepCopyObject_def ScheduledScaling_DeepCopy_def
  ScheduledScalingList_DeepCopyObject_def ScheduledScalingList_DeepCopy_def

lemmas object_copies_deep =
  AIScaler_type.object_deep AIScalerList_type.object_deep ResourceRecommendation_type.object_deep
  ResourceRecommendationList_type.object_deep ScalingApproval_type.object_deep
  ScalingApprovalList_type.object_deep ScalingPolicy_type.object_deep
  ScalingPolicyList_type.object_deep ScheduledScaling_type.object_deep
  ScheduledScalingList_type.object_deep

lemma object_methods_deep:
  assumes "lawful lib"
  shows "list_all (\<lambda>(m, C, T). deep C (TPointer T)) (object_methods lib)"
  using assms by (simp add: object_methods_def object_copy_defs object_copies_deep)

section \<open>Every generated method\<close>

definition copy_methods :: "apimachinery \<Rightarrow> (string \<times> copier \<times> layout) list" where
  "copy_methods lib = [
    (''TargetRef'', TargetRef_DeepCopy, TargetRef_layout),
    (''ScalingConstraints'', ScalingConstraints_DeepCopy, ScalingConstraints_layout),
    (''SecretRef'', SecretRef_DeepCopy, SecretRef_layout),
    (''SignalSourceConfig'', SignalSourceConfig_DeepCopy, SignalSourceConfig_layout),
    (''LLMConfig'', LLMConfig_DeepCopy lib, LLMConfig_layout lib),
    (''AlertRule'', AlertRule_DeepCopy lib, AlertRule_layout lib),
    (''AlertingConfig'', AlertingConfig_DeepCopy lib, AlertingConfig_layout lib),
    (''SLO'', SLO_DeepCopy, SLO_layout),
    (''CostConfig'', CostConfig_DeepCopy, CostConfig_layout),
    (''CostConstraints'', CostConstraints_DeepCopy, CostConstraints_layout),
    (''VerticalConstraints'', VerticalConstraints_DeepCopy lib, VerticalConstraints_layout lib),
    (''ContainerVerticalConfig'', ContainerVerticalConfig_DeepCopy, ContainerVerticalConfig_layout),
    (''VerticalScalingConfig'', VerticalScalingConfig_DeepCopy lib, VerticalScalingConfig_layout lib),
    (''ApplicationProfile'', ApplicationProfile_DeepCopy lib, ApplicationProfile_layout lib),
    (''ResourceSet'', ResourceSet_DeepCopy lib, ResourceSet_layout lib),
    (''ResourceProfile'', ResourceProfile_DeepCopy lib, ResourceProfile_layout lib),
    (''ResourceStatus'', ResourceStatus_DeepCopy lib, ResourceStatus_layout lib),
    (''VerticalDecision'', VerticalDecision_DeepCopy lib, VerticalDecision_layout lib),
    (''PredictiveEvent'', PredictiveEvent_DeepCopy lib, PredictiveEvent_layout lib),
    (''PredictiveScalingConfig'', PredictiveScalingConfig_DeepCopy lib, PredictiveScalingConfig_layout lib),
    (''PredictionStatus'', PredictionStatus_DeepCopy, PredictionStatus_layout),
    (''DirectionPolicy'', DirectionPolicy_DeepCopy lib, DirectionPolicy_layout lib),
    (''CircuitBreakerConfig'', CircuitBreakerConfig_DeepCopy lib, CircuitBreakerConfig_layout lib),
    (''AutoRollbackConfig'', AutoRollbackConfig_DeepCopy, AutoRollbackConfig_layout),
    (''SafetyConfig'', SafetyConfig_DeepCopy lib, SafetyConfig_layout lib),
    (''LLMRateLimit'', LLMRateLimit_DeepCopy, LLMRateLimit_layout),
    (''LLMTelemetry'', LLMTelemetry_DeepCopy, LLMTelemetry_layout),
    (''CoscaleRef'', CoscaleRef_DeepCopy, CoscaleRef_layout),
    (''DependencyConfig'', DependencyConfig_DeepCopy, DependencyConfig_layout),
    (''SLOViolationBudget'', SLOViolationBudget_DeepCopy lib, SLOViolationBudget_layout lib),
    (''ApprovalTrigger'', ApprovalTrigger_DeepCopy, ApprovalTrigger_layout),
    (''NotificationChannel'', NotificationChannel_DeepCopy, NotificationChannel_layout),
    (''ApprovalConfig'', ApprovalConfig_DeepCopy lib, ApprovalConfig_layout lib),
    (''PrecedenceConfig'', PrecedenceConfig_DeepCopy, PrecedenceConfig_layout),
    (''PrecedenceConflict'', PrecedenceConflict_DeepCopy, PrecedenceConflict_layout),
    (''ActiveOverride'', ActiveOverride_DeepCopy, ActiveOverride_layout),
    (''PrecedenceStatus'', PrecedenceStatus_DeepCopy, PrecedenceStatus_layout),
    (''FeedbackConfig'', FeedbackConfig_DeepCopy lib, FeedbackConfig_layout lib),
    (''FeedbackStatus'', FeedbackStatus_DeepCopy, FeedbackStatus_layout),
    (''StatefulSetPolicy'', StatefulSetPolicy_DeepCopy lib, StatefulSetPolicy_layout lib),
    (''KEDAIntegration'', KEDAIntegration_DeepCopy, KEDAIntegration_layout),
    (''CostStatus'', CostStatus_DeepCopy, CostStatus_layout),
    (''PrometheusConfig'', PrometheusConfig_DeepCopy, PrometheusConfig_layout),
    (''AIScalerSpec'', AIScalerSpec_DeepCopy lib, AIScalerSpec_layout lib),
    (''AIScalerStatus'', AIScalerStatus_DeepCopy lib, AIScalerStatus_layout lib),
    (''AIScaler'', AIScaler_DeepCopy lib, AIScaler_layout lib),
    (''AIScalerList'', AIScalerList_DeepCopy lib, AIScalerList_layout lib),
    (''AnalysisConfig'', AnalysisConfig_DeepCopy lib, AnalysisConfig_layout lib),
    (''ResourceRecommendationSpec'', ResourceRecommendationSpec_DeepCopy lib, ResourceRecommendationSpec_layout lib),
    (''UsagePercentiles'', UsagePercentiles_DeepCopy, UsagePercentiles_layout),
    (''RecommendedResources'', RecommendedResources_DeepCopy lib, RecommendedResources_layout lib),
    (''ResourceRecommendationStatus'', ResourceRecommendationStatus_DeepCopy lib, ResourceRecommendationStatus_layout lib),
    (''ResourceRecommendation'', ResourceRecommendation_DeepCopy lib, ResourceRecommendation_layout lib),
    (''ResourceRecommendationList'', ResourceRecommendationList_DeepCopy lib, ResourceRecommendationList_layout lib),
    (''ProposedAction'', ProposedAction_DeepCopy, ProposedAction_layout),
    (''ScalingApprovalSpec'', ScalingApprovalSpec_DeepCopy lib, ScalingApprovalSpec_layout lib),
    (''ScalingApprovalStatus'', ScalingApprovalStatus_DeepCopy lib, ScalingApprovalStatus_layout lib),
    (''ScalingApproval'', ScalingApproval_DeepCopy lib, ScalingApproval_layout lib),
    (''ScalingApprovalList'', ScalingApprovalList_DeepCopy lib, ScalingApprovalList_layout lib),
    (''ScalingPolicyDefaults'', ScalingPolicyDefaults_DeepCopy lib, ScalingPolicyDefaults_layout lib),
    (''ScalingPolicySpec'', ScalingPolicySpec_DeepCopy lib, ScalingPolicySpec_layout lib),
    (''ScalingPolicyStatus'', ScalingPolicyStatus_DeepCopy, ScalingPolicyStatus_layout),
    (''ScalingPolicy'', ScalingPolicy_DeepCopy lib, ScalingPolicy_layout lib),
    (''ScalingPolicyList'', ScalingPolicyList_DeepCopy lib, ScalingPolicyList_layout lib),
    (''ScheduleSpec'', ScheduleSpec_DeepCopy lib, ScheduleSpec_layout lib),
    (''SchedulePolicy'', SchedulePolicy_DeepCopy, SchedulePolicy_layout),
    (''ScheduledScalingSpec'', ScheduledScalingSpec_DeepCopy lib, ScheduledScalingSpec_layout lib),
    (''ScheduledScalingStatus'', ScheduledScalingStatus_DeepCopy lib, ScheduledScalingStatus_layout lib),
    (''ScheduledScaling'', ScheduledScaling_DeepCopy lib, ScheduledScaling_layout lib),
    (''ScheduledScalingList'', ScheduledScalingList_DeepCopy lib, ScheduledScalingList_layout lib)]"

lemmas copy_defs =
  TargetRef_DeepCopy_def ScalingConstraints_DeepCopy_def SecretRef_DeepCopy_def
  SignalSourceConfig_DeepCopy_def LLMConfig_DeepCopy_def AlertRule_DeepCopy_def
  AlertingConfig_DeepCopy_def SLO_DeepCopy_def CostConfig_DeepCopy_def CostConstraints_DeepCopy_def
  VerticalConstraints_DeepCopy_def ContainerVerticalConfig_DeepCopy_def
  VerticalScalingConfig_DeepCopy_def ApplicationProfile_DeepCopy_def ResourceSet_DeepCopy_def
  ResourceProfile_DeepCopy_def ResourceStatus_DeepCopy_def VerticalDecision_DeepCopy_def
  PredictiveEvent_DeepCopy_def PredictiveScalingConfig_DeepCopy_def PredictionStatus_DeepCopy_def
  DirectionPolicy_DeepCopy_def CircuitBreakerConfig_DeepCopy_def AutoRollbackConfig_DeepCopy_def
  SafetyConfig_DeepCopy_def LLMRateLimit_DeepCopy_def LLMTelemetry_DeepCopy_def
  CoscaleRef_DeepCopy_def DependencyConfig_DeepCopy_def SLOViolationBudget_DeepCopy_def
  ApprovalTrigger_DeepCopy_def NotificationChannel_DeepCopy_def ApprovalConfig_DeepCopy_def
  PrecedenceConfig_DeepCopy_def PrecedenceConflict_DeepCopy_def ActiveOverride_DeepCopy_def
  PrecedenceStatus_DeepCopy_def FeedbackConfig_DeepCopy_def FeedbackStatus_DeepCopy_def
  StatefulSetPolicy_DeepCopy_def KEDAIntegration_DeepCopy_def CostStatus_DeepCopy_def
  PrometheusConfig_DeepCopy_def AIScalerSpec_DeepCopy_def AIScalerStatus_DeepCopy_def
  AIScaler_DeepCopy_def AIScalerList_DeepCopy_def AnalysisConfig_DeepCopy_def
  ResourceRecommendationSpec_DeepCopy_def UsagePercentiles_DeepCopy_def
  RecommendedResources_DeepCopy_def ResourceRecommendationStatus_DeepCopy_def
  ResourceRecommendation_DeepCopy_def ResourceRecommendationList_DeepCopy_def
  ProposedAction_DeepCopy_def ScalingApprovalSpec_DeepCopy_def ScalingApprovalStatus_DeepCopy_def
  ScalingApproval_DeepCopy_def ScalingApprovalList_DeepCopy_def ScalingPolicyDefaults_DeepCopy_def
  ScalingPolicySpec_DeepCopy_def ScalingPolicyStatus_DeepCopy_def ScalingPolicy_DeepCopy_def
  ScalingPolicyList_DeepCopy_def ScheduleSpec_DeepCopy_def SchedulePolicy_DeepCopy_def
  ScheduledScalingSpec_DeepCopy_def ScheduledScalingStatus_DeepCopy_def
  ScheduledScaling_DeepCopy_def ScheduledScalingList_DeepCopy_def

lemma copy_methods_deep:
  assumes "lawful lib"
  shows "list_all (\<lambda>(m, C, T). deep C (TPointer T)) (copy_methods lib)"
  using assms by (simp add: copy_methods_def copy_defs deep_rules)

lemma deep_nil:
  "denotes h (TPointer T) p t as \<Longrightarrow> denotes h' (TPointer T) q t bs
    \<Longrightarrow> q = Pointer None \<longleftrightarrow> p = Pointer None"
  by (auto elim!: denotes_pointerE)

text \<open>
  C21. Every \<open>DeepCopy\<close> and \<open>DeepCopyObject\<close> method of the custom resources returns a separate copy.
  Given a pointer to a well-formed struct (or \<open>nil\<close>) that denotes a tree of values, the method
  returns a pointer that denotes the same tree, \<open>nil\<close> exactly for \<open>nil\<close>; it changes no existing cell;
  original and copy share no cell, and inside the copy no cell is shared either.  So no later write
  to the copy can be seen through the original, and none to the original through the copy.
\<close>

theorem deep_copies_are_separate:
  assumes "lawful lib"
    and "(m, C, T) \<in> set (copy_methods lib @ object_methods lib)"
    and "denotes h (TPointer T) p t as"
  shows "\<exists>q h' bs. C p h = (q, h') \<and> denotes h' (TPointer T) q t bs
    \<and> (q = Pointer None \<longleftrightarrow> p = Pointer None)
    \<and> extends h h' \<and> distinct bs \<and> set as \<inter> set bs = {}
    \<and> (\<forall>h''. agrees_outside (set bs) h' h'' \<longrightarrow> denotes h'' (TPointer T) p t as)
    \<and> (\<forall>h''. agrees_outside (set as) h' h'' \<longrightarrow> denotes h'' (TPointer T) q t bs)"
proof -
  have "deep C (TPointer T)"
    using copy_methods_deep [OF assms(1)] object_methods_deep [OF assms(1)] assms(2)
    by (auto simp: list_all_iff)
  from deep_separate [OF this assms(3)] show ?thesis
    using deep_nil [OF assms(3)] by metis
qed

section \<open>A concrete library and a concrete object\<close>

definition plain_meta :: layout where
  "plain_meta = TStruct [(''Name'', TScalar KString), (''Labels'', TDict)]"

definition plain_meta_into :: copier where
  "plain_meta_into = copy_into [(''Labels'', make_dict)]"

definition plain_lib :: apimachinery where
  "plain_lib = \<lparr>
    TypeMeta_type = TStruct [(''Kind'', TScalar KString), (''APIVersion'', TScalar KString)],
    Duration_type = TScalar KString, ObjectMeta_type = plain_meta, ListMeta_type = plain_meta,
    Time_type = TScalar KString, LabelSelector_type = plain_meta, Condition_type = plain_meta,
    Quantity_type = TScalar KString, ObjectMeta_into = plain_meta_into, ListMeta_into = plain_meta_into,
    Time_into = shallow, Time_copy = new_copy (TScalar KString) shallow,
    LabelSelector_into = plain_meta_into, Condition_into = plain_meta_into, Quantity_copy = shallow\<rparr>"

lemma plain_lib_lawful: "lawful plain_lib"
  by (simp add: lawful_def plain_lib_def plain_meta_def plain_meta_into_def deep_rules)

text \<open>A signal source with one configuration entry and a reference to a secret.\<close>

definition sample_source :: val where
  "sample_source = Struct [(''Name'', Scalar (Str ''datadog'')), (''Required'', Scalar (Bool True)),
    (''Config'', Dict (Some 0)), (''SecretRef'', Pointer (Some 1))]"

definition sample_heap :: heap where
  "sample_heap = \<lparr>limit = 3, cells = (\<lambda>_. Table [])
    (0 := Table [(''query'', ''rps'')],
     1 := Var (Struct [(''Name'', Scalar (Str ''keys'')), (''Namespace'', Scalar (Str ''ops'')),
        (''Key'', Scalar (Str ''token''))]),
     2 := Var sample_source)\<rparr>"

definition sample_tree :: tree where
  "sample_tree = Ref (Node [Leaf (Str ''datadog''), Leaf (Bool True), Entries [(''query'', ''rps'')],
    Ref (Node [Leaf (Str ''keys''), Leaf (Str ''ops''), Leaf (Str ''token'')])])"

lemma sample_denotes:
  "denotes sample_heap (TPointer SignalSourceConfig_layout) (Pointer (Some 2)) sample_tree [2, 0, 1]"
  by (simp add: sample_heap_def sample_source_def sample_tree_def SignalSourceConfig_layout_def
      SecretRef_layout_def denotes_simps)

lemma deep_copies_are_separate_witness:
  "\<exists>q h' bs. SignalSourceConfig_DeepCopy (Pointer (Some 2)) sample_heap = (q, h')
    \<and> denotes h' (TPointer SignalSourceConfig_layout) q sample_tree bs \<and> q \<noteq> Pointer None
    \<and> distinct bs \<and> {0, 1, 2} \<inter> set bs = {}"
proof -
  have "(''SignalSourceConfig'', SignalSourceConfig_DeepCopy, SignalSourceConfig_layout)
      \<in> set (copy_methods plain_lib @ object_methods plain_lib)"
    by (simp add: copy_methods_def)
  from deep_copies_are_separate [OF plain_lib_lawful this sample_denotes] show ?thesis
    by (auto simp: insert_commute)
qed

end
