(* ===== verification/Api.thy ===== *)
theory Api
  imports Float64
begin

text \<open>
  The custom resource of \<open>api/v1/aiscaler_types.go\<close>, struct by struct, and its validation
  \<open>ValidateSpec\<close>.  A pointer is an option, a Go enum of strings a string, a
  \<open>metav1.Duration\<close> a \<open>duration\<close> and a \<open>metav1.Time\<close> a \<open>time\<close>.  The type variable \<open>'q\<close> stands for
  \<open>resource.Quantity\<close> of apimachinery, which is not in the repository.  Field names carry a
  prefix of their struct.
\<close>

section \<open>Enumerations\<close>

type_synonym LLMProvider = string

definition ProviderAnthropic :: LLMProvider where "ProviderAnthropic = ''anthropic''"
definition ProviderGemini :: LLMProvider where "ProviderGemini = ''gemini''"
definition ProviderOllama :: LLMProvider where "ProviderOllama = ''ollama''"
definition ProviderDeepseek :: LLMProvider where "ProviderDeepseek = ''deepseek''"

type_synonym ScalingPhase = string

definition PhaseInitializing :: ScalingPhase where "PhaseInitializing = ''Initializing''"
definition PhaseObserving :: ScalingPhase where "PhaseObserving = ''Observing''"
definition PhaseScaling :: ScalingPhase where "PhaseScaling = ''Scaling''"
definition PhaseCoolingDown :: ScalingPhase where "PhaseCoolingDown = ''CoolingDown''"
definition PhaseFailed :: ScalingPhase where "PhaseFailed = ''Failed''"

definition ConditionReady :: string where "ConditionReady = ''Ready''"
definition ConditionSignalsReady :: string where "ConditionSignalsReady = ''SignalsReady''"
definition ConditionLLMReady :: string where "ConditionLLMReady = ''LLMReady''"
definition ConditionScaling :: string where "ConditionScaling = ''Scaling''"

lemmas phase_defs = PhaseInitializing_def PhaseObserving_def PhaseScaling_def
  PhaseCoolingDown_def PhaseFailed_def

section \<open>Target and constraints\<close>

record TargetRef =
  tr_Name :: string
  tr_Namespace :: string
  tr_APIVersion :: string
  tr_Kind :: string

record ScalingConstraints =
  sc_MinReplicas :: int32
  sc_MaxReplicas :: int32
  sc_MaxScaleStep :: int32
  sc_MinConfidence :: float64

record SecretRef =
  sr_Name :: string
  sr_Namespace :: string
  sr_Key :: string

record SignalSourceConfig =
  ss_Name :: string
  ss_Required :: bool
  ss_Config :: "(string, string) fmap"
  ss_SecretRef :: "SecretRef option"

record LLMConfig =
  lc_Primary :: LLMProvider
  lc_Fallback :: "LLMProvider option"
  lc_Model :: string
  lc_APIKeySecret :: "SecretRef option"
  lc_OllamaBaseURL :: string
  lc_CacheTTL :: duration
  lc_CircuitBreakerThreshold :: int32
  lc_CircuitBreakerTimeout :: duration

section \<open>Alerting, objectives, cost\<close>

record AlertRule =
  ar_Name :: string
  ar_Condition :: string
  ar_Severity :: string
  ar_For :: duration

record AlertingConfig =
  ac_Enabled :: bool
  ac_Rules :: "AlertRule list"
  ac_WebhookURL :: string
  ac_WebhookSecret :: "SecretRef option"

record SLO =
  slo_Name :: string
  slo_Metric :: string
  slo_Target :: float64
  slo_Priority :: int32

record CostConfig =
  cc_MonthlyBudget :: float64
  cc_OpenCostURL :: string
  cc_OptimizeForCost :: bool

record CostConstraints =
  cx_MaxHourlyCost :: float64
  cx_MaxMonthlyCost :: float64
  cx_Currency :: string
  cx_Enforcement :: string

section \<open>Vertical scaling\<close>

record 'q VerticalConstraints =
  vc_MinCPURequest :: 'q
  vc_MaxCPURequest :: 'q
  vc_MinMemoryRequest :: 'q
  vc_MaxMemoryRequest :: 'q
  vc_MaxCPUStepPercent :: int32
  vc_MaxMemoryStepPercent :: int32

record ContainerVerticalConfig =
  cv_Name :: string
  cv_Enabled :: bool

record 'q VerticalScalingConfig =
  vs_Enabled :: bool
  vs_ResizePolicy :: string
  vs_Constraints :: "'q VerticalConstraints"
  vs_Containers :: "ContainerVerticalConfig list"

record ApplicationProfile =
  ap_ColdStartDuration :: duration
  ap_WarmUpDuration :: duration
  ap_GracefulShutdownDuration :: duration

record 'q ResourceSet =
  rs_CPURequest :: 'q
  rs_MemoryRequest :: 'q

record 'q ResourceProfile =
  rp_Name :: string
  rp_Schedule :: string
  rp_Resources :: "'q ResourceSet"

record 'q ResourceStatus =
  rst_CPURequest :: 'q
  rst_MemoryRequest :: 'q
  rst_CPULimit :: 'q
  rst_MemoryLimit :: 'q
  rst_LastResizeTime :: "time option"
  rst_LastResizeStrategy :: string

record 'q VerticalDecision =
  vd_CPURequest :: 'q
  vd_MemoryRequest :: 'q
  vd_CPULimit :: 'q
  vd_MemoryLimit :: 'q
  vd_ResizeStrategy :: string

section \<open>Prediction, safety, rate limits\<close>

record PredictiveEvent =
  pe_Name :: string
  pe_Start :: time
  pe_End :: time
  pe_ExpectedLoadMultiplier :: float64
  pe_PreScaleMinutes :: int32

record PredictiveScalingConfig =
  ps_Enabled :: bool
  ps_LookaheadWindow :: duration
  ps_HistoryDays :: int32
  ps_ConfidenceThreshold :: float64
  ps_Events :: "PredictiveEvent list"

record PredictionStatus =
  pst_PredictedCPU30m :: float64
  pst_PredictedReplicas30m :: float64
  pst_Confidence :: float64

record DirectionPolicy =
  dp_MaxStep :: int32
  dp_Cooldown :: duration
  dp_RequireConfidence :: float64
  dp_RequireSLOHeadroom :: bool

record CircuitBreakerConfig =
  cbc_Enabled :: bool
  cbc_TripAfter :: int32
  cbc_ResetAfter :: duration
  cbc_TripConditions :: "string list"

record AutoRollbackConfig =
  arc_Enabled :: bool
  arc_Conditions :: "string list"

record SafetyConfig =
  sf_ScaleUp :: "DirectionPolicy option"
  sf_ScaleDown :: "DirectionPolicy option"
  sf_CircuitBreaker :: "CircuitBreakerConfig option"
  sf_AutoRollback :: "AutoRollbackConfig option"
  sf_MaxReplicaChangePerMinute :: int32
  sf_MaxWorkloadsChangedPerMinute :: int32

record LLMRateLimit =
  rl_MaxCallsPerMinute :: int32
  rl_MaxCallsPerHour :: int32
  rl_MaxConcurrentCalls :: int32

record LLMTelemetry =
  lt_TotalCallsToday :: int32
  lt_AverageLatencyMs :: float64
  lt_ErrorRate :: float64
  lt_FallbackRate :: float64

section \<open>Dependencies, approval, precedence, feedback\<close>

record CoscaleRef =
  co_TargetRef :: TargetRef
  co_Ratio :: float64

record DependencyConfig =
  dc_UpstreamOf :: "TargetRef list"
  dc_DownstreamOf :: "TargetRef list"
  dc_CoscalesWith :: "CoscaleRef list"

record SLOViolationBudget =
  vb_Window :: duration
  vb_MaxViolationPercent :: float64

record ApprovalTrigger =
  at_Type :: string
  at_Threshold :: float64

record NotificationChannel =
  nc_Type :: string
  nc_Endpoint :: string
  nc_SecretRef :: "SecretRef option"

record ApprovalConfig =
  apc_Enabled :: bool
  apc_RequireApprovalWhen :: "ApprovalTrigger list"
  apc_Channels :: "NotificationChannel list"
  apc_ApprovalTimeout :: duration
  apc_AutoApproveAfterTimeout :: bool

record PrecedenceConfig =
  pc_CostEnforcement :: string
  pc_ScheduleOverridesLLM :: bool
  pc_ReactiveRulesOverrideLLM :: bool
  pc_SLOAlwaysWins :: bool
  pc_LogConflicts :: bool

record PrecedenceConflict =
  pcf_Layer :: string
  pcf_Message :: string

record ActiveOverride =
  ao_Layer :: string
  ao_ExpiresAt :: string

record PrecedenceStatus =
  pcs_ResolvedReplicas :: int32
  pcs_Conflicts :: "PrecedenceConflict list"
  pcs_ActiveOverrides :: "ActiveOverride list"

record FeedbackConfig =
  fc_Enabled :: bool
  fc_EvaluationDelay :: duration
  fc_HistoryDepth :: int32
  fc_IncludeInPrompt :: int32

record FeedbackStatus =
  fs_TotalDecisions :: int32
  fs_EffectiveRate :: float64

record StatefulSetPolicy =
  sp_ScaleDownPolicy :: string
  sp_DrainTimeout :: duration
  sp_PVCRetention :: string

record KEDAIntegration =
  ki_Enabled :: bool
  ki_ScaledObjectRef :: TargetRef
  ki_Mode :: string

record CostStatus =
  cst_CurrentHourlyCost :: float64
  cst_CurrentMonthlyCost :: float64
  cst_WastePercent :: float64
  cst_BudgetUtilization :: float64

record PrometheusConfig =
  pr_BaseURL :: string
  pr_P95LatencyQuery :: string
  pr_ErrorRateQuery :: string

section \<open>The resource\<close>

record 'q AIScalerSpec =
  spec_TargetRef :: TargetRef
  spec_Constraints :: ScalingConstraints
  spec_LLM :: LLMConfig
  spec_Prometheus :: PrometheusConfig
  spec_Signals :: "SignalSourceConfig list"
  spec_Alerting :: "AlertingConfig option"
  spec_Cost :: "CostConfig option"
  spec_CostConstraints :: "CostConstraints option"
  spec_SLOs :: "SLO list"
  spec_SLOViolationBudget :: "SLOViolationBudget option"
  spec_VerticalScaling :: "'q VerticalScalingConfig option"
  spec_ApplicationProfile :: "ApplicationProfile option"
  spec_ResourceProfiles :: "'q ResourceProfile list"
  spec_PredictiveScaling :: "PredictiveScalingConfig option"
  spec_Safety :: "SafetyConfig option"
  spec_LLMRateLimit :: "LLMRateLimit option"
  spec_Tier :: string
  spec_Dependencies :: "DependencyConfig option"
  spec_KEDAIntegration :: "KEDAIntegration option"
  spec_Approval :: "ApprovalConfig option"
  spec_Precedence :: "PrecedenceConfig option"
  spec_Feedback :: "FeedbackConfig option"
  spec_StatefulSetPolicy :: "StatefulSetPolicy option"
  spec_EvaluationInterval :: duration
  spec_CooldownPeriod :: duration
  spec_DryRun :: bool
  spec_RequireApproval :: bool

text \<open>The fields of \<open>metav1.Condition\<close> the controller fills in.\<close>

record Condition =
  cond_Type :: string
  cond_Status :: string
  cond_ObservedGeneration :: int
  cond_LastTransitionTime :: time
  cond_Reason :: string
  cond_Message :: string

record 'q AIScalerStatus =
  st_Phase :: ScalingPhase
  st_CurrentReplicas :: int32
  st_DesiredReplicas :: int32
  st_LastScaleTime :: "time option"
  st_LastDecisionReason :: string
  st_LastProvider :: LLMProvider
  st_LastDecisionID :: string
  st_CurrentResources :: "'q ResourceStatus option"
  st_Prediction :: "PredictionStatus option"
  st_Cost :: "CostStatus option"
  st_LLMTelemetry :: "LLMTelemetry option"
  st_Precedence :: "PrecedenceStatus option"
  st_Feedback :: "FeedbackStatus option"
  st_Conditions :: "Condition list"

text \<open>The object metadata the code reads.\<close>

record 'q AIScaler =
  ai_Name :: string
  ai_Namespace :: string
  ai_Generation :: int
  ai_Finalizers :: "string list"
  ai_DeletionTimestamp :: "time option"
  ai_Spec :: "'q AIScalerSpec"
  ai_Status :: "'q AIScalerStatus"

abbreviation ai_Constraints :: "'q AIScaler \<Rightarrow> ScalingConstraints" where
  "ai_Constraints p \<equiv> spec_Constraints (ai_Spec p)"

section \<open>Validation of the specification\<close>

definition ValidateSpec :: "'q AIScalerSpec \<Rightarrow> go_error option" where
  "ValidateSpec a = (let c = spec_Constraints a in
     if sc_MaxReplicas c <s sc_MinReplicas c then
       Some (''minReplicas ('' @ show_int32 (sc_MinReplicas c) @ '') must be <= maxReplicas (''
             @ show_int32 (sc_MaxReplicas c) @ '')'')
     else if sc_MaxReplicas c <s sc_MaxScaleStep c then
       Some (''maxScaleStep ('' @ show_int32 (sc_MaxScaleStep c) @ '') must be <= maxReplicas (''
             @ show_int32 (sc_MaxReplicas c) @ '')'')
     else if lc_Fallback (spec_LLM a) \<noteq> None
             \<and> lc_Primary (spec_LLM a) = the (lc_Fallback (spec_LLM a)) then
       Some ''primary and fallback LLMs must be different''
     else None)"

definition bounds_ok :: "ScalingConstraints \<Rightarrow> bool" where
  "bounds_ok c \<longleftrightarrow> sint (sc_MinReplicas c) \<le> sint (sc_MaxReplicas c)"

definition within_bounds :: "ScalingConstraints \<Rightarrow> int32 \<Rightarrow> bool" where
  "within_bounds c n \<longleftrightarrow> sint (sc_MinReplicas c) \<le> sint n \<and> sint n \<le> sint (sc_MaxReplicas c)"

lemma ValidateSpec_bounds: "ValidateSpec a = None \<Longrightarrow> bounds_ok (spec_Constraints a)"
  by (auto simp: ValidateSpec_def bounds_ok_def Let_def sless_sint split: if_splits)

lemma ValidateSpec_None_iff:
  "ValidateSpec a = None \<longleftrightarrow>
     sint (sc_MinReplicas (spec_Constraints a)) \<le> sint (sc_MaxReplicas (spec_Constraints a))
   \<and> sint (sc_MaxScaleStep (spec_Constraints a)) \<le> sint (sc_MaxReplicas (spec_Constraints a))
   \<and> lc_Fallback (spec_LLM a) \<noteq> Some (lc_Primary (spec_LLM a))"
  by (auto simp: ValidateSpec_def Let_def sless_sint not_less)

lemmas bounds_defs = bounds_ok_def within_bounds_def

section \<open>Default values\<close>

text \<open>The zero values of the Go structs, from which concrete resources are built.\<close>

definition zero_LLMConfig :: LLMConfig where
  "zero_LLMConfig = \<lparr>lc_Primary = [], lc_Fallback = None, lc_Model = [], lc_APIKeySecret = None,
     lc_OllamaBaseURL = [], lc_CacheTTL = 0, lc_CircuitBreakerThreshold = 0,
     lc_CircuitBreakerTimeout = 0\<rparr>"

definition zero_Spec :: "'q AIScalerSpec" where
  "zero_Spec = \<lparr>spec_TargetRef = \<lparr>tr_Name = [], tr_Namespace = [], tr_APIVersion = [], tr_Kind = []\<rparr>,
     spec_Constraints = \<lparr>sc_MinReplicas = 0, sc_MaxReplicas = 0, sc_MaxScaleStep = 0, sc_MinConfidence = 0\<rparr>,
     spec_LLM = zero_LLMConfig,
     spec_Prometheus = \<lparr>pr_BaseURL = [], pr_P95LatencyQuery = [], pr_ErrorRateQuery = []\<rparr>,
     spec_Signals = [], spec_Alerting = None, spec_Cost = None, spec_CostConstraints = None,
     spec_SLOs = [], spec_SLOViolationBudget = None, spec_VerticalScaling = None,
     spec_ApplicationProfile = None, spec_ResourceProfiles = [], spec_PredictiveScaling = None,
     spec_Safety = None, spec_LLMRateLimit = None, spec_Tier = [], spec_Dependencies = None,
     spec_KEDAIntegration = None, spec_Approval = None, spec_Precedence = None,
     spec_Feedback = None, spec_StatefulSetPolicy = None, spec_EvaluationInterval = 0,
     spec_CooldownPeriod = 0, spec_DryRun = False, spec_RequireApproval = False\<rparr>"

definition zero_Status :: "'q AIScalerStatus" where
  "zero_Status = \<lparr>st_Phase = [], st_CurrentReplicas = 0, st_DesiredReplicas = 0,
     st_LastScaleTime = None, st_LastDecisionReason = [], st_LastProvider = [],
     st_LastDecisionID = [], st_CurrentResources = None, st_Prediction = None, st_Cost = None,
     st_LLMTelemetry = None, st_Precedence = None, st_Feedback = None, st_Conditions = []\<rparr>"

definition zero_AIScaler :: "'q AIScaler" where
  "zero_AIScaler = \<lparr>ai_Name = [], ai_Namespace = [], ai_Generation = 0, ai_Finalizers = [],
     ai_DeletionTimestamp = None, ai_Spec = zero_Spec, ai_Status = zero_Status\<rparr>"

lemmas zero_defs = zero_LLMConfig_def zero_Spec_def zero_Status_def zero_AIScaler_def

text \<open>A resource with the given bounds and step.\<close>

definition with_constraints :: "int32 \<Rightarrow> int32 \<Rightarrow> int32 \<Rightarrow> 'q AIScaler" where
  "with_constraints lo hi step = zero_AIScaler
     \<lparr>ai_Spec := zero_Spec \<lparr>spec_Constraints :=
        \<lparr>sc_MinReplicas = lo, sc_MaxReplicas = hi, sc_MaxScaleStep = step, sc_MinConfidence = 0\<rparr>\<rparr>\<rparr>"

end
