(* ===== verification/Signal.thy ===== *)
theory Signal
  imports Api
begin

text \<open>
  The signal bundle of \<open>internal/plugin/signal.go\<close>, collected once per reconcile, and the
  request, decision and proposal structs of \<open>internal/llm/router.go\<close> that the decision layer
  exchanges with the model provider.
\<close>

section \<open>Signals\<close>

record ReactiveRule =
  rr_Metric :: string
  rr_Operator :: string
  rr_Threshold :: float64
  rr_Action :: string
  rr_Amount :: int32

record AnnotationSignals =
  an_ExpectedTraffic :: string
  an_ScaleConservatively :: bool
  an_FreezeUntil :: "time option"
  an_Note :: string
  an_PeakHours :: string
  an_ReactiveRules :: "ReactiveRule list"

record Bundle =
  b_CPUUtilization :: float64
  b_MemoryUtilization :: float64
  b_CurrentReplicas :: int32
  b_ReadyReplicas :: int32
  b_DeploymentReady :: bool
  b_P95LatencyMs :: float64
  b_ErrorRate :: float64
  b_QueueDepth :: float64
  b_KEDADesiredReplicas :: int32
  b_ClusterNodes :: int32
  b_ClusterCPUAvailable :: float64
  b_ClusterMemAvailable :: float64
  b_CostPerHour :: float64
  b_CostEfficiency :: float64
  b_CustomSignals :: "(string, float64) fmap"
  b_Annotations :: AnnotationSignals
  b_CollectedAt :: time
  b_SourceHealth :: "(string, bool) fmap"

definition zero_AnnotationSignals :: AnnotationSignals where
  "zero_AnnotationSignals = \<lparr>an_ExpectedTraffic = [], an_ScaleConservatively = False,
     an_FreezeUntil = None, an_Note = [], an_PeakHours = [], an_ReactiveRules = []\<rparr>"

definition zero_Bundle :: Bundle where
  "zero_Bundle = \<lparr>b_CPUUtilization = 0, b_MemoryUtilization = 0, b_CurrentReplicas = 0,
     b_ReadyReplicas = 0, b_DeploymentReady = False, b_P95LatencyMs = 0, b_ErrorRate = 0,
     b_QueueDepth = 0, b_KEDADesiredReplicas = 0, b_ClusterNodes = 0, b_ClusterCPUAvailable = 0,
     b_ClusterMemAvailable = 0, b_CostPerHour = 0, b_CostEfficiency = 0,
     b_CustomSignals = fmempty, b_Annotations = zero_AnnotationSignals,
     b_CollectedAt = zero_time, b_SourceHealth = fmempty\<rparr>"

section \<open>Requests to and decisions of the model provider\<close>

record ScalingRequest =
  rq_PolicyName :: string
  rq_Namespace :: string
  rq_CurrentReplicas :: int32
  rq_MinReplicas :: int32
  rq_MaxReplicas :: int32
  rq_MaxScaleStep :: int32
  rq_CPUUtilization :: float64
  rq_MemoryUtilization :: float64
  rq_P95LatencyMs :: float64
  rq_ErrorRate :: float64
  rq_QueueDepth :: float64
  rq_DeploymentReady :: bool
  rq_ExpectedTraffic :: string
  rq_ScaleConservatively :: bool
  rq_Note :: string
  rq_PeakHours :: string
  rq_CustomSignals :: "(string, float64) fmap"
  rq_SLOContext :: string
  rq_CostContext :: string
  rq_PredictiveContext :: string
  rq_NodeContext :: string
  rq_VerticalContext :: string
  rq_FeedbackContext :: string

record VerticalProposal =
  vp_CPURequest :: string
  vp_MemoryRequest :: string
  vp_CPULimit :: string
  vp_MemoryLimit :: string
  vp_ResizeStrategy :: string

record ScalingDecision =
  sd_TargetReplicas :: int32
  sd_Reasoning :: string
  sd_Confidence :: float64
  sd_ActionType :: string
  sd_Urgency :: string
  sd_ReasonCodes :: "string list"
  sd_VerticalChanges :: "VerticalProposal option"

definition zero_ScalingDecision :: ScalingDecision where
  "zero_ScalingDecision = \<lparr>sd_TargetReplicas = 0, sd_Reasoning = [], sd_Confidence = 0,
     sd_ActionType = [], sd_Urgency = [], sd_ReasonCodes = [], sd_VerticalChanges = None\<rparr>"

lemmas zero_signal_defs = zero_AnnotationSignals_def zero_Bundle_def zero_ScalingDecision_def

end
