(* ===== verification/Cache.thy ===== *)
theory Cache
  imports Signal
begin

text \<open>
  \<open>internal/llm/cache.go\<close>: the response cache.  \<open>time.Since\<close> reads the clock for every entry the
  eviction visits, so the eviction takes the time read for each key.  The digest of the key text
  (SHA-256, first 16 bytes in hexadecimal) is a parameter.
\<close>

record cacheEntry =
  ce_decision :: ScalingDecision
  ce_provider :: string
  ce_createdAt :: time

record Cache =
  ca_entries :: "(string, cacheEntry) fmap"
  ca_ttl :: duration

definition NewCache :: "duration \<Rightarrow> Cache" where
  "NewCache ttl = \<lparr>ca_entries = fmempty, ca_ttl = ttl\<rparr>"

definition cache_Get :: "time \<Rightarrow> Cache \<Rightarrow> string \<Rightarrow> (ScalingDecision \<times> string) option" where
  "cache_Get now c key = (case fmlookup (ca_entries c) key of
     None \<Rightarrow> None
   | Some entry \<Rightarrow> (if ca_ttl c < time_sub now (ce_createdAt entry) then None
       else Some (ce_decision entry, ce_provider entry)))"

definition evictExpired :: "(string \<Rightarrow> time) \<Rightarrow> Cache \<Rightarrow> Cache" where
  "evictExpired clock c = c \<lparr>ca_entries := fmfilter (\<lambda>k. case fmlookup (ca_entries c) k of
     Some v \<Rightarrow> \<not> ca_ttl c < time_sub (clock k) (ce_createdAt v) | None \<Rightarrow> True) (ca_entries c)\<rparr>"

definition cache_Set :: "(string \<Rightarrow> time) \<Rightarrow> time \<Rightarrow> string \<Rightarrow> ScalingDecision \<Rightarrow> string \<Rightarrow> Cache \<Rightarrow> Cache" where
  "cache_Set clock now key decision provider c = (let
     c1 = (if 100 < int (fcard (fmdom (ca_entries c))) then evictExpired clock c else c)
   in c1 \<lparr>ca_entries := fmupd key \<lparr>ce_decision = decision, ce_provider = provider,
        ce_createdAt = now\<rparr> (ca_entries c1)\<rparr>)"

definition key_text :: "ScalingRequest \<Rightarrow> string" where
  "key_text req = rq_PolicyName req @ '':'' @ show_int32 (rq_CurrentReplicas req) @ '':''
     @ show_f 1 (rq_CPUUtilization req) @ '':'' @ show_f 1 (rq_MemoryUtilization req) @ '':''
     @ show_f 1 (rq_P95LatencyMs req) @ '':'' @ show_f 2 (rq_ErrorRate req) @ '':''
     @ show_bool (rq_DeploymentReady req)"

definition BuildKey :: "(string \<Rightarrow> string) \<Rightarrow> ScalingRequest \<Rightarrow> string" where
  "BuildKey digest req = digest (key_text req)"

section \<open>Lemmas\<close>

lemma evict_lookup: "fmlookup (ca_entries (evictExpired clock c)) k = (case fmlookup (ca_entries c) k of
    None \<Rightarrow> None | Some v \<Rightarrow> if ca_ttl c < time_sub (clock k) (ce_createdAt v) then None else Some v)"
  by (simp add: evictExpired_def split: option.split)

lemma Set_lookup_same: "fmlookup (ca_entries (cache_Set clock now k d p c)) k =
    Some \<lparr>ce_decision = d, ce_provider = p, ce_createdAt = now\<rparr>"
  by (simp add: cache_Set_def Let_def)

lemma Set_ttl [simp]: "ca_ttl (cache_Set clock now k d p c) = ca_ttl c"
  by (simp add: cache_Set_def evictExpired_def Let_def)

lemma Get_mono: "cache_Get now c k = Some r \<Longrightarrow> now' \<le> now \<Longrightarrow> cache_Get now' c k = Some r"
  using time_sub_mono [of now' now]
  by (auto simp: cache_Get_def split: option.splits if_splits) (meson leD le_less_trans order_trans linorder_not_less)

section \<open>Properties\<close>

text \<open>
  C31. A stored decision is found with its provider until its lifetime is over and not after;
  storing it changes no other answer, provided the clock does not run backwards between the
  eviction and the lookup.
\<close>

theorem cache_roundtrip:
  assumes "\<forall>k'. clock k' \<le> now'"
  shows "cache_Get now' (cache_Set clock now key d p c) key =
      (if ca_ttl c < time_sub now' now then None else Some (d, p))
    \<and> (\<forall>k. k \<noteq> key \<longrightarrow> cache_Get now' (cache_Set clock now key d p c) k = cache_Get now' c k)"
proof -
  have "cache_Get now' (cache_Set clock now key d p c) k = cache_Get now' c k" if "k \<noteq> key" for k
  proof -
    have "fmlookup (ca_entries (cache_Set clock now key d p c)) k = fmlookup (ca_entries c) k
      \<or> (\<exists>v. fmlookup (ca_entries c) k = Some v \<and> ca_ttl c < time_sub (clock k) (ce_createdAt v)
           \<and> fmlookup (ca_entries (cache_Set clock now key d p c)) k = None)"
      using that by (auto simp: cache_Set_def Let_def evict_lookup split: option.splits)
    then show ?thesis
      using time_sub_mono [of "clock k" now'] assms
      by (auto simp: cache_Get_def split: option.split intro: less_le_trans)
  qed
  then show ?thesis by (simp add: cache_Get_def Set_lookup_same)
qed

lemma cache_roundtrip_witness:
  "cache_Get 5 (cache_Set (\<lambda>_. 3) 3 ''k'' zero_ScalingDecision ''ollama'' (NewCache 10)) ''k''
    = Some (zero_ScalingDecision, ''ollama'')"
  using cache_roundtrip [of "\<lambda>_. 3" 5 3 "''k''" zero_ScalingDecision "''ollama''" "NewCache 10"]
  by (simp add: NewCache_def time_sub_def duration_defs)

text \<open>
  The key leaves out the namespace, the bounds, the queue depth, the custom signals and every
  context: requests that differ only there share an answer.
\<close>

lemma BuildKey_ignores:
  "BuildKey h (r \<lparr>rq_Namespace := ns, rq_MinReplicas := lo, rq_MaxReplicas := hi, rq_QueueDepth := q,
     rq_CustomSignals := cs, rq_SLOContext := slo\<rparr>) = BuildKey h r"
  by (simp add: BuildKey_def key_text_def)

end
