(* ===== verification/Circuit_Breaker.thy ===== *)
theory Circuit_Breaker
  imports Prelude
begin

text \<open>
  \<open>internal/llm/circuit_breaker.go\<close>: the breaker in front of the providers.  Its methods are
  atomic (one mutex); the step relation has one label per method, with the time its call of the
  clock returned.
\<close>

record CircuitBreaker =
  cb_failureCount :: int
  cb_lastFailure :: time
  cb_threshold :: int
  cb_resetTimeout :: duration
  cb_state :: string

definition NewCircuitBreaker :: "int \<Rightarrow> duration \<Rightarrow> CircuitBreaker" where
  "NewCircuitBreaker threshold resetTimeout =
     \<lparr>cb_failureCount = 0, cb_lastFailure = zero_time, cb_threshold = threshold,
      cb_resetTimeout = resetTimeout, cb_state = ''closed''\<rparr>"

definition cb_Allow :: "time \<Rightarrow> CircuitBreaker \<Rightarrow> bool \<times> CircuitBreaker" where
  "cb_Allow now cb =
     (if cb_state cb = ''closed'' then (True, cb)
      else if cb_state cb = ''open'' then
        (if cb_resetTimeout cb < time_sub now (cb_lastFailure cb)
         then (True, cb \<lparr>cb_state := ''half-open''\<rparr>) else (False, cb))
      else if cb_state cb = ''half-open'' then (True, cb)
      else (True, cb))"

definition RecordSuccess :: "CircuitBreaker \<Rightarrow> CircuitBreaker" where
  "RecordSuccess cb = cb \<lparr>cb_failureCount := 0, cb_state := ''closed''\<rparr>"

definition RecordFailure :: "time \<Rightarrow> CircuitBreaker \<Rightarrow> CircuitBreaker" where
  "RecordFailure now cb = (let
     cb1 = cb \<lparr>cb_failureCount := cb_failureCount cb + 1, cb_lastFailure := now\<rparr>
   in if cb_threshold cb1 \<le> cb_failureCount cb1 then cb1 \<lparr>cb_state := ''open''\<rparr> else cb1)"

definition State :: "time \<Rightarrow> CircuitBreaker \<Rightarrow> string \<times> CircuitBreaker" where
  "State now cb = (let
     cb1 = (if cb_state cb = ''open'' \<and> cb_resetTimeout cb < time_sub now (cb_lastFailure cb)
            then cb \<lparr>cb_state := ''half-open''\<rparr> else cb)
   in (cb_state cb1, cb1))"

section \<open>The state machine\<close>

datatype cb_label = LAllow time bool | LSuccess | LFailure time | LState time string

inductive cb_step :: "CircuitBreaker \<Rightarrow> cb_label \<Rightarrow> CircuitBreaker \<Rightarrow> bool" where
  allow: "cb_Allow now cb = (b, cb') \<Longrightarrow> cb_step cb (LAllow now b) cb'"
| success: "cb_step cb LSuccess (RecordSuccess cb)"
| failure: "cb_step cb (LFailure now) (RecordFailure now cb)"
| state: "State now cb = (s, cb') \<Longrightarrow> cb_step cb (LState now s) cb'"

inductive_simps cb_step_simps:
  "cb_step cb (LAllow now b) cb'" "cb_step cb LSuccess cb'" "cb_step cb (LFailure now) cb'"
  "cb_step cb (LState now s) cb'"

inductive cb_run :: "CircuitBreaker \<Rightarrow> cb_label list \<Rightarrow> CircuitBreaker \<Rightarrow> bool" where
  nil: "cb_run cb [] cb"
| step: "cb_step cb l cb' \<Longrightarrow> cb_run cb' ls cb'' \<Longrightarrow> cb_run cb (l # ls) cb''"

inductive_cases cb_run_ConsE: "cb_run cb (l # ls) cb''"

definition cb_inv :: "CircuitBreaker \<Rightarrow> bool" where
  "cb_inv cb \<longleftrightarrow> 0 \<le> cb_failureCount cb
     \<and> (cb_state cb = ''closed'' \<and> cb_failureCount cb < cb_threshold cb
        \<or> cb_state cb \<in> {''open'', ''half-open''} \<and> cb_threshold cb \<le> cb_failureCount cb)"

lemma cb_inv_new: "0 < n \<Longrightarrow> cb_inv (NewCircuitBreaker n d)"
  by (simp add: cb_inv_def NewCircuitBreaker_def)

lemma cb_step_threshold: "cb_step cb l cb' \<Longrightarrow> cb_threshold cb' = cb_threshold cb
    \<and> cb_resetTimeout cb' = cb_resetTimeout cb"
  by (induction rule: cb_step.induct)
    (auto simp: cb_Allow_def RecordSuccess_def RecordFailure_def State_def Let_def split: if_splits)

lemma cb_inv_step: "cb_step cb l cb' \<Longrightarrow> 0 < cb_threshold cb \<Longrightarrow> cb_inv cb \<Longrightarrow> cb_inv cb'"
  by (induction rule: cb_step.induct)
    (auto simp: cb_inv_def cb_Allow_def RecordSuccess_def RecordFailure_def State_def Let_def split: if_splits)

lemma cb_run_inv: "cb_run cb ls cb' \<Longrightarrow> 0 < cb_threshold cb \<Longrightarrow> cb_inv cb \<Longrightarrow>
    cb_inv cb' \<and> cb_threshold cb' = cb_threshold cb \<and> cb_resetTimeout cb' = cb_resetTimeout cb"
proof (induction rule: cb_run.induct)
  case (step cb l cb' ls cb'')
  then show ?case using cb_inv_step cb_step_threshold by metis
qed simp

lemma cb_Allow_False_iff:
  "\<not> fst (cb_Allow now cb) \<longleftrightarrow> cb_state cb = ''open'' \<and> time_sub now (cb_lastFailure cb) \<le> cb_resetTimeout cb"
  by (simp add: cb_Allow_def not_less)

text \<open>While nothing is recorded and the timeout has not passed, an open breaker stays open.\<close>

lemma cb_run_open:
  "cb_run cb ls cb' \<Longrightarrow> cb_state cb = ''open'' \<Longrightarrow>
   (\<forall>l\<in>set ls. case l of LAllow t b \<Rightarrow> time_sub t (cb_lastFailure cb) \<le> cb_resetTimeout cb
      | LState t s \<Rightarrow> time_sub t (cb_lastFailure cb) \<le> cb_resetTimeout cb | _ \<Rightarrow> False) \<Longrightarrow>
   cb' = cb \<and> (\<forall>l\<in>set ls. case l of LAllow t b \<Rightarrow> \<not> b | _ \<Rightarrow> True)"
proof (induction rule: cb_run.induct)
  case (step cb l cb' ls cb'')
  have "cb' = cb \<and> (case l of LAllow t b \<Rightarrow> \<not> b | _ \<Rightarrow> True)"
    using step.hyps(1) step.prems
    by (cases l) (auto simp: cb_step_simps cb_Allow_def State_def Let_def)
  then have l: "cb' = cb" "case l of LAllow t b \<Rightarrow> \<not> b | _ \<Rightarrow> True" by blast+
  have "cb'' = cb \<and> (\<forall>l\<in>set ls. case l of LAllow t b \<Rightarrow> \<not> b | _ \<Rightarrow> True)"
    using step.IH [unfolded l(1)] step.prems by simp
  then show ?case using l(2) by simp
qed simp

fun failures :: "time list \<Rightarrow> CircuitBreaker \<Rightarrow> CircuitBreaker" where
  "failures [] cb = cb"
| "failures (t # ts) cb = failures ts (RecordFailure t cb)"

lemma failures_open: "cb_state cb = ''open'' \<Longrightarrow> 0 \<le> cb_failureCount cb \<Longrightarrow>
    cb_state (failures ts cb) = ''open''"
  by (induction ts arbitrary: cb) (simp_all add: RecordFailure_def Let_def)

lemma failures_count: "ts \<noteq> [] \<Longrightarrow> cb_threshold cb \<le> cb_failureCount cb + int (length ts) \<Longrightarrow>
    0 \<le> cb_failureCount cb \<Longrightarrow> cb_state (failures ts cb) = ''open''"
proof (induction ts arbitrary: cb)
  case (Cons t ts)
  show ?case
  proof (cases "ts = []")
    case True
    then show ?thesis using Cons.prems by (simp add: RecordFailure_def Let_def)
  next
    case False
    then show ?thesis
      using Cons.prems Cons.IH [of "RecordFailure t cb"] by (simp add: RecordFailure_def Let_def)
  qed
qed simp

section \<open>Properties\<close>

text \<open>
  C28. In every state a new breaker can reach, by any sequence of its methods at any times, the
  breaker is closed with fewer failures than its threshold, or it is open or half-open with at
  least that many; so a failure while half-open reopens it at once.
\<close>

theorem breaker_invariant:
  assumes "cb_run (NewCircuitBreaker n d) ls cb" and "0 < n"
  shows "(cb_state cb = ''closed'' \<and> cb_failureCount cb < n
      \<or> cb_state cb \<in> {''open'', ''half-open''} \<and> n \<le> cb_failureCount cb)
    \<and> (cb_state cb = ''half-open'' \<longrightarrow> cb_state (RecordFailure t cb) = ''open'')"
proof -
  have i: "cb_inv cb" "cb_threshold cb = n"
    using cb_run_inv [OF assms(1)] assms(2) cb_inv_new [OF assms(2), of d]
    by (simp_all add: NewCircuitBreaker_def)
  moreover have "cb_state (RecordFailure t cb) = ''open''" if "cb_state cb = ''half-open''"
    using i that by (simp add: cb_inv_def RecordFailure_def Let_def)
  ultimately show ?thesis by (auto simp: cb_inv_def)
qed

lemma breaker_invariant_witness:
  "cb_state (RecordFailure 5 (RecordFailure 4 (NewCircuitBreaker 1 60))) = ''open''"
proof -
  have a: "cb_Allow 100 (RecordFailure 4 (NewCircuitBreaker 1 60)) =
      (True, RecordFailure 4 (NewCircuitBreaker 1 60) \<lparr>cb_state := ''half-open''\<rparr>)"
    by (simp add: cb_Allow_def RecordFailure_def NewCircuitBreaker_def time_sub_def duration_defs Let_def)
  have "cb_run (NewCircuitBreaker 1 60) [LFailure 4, LAllow 100 True]
      (RecordFailure 4 (NewCircuitBreaker 1 60) \<lparr>cb_state := ''half-open''\<rparr>)"
    by (rule cb_run.step [OF cb_step.failure cb_run.step [OF cb_step.allow [OF a] cb_run.nil]])
  from breaker_invariant [OF this, of 5] show ?thesis
    by (simp add: RecordFailure_def NewCircuitBreaker_def Let_def)
qed

text \<open>
  As many failures in a row as the threshold open the breaker, whatever it recorded before.
\<close>

theorem breaker_opens:
  assumes "cb_run (NewCircuitBreaker n d) ls cb" and "0 < n" and "int (length ts) = n"
  shows "cb_state (failures ts cb) = ''open''"
proof -
  have "cb_inv cb" "cb_threshold cb = n"
    using cb_run_inv [OF assms(1)] assms(2) cb_inv_new [OF assms(2), of d]
    by (simp_all add: NewCircuitBreaker_def)
  then show ?thesis using assms(2,3) by (intro failures_count) (auto simp: cb_inv_def)
qed

lemma breaker_opens_witness: "cb_state (failures [1, 2, 3] (NewCircuitBreaker 3 60)) = ''open''"
  using breaker_opens [OF cb_run.nil, of 3 "[1, 2, 3]" 60] by simp

text \<open>
  An open breaker rejects every call until its reset timeout has passed since the last
  failure, and the first call after that goes through and makes it half-open.
\<close>

theorem breaker_rejects:
  assumes "cb_run cb ls cb'" and "cb_state cb = ''open''"
    and "\<forall>l\<in>set ls. case l of LAllow t b \<Rightarrow> time_sub t (cb_lastFailure cb) \<le> cb_resetTimeout cb
      | LState t s \<Rightarrow> time_sub t (cb_lastFailure cb) \<le> cb_resetTimeout cb | _ \<Rightarrow> False"
  shows "(\<forall>l\<in>set ls. case l of LAllow t b \<Rightarrow> \<not> b | _ \<Rightarrow> True)
    \<and> (\<forall>t. cb_resetTimeout cb < time_sub t (cb_lastFailure cb) \<longrightarrow>
         cb_Allow t cb' = (True, cb \<lparr>cb_state := ''half-open''\<rparr>))"
  using cb_run_open [OF assms] assms(2) by (auto simp: cb_Allow_def)

lemma breaker_rejects_witness:
  "cb_Allow 100 (RecordFailure 4 (NewCircuitBreaker 1 60)) =
    (True, RecordFailure 4 (NewCircuitBreaker 1 60) \<lparr>cb_state := ''half-open''\<rparr>)"
proof -
  define cb where "cb = RecordFailure 4 (NewCircuitBreaker 1 60)"
  have c: "cb_state cb = ''open''" "cb_lastFailure cb = 4" "cb_resetTimeout cb = 60"
    by (simp_all add: cb_def RecordFailure_def NewCircuitBreaker_def Let_def)
  have "cb_run cb [LAllow 10 False] cb"
    using c by (intro cb_run.step [OF cb_step.allow cb_run.nil]) (simp add: cb_Allow_def time_sub_def duration_defs)
  from breaker_rejects [OF this] show ?thesis
    using c by (simp add: time_sub_def duration_defs flip: cb_def)
qed

end
