(* ===== verification/Config.thy ===== *)
theory Config
  imports Float64
begin

text \<open>
  \<open>internal/config/config.go\<close>: the operator's configuration.  The file's bytes, the expansion of
  the environment and the YAML decoder (outside the repository) are parameters of \<open>Load\<close>.
  A duration configured in seconds is a product of \<open>int64\<close> that may wrap (\<open>seconds\<close> of the prelude).
\<close>

record ProviderConfig =
  pv_Name :: string
  pv_BaseURL :: string
  pv_APIKey :: string
  pv_Model :: string

record LLMSettings =
  ll_Providers :: "ProviderConfig list"
  ll_ResponseCacheTTLSeconds :: int
  ll_CBThreshold :: int
  ll_CBTimeoutSec :: int

record OperatorConfig =
  op_LeaderElection :: bool
  op_MetricsBindAddress :: string
  op_HealthProbeBindAddress :: string
  op_AlertWebhookURL :: string
  op_AlertWebhookToken :: string
  op_CoordinationMaxConcurrentScaling :: int
  op_CoordinationRequeueSeconds :: int
  op_ClusterMaxHourlyCost :: float64

record Config =
  cfg_LLM :: LLMSettings
  cfg_PrometheusBaseURL :: string
  cfg_Operator :: OperatorConfig

definition CacheTTL :: "LLMSettings \<Rightarrow> duration" where
  "CacheTTL c = (if 0 < ll_ResponseCacheTTLSeconds c then seconds (ll_ResponseCacheTTLSeconds c)
     else 5 * minute)"

definition CircuitBreakerThreshold :: "LLMSettings \<Rightarrow> int" where
  "CircuitBreakerThreshold c = (if 0 < ll_CBThreshold c then ll_CBThreshold c else 5)"

definition CircuitBreakerTimeout :: "LLMSettings \<Rightarrow> duration" where
  "CircuitBreakerTimeout c = (if 0 < ll_CBTimeoutSec c then seconds (ll_CBTimeoutSec c) else 60 * second)"

definition CoordinationRequeue :: "OperatorConfig \<Rightarrow> duration" where
  "CoordinationRequeue c = (if 0 < op_CoordinationRequeueSeconds c
     then seconds (op_CoordinationRequeueSeconds c) else 15 * second)"

definition CoordinationMaxConcurrentScalingLimit :: "OperatorConfig \<Rightarrow> int" where
  "CoordinationMaxConcurrentScalingLimit c = (if 0 < op_CoordinationMaxConcurrentScaling c
     then op_CoordinationMaxConcurrentScaling c else 0)"

text \<open>The verb \<open>%q\<close>: quotes, backslashes and control characters are escaped.\<close>

definition quote_char :: "char \<Rightarrow> string" where
  "quote_char c = (if c = CHR 0x22 then [CHR 0x5C, CHR 0x22]
     else if c = CHR 0x5C then [CHR 0x5C, CHR 0x5C]
     else if c = CHR 0x0A then [CHR 0x5C, CHR ''n'']
     else if c = CHR 0x0D then [CHR 0x5C, CHR ''r'']
     else if c = CHR 0x09 then [CHR 0x5C, CHR ''t'']
     else [c])"

definition go_quote :: "string \<Rightarrow> string" where
  "go_quote s = [CHR 0x22] @ concat (List.map quote_char s) @ [CHR 0x22]"

fun validate_providers :: "ProviderConfig list \<Rightarrow> go_error option" where
  "validate_providers [] = None"
| "validate_providers (p # ps) =
     (if pv_Name p = '''' then Some ''a provider entry is missing name''
      else if pv_BaseURL p = '''' then Some (''provider '' @ go_quote (pv_Name p) @ '' is missing baseURL'')
      else if pv_Model p = '''' then Some (''provider '' @ go_quote (pv_Name p) @ '' is missing model'')
      else validate_providers ps)"

definition validate_config :: "Config \<Rightarrow> go_error option" where
  "validate_config c = (if length (ll_Providers (cfg_LLM c)) = 0
     then Some ''at least one LLM provider must be configured''
     else validate_providers (ll_Providers (cfg_LLM c)))"

fun find_provider :: "ProviderConfig list \<Rightarrow> string \<Rightarrow> go_error + ProviderConfig" where
  "find_provider [] name = Inl (''provider '' @ go_quote name @ '' not found'')"
| "find_provider (p # ps) name = (if pv_Name p = name then Inr p else find_provider ps name)"

definition LLMProviderSettings :: "Config \<Rightarrow> string \<Rightarrow> go_error + ProviderConfig" where
  "LLMProviderSettings c name = find_provider (ll_Providers (cfg_LLM c)) name"

definition Load :: "(string \<Rightarrow> go_error + string) \<Rightarrow> (string \<Rightarrow> string) \<Rightarrow> (string \<Rightarrow> go_error + Config)
    \<Rightarrow> string \<Rightarrow> go_error + Config" where
  "Load read_file expand_env unmarshal path = (case read_file path of
     Inl e \<Rightarrow> Inl (''failed to read config file: '' @ e)
   | Inr data \<Rightarrow> (case unmarshal (expand_env data) of
       Inl e \<Rightarrow> Inl (''failed to unmarshal config file: '' @ e)
     | Inr cfg \<Rightarrow> (case validate_config cfg of
         Some e \<Rightarrow> Inl (''invalid config: '' @ e)
       | None \<Rightarrow> Inr cfg)))"

section \<open>Lemmas\<close>

definition provider_ok :: "ProviderConfig \<Rightarrow> bool" where
  "provider_ok p \<longleftrightarrow> pv_Name p \<noteq> '''' \<and> pv_BaseURL p \<noteq> '''' \<and> pv_Model p \<noteq> ''''"

lemma validate_providers_None: "validate_providers ps = None \<longleftrightarrow> list_all provider_ok ps"
  by (induction ps) (auto simp: provider_ok_def)

lemma find_provider_find:
  "find_provider ps name = (case List.find (\<lambda>p. pv_Name p = name) ps of
     None \<Rightarrow> Inl (''provider '' @ go_quote name @ '' not found'') | Some p \<Rightarrow> Inr p)"
  by (induction ps) simp_all

lemma seconds_positive: "0 < n \<Longrightarrow> n \<le> 9223372036 \<Longrightarrow> 0 < seconds n"
  by (simp add: seconds_exact second_def)

section \<open>Properties\<close>

text \<open>
  C30. A configuration that loads has a provider, and every provider it can be asked for has a
  name, a base URL and a model.  Its failure threshold is positive whatever the file says.  Its cache
  lifetime, its breaker timeout and its coordination delay are positive as long as the file asks for
  at most 9223372036 seconds (292 years), and then exactly the seconds asked for, or the default
  where the file asks for none or a negative number.
\<close>

theorem Load_ok:
  assumes "Load rd ex un path = Inr cfg"
  shows "ll_Providers (cfg_LLM cfg) \<noteq> []
    \<and> (case LLMProviderSettings cfg name of Inl e \<Rightarrow> True | Inr p \<Rightarrow> pv_Name p = name \<and> provider_ok p)
    \<and> 0 < CircuitBreakerThreshold (cfg_LLM cfg)
    \<and> 0 \<le> CoordinationMaxConcurrentScalingLimit (cfg_Operator cfg)
    \<and> (ll_ResponseCacheTTLSeconds (cfg_LLM cfg) \<le> 9223372036 \<longrightarrow> 0 < CacheTTL (cfg_LLM cfg)
        \<and> CacheTTL (cfg_LLM cfg) = (if 0 < ll_ResponseCacheTTLSeconds (cfg_LLM cfg)
             then ll_ResponseCacheTTLSeconds (cfg_LLM cfg) * second else 5 * minute))
    \<and> (ll_CBTimeoutSec (cfg_LLM cfg) \<le> 9223372036 \<longrightarrow> 0 < CircuitBreakerTimeout (cfg_LLM cfg)
        \<and> CircuitBreakerTimeout (cfg_LLM cfg) = (if 0 < ll_CBTimeoutSec (cfg_LLM cfg)
             then ll_CBTimeoutSec (cfg_LLM cfg) * second else 60 * second))
    \<and> (op_CoordinationRequeueSeconds (cfg_Operator cfg) \<le> 9223372036 \<longrightarrow> 0 < CoordinationRequeue (cfg_Operator cfg)
        \<and> CoordinationRequeue (cfg_Operator cfg) = (if 0 < op_CoordinationRequeueSeconds (cfg_Operator cfg)
             then op_CoordinationRequeueSeconds (cfg_Operator cfg) * second else 15 * second))"
proof -
  have "validate_config cfg = None"
    using assms by (auto simp: Load_def split: sum.splits option.splits)
  then have v: "ll_Providers (cfg_LLM cfg) \<noteq> []" "list_all provider_ok (ll_Providers (cfg_LLM cfg))"
    by (auto simp: validate_config_def validate_providers_None split: if_splits)
  then show ?thesis
    by (auto simp: LLMProviderSettings_def find_provider_find CacheTTL_def CircuitBreakerThreshold_def
        CircuitBreakerTimeout_def CoordinationRequeue_def CoordinationMaxConcurrentScalingLimit_def
        seconds_exact duration_defs list_all_iff dest!: find_Some_set split: option.split)
qed

definition sample_config :: Config where
  "sample_config = \<lparr>cfg_LLM = \<lparr>ll_Providers = [\<lparr>pv_Name = ''ollama'', pv_BaseURL = ''u'', pv_APIKey = [],
     pv_Model = ''m''\<rparr>], ll_ResponseCacheTTLSeconds = 0, ll_CBThreshold = 0, ll_CBTimeoutSec = 0\<rparr>,
     cfg_PrometheusBaseURL = [], cfg_Operator = \<lparr>op_LeaderElection = False, op_MetricsBindAddress = [],
     op_HealthProbeBindAddress = [], op_AlertWebhookURL = [], op_AlertWebhookToken = [],
     op_CoordinationMaxConcurrentScaling = 0, op_CoordinationRequeueSeconds = 0,
     op_ClusterMaxHourlyCost = 0\<rparr>\<rparr>"

lemma Load_ok_witness:
  "0 < CircuitBreakerThreshold (cfg_LLM sample_config) \<and> CacheTTL (cfg_LLM sample_config) = 5 * minute
    \<and> CircuitBreakerTimeout ((cfg_LLM sample_config)\<lparr>ll_CBTimeoutSec := 90\<rparr>) = 90 * second"
  using Load_ok [of Inr id "\<lambda>_. Inr sample_config" "''path''" sample_config "''ollama''"]
    Load_ok [of Inr id "\<lambda>_. Inr (sample_config\<lparr>cfg_LLM := (cfg_LLM sample_config)\<lparr>ll_CBTimeoutSec := 90\<rparr>\<rparr>)" "''path''"
      "sample_config\<lparr>cfg_LLM := (cfg_LLM sample_config)\<lparr>ll_CBTimeoutSec := 90\<rparr>\<rparr>" "''ollama''"]
  by (simp add: Load_def validate_config_def sample_config_def)

text \<open>
  The bound is sharp: with one second more the product wraps and the duration is negative, so that an
  entry of the cache is expired as soon as it is stored.
\<close>

theorem CacheTTL_wraps: "CacheTTL ((cfg_LLM sample_config)\<lparr>ll_ResponseCacheTTLSeconds := 9223372037\<rparr>) < 0"
  by (simp add: CacheTTL_def seconds_mod second_def)

end
