(* ===== verification/Router.thy ===== *)
theory Router
  imports Cache Circuit_Breaker Config "HOL-Library.List_Lexorder" "HOL-Library.Char_ord"
begin

text \<open>
  \<open>internal/llm/prompt.go\<close> and \<open>router.go\<close>: the prompt, and the choice of the provider with
  its cache and breakers.  What the router asks of the outside is the record \<open>RouterEnv\<close>: the
  clock (by call site), the chat completion of a provider, the JSON decoder, the secrets of the
  cluster and the digest of the cache key.
\<close>

section \<open>The prompt\<close>

definition sorted_keys :: "(string, float64) fmap \<Rightarrow> string list" where
  "sorted_keys m = sorted_list_of_fset (fmdom m)"

definition optional_line :: "string \<Rightarrow> string \<Rightarrow> string" where
  "optional_line label v = (if v \<noteq> '''' then label @ v else '''')"

definition buildPrompt :: "ScalingRequest \<Rightarrow> string" where
  "buildPrompt req =
     ''Deployment: '' @ rq_PolicyName req @ '' (namespace: '' @ rq_Namespace req @ '')'' @ nl
     @ ''Current replicas: '' @ show_int32 (rq_CurrentReplicas req) @ nl
     @ ''Constraints: min='' @ show_int32 (rq_MinReplicas req) @ '', max='' @ show_int32 (rq_MaxReplicas req)
     @ '', max_step='' @ show_int32 (rq_MaxScaleStep req) @ nl
     @ ''Deployment healthy: '' @ show_bool (rq_DeploymentReady req) @ nl
     @ nl @ ''Metrics:'' @ nl
     @ ''- CPU utilization: '' @ show_f 1 (rq_CPUUtilization req) @ ''%'' @ nl
     @ ''- Memory utilization: '' @ show_f 1 (rq_MemoryUtilization req) @ ''%'' @ nl
     @ ''- p95 latency: '' @ show_f 1 (rq_P95LatencyMs req) @ ''ms'' @ nl
     @ ''- Error rate: '' @ show_f 2 (rq_ErrorRate req * f_of_int 100) @ ''%'' @ nl
     @ (if 0 < rq_QueueDepth req then ''- Queue depth: '' @ show_f 0 (rq_QueueDepth req) @ nl else '''')
     @ (if rq_CustomSignals req \<noteq> fmempty then
          nl @ ''Custom Signals:'' @ nl @ concat (List.map (\<lambda>k. ''- '' @ k @ '': ''
            @ show_f 2 (case fmlookup (rq_CustomSignals req) k of Some v \<Rightarrow> v | None \<Rightarrow> 0) @ nl)
            (sorted_keys (rq_CustomSignals req))) else '''')
     @ optional_line (nl @ ''Expected traffic: '') (rq_ExpectedTraffic req)
     @ (if rq_ScaleConservatively req then nl @ ''Instruction: Scale conservatively, prefer fewer replicas.'' else '''')
     @ optional_line (nl @ ''Peak hours: '') (rq_PeakHours req)
     @ optional_line (nl @ ''Operator note: '') (rq_Note req)
     @ optional_line (nl @ nl) (rq_SLOContext req)
     @ optional_line (nl @ nl) (rq_CostContext req)
     @ optional_line (nl @ nl) (rq_PredictiveContext req)
     @ optional_line (nl @ nl) (rq_NodeContext req)
     @ optional_line (nl @ nl) (rq_VerticalContext req)
     @ optional_line (nl @ nl) (rq_FeedbackContext req)
     @ nl @ nl @ ''What should the replica count be?''"

section \<open>Answers\<close>

text \<open>\<open>strings.TrimSpace\<close>: the UTF-8 encodings of the white space of Unicode.\<close>

definition space_codes :: "string list" where
  "space_codes = [[CHR 0x09], [CHR 0x0A], [CHR 0x0B], [CHR 0x0C], [CHR 0x0D], [CHR 0x20],
     [CHR 0xC2, CHR 0x85], [CHR 0xC2, CHR 0xA0], [CHR 0xE1, CHR 0x9A, CHR 0x80],
     [CHR 0xE2, CHR 0x80, CHR 0x80], [CHR 0xE2, CHR 0x80, CHR 0x81], [CHR 0xE2, CHR 0x80, CHR 0x82],
     [CHR 0xE2, CHR 0x80, CHR 0x83], [CHR 0xE2, CHR 0x80, CHR 0x84], [CHR 0xE2, CHR 0x80, CHR 0x85],
     [CHR 0xE2, CHR 0x80, CHR 0x86], [CHR 0xE2, CHR 0x80, CHR 0x87], [CHR 0xE2, CHR 0x80, CHR 0x88],
     [CHR 0xE2, CHR 0x80, CHR 0x89], [CHR 0xE2, CHR 0x80, CHR 0x8A], [CHR 0xE2, CHR 0x80, CHR 0xA8],
     [CHR 0xE2, CHR 0x80, CHR 0xA9], [CHR 0xE2, CHR 0x80, CHR 0xAF], [CHR 0xE2, CHR 0x81, CHR 0x9F],
     [CHR 0xE3, CHR 0x80, CHR 0x80]]"

function trim_prefixes :: "string list \<Rightarrow> string \<Rightarrow> string" where
  "trim_prefixes codes s = (case List.find (\<lambda>c. c \<noteq> [] \<and> prefix c s) codes of
     None \<Rightarrow> s | Some c \<Rightarrow> trim_prefixes codes (drop (length c) s))"
  by pat_completeness auto

termination trim_prefixes
proof (relation "measure (\<lambda>(codes, s). length s)")
  fix codes s c
  assume "List.find (\<lambda>c. c \<noteq> [] \<and> prefix c s) codes = Some c"
  then have "c \<noteq> []" "prefix c s" by (auto dest: find_Some_set)
  then show "((codes, drop (length c) s), (codes, s)) \<in> measure (\<lambda>(codes, s). length s)"
    by (auto simp: prefix_def)
qed simp

declare trim_prefixes.simps [simp del]

definition TrimSpace :: "string \<Rightarrow> string" where
  "TrimSpace s = rev (trim_prefixes (List.map rev space_codes) (rev (trim_prefixes space_codes s)))"

definition TrimPrefix :: "string \<Rightarrow> string \<Rightarrow> string" where
  "TrimPrefix s p = (if prefix p s then drop (length p) s else s)"

definition TrimSuffix :: "string \<Rightarrow> string \<Rightarrow> string" where
  "TrimSuffix s p = (if suffix p s then take (length s - length p) s else s)"

definition parseDecision :: "(string \<Rightarrow> go_error + ScalingDecision) \<Rightarrow> string \<Rightarrow> go_error + ScalingDecision" where
  "parseDecision unmarshal raw = (let
     cleaned = TrimSpace raw;
     cleaned = TrimPrefix cleaned ''```json'';
     cleaned = TrimSuffix cleaned ''```'';
     cleaned = TrimSpace cleaned
   in case unmarshal cleaned of
        Inl e \<Rightarrow> Inl (''failed to parse LLM response: '' @ e @ nl @ ''raw: '' @ raw)
      | Inr d \<Rightarrow> Inr d)"

section \<open>The router\<close>

record Router =
  ro_cfg :: Config
  ro_hasClient :: bool
  ro_cache :: "Cache option"
  ro_circuitBreakers :: "(string, CircuitBreaker) fmap"

record RouterEnv =
  re_now :: "string \<Rightarrow> time"
  re_evictClock :: "string \<Rightarrow> time"
  re_complete :: "string \<Rightarrow> string \<Rightarrow> string \<Rightarrow> string \<Rightarrow> go_error + string list"
  re_unmarshal :: "string \<Rightarrow> go_error + ScalingDecision"
  re_secret :: "string \<Rightarrow> string \<Rightarrow> go_error + (string, string) fmap"
  re_digest :: "string \<Rightarrow> string"

definition NewRouter :: "Config \<Rightarrow> Router" where
  "NewRouter cfg = \<lparr>ro_cfg = cfg, ro_hasClient = False, ro_cache = None, ro_circuitBreakers = fmempty\<rparr>"

definition WithK8sClient :: "Router \<Rightarrow> Router" where
  "WithK8sClient r = r \<lparr>ro_hasClient := True\<rparr>"

definition WithCache :: "Cache \<Rightarrow> Router \<Rightarrow> Router" where
  "WithCache c r = r \<lparr>ro_cache := Some c\<rparr>"

fun add_breakers :: "int \<Rightarrow> duration \<Rightarrow> ProviderConfig list
    \<Rightarrow> (string, CircuitBreaker) fmap \<Rightarrow> (string, CircuitBreaker) fmap" where
  "add_breakers n t [] m = m"
| "add_breakers n t (p # ps) m = add_breakers n t ps (fmupd (pv_Name p) (NewCircuitBreaker n t) m)"

definition WithCircuitBreaker :: "int \<Rightarrow> duration \<Rightarrow> Router \<Rightarrow> Router" where
  "WithCircuitBreaker threshold timeout r =
     r \<lparr>ro_circuitBreakers := add_breakers threshold timeout (ll_Providers (cfg_LLM (ro_cfg r))) (ro_circuitBreakers r)\<rparr>"

definition effectiveModelOverride :: "LLMProvider \<Rightarrow> LLMProvider \<Rightarrow> string \<Rightarrow> string" where
  "effectiveModelOverride primary provider override =
     (if override = '''' then '''' else if provider \<noteq> primary then '''' else override)"

text \<open>The base URL, the key and the model of the client for a provider.\<close>

definition buildClient :: "Router \<Rightarrow> LLMProvider \<Rightarrow> string \<Rightarrow> string \<Rightarrow> go_error + (string \<times> string \<times> string)" where
  "buildClient r provider modelOverride secretAPIKey = (case LLMProviderSettings (ro_cfg r) provider of
     Inl e \<Rightarrow> Inl e
   | Inr settings \<Rightarrow> (let
       apiKey = (if secretAPIKey \<noteq> '''' then secretAPIKey else pv_APIKey settings);
       apiKey = (if apiKey = '''' then ''unused'' else apiKey);
       model = (if modelOverride = '''' then pv_Model settings else modelOverride)
     in Inr (pv_BaseURL settings, apiKey, model)))"

definition callProvider ::
  "RouterEnv \<Rightarrow> Router \<Rightarrow> LLMProvider \<Rightarrow> string \<Rightarrow> ScalingRequest \<Rightarrow> string \<Rightarrow> go_error + ScalingDecision" where
  "callProvider env r provider modelOverride req secretAPIKey =
     (case buildClient r provider modelOverride secretAPIKey of
        Inl e \<Rightarrow> Inl e
      | Inr (url, key, model) \<Rightarrow> (case re_complete env url key model (buildPrompt req) of
          Inl e \<Rightarrow> Inl (''completion failed for '' @ provider @ '': '' @ e)
        | Inr [] \<Rightarrow> Inl (''empty response from '' @ provider)
        | Inr (choice # _) \<Rightarrow> parseDecision (re_unmarshal env) choice))"

text \<open>
  \<open>updateCBMetric\<close> writes a gauge, and reads the breaker's state, which moves an expired open
  breaker to half-open.
\<close>

definition updateCBMetric :: "RouterEnv \<Rightarrow> CircuitBreaker \<Rightarrow> CircuitBreaker" where
  "updateCBMetric env cb = snd (State (re_now env ''metric'') cb)"

definition set_breaker :: "string \<Rightarrow> CircuitBreaker \<Rightarrow> Router \<Rightarrow> Router" where
  "set_breaker p cb r = r \<lparr>ro_circuitBreakers := fmupd p cb (ro_circuitBreakers r)\<rparr>"

definition callProviderWithCB ::
  "RouterEnv \<Rightarrow> LLMProvider \<Rightarrow> string \<Rightarrow> ScalingRequest \<Rightarrow> string \<Rightarrow> Router
    \<Rightarrow> (go_error + ScalingDecision) \<times> Router" where
  "callProviderWithCB env provider modelOverride req secretAPIKey r =
     (case fmlookup (ro_circuitBreakers r) provider of
        None \<Rightarrow> (callProvider env r provider modelOverride req secretAPIKey, r)
      | Some cb0 \<Rightarrow> (case cb_Allow (re_now env (''allow '' @ provider)) cb0 of
          (False, cb) \<Rightarrow> (Inl (''circuit breaker open for '' @ provider),
             set_breaker provider (updateCBMetric env cb) r)
        | (True, cb) \<Rightarrow> (case callProvider env r provider modelOverride req secretAPIKey of
            Inl e \<Rightarrow> (Inl e, set_breaker provider
              (updateCBMetric env (RecordFailure (re_now env (''failure '' @ provider)) cb)) r)
          | Inr d \<Rightarrow> (Inr d, set_breaker provider (updateCBMetric env (RecordSuccess cb)) r))))"

definition cacheResult :: "RouterEnv \<Rightarrow> ScalingRequest \<Rightarrow> ScalingDecision \<Rightarrow> string \<Rightarrow> Router \<Rightarrow> Router" where
  "cacheResult env req decision provider r = (case ro_cache r of
     None \<Rightarrow> r
   | Some c \<Rightarrow> r \<lparr>ro_cache := Some (cache_Set (re_evictClock env) (re_now env ''cache.Set'')
       (BuildKey (re_digest env) req) decision provider c)\<rparr>)"

definition readSecret :: "RouterEnv \<Rightarrow> SecretRef \<Rightarrow> go_error + string" where
  "readSecret env ref = (case re_secret env (sr_Namespace ref) (sr_Name ref) of
     Inl e \<Rightarrow> Inl (''failed to read secret '' @ sr_Namespace ref @ ''/'' @ sr_Name ref @ '': '' @ e)
   | Inr data \<Rightarrow> (case fmlookup data (sr_Key ref) of
       None \<Rightarrow> Inl (''key '' @ go_quote (sr_Key ref) @ '' not found in secret '' @ sr_Namespace ref
                    @ ''/'' @ sr_Name ref)
     | Some v \<Rightarrow> Inr v))"

definition secret_key :: "RouterEnv \<Rightarrow> Router \<Rightarrow> 'q AIScaler \<Rightarrow> string" where
  "secret_key env r policy = (case lc_APIKeySecret (spec_LLM (ai_Spec policy)) of
     None \<Rightarrow> ''''
   | Some ref \<Rightarrow> (if ro_hasClient r
       then (case readSecret env ref of Inr key \<Rightarrow> key | Inl e \<Rightarrow> '''') else ''''))"

definition cached :: "RouterEnv \<Rightarrow> Router \<Rightarrow> ScalingRequest \<Rightarrow> (ScalingDecision \<times> string) option" where
  "cached env r req = (case ro_cache r of
     None \<Rightarrow> None
   | Some c \<Rightarrow> cache_Get (re_now env ''cache.Get'') c (BuildKey (re_digest env) req))"

definition Decide ::
  "RouterEnv \<Rightarrow> 'q AIScaler \<Rightarrow> ScalingRequest \<Rightarrow> Router
    \<Rightarrow> (go_error + (ScalingDecision \<times> LLMProvider)) \<times> Router" where
  "Decide env policy req r = (case cached env r req of
     Some (d, provider) \<Rightarrow> (Inr (d, provider), r)
   | None \<Rightarrow> (let
       llm = spec_LLM (ai_Spec policy);
       primary = lc_Primary llm;
       secret = secret_key env r policy
     in case callProviderWithCB env primary (effectiveModelOverride primary primary (lc_Model llm)) req secret r of
          (Inr d, r1) \<Rightarrow> (Inr (d, primary), cacheResult env req d primary r1)
        | (Inl err, r1) \<Rightarrow> (case lc_Fallback llm of
            None \<Rightarrow> (Inl (''primary provider '' @ primary @ '' failed: '' @ err), r1)
          | Some fb \<Rightarrow> (case callProviderWithCB env fb (effectiveModelOverride primary fb (lc_Model llm)) req secret r1 of
              (Inl ferr, r2) \<Rightarrow> (Inl (''primary '' @ primary @ '' failed ('' @ err @ '') and fallback ''
                 @ fb @ '' also failed: '' @ ferr), r2)
            | (Inr d, r2) \<Rightarrow> (Inr (d, fb), cacheResult env req d fb r2)))))"

definition GetCircuitBreakerState :: "RouterEnv \<Rightarrow> string \<Rightarrow> Router \<Rightarrow> string \<times> Router" where
  "GetCircuitBreakerState env provider r = (case fmlookup (ro_circuitBreakers r) provider of
     None \<Rightarrow> (''closed'', r)
   | Some cb \<Rightarrow> (case State (re_now env ''state'') cb of (s, cb') \<Rightarrow> (s, set_breaker provider cb' r)))"

section \<open>Lemmas\<close>

lemma trim_stop: "List.find (\<lambda>c. c \<noteq> [] \<and> prefix c s) codes = None \<Longrightarrow> trim_prefixes codes s = s"
  by (subst trim_prefixes.simps) simp

definition prefix_free :: "string list \<Rightarrow> bool" where
  "prefix_free codes \<longleftrightarrow> list_all (\<lambda>c. c \<noteq> [] \<and> list_all (\<lambda>d. prefix c d \<longrightarrow> c = d) codes) codes"

lemma trim_code:
  assumes "prefix_free codes" and "c \<in> set codes"
  shows "trim_prefixes codes (c @ s) = trim_prefixes codes s"
proof -
  have "List.find (\<lambda>c'. c' \<noteq> [] \<and> prefix c' (c @ s)) codes \<noteq> None"
    using assms by (auto simp: find_None_all prefix_free_def list_all_iff intro!: bexI [of _ c])
  then obtain d where d: "List.find (\<lambda>c'. c' \<noteq> [] \<and> prefix c' (c @ s)) codes = Some d" by blast
  then have "d \<in> set codes" "prefix d (c @ s)" by (auto dest: find_Some_set)
  then have "prefix d c \<or> prefix c d" by (metis prefix_append prefix_def prefix_same_cases)
  then have "d = c" using assms \<open>d \<in> set codes\<close> by (auto simp: prefix_free_def list_all_iff)
  then show ?thesis using d by (subst trim_prefixes.simps) simp
qed

lemma trim_codes:
  "prefix_free codes \<Longrightarrow> set cs \<subseteq> set codes \<Longrightarrow> trim_prefixes codes (concat cs @ s) = trim_prefixes codes s"
  by (induction cs) (simp_all add: trim_code)

lemma space_codes_free: "prefix_free space_codes" "prefix_free (List.map rev space_codes)"
  by (simp_all add: prefix_free_def space_codes_def)

text \<open>A text that neither begins nor ends with white space.\<close>

definition starts_clean :: "string \<Rightarrow> bool" where
  "starts_clean s \<longleftrightarrow> List.find (\<lambda>c. c \<noteq> [] \<and> prefix c s) space_codes = None"

definition ends_clean :: "string \<Rightarrow> bool" where
  "ends_clean s \<longleftrightarrow> List.find (\<lambda>c. c \<noteq> [] \<and> prefix c (rev s)) (List.map rev space_codes) = None"

lemma TrimSpace_clean:
  assumes "set cs \<subseteq> set space_codes" and "set ds \<subseteq> set space_codes"
    and "starts_clean (s @ concat ds)" and "ends_clean s"
  shows "TrimSpace (concat cs @ s @ concat ds) = s"
proof -
  have "trim_prefixes space_codes (concat cs @ s @ concat ds) = s @ concat ds"
    using trim_codes [OF space_codes_free(1) assms(1)] trim_stop assms(3) by (simp add: starts_clean_def)
  moreover have "rev (s @ concat ds) = concat (rev (List.map rev ds)) @ rev s"
    by (simp add: rev_concat rev_map)
  moreover have "set (rev (List.map rev ds)) \<subseteq> set (List.map rev space_codes)" using assms(2) by auto
  ultimately show ?thesis
    using trim_codes [OF space_codes_free(2), of "rev (List.map rev ds)" "rev s"] trim_stop assms(4)
    by (simp add: TrimSpace_def ends_clean_def)
qed

lemma callProvider_cfg: "ro_cfg r = ro_cfg r' \<Longrightarrow> callProvider env r p m q k = callProvider env r' p m q k"
  by (simp add: callProvider_def buildClient_def)

lemma set_breaker_simps [simp]:
  "ro_cfg (set_breaker p cb r) = ro_cfg r" "ro_cache (set_breaker p cb r) = ro_cache r"
  "ro_hasClient (set_breaker p cb r) = ro_hasClient r"
  "ro_circuitBreakers (set_breaker p cb r) = fmupd p cb (ro_circuitBreakers r)"
  by (simp_all add: set_breaker_def)

lemma with_breaker_cfg [simp]:
  "ro_cfg (snd (callProviderWithCB env p m q k r)) = ro_cfg r"
  "ro_cache (snd (callProviderWithCB env p m q k r)) = ro_cache r"
  by (simp_all add: callProviderWithCB_def split: option.split prod.split bool.split sum.split)

lemma with_breaker_Inr:
  "fst (callProviderWithCB env p m q k r) = Inr d \<Longrightarrow> callProvider env r p m q k = Inr d"
  by (auto simp: callProviderWithCB_def split: option.splits prod.splits bool.splits sum.splits)

lemma with_breaker_open:
  assumes "fmlookup (ro_circuitBreakers r) p = Some cb" and "\<not> fst (cb_Allow (re_now env (''allow '' @ p)) cb)"
  shows "fst (callProviderWithCB env p m q k r) = Inl (''circuit breaker open for '' @ p)"
  using assms by (auto simp: callProviderWithCB_def split: prod.split bool.split)

definition breaker_ok :: "CircuitBreaker \<Rightarrow> bool" where
  "breaker_ok cb \<longleftrightarrow> 0 < cb_threshold cb \<and> cb_inv cb"

definition router_ok :: "Router \<Rightarrow> bool" where
  "router_ok r \<longleftrightarrow> (\<forall>p cb. fmlookup (ro_circuitBreakers r) p = Some cb \<longrightarrow> breaker_ok cb)"

lemma breaker_ok_step: "cb_step cb l cb' \<Longrightarrow> breaker_ok cb \<Longrightarrow> breaker_ok cb'"
  using cb_inv_step cb_step_threshold by (fastforce simp: breaker_ok_def)

lemma breaker_ok_ops:
  assumes "breaker_ok cb"
  shows "breaker_ok (snd (cb_Allow t cb))" "breaker_ok (RecordFailure t cb)" "breaker_ok (RecordSuccess cb)"
    "breaker_ok (snd (State t cb))"
  using assms breaker_ok_step cb_step.intros by (metis prod.collapse)+

lemma router_ok_set: "router_ok r \<Longrightarrow> breaker_ok cb \<Longrightarrow> router_ok (set_breaker p cb r)"
  by (simp add: router_ok_def)

lemma router_ok_call: "router_ok r \<Longrightarrow> router_ok (snd (callProviderWithCB env p m q k r))"
proof -
  assume r: "router_ok r"
  show ?thesis
  proof (cases "fmlookup (ro_circuitBreakers r) p")
    case None
    then show ?thesis using r by (simp add: callProviderWithCB_def)
  next
    case (Some cb)
    then have cb: "breaker_ok cb" using r by (simp add: router_ok_def)
    obtain b cb' where a: "cb_Allow (re_now env (''allow '' @ p)) cb = (b, cb')" by force
    then have cb': "breaker_ok cb'" using breaker_ok_ops(1) [OF cb] by (metis snd_conv)
    show ?thesis
      unfolding callProviderWithCB_def Some updateCBMetric_def using r cb' a
      by (auto intro!: router_ok_set breaker_ok_ops split: prod.split bool.split sum.split)
  qed
qed

lemma router_ok_cache: "router_ok r \<Longrightarrow> router_ok (cacheResult env q d p r)"
  by (simp add: cacheResult_def router_ok_def split: option.split)

lemma router_ok_new: "0 < n \<Longrightarrow> router_ok (WithCircuitBreaker n t (NewRouter cfg))"
proof -
  assume n: "0 < n"
  have add: "\<forall>p cb. fmlookup m p = Some cb \<longrightarrow> breaker_ok cb \<Longrightarrow>
      \<forall>p cb. fmlookup (add_breakers n t ps m) p = Some cb \<longrightarrow> breaker_ok cb" for ps m
  proof (induction ps arbitrary: m)
    case (Cons a ps)
    have "breaker_ok (NewCircuitBreaker n t)"
      using n cb_inv_new by (simp add: breaker_ok_def NewCircuitBreaker_def)
    then have "\<forall>p cb. fmlookup (fmupd (pv_Name a) (NewCircuitBreaker n t) m) p = Some cb \<longrightarrow> breaker_ok cb"
      using Cons.prems by auto
    then show ?case unfolding add_breakers.simps by (rule Cons.IH)
  qed simp
  have "ro_circuitBreakers (WithCircuitBreaker n t (NewRouter cfg)) = add_breakers n t (ll_Providers (cfg_LLM cfg)) fmempty"
    by (simp add: WithCircuitBreaker_def NewRouter_def)
  moreover have "\<forall>p cb. fmlookup (add_breakers n t (ll_Providers (cfg_LLM cfg)) fmempty) p = Some cb \<longrightarrow> breaker_ok cb"
    by (rule add) simp
  ultimately show ?thesis by (simp only: router_ok_def)
qed

section \<open>Properties\<close>

text \<open>
  C32. Every decision the router returns is the cached one, with the provider that gave it, or the
  answer of the provider it names, which is the primary, or the fallback after the primary's call
  failed.
\<close>

theorem Decide_provenance:
  assumes "fst (Decide env pol q r) = Inr (d, p)"
  shows "cached env r q = Some (d, p)
    \<or> (let llm = spec_LLM (ai_Spec pol); prim = lc_Primary llm; k = secret_key env r pol;
           m = (\<lambda>x. effectiveModelOverride prim x (lc_Model llm))
       in cached env r q = None \<and>
          (p = prim \<and> callProvider env r prim (m prim) q k = Inr d
           \<or> lc_Fallback llm = Some p \<and> callProvider env r p (m p) q k = Inr d
             \<and> (\<exists>e. fst (callProviderWithCB env prim (m prim) q k r) = Inl e)))"
proof (cases "cached env r q")
  case (Some c)
  then show ?thesis using assms by (cases c) (simp add: Decide_def)
next
  case None
  define prim m k where "prim = lc_Primary (spec_LLM (ai_Spec pol))"
    and "m = (\<lambda>x. effectiveModelOverride prim x (lc_Model (spec_LLM (ai_Spec pol))))"
    and "k = secret_key env r pol"
  obtain res1 r1 where c1: "callProviderWithCB env prim (m prim) q k r = (res1, r1)" by force
  have cfg: "ro_cfg r1 = ro_cfg r" using with_breaker_cfg(1) c1 by (metis snd_conv)
  show ?thesis
  proof (cases res1)
    case (Inr d1)
    then have "d1 = d" "p = prim"
      using assms c1 None by (auto simp: Decide_def Let_def prim_def m_def k_def)
    then show ?thesis
      using with_breaker_Inr [of env prim "m prim" q k r d] c1 Inr None
      by (simp add: Let_def prim_def m_def k_def)
  next
    case (Inl e)
    then obtain fb where fb: "lc_Fallback (spec_LLM (ai_Spec pol)) = Some fb"
      using assms c1 None by (auto simp: Decide_def Let_def prim_def m_def k_def split: option.splits)
    obtain res2 r2 where c2: "callProviderWithCB env fb (m fb) q k r1 = (res2, r2)" by force
    have "res2 = Inr d" "p = fb"
      using assms c1 c2 Inl None fb by (auto simp: Decide_def Let_def prim_def m_def k_def split: sum.splits)
    then have "callProvider env r fb (m fb) q k = Inr d"
      using with_breaker_Inr [of env fb "m fb" q k r1 d] c2 callProvider_cfg [OF cfg] by simp
    then show ?thesis using c1 Inl None fb \<open>p = fb\<close> by (simp add: Let_def prim_def m_def k_def)
  qed
qed

definition sample_env :: "(string \<Rightarrow> string \<Rightarrow> string \<Rightarrow> string \<Rightarrow> go_error + string list) \<Rightarrow> RouterEnv" where
  "sample_env f = \<lparr>re_now = (\<lambda>_. 10), re_evictClock = (\<lambda>_. 10), re_complete = f,
     re_unmarshal = (\<lambda>_. Inr zero_ScalingDecision), re_secret = (\<lambda>_ _. Inl ''none''), re_digest = id\<rparr>"

definition ollama_policy :: "'q AIScaler" where
  "ollama_policy = zero_AIScaler \<lparr>ai_Spec := zero_Spec \<lparr>spec_LLM := zero_LLMConfig \<lparr>lc_Primary := ''ollama''\<rparr>\<rparr>\<rparr>"

definition sample_request :: ScalingRequest where
  "sample_request = \<lparr>rq_PolicyName = [], rq_Namespace = [], rq_CurrentReplicas = 1, rq_MinReplicas = 1,
     rq_MaxReplicas = 5, rq_MaxScaleStep = 2, rq_CPUUtilization = 0, rq_MemoryUtilization = 0,
     rq_P95LatencyMs = 0, rq_ErrorRate = 0, rq_QueueDepth = 0, rq_DeploymentReady = True,
     rq_ExpectedTraffic = [], rq_ScaleConservatively = False, rq_Note = [], rq_PeakHours = [],
     rq_CustomSignals = fmempty, rq_SLOContext = [], rq_CostContext = [], rq_PredictiveContext = [],
     rq_NodeContext = [], rq_VerticalContext = [], rq_FeedbackContext = []\<rparr>"

lemma Decide_sample:
  "fst (Decide (sample_env (\<lambda>_ _ _ _. Inr [''{}''])) (ollama_policy :: int AIScaler) sample_request
     (NewRouter sample_config)) = Inr (zero_ScalingDecision, ''ollama'')"
  by (simp add: Decide_def cached_def NewRouter_def callProviderWithCB_def callProvider_def buildClient_def
      LLMProviderSettings_def sample_config_def sample_env_def ollama_policy_def zero_defs parseDecision_def
      effectiveModelOverride_def secret_key_def Let_def)

lemma Decide_provenance_witness:
  "callProvider (sample_env (\<lambda>_ _ _ _. Inr [''{}''])) (NewRouter sample_config) ''ollama'' [] sample_request []
    = Inr zero_ScalingDecision"
  using Decide_provenance [OF Decide_sample]
  by (simp add: cached_def NewRouter_def ollama_policy_def zero_defs effectiveModelOverride_def secret_key_def Let_def)

text \<open>
  The router fails fast: while the breaker of the primary rejects and there is no fallback,
  the answer is the breaker's error, whatever the provider would answer, and nothing is cached.
\<close>

theorem Decide_fails_fast:
  assumes "cached env r q = None" and "lc_Fallback (spec_LLM (ai_Spec pol)) = None"
    and "fmlookup (ro_circuitBreakers r) (lc_Primary (spec_LLM (ai_Spec pol))) = Some cb"
    and "cb_state cb = ''open''"
    and "time_sub (re_now env (''allow '' @ lc_Primary (spec_LLM (ai_Spec pol)))) (cb_lastFailure cb) \<le> cb_resetTimeout cb"
  shows "fst (Decide env pol q r) = Inl (''primary provider '' @ lc_Primary (spec_LLM (ai_Spec pol))
       @ '' failed: circuit breaker open for '' @ lc_Primary (spec_LLM (ai_Spec pol)))
    \<and> ro_cache (snd (Decide env pol q r)) = ro_cache r"
proof -
  define prim m k where "prim = lc_Primary (spec_LLM (ai_Spec pol))"
    and "m = effectiveModelOverride prim prim (lc_Model (spec_LLM (ai_Spec pol)))"
    and "k = secret_key env r pol"
  have "\<not> fst (cb_Allow (re_now env (''allow '' @ prim)) cb)"
    using assms(4,5) cb_Allow_False_iff by (simp add: prim_def)
  then have "fst (callProviderWithCB env prim m q k r) = Inl (''circuit breaker open for '' @ prim)"
    using with_breaker_open assms(3) by (simp add: prim_def)
  then obtain r1 where c: "callProviderWithCB env prim m q k r = (Inl (''circuit breaker open for '' @ prim), r1)"
    by (metis prod.collapse)
  then have "ro_cache r1 = ro_cache r" using with_breaker_cfg(2) by (metis snd_conv)
  then show ?thesis using c assms(1,2) by (simp add: Decide_def Let_def prim_def m_def k_def)
qed

lemma Decide_fails_fast_witness:
  "fst (Decide (sample_env (\<lambda>_ _ _ _. Inl ''down'')) (ollama_policy :: int AIScaler) sample_request
     (set_breaker ''ollama'' (RecordFailure 5 (NewCircuitBreaker 1 60)) (NewRouter sample_config)))
   = Inl ''primary provider ollama failed: circuit breaker open for ollama''"
  using Decide_fails_fast [of "sample_env (\<lambda>_ _ _ _. Inl ''down'')"
      "set_breaker ''ollama'' (RecordFailure 5 (NewCircuitBreaker 1 60)) (NewRouter sample_config)"
      sample_request "ollama_policy :: int AIScaler" "RecordFailure 5 (NewCircuitBreaker 1 60)"]
  by (simp add: cached_def NewRouter_def ollama_policy_def zero_defs set_breaker_def RecordFailure_def
      NewCircuitBreaker_def sample_env_def time_sub_def duration_defs Let_def)

fun decisions :: "(RouterEnv \<times> 'q AIScaler \<times> ScalingRequest) list \<Rightarrow> Router \<Rightarrow> Router" where
  "decisions [] r = r"
| "decisions ((env, pol, q) # xs) r = decisions xs (snd (Decide env pol q r))"

lemma router_ok_Decide: "router_ok r \<Longrightarrow> router_ok (snd (Decide env pol q r))"
proof -
  assume r: "router_ok r"
  have c: "router_ok r' \<Longrightarrow> callProviderWithCB env p m q k r' = (a, b) \<Longrightarrow> router_ok b" for p m q k r' a b
    using router_ok_call [of r' env p m q k] by simp
  show ?thesis
    using r c [OF c [OF r]] c [OF r]
    by (auto simp: Decide_def Let_def intro!: router_ok_cache split: option.split prod.split sum.split)
qed

text \<open>
  Every router built with breakers of a positive threshold keeps all of them in the states of
  the breaker's protocol, through any decisions, with any answers of the providers.
\<close>

theorem decisions_router_ok:
  assumes "0 < n"
    and "fmlookup (ro_circuitBreakers (decisions ds (WithCircuitBreaker n t (NewRouter cfg)))) p = Some cb"
  shows "cb_state cb = ''closed'' \<and> cb_failureCount cb < cb_threshold cb
    \<or> cb_state cb \<in> {''open'', ''half-open''} \<and> cb_threshold cb \<le> cb_failureCount cb"
proof -
  have "router_ok r \<Longrightarrow> router_ok (decisions ds r)" for r
    by (induction ds r rule: decisions.induct) (simp_all add: router_ok_Decide)
  then have "router_ok (decisions ds (WithCircuitBreaker n t (NewRouter cfg)))"
    using router_ok_new [OF assms(1)] by blast
  then show ?thesis using assms(2) by (auto simp: router_ok_def breaker_ok_def cb_inv_def)
qed

lemma decisions_router_ok_witness:
  "cb_state (NewCircuitBreaker 5 60) = ''closed'' \<and> cb_failureCount (NewCircuitBreaker 5 60) < cb_threshold (NewCircuitBreaker 5 60)
    \<or> cb_state (NewCircuitBreaker 5 60) \<in> {''open'', ''half-open''} \<and> cb_threshold (NewCircuitBreaker 5 60) \<le> cb_failureCount (NewCircuitBreaker 5 60)"
  using decisions_router_ok [of 5 "[] :: (RouterEnv \<times> int AIScaler \<times> ScalingRequest) list" 60 sample_config "''ollama''"]
  by (simp add: WithCircuitBreaker_def NewRouter_def sample_config_def)

text \<open>
  An answer in a JSON code fence, with any white space of Unicode around the fences and the
  body, decodes to what its body decodes to.
\<close>

theorem parseDecision_fenced:
  assumes "set (ws1 @ ws2 @ ws3 @ ws4) \<subseteq> set space_codes"
    and "starts_clean (body @ concat ws3)" and "ends_clean body"
  shows "parseDecision u (concat ws1 @ (''```json'' @ concat ws2 @ body @ concat ws3 @ ''```'') @ concat ws4) =
    (case u body of Inl e \<Rightarrow> Inl (''failed to parse LLM response: '' @ e @ nl @ ''raw: ''
        @ concat ws1 @ (''```json'' @ concat ws2 @ body @ concat ws3 @ ''```'') @ concat ws4)
     | Inr d \<Rightarrow> Inr d)"
proof -
  have 1: "TrimSpace (concat ws1 @ (''```json'' @ concat ws2 @ body @ concat ws3 @ ''```'') @ concat ws4)
      = ''```json'' @ concat ws2 @ body @ concat ws3 @ ''```''"
    using assms(1) by (intro TrimSpace_clean)
      (simp_all add: starts_clean_def ends_clean_def space_codes_def)
  have 2: "TrimSuffix (TrimPrefix (''```json'' @ concat ws2 @ body @ concat ws3 @ ''```'') ''```json'') ''```''
      = concat ws2 @ body @ concat ws3"
    by (simp add: TrimPrefix_def TrimSuffix_def suffix_def)
  have 3: "TrimSpace (concat ws2 @ body @ concat ws3) = body"
    using assms by (intro TrimSpace_clean) simp_all
  show ?thesis unfolding parseDecision_def Let_def 1 2 3 by (rule refl)
qed

lemma parseDecision_fenced_witness:
  "parseDecision (\<lambda>s. if s = ''{}'' then Inr zero_ScalingDecision else Inl ''bad'')
     (''  ```json'' @ nl @ ''{}'' @ nl @ ''```'' @ nl) = Inr zero_ScalingDecision"
  using parseDecision_fenced [of "['' '', '' '']" "[nl]" "[nl]" "[nl]" "''{}''"
      "\<lambda>s. if s = ''{}'' then Inr zero_ScalingDecision else Inl ''bad''"]
  by (simp add: starts_clean_def ends_clean_def space_codes_def nl_def)

end
