(* ===== verification/Bounded_Log.thy ===== *)
theory Bounded_Log
  imports Prelude
begin

text \<open>
  The contract of the histories that keep the last entries only (the oscillation detector and the
  two savings trackers): an entry is appended, after dropping the oldest when the history is full.
\<close>

definition keep_last :: "int \<Rightarrow> 'e list \<Rightarrow> 'e list" where
  "keep_last n xs = drop (length xs - nat n) xs"

lemma length_keep_last: "0 \<le> n \<Longrightarrow> int (length (keep_last n xs)) = min n (int (length xs))"
  by (simp add: keep_last_def)

lemma keep_last_suffix: "suffix (keep_last n xs) xs"
  by (simp add: keep_last_def suffix_drop)

lemma keep_last_short: "int (length xs) \<le> n \<Longrightarrow> keep_last n xs = xs"
  by (simp add: keep_last_def)

lemma keep_last_snoc:
  assumes "0 < n"
  shows "keep_last n (keep_last n xs @ ys) = keep_last n (xs @ ys)"
proof -
  have "length (drop (length xs - nat n) xs @ ys) - nat n + (length xs - nat n) =
      length (xs @ ys) - nat n \<or> length xs \<le> nat n"
    by auto
  then show ?thesis by (auto simp: keep_last_def)
qed

locale bounded_log =
  fixes push :: "'e \<Rightarrow> 's \<Rightarrow> 's"
    and log :: "'s \<Rightarrow> 'e list"
    and cap :: "'s \<Rightarrow> int"
  assumes record_log: "0 < cap s \<Longrightarrow>
      log (push e s) = (if cap s \<le> int (length (log s)) then tl (log s) else log s) @ [e]"
    and record_cap: "0 < cap s \<Longrightarrow> cap (push e s) = cap s"
begin

lemma record_bounded:
  "0 < cap s \<Longrightarrow> int (length (log s)) \<le> cap s \<Longrightarrow> int (length (log (push e s))) \<le> cap s"
  by (auto simp: record_log)

lemma record_keep_last:
  assumes "0 < cap s" and "int (length (log s)) \<le> cap s"
  shows "log (push e s) = keep_last (cap s) (log s @ [e])"
proof (cases "cap s \<le> int (length (log s))")
  case True
  then have "int (length (log s)) = cap s" using assms(2) by simp
  then have "length (log s @ [e]) - nat (cap s) = 1" "log s \<noteq> []" using assms(1) by auto
  then show ?thesis using True assms(1) by (simp add: record_log keep_last_def drop_Suc)
next
  case False
  then show ?thesis using assms by (simp add: record_log keep_last_def)
qed

lemma record_all:
  assumes "0 < cap s" and "int (length (log s)) \<le> cap s"
  shows "log (fold push es s) = keep_last (cap s) (log s @ es) \<and> cap (fold push es s) = cap s"
  using assms
proof (induction es arbitrary: s)
  case Nil
  then show ?case by (simp add: keep_last_short)
next
  case (Cons e es)
  have "0 < cap (push e s)" "int (length (log (push e s))) \<le> cap (push e s)"
    using Cons.prems record_bounded by (simp_all add: record_cap)
  from Cons.IH [OF this] show ?case
    using Cons.prems record_keep_last [OF Cons.prems, of e] keep_last_snoc [of "cap s" "log s @ [e]" es]
    by (simp add: record_cap)
qed

lemma record_latest: "0 < cap s \<Longrightarrow> last (log (push e s)) = e"
  by (simp add: record_log)

end

end
