(* ===== verification/Cost.thy ===== *)
theory Cost
  imports Bounded_Log Float64
begin

text \<open>
  \<open>internal/cost\<close>: the OpenCost reading, the estimate of a proposed change, the budget check and
  the history of savings.  Amounts are \<open>float64\<close>.
\<close>

section \<open>Estimates\<close>

record WorkloadCost =
  wc_TotalCost :: float64
  wc_CPUCost :: float64
  wc_MemoryCost :: float64
  wc_CPUEfficiency :: float64
  wc_RAMEfficiency :: float64
  wc_TotalEfficiency :: float64

record CostEstimate =
  est_CurrentHourlyCost :: float64
  est_ProposedHourlyCost :: float64
  est_DeltaHourlyCost :: float64
  est_DeltaMonthlyCost :: float64
  est_CostPerReplica :: float64
  est_WasteReduction :: float64

definition f_of_int32 :: "int32 \<Rightarrow> float64" where
  "f_of_int32 a = f_of_int (sint a)"

definition Estimate :: "WorkloadCost \<Rightarrow> int32 \<Rightarrow> int32 \<Rightarrow> go_error + CostEstimate" where
  "Estimate currentCost currentReplicas proposedReplicas =
     (if currentReplicas <=s 0 then Inl (''invalid current replicas: '' @ show_int32 currentReplicas)
      else (let
        costPerReplica = wc_TotalCost currentCost div f_of_int32 currentReplicas;
        proposedHourly = costPerReplica * f_of_int32 proposedReplicas;
        delta = proposedHourly - wc_TotalCost currentCost;
        monthly = delta * f_of_int 24 * f_of_int 30;
        wasteReduction = (if 0 < wc_TotalEfficiency currentCost \<and> proposedReplicas <s currentReplicas
          then (1 - wc_TotalEfficiency currentCost) * f_of_int32 (currentReplicas - proposedReplicas)
                 div f_of_int32 currentReplicas * f_of_int 100
          else 0)
      in Inr \<lparr>est_CurrentHourlyCost = wc_TotalCost currentCost, est_ProposedHourlyCost = proposedHourly,
          est_DeltaHourlyCost = delta, est_DeltaMonthlyCost = monthly,
          est_CostPerReplica = costPerReplica, est_WasteReduction = wasteReduction\<rparr>))"

section \<open>The budget\<close>

record BudgetCheckResult =
  bc_Allowed :: bool
  bc_Reason :: string
  bc_Remaining :: float64

definition Check :: "float64 \<Rightarrow> float64 \<Rightarrow> string \<Rightarrow> CostEstimate \<Rightarrow> BudgetCheckResult" where
  "Check maxHourly maxMonthly enforcement estimate = (let
     proposed = est_ProposedHourlyCost estimate;
     projectedMonthly = proposed * f_of_int 24 * f_of_int 30
   in if 0 < maxHourly \<and> maxHourly < proposed then
        (let msg = ''proposed hourly cost $'' @ show_f 2 proposed @ '' exceeds budget $'' @ show_f 2 maxHourly
         in if enforcement = ''hard''
            then \<lparr>bc_Allowed = False, bc_Reason = msg, bc_Remaining = maxHourly - proposed\<rparr>
            else \<lparr>bc_Allowed = True, bc_Reason = ''WARNING: '' @ msg, bc_Remaining = maxHourly - proposed\<rparr>)
      else if 0 < maxMonthly \<and> maxMonthly < projectedMonthly then
        (let msg = ''projected monthly cost $'' @ show_f 2 projectedMonthly @ '' exceeds budget $'' @ show_f 2 maxMonthly
         in if enforcement = ''hard''
            then \<lparr>bc_Allowed = False, bc_Reason = msg, bc_Remaining = maxMonthly - projectedMonthly\<rparr>
            else \<lparr>bc_Allowed = True, bc_Reason = ''WARNING: '' @ msg, bc_Remaining = maxMonthly - projectedMonthly\<rparr>)
      else \<lparr>bc_Allowed = True, bc_Reason = [], bc_Remaining = maxHourly - proposed\<rparr>)"

section \<open>The OpenCost client\<close>

text \<open>
  The request, its status and the decoded body are parameters: \<open>fetch url\<close> is the error text of
  building or sending the request, or the status and the body.
\<close>

type_synonym allocationEntry = WorkloadCost

fun find_window :: "string \<Rightarrow> (string, allocationEntry) fmap list \<Rightarrow> WorkloadCost" where
  "find_window ns [] = \<lparr>wc_TotalCost = 0, wc_CPUCost = 0, wc_MemoryCost = 0, wc_CPUEfficiency = 0,
     wc_RAMEfficiency = 0, wc_TotalEfficiency = 0\<rparr>"
| "find_window ns (w # ws) = (case fmlookup w ns of Some e \<Rightarrow> e | None \<Rightarrow> find_window ns ws)"

datatype http_result = BuildError string | SendError string | Response int string

definition GetWorkloadCost :: "(string \<Rightarrow> http_result) \<Rightarrow> (string \<Rightarrow> go_error + (string, allocationEntry) fmap list)
    \<Rightarrow> string \<Rightarrow> string \<Rightarrow> go_error + WorkloadCost" where
  "GetWorkloadCost fetch decode endpoint namespace =
     (case fetch (endpoint @ ''/allocation/compute?window=1h&aggregate=namespace&filterNamespaces='' @ namespace) of
        BuildError e \<Rightarrow> Inl (''build request: '' @ e)
      | SendError e \<Rightarrow> Inl (''opencost request: '' @ e)
      | Response status body \<Rightarrow>
          (if status \<noteq> 200 then Inl (''opencost status '' @ show_int status)
           else (case decode body of
               Inl e \<Rightarrow> Inl (''decode response: '' @ e)
             | Inr windows \<Rightarrow> Inr (find_window namespace windows))))"

section \<open>Savings\<close>

record SavingsRecord =
  sv_Timestamp :: time
  sv_Workload :: string
  sv_Namespace :: string
  sv_DeltaHourly :: float64
  sv_DeltaMonthly :: float64
  sv_PreviousReplicas :: int32
  sv_NewReplicas :: int32

record SavingsSummary =
  sm_TotalSaved :: float64
  sm_TotalEvents :: int
  sm_AvgSavingPerEvent :: float64
  sm_LargestSingleSaving :: float64

record Tracker =
  tk_records :: "SavingsRecord list"
  tk_maxSize :: int

definition NewTracker :: "int \<Rightarrow> Tracker" where
  "NewTracker maxSize = \<lparr>tk_records = [], tk_maxSize = (if maxSize \<le> 0 then 1 else maxSize)\<rparr>"

text \<open>With the capacity forced positive, the slice after the first record is never out of range.\<close>

definition tracker_Record :: "SavingsRecord \<Rightarrow> Tracker \<Rightarrow> Tracker" where
  "tracker_Record r t0 = (let
     t = (if tk_maxSize t0 \<le> 0 then t0 \<lparr>tk_maxSize := 1\<rparr> else t0);
     kept = (if tk_maxSize t \<le> int (length (tk_records t)) then drop 1 (tk_records t) else tk_records t)
   in t \<lparr>tk_records := kept @ [r]\<rparr>)"

fun add_savings :: "SavingsRecord list \<Rightarrow> float64 \<times> float64 \<Rightarrow> float64 \<times> float64" where
  "add_savings [] s = s"
| "add_savings (r # rs) (tot, largest) =
     (if sv_DeltaMonthly r < 0 then
        (let saving = - sv_DeltaMonthly r
         in add_savings rs (tot + saving, if largest < saving then saving else largest))
      else add_savings rs (tot, largest))"

definition tracker_Summary :: "Tracker \<Rightarrow> SavingsSummary" where
  "tracker_Summary t = (let
     n = int (length (tk_records t));
     (tot, largest) = add_savings (tk_records t) (0, 0)
   in \<lparr>sm_TotalSaved = tot, sm_TotalEvents = n,
       sm_AvgSavingPerEvent = (if 0 < n then tot div f_of_int n else 0),
       sm_LargestSingleSaving = largest\<rparr>)"

interpretation tracker: bounded_log tracker_Record tk_records tk_maxSize
  by unfold_locales (auto simp: tracker_Record_def Let_def drop_Suc)

section \<open>Lemmas\<close>

lemma Check_allowed_iff:
  "bc_Allowed (Check h m enf e) \<longleftrightarrow> enf \<noteq> ''hard'' \<or>
    \<not> (0 < h \<and> h < est_ProposedHourlyCost e)
    \<and> \<not> (0 < m \<and> m < est_ProposedHourlyCost e * f_of_int 24 * f_of_int 30)"
  by (simp add: Check_def Let_def)

lemma Estimate_Inr:
  "Estimate wc cur prop = Inr e \<Longrightarrow> 0 < sint cur \<and> est_CurrentHourlyCost e = wc_TotalCost wc
    \<and> est_CostPerReplica e = wc_TotalCost wc div f_of_int32 cur
    \<and> est_ProposedHourlyCost e = est_CostPerReplica e * f_of_int32 prop"
  by (auto simp: Estimate_def Let_def sless_sint split: if_splits)

section \<open>Properties\<close>

text \<open>
  The budget refuses a change exactly under hard enforcement, when the proposed hourly cost is
  above a positive hourly limit or its monthly projection above a positive monthly one; soft
  enforcement always allows, with a warning in the same cases.
\<close>

theorem Check_exact:
  "(\<not> bc_Allowed (Check h m enf e) \<longleftrightarrow> enf = ''hard''
      \<and> (0 < h \<and> h < est_ProposedHourlyCost e \<or> 0 < m \<and> m < est_ProposedHourlyCost e * f_of_int 24 * f_of_int 30))
   \<and> (bc_Reason (Check h m enf e) \<noteq> [] \<longleftrightarrow>
      (0 < h \<and> h < est_ProposedHourlyCost e \<or> 0 < m \<and> m < est_ProposedHourlyCost e * f_of_int 24 * f_of_int 30))"
  by (simp add: Check_def Let_def)

text \<open>
  The tracker holds exactly the last savings, as many as its capacity, which is at least one,
  whatever size it was asked for.
\<close>

theorem tracker_keeps_last:
  "tk_records (fold tracker_Record rs (NewTracker n)) = keep_last (max 1 n) rs"
proof -
  have "0 < tk_maxSize (NewTracker n)" "tk_maxSize (NewTracker n) = max 1 n"
    by (auto simp: NewTracker_def)
  then show ?thesis
    using tracker.record_all [of "NewTracker n" rs] by (simp add: NewTracker_def)
qed

end
