(* ===== verification/Alerting.thy ===== *)
theory Alerting
  imports Router Cost
begin

text \<open>
  The alert evaluator of \<open>internal/alerting/evaluator.go\<close>: the rules of a resource are checked
  against the signal bundle, a rule fires once its condition has held for its duration, and the
  fired alerts go to a webhook.  \<open>strconv.ParseFloat\<close>, the JSON encoder and the HTTP exchange are
  parameters.
\<close>

section \<open>strings.Fields\<close>

text \<open>The maximal runs without a space; the spaces are those of \<open>unicode.IsSpace\<close>.\<close>

definition space_at :: "string \<Rightarrow> string option" where
  "space_at s = List.find (\<lambda>c. c \<noteq> [] \<and> prefix c s) space_codes"

definition field_of :: "string \<Rightarrow> string list" where
  "field_of cur = (if cur = [] then [] else [cur])"

function fields_from :: "string \<Rightarrow> string \<Rightarrow> string list" where
  "fields_from cur [] = field_of cur"
| "fields_from cur (c # cs) = (case space_at (c # cs) of
     Some w \<Rightarrow> field_of cur @ fields_from [] (drop (length w) (c # cs))
   | None \<Rightarrow> fields_from (cur @ [c]) cs)"
  by pat_completeness auto

termination fields_from
proof (relation "measure (\<lambda>(cur, s). length s)")
  fix cur c cs w
  assume "space_at (c # cs) = Some w"
  then have "w \<noteq> []" by (auto simp: space_at_def dest: find_Some_set)
  then show "(([], drop (length w) (c # cs)), cur, c # cs) \<in> measure (\<lambda>(cur, s). length s)"
    by (cases w) auto
qed auto

definition Fields :: "string \<Rightarrow> string list" where
  "Fields s = fields_from [] s"

section \<open>Evaluator\<close>

record FiredAlert =
  fa_Name :: string
  fa_Severity :: string
  fa_Condition :: string
  fa_Value :: float64
  fa_FiredAt :: time

record Evaluator =
  ev_webhookURL :: string
  ev_webhookToken :: string
  ev_activeAlerts :: "(string, time) fmap"

definition NewEvaluator :: "string \<Rightarrow> string \<Rightarrow> Evaluator" where
  "NewEvaluator webhookURL webhookToken = \<lparr>ev_webhookURL = webhookURL, ev_webhookToken = webhookToken,
     ev_activeAlerts = fmempty\<rparr>"

definition alert_metric :: "string \<Rightarrow> Bundle \<Rightarrow> float64" where
  "alert_metric metric bundle =
     (if metric = ''error_rate'' then b_ErrorRate bundle * f_of_int 100
      else if metric = ''p95_latency'' then b_P95LatencyMs bundle
      else if metric = ''cpu'' then b_CPUUtilization bundle
      else if metric = ''memory'' then b_MemoryUtilization bundle
      else if metric = ''queue_depth'' then b_QueueDepth bundle
      else case fmlookup (b_CustomSignals bundle) metric of Some v \<Rightarrow> v | None \<Rightarrow> 0)"

definition alert_compare :: "string \<Rightarrow> float64 \<Rightarrow> float64 \<Rightarrow> bool" where
  "alert_compare operator v threshold =
     (if operator = ''>'' then threshold < v
      else if operator = ''>='' then threshold \<le> v
      else if operator = ''<'' then v < threshold
      else if operator = ''<='' then v \<le> threshold
      else if operator = ''=='' then f_eq v threshold
      else False)"

definition evaluateCondition :: "(string \<Rightarrow> go_error + float64) \<Rightarrow> string \<Rightarrow> Bundle \<Rightarrow> float64 \<times> bool" where
  "evaluateCondition parse_float condition bundle = (case Fields condition of
     [metric, operator, limit] \<Rightarrow> (case parse_float limit of
         Inl e \<Rightarrow> (0, False)
       | Inr threshold \<Rightarrow> (let v = alert_metric metric bundle
           in (v, alert_compare operator v threshold)))
   | _ \<Rightarrow> (0, False))"

text \<open>
  One evaluation reads the clock up to three times per rule: when the rule is first seen, when
  its age is taken and when it fires.  The clocks are indexed by the position of the rule.
\<close>

record AlertClock =
  ak_seen :: "nat \<Rightarrow> time"
  ak_now :: "nat \<Rightarrow> time"
  ak_fired :: "nat \<Rightarrow> time"

fun evaluate_rules :: "(string \<Rightarrow> go_error + float64) \<Rightarrow> AlertClock \<Rightarrow> Bundle \<Rightarrow> nat \<Rightarrow> AlertRule list
    \<Rightarrow> (string, time) fmap \<Rightarrow> FiredAlert list \<times> (string, time) fmap" where
  "evaluate_rules pf ck bundle i [] active = ([], active)"
| "evaluate_rules pf ck bundle i (rule # rules) active =
     (case evaluateCondition pf (ar_Condition rule) bundle of (v, breached) \<Rightarrow>
        if breached then (let
            active1 = (if fmlookup active (ar_Name rule) = None
                       then fmupd (ar_Name rule) (ak_seen ck i) active else active);
            elapsed = time_sub (ak_now ck i) (the (fmlookup active1 (ar_Name rule)));
            (fired, active2) = evaluate_rules pf ck bundle (Suc i) rules active1
          in (if ar_For rule \<le> elapsed
              then \<lparr>fa_Name = ar_Name rule, fa_Severity = ar_Severity rule, fa_Condition = ar_Condition rule,
                    fa_Value = v, fa_FiredAt = ak_fired ck i\<rparr> # fired
              else fired, active2))
        else evaluate_rules pf ck bundle (Suc i) rules (fmdrop (ar_Name rule) active))"

definition alert_Evaluate :: "(string \<Rightarrow> go_error + float64) \<Rightarrow> AlertClock \<Rightarrow> Bundle \<Rightarrow> AlertRule list
    \<Rightarrow> Evaluator \<Rightarrow> FiredAlert list \<times> Evaluator" where
  "alert_Evaluate pf ck bundle rules e =
     (case evaluate_rules pf ck bundle 0 rules (ev_activeAlerts e) of
        (fired, active) \<Rightarrow> (fired, e \<lparr>ev_activeAlerts := active\<rparr>))"

definition alert_Notify :: "(FiredAlert list \<Rightarrow> go_error + string) \<Rightarrow> (string \<Rightarrow> string \<Rightarrow> string \<Rightarrow> http_result)
    \<Rightarrow> Evaluator \<Rightarrow> FiredAlert list \<Rightarrow> go_error option" where
  "alert_Notify marshal post e alerts =
     (if ev_webhookURL e = [] \<or> length alerts = 0 then None
      else (case marshal alerts of
          Inl err \<Rightarrow> Some (''failed to marshal alert payload: '' @ err)
        | Inr payload \<Rightarrow> (case post (ev_webhookURL e) (ev_webhookToken e) payload of
            BuildError err \<Rightarrow> Some err
          | SendError err \<Rightarrow> Some (''alert webhook failed: '' @ err)
          | Response status body \<Rightarrow> None)))"

section \<open>Lemmas\<close>

definition breached :: "(string \<Rightarrow> go_error + float64) \<Rightarrow> Bundle \<Rightarrow> AlertRule \<Rightarrow> bool" where
  "breached pf b r = snd (evaluateCondition pf (ar_Condition r) b)"

text \<open>What one rule makes of its entry, and the effect of a list of rules on one entry.\<close>

definition age_entry :: "(string \<Rightarrow> go_error + float64) \<Rightarrow> AlertClock \<Rightarrow> Bundle \<Rightarrow> nat \<Rightarrow> AlertRule
    \<Rightarrow> time option \<Rightarrow> time option" where
  "age_entry pf ck b i r old = (if breached pf b r
     then (case old of None \<Rightarrow> Some (ak_seen ck i) | Some t \<Rightarrow> Some t) else None)"

definition age_map :: "(string \<Rightarrow> go_error + float64) \<Rightarrow> AlertClock \<Rightarrow> Bundle \<Rightarrow> nat \<Rightarrow> AlertRule
    \<Rightarrow> (string, time) fmap \<Rightarrow> (string, time) fmap" where
  "age_map pf ck b i r m = (if breached pf b r
     then (if fmlookup m (ar_Name r) = None then fmupd (ar_Name r) (ak_seen ck i) m else m)
     else fmdrop (ar_Name r) m)"

definition fires :: "(string \<Rightarrow> go_error + float64) \<Rightarrow> AlertClock \<Rightarrow> Bundle \<Rightarrow> nat \<Rightarrow> AlertRule
    \<Rightarrow> time option \<Rightarrow> bool" where
  "fires pf ck b i r old = (case age_entry pf ck b i r old of
     None \<Rightarrow> False | Some t \<Rightarrow> ar_For r \<le> time_sub (ak_now ck i) t)"

lemma age_map_lookup:
  "fmlookup (age_map pf ck b i r m) n =
    (if n = ar_Name r then age_entry pf ck b i r (fmlookup m n) else fmlookup m n)"
  by (auto simp: age_map_def age_entry_def split: option.split)

lemma evaluate_rules_snd:
  "snd (evaluate_rules pf ck b i (r # rs) m) = snd (evaluate_rules pf ck b (Suc i) rs (age_map pf ck b i r m))"
  by (simp add: age_map_def breached_def Let_def split: prod.split)

lemma evaluate_rules_fst:
  "fa_Name ` set (fst (evaluate_rules pf ck b i (r # rs) m)) =
    (if fires pf ck b i r (fmlookup m (ar_Name r)) then {ar_Name r} else {})
    \<union> fa_Name ` set (fst (evaluate_rules pf ck b (Suc i) rs (age_map pf ck b i r m)))"
  by (auto simp: fires_def age_entry_def age_map_def breached_def Let_def split: prod.splits option.splits if_splits)

lemma evaluate_rules_other:
  "n \<notin> ar_Name ` set rs \<Longrightarrow> fmlookup (snd (evaluate_rules pf ck b i rs m)) n = fmlookup m n"
  by (induction rs arbitrary: i m) (simp_all add: evaluate_rules_snd age_map_lookup del: evaluate_rules.simps(2))

lemma evaluate_rules_entry:
  assumes "distinct (List.map ar_Name rs)" and "k < length rs"
  shows "fmlookup (snd (evaluate_rules pf ck b i rs m)) (ar_Name (rs ! k)) =
    age_entry pf ck b (i + k) (rs ! k) (fmlookup m (ar_Name (rs ! k)))"
  using assms
proof (induction rs arbitrary: i m k)
  case (Cons r rs)
  show ?case
  proof (cases k)
    case 0
    have "ar_Name r \<notin> ar_Name ` set rs" using Cons.prems(1) by simp
    then show ?thesis
      using 0 by (simp add: evaluate_rules_snd evaluate_rules_other age_map_lookup del: evaluate_rules.simps(2))
  next
    case (Suc j)
    then have "ar_Name (rs ! j) \<noteq> ar_Name r" using Cons.prems by auto (metis image_eqI nth_mem)
    then show ?thesis
      using Suc Cons.prems Cons.IH [of j "Suc i"]
      by (simp add: evaluate_rules_snd age_map_lookup del: evaluate_rules.simps(2))
  qed
qed simp

lemma fired_names: "fa_Name ` set (fst (evaluate_rules pf ck b i rs m)) \<subseteq> ar_Name ` set rs"
  by (induction rs arbitrary: i m) (auto simp: evaluate_rules_fst simp del: evaluate_rules.simps(2) split: if_splits)

lemma evaluate_rules_fired:
  assumes "distinct (List.map ar_Name rs)" and "k < length rs"
  shows "ar_Name (rs ! k) \<in> fa_Name ` set (fst (evaluate_rules pf ck b i rs m)) \<longleftrightarrow>
    fires pf ck b (i + k) (rs ! k) (fmlookup m (ar_Name (rs ! k)))"
  using assms
proof (induction rs arbitrary: i m k)
  case (Cons r rs)
  show ?case
  proof (cases k)
    case 0
    have "ar_Name r \<notin> fa_Name ` set (fst (evaluate_rules pf ck b (Suc i) rs m'))" for m'
      using Cons.prems(1) fired_names [of pf ck b "Suc i" rs m'] by auto
    then show ?thesis using 0 by (simp add: evaluate_rules_fst del: evaluate_rules.simps(2))
  next
    case (Suc j)
    then have "ar_Name (rs ! j) \<noteq> ar_Name r" using Cons.prems by auto (metis image_eqI nth_mem)
    then show ?thesis
      using Suc Cons.prems Cons.IH [of j "Suc i"]
      by (auto simp: evaluate_rules_fst age_map_lookup simp del: evaluate_rules.simps(2))
  qed
qed simp

section \<open>Properties\<close>

text \<open>The evaluator after a history of evaluations, the newest first, and the start of a streak.\<close>

fun evaluator_after :: "(string \<Rightarrow> go_error + float64) \<Rightarrow> AlertRule list \<Rightarrow> (AlertClock \<times> Bundle) list
    \<Rightarrow> Evaluator \<Rightarrow> Evaluator" where
  "evaluator_after pf rules [] e = e"
| "evaluator_after pf rules ((ck, b) # older) e = snd (alert_Evaluate pf ck b rules (evaluator_after pf rules older e))"

fun streak_start :: "(string \<Rightarrow> go_error + float64) \<Rightarrow> AlertRule \<Rightarrow> nat \<Rightarrow> (AlertClock \<times> Bundle) list \<Rightarrow> time option" where
  "streak_start pf r i [] = None"
| "streak_start pf r i ((ck, b) # older) = (if breached pf b r
     then (case streak_start pf r i older of None \<Rightarrow> Some (ak_seen ck i) | Some t \<Rightarrow> Some t) else None)"

lemma evaluator_after_entry:
  assumes "distinct (List.map ar_Name rules)" and "k < length rules"
  shows "fmlookup (ev_activeAlerts (evaluator_after pf rules h (NewEvaluator u w))) (ar_Name (rules ! k)) =
    streak_start pf (rules ! k) k h"
proof (induction h)
  case (Cons x h)
  then show ?case
    using evaluate_rules_entry [OF assms, of pf "fst x" "snd x" 0]
    by (cases x) (simp add: alert_Evaluate_def age_entry_def case_prod_beta)
qed (simp add: NewEvaluator_def)

text \<open>
  C34. With rules of distinct names an alert fires at an evaluation exactly when its condition
  holds at it and, counting back over the consecutive evaluations at which it held, the first of
  them is at least the rule's duration old; a single evaluation in between at which the condition
  fails starts the count anew.
\<close>

theorem alert_fires_iff:
  assumes "distinct (List.map ar_Name rules)" and "k < length rules"
  shows "ar_Name (rules ! k) \<in> fa_Name ` set (fst (alert_Evaluate pf ck b rules
      (evaluator_after pf rules h (NewEvaluator url token)))) \<longleftrightarrow>
    (\<exists>t. streak_start pf (rules ! k) k ((ck, b) # h) = Some t \<and> ar_For (rules ! k) \<le> time_sub (ak_now ck k) t)"
  using evaluate_rules_fired [OF assms, of pf ck b 0] evaluator_after_entry [OF assms]
  by (simp add: alert_Evaluate_def fires_def age_entry_def case_prod_beta split: option.split)

definition cpu_alert :: AlertRule where
  "cpu_alert = \<lparr>ar_Name = ''hot'', ar_Condition = ''cpu > 80'', ar_Severity = ''warning'', ar_For = 30\<rparr>"

definition clock_at :: "time \<Rightarrow> AlertClock" where
  "clock_at t = \<lparr>ak_seen = (\<lambda>_. t), ak_now = (\<lambda>_. t), ak_fired = (\<lambda>_. t)\<rparr>"

definition cpu_bundle :: "int \<Rightarrow> Bundle" where
  "cpu_bundle p = zero_Bundle \<lparr>b_CPUUtilization := f_of_int p\<rparr>"

lemma cpu_fields: "Fields ''cpu > 80'' = [''cpu'', ''>'', ''80'']"
  by code_simp

lemma cpu_breached: "\<bar>p\<bar> \<le> 1000 \<Longrightarrow> breached (\<lambda>_. Inr (f_of_int 80)) (cpu_bundle p) cpu_alert \<longleftrightarrow> 80 < p"
  by (simp add: breached_def evaluateCondition_def cpu_alert_def cpu_fields alert_metric_def alert_compare_def
      cpu_bundle_def Let_def f_of_int_less)

lemma alert_fires_iff_witness:
  "''hot'' \<in> fa_Name ` set (fst (alert_Evaluate (\<lambda>_. Inr (f_of_int 80)) (clock_at 100) (cpu_bundle 90) [cpu_alert]
     (evaluator_after (\<lambda>_. Inr (f_of_int 80)) [cpu_alert]
       [(clock_at 80, cpu_bundle 95), (clock_at 60, cpu_bundle 81), (clock_at 40, cpu_bundle 10)] (NewEvaluator [] []))))"
  using alert_fires_iff [of "[cpu_alert]" 0 "\<lambda>_. Inr (f_of_int 80)" "clock_at 100" "cpu_bundle 90"
    "[(clock_at 80, cpu_bundle 95), (clock_at 60, cpu_bundle 81), (clock_at 40, cpu_bundle 10)]" "[]" "[]"]
  by (simp add: cpu_breached clock_at_def cpu_alert_def [THEN arg_cong, of ar_Name] cpu_alert_def [THEN arg_cong, of ar_For]
      time_sub_def min_duration_def max_duration_def)

end
