(* ===== verification/Replica_Guard.thy ===== *)
theory Replica_Guard
  imports Signal
begin

text \<open>
  The contract of the guards that stand between a decision and the cluster, over the integers:
  one cycle moves by at most a step in each direction and stays between the bounds.  The locale
  states it for any implementation on \<open>int32\<close>; from it follow the bounds of every later cycle and
  that repeating the cycle reaches the decision's target.
\<close>

section \<open>The abstract guard\<close>

definition clamp :: "int \<Rightarrow> int \<Rightarrow> int \<Rightarrow> int" where
  "clamp lo hi x = (if x < lo then lo else if x > hi then hi else x)"

definition step_clamp :: "int \<Rightarrow> int \<Rightarrow> int \<Rightarrow> int \<Rightarrow> int \<Rightarrow> int \<Rightarrow> int" where
  "step_clamp lo hi up dn t c = clamp lo hi (max (c - dn) (min (c + up) t))"

lemma clamp_within: "lo \<le> hi \<Longrightarrow> lo \<le> clamp lo hi x \<and> clamp lo hi x \<le> hi"
  by (simp add: clamp_def)

lemma clamp_id: "lo \<le> x \<Longrightarrow> x \<le> hi \<Longrightarrow> clamp lo hi x = x"
  by (simp add: clamp_def)

lemma step_clamp_within: "lo \<le> hi \<Longrightarrow> lo \<le> step_clamp lo hi up dn t c \<and> step_clamp lo hi up dn t c \<le> hi"
  unfolding step_clamp_def by (rule clamp_within)

lemma step_clamp_step:
  "0 \<le> up \<Longrightarrow> 0 \<le> dn \<Longrightarrow> lo \<le> c \<Longrightarrow> c \<le> hi \<Longrightarrow>
    c - dn \<le> step_clamp lo hi up dn t c \<and> step_clamp lo hi up dn t c \<le> c + up"
  by (auto simp: step_clamp_def clamp_def)

text \<open>One cycle from inside the bounds closes the distance to the goal by a full step.\<close>

lemma step_clamp_progress:
  assumes "0 < s" "s \<le> up" "s \<le> dn" "lo \<le> c" "c \<le> hi"
  shows "\<bar>clamp lo hi t - step_clamp lo hi up dn t c\<bar> \<le> max 0 (\<bar>clamp lo hi t - c\<bar> - s)"
  using assms by (auto simp: step_clamp_def clamp_def max_def min_def split: if_splits)

section \<open>Cycles\<close>

text \<open>The replica count after \<open>n\<close> cycles in which the provider repeats its decision.\<close>

fun guard_cycles :: "(ScalingDecision \<Rightarrow> int32 \<Rightarrow> 'q AIScaler \<Rightarrow> int32)
    \<Rightarrow> ScalingDecision \<Rightarrow> 'q AIScaler \<Rightarrow> nat \<Rightarrow> int32 \<Rightarrow> int32" where
  "guard_cycles g d p 0 cur = cur"
| "guard_cycles g d p (Suc n) cur = guard_cycles g d p n (g d cur p)"

section \<open>The locale\<close>

locale replica_guard =
  fixes guard :: "ScalingDecision \<Rightarrow> int32 \<Rightarrow> 'q AIScaler \<Rightarrow> int32"
    and applies :: "ScalingDecision \<Rightarrow> 'q AIScaler \<Rightarrow> bool"
    and up dn :: "'q AIScaler \<Rightarrow> int"
  assumes guard_within: "bounds_ok (ai_Constraints p) \<Longrightarrow> within_bounds (ai_Constraints p) (guard d cur p)"
    and guard_step: "applies d p \<Longrightarrow> 0 \<le> sint cur \<Longrightarrow>
      sint (guard d cur p) = step_clamp (sint (sc_MinReplicas (ai_Constraints p)))
        (sint (sc_MaxReplicas (ai_Constraints p))) (up p) (dn p) (sint (sd_TargetReplicas d)) (sint cur)"
    and steps_pos: "applies d p \<Longrightarrow> 0 < up p \<and> 0 < dn p"
    and min_nonneg: "applies d p \<Longrightarrow> 0 \<le> sint (sc_MinReplicas (ai_Constraints p))"
begin

lemma cycles_within:
  "bounds_ok (ai_Constraints p) \<Longrightarrow> within_bounds (ai_Constraints p) cur \<Longrightarrow>
    within_bounds (ai_Constraints p) (guard_cycles guard d p n cur)"
  by (induction n arbitrary: cur) (simp_all add: guard_within)

lemma guard_step_bound:
  assumes "applies d p" and "within_bounds (ai_Constraints p) cur"
  shows "sint cur - dn p \<le> sint (guard d cur p) \<and> sint (guard d cur p) \<le> sint cur + up p"
  using assms guard_step [of d p cur] steps_pos [of d p] min_nonneg [of d p]
    step_clamp_step [of "up p" "dn p"]
  by (simp add: within_bounds_def)

lemma cycles_reach:
  assumes "applies d p" and "bounds_ok (ai_Constraints p)" and "within_bounds (ai_Constraints p) cur"
    and "\<bar>clamp (sint (sc_MinReplicas (ai_Constraints p))) (sint (sc_MaxReplicas (ai_Constraints p)))
           (sint (sd_TargetReplicas d)) - sint cur\<bar> \<le> int n * min (up p) (dn p)"
  shows "sint (guard_cycles guard d p n cur) = clamp (sint (sc_MinReplicas (ai_Constraints p)))
      (sint (sc_MaxReplicas (ai_Constraints p))) (sint (sd_TargetReplicas d))"
  using assms(3,4)
proof (induction n arbitrary: cur)
  case 0
  then show ?case by simp
next
  case (Suc n)
  define lo hi g s where "lo = sint (sc_MinReplicas (ai_Constraints p))"
    and "hi = sint (sc_MaxReplicas (ai_Constraints p))"
    and "g = clamp lo hi (sint (sd_TargetReplicas d))" and "s = min (up p) (dn p)"
  have s: "0 < s" "s \<le> up p" "s \<le> dn p" using steps_pos [OF assms(1)] by (auto simp: s_def)
  have c: "lo \<le> sint cur" "sint cur \<le> hi" "0 \<le> lo"
    using Suc.prems(1) min_nonneg [OF assms(1)] by (simp_all add: within_bounds_def lo_def hi_def)
  have "sint (guard d cur p) = step_clamp lo hi (up p) (dn p) (sint (sd_TargetReplicas d)) (sint cur)"
    using guard_step [OF assms(1), of cur] c by (simp add: lo_def hi_def)
  then have "\<bar>g - sint (guard d cur p)\<bar> \<le> max 0 (\<bar>g - sint cur\<bar> - s)"
    using step_clamp_progress [OF s c(1,2)] by (simp add: g_def)
  moreover have "\<bar>g - sint cur\<bar> \<le> int n * s + s"
    using Suc.prems(2) by (simp add: g_def lo_def hi_def s_def algebra_simps)
  moreover have "0 \<le> int n * s" using s by simp
  ultimately have "\<bar>g - sint (guard d cur p)\<bar> \<le> int n * s" by linarith
  then show ?case
    using Suc.IH [OF guard_within [OF assms(2)]] by (simp add: g_def lo_def hi_def s_def)
qed

end

end
