(* ===== verification/Validator.thy ===== *)
theory Validator
  imports Replica_Guard
begin

text \<open>
  \<open>internal/decision/validator.go\<close> and \<open>asymmetric_validator.go\<close>: the guards between the
  decision and the actuator.  Both are interpretations of \<open>replica_guard\<close>: inside the ranges the
  resource definition allows they are the guard over the integers, and without any assumption on
  the decision their result is within the bounds.
\<close>

section \<open>The symmetric validator\<close>

record ValidationResult =
  vr_OriginalReplicas :: int32
  vr_ValidatedReplicas :: int32
  vr_Clamped :: bool
  vr_Reason :: string

definition buildClampReason :: "int32 \<Rightarrow> int32 \<Rightarrow> int32 \<Rightarrow> ScalingConstraints \<Rightarrow> string" where
  "buildClampReason original validated current c = (let delta = original - current in
     if sc_MaxScaleStep c <s delta then
       ''LLM suggested '' @ show_int32 original @ '' but step size '' @ show_int32 delta
         @ '' exceeds maxScaleStep '' @ show_int32 (sc_MaxScaleStep c) @ '' '' @ em_dash
         @ '' clamped to '' @ show_int32 validated
     else if delta <s - sc_MaxScaleStep c then
       ''LLM suggested '' @ show_int32 original @ '' but step size '' @ show_int32 (- delta)
         @ '' exceeds maxScaleStep '' @ show_int32 (sc_MaxScaleStep c) @ '' '' @ em_dash
         @ '' clamped to '' @ show_int32 validated
     else if original <s sc_MinReplicas c then
       ''LLM suggested '' @ show_int32 original @ '' which is below minReplicas ''
         @ show_int32 (sc_MinReplicas c) @ '' '' @ em_dash @ '' clamped to '' @ show_int32 validated
     else if sc_MaxReplicas c <s original then
       ''LLM suggested '' @ show_int32 original @ '' which is above maxReplicas ''
         @ show_int32 (sc_MaxReplicas c) @ '' '' @ em_dash @ '' clamped to '' @ show_int32 validated
     else ''clamped from '' @ show_int32 original @ '' to '' @ show_int32 validated)"

definition Validate :: "ScalingDecision \<Rightarrow> int32 \<Rightarrow> 'q AIScaler \<Rightarrow> ValidationResult" where
  "Validate decision current policy = (let
     constraints = ai_Constraints policy;
     original = sd_TargetReplicas decision;
     delta = original - current;
     stepped = (if sc_MaxScaleStep constraints <s delta then current + sc_MaxScaleStep constraints
                else if delta <s - sc_MaxScaleStep constraints then current - sc_MaxScaleStep constraints
                else original);
     target = (if stepped <s sc_MinReplicas constraints then sc_MinReplicas constraints
               else if sc_MaxReplicas constraints <s stepped then sc_MaxReplicas constraints
               else stepped);
     clamped = (target \<noteq> original);
     reason = (if clamped then buildClampReason original target current constraints else '''')
   in \<lparr>vr_OriginalReplicas = original, vr_ValidatedReplicas = target, vr_Clamped = clamped,
       vr_Reason = reason\<rparr>)"

section \<open>The asymmetric validator\<close>

record AsymmetricValidationResult =
  av_ValidationResult :: ValidationResult
  av_Direction :: string
  av_DirectionLimit :: int32

definition directionOf :: "int32 \<Rightarrow> int32 \<Rightarrow> string" where
  "directionOf target current =
     (if current <s target then ''up'' else if target <s current then ''down'' else ''none'')"

definition direction_policy :: "SafetyConfig \<Rightarrow> string \<Rightarrow> DirectionPolicy option" where
  "direction_policy safety direction =
     (if direction = ''up'' \<and> sf_ScaleUp safety \<noteq> None then sf_ScaleUp safety
      else if direction = ''down'' \<and> sf_ScaleDown safety \<noteq> None then sf_ScaleDown safety
      else None)"

definition directional_target :: "ScalingDecision \<Rightarrow> int32 \<Rightarrow> DirectionPolicy \<Rightarrow> int32" where
  "directional_target d current dp = (let
     target = sd_TargetReplicas d;
     stepped = (if 0 <s dp_MaxStep dp then
         (let delta = target - current in
            if dp_MaxStep dp <s delta then current + dp_MaxStep dp
            else if delta <s - dp_MaxStep dp then current - dp_MaxStep dp
            else target)
       else target)
   in if 0 < dp_RequireConfidence dp \<and> sd_Confidence d < dp_RequireConfidence dp
      then current else stepped)"

definition ValidateAsymmetric ::
  "ScalingDecision \<Rightarrow> int32 \<Rightarrow> 'q AIScaler \<Rightarrow> AsymmetricValidationResult" where
  "ValidateAsymmetric d current policy = (case spec_Safety (ai_Spec policy) of
     None \<Rightarrow> \<lparr>av_ValidationResult = Validate d current policy,
              av_Direction = directionOf (sd_TargetReplicas d) current, av_DirectionLimit = 0\<rparr>
   | Some safety \<Rightarrow> (let
       original = sd_TargetReplicas d;
       direction = directionOf original current;
       dp = direction_policy safety direction;
       stepped = (case dp of None \<Rightarrow> original | Some pol \<Rightarrow> directional_target d current pol);
       constraints = ai_Constraints policy;
       target = (if stepped <s sc_MinReplicas constraints then sc_MinReplicas constraints
                 else if sc_MaxReplicas constraints <s stepped then sc_MaxReplicas constraints
                 else stepped);
       clamped = (target \<noteq> original);
       reason = (if clamped then ''asymmetric '' @ direction @ '': clamped from ''
                   @ show_int32 original @ '' to '' @ show_int32 target else '''')
     in \<lparr>av_ValidationResult = \<lparr>vr_OriginalReplicas = original, vr_ValidatedReplicas = target,
           vr_Clamped = clamped, vr_Reason = reason\<rparr>,
         av_Direction = direction,
         av_DirectionLimit = (case dp of None \<Rightarrow> 0 | Some pol \<Rightarrow> dp_MaxStep pol)\<rparr>))"

section \<open>Both guards meet the contract\<close>

definition step_in_range :: "int32 \<Rightarrow> int32 \<Rightarrow> int32 \<Rightarrow> int32" where
  "step_in_range s target current = (let delta = target - current in
     if s <s delta then current + s else if delta <s - s then current - s else target)"

definition clamp32 :: "ScalingConstraints \<Rightarrow> int32 \<Rightarrow> int32" where
  "clamp32 c x = (if x <s sc_MinReplicas c then sc_MinReplicas c
     else if sc_MaxReplicas c <s x then sc_MaxReplicas c else x)"

lemma clamp32_within: "bounds_ok c \<Longrightarrow> within_bounds c (clamp32 c x)"
  by (auto simp: clamp32_def bounds_defs sless_sint)

lemma clamp32_sint: "sint (clamp32 c x) = clamp (sint (sc_MinReplicas c)) (sint (sc_MaxReplicas c)) (sint x)"
  by (auto simp: clamp32_def clamp_def sless_sint sint32_inject)

lemma step_in_range_sint:
  assumes "0 < sint s" and "0 \<le> sint c" and "0 \<le> sint t"
  shows "sint (step_in_range s t c) = max (sint c - sint s) (min (sint c + sint s) (sint t))"
proof -
  have r: "sint (t - c) = sint t - sint c" "sint (- s) = - sint s"
    using assms sint32_range [of t] sint32_range [of c] by (simp_all add: sint32_sub sint32_neg)
  consider "sint s < sint t - sint c" | "sint t - sint c < - sint s"
    | "- sint s \<le> sint t - sint c" "sint t - sint c \<le> sint s" by linarith
  then show ?thesis
  proof cases
    case 1
    then have "step_in_range s t c = c + s" by (simp add: step_in_range_def sless_sint r)
    moreover have "sint (c + s) = sint c + sint s"
      using 1 assms sint32_range [of t] by (intro sint32_add) linarith+
    ultimately show ?thesis using 1 assms by simp
  next
    case 2
    then have "step_in_range s t c = c - s" using assms by (simp add: step_in_range_def sless_sint r)
    moreover have "sint (c - s) = sint c - sint s"
      using 2 assms sint32_range [of c] by (intro sint32_sub) linarith+
    ultimately show ?thesis using 2 assms by simp
  next
    case 3
    then show ?thesis using assms by (simp add: step_in_range_def sless_sint r)
  qed
qed

lemma Validate_replicas:
  "vr_ValidatedReplicas (Validate d cur p) = clamp32 (ai_Constraints p)
     (step_in_range (sc_MaxScaleStep (ai_Constraints p)) (sd_TargetReplicas d) cur)"
  by (simp add: Validate_def clamp32_def step_in_range_def Let_def)

definition validate_guard :: "ScalingDecision \<Rightarrow> int32 \<Rightarrow> 'q AIScaler \<Rightarrow> int32" where
  "validate_guard d cur p = vr_ValidatedReplicas (Validate d cur p)"

definition asymmetric_guard :: "ScalingDecision \<Rightarrow> int32 \<Rightarrow> 'q AIScaler \<Rightarrow> int32" where
  "asymmetric_guard d cur p = vr_ValidatedReplicas (av_ValidationResult (ValidateAsymmetric d cur p))"

definition validate_applies :: "ScalingDecision \<Rightarrow> 'q AIScaler \<Rightarrow> bool" where
  "validate_applies d p \<longleftrightarrow> 0 \<le> sint (sd_TargetReplicas d)
     \<and> 0 \<le> sint (sc_MinReplicas (ai_Constraints p)) \<and> 0 < sint (sc_MaxScaleStep (ai_Constraints p))"

definition validate_step :: "'q AIScaler \<Rightarrow> int" where
  "validate_step p = sint (sc_MaxScaleStep (ai_Constraints p))"

interpretation validate: replica_guard validate_guard validate_applies validate_step validate_step
proof (unfold_locales, goal_cases)
  case (1 p d cur)
  then show ?case by (simp add: validate_guard_def Validate_replicas clamp32_within)
next
  case (2 d p cur)
  then show ?case
    by (simp add: validate_guard_def validate_applies_def validate_step_def Validate_replicas
        clamp32_sint step_in_range_sint step_clamp_def)
qed (simp_all add: validate_applies_def validate_step_def)

text \<open>The asymmetric guard with a policy in both directions that the confidence satisfies.\<close>

definition lets_through :: "ScalingDecision \<Rightarrow> DirectionPolicy \<Rightarrow> bool" where
  "lets_through d dp \<longleftrightarrow> 0 < sint (dp_MaxStep dp)
     \<and> \<not> (0 < dp_RequireConfidence dp \<and> sd_Confidence d < dp_RequireConfidence dp)"

definition asymmetric_applies :: "ScalingDecision \<Rightarrow> 'q AIScaler \<Rightarrow> bool" where
  "asymmetric_applies d p \<longleftrightarrow> 0 \<le> sint (sd_TargetReplicas d)
     \<and> 0 \<le> sint (sc_MinReplicas (ai_Constraints p)) \<and> (case spec_Safety (ai_Spec p) of
       None \<Rightarrow> 0 < sint (sc_MaxScaleStep (ai_Constraints p))
     | Some sf \<Rightarrow> (case (sf_ScaleUp sf, sf_ScaleDown sf) of
         (Some u, Some w) \<Rightarrow> lets_through d u \<and> lets_through d w | _ \<Rightarrow> False))"

definition asymmetric_up :: "'q AIScaler \<Rightarrow> int" where
  "asymmetric_up p = (case spec_Safety (ai_Spec p) of None \<Rightarrow> validate_step p
     | Some sf \<Rightarrow> (case sf_ScaleUp sf of None \<Rightarrow> 0 | Some u \<Rightarrow> sint (dp_MaxStep u)))"

definition asymmetric_dn :: "'q AIScaler \<Rightarrow> int" where
  "asymmetric_dn p = (case spec_Safety (ai_Spec p) of None \<Rightarrow> validate_step p
     | Some sf \<Rightarrow> (case sf_ScaleDown sf of None \<Rightarrow> 0 | Some w \<Rightarrow> sint (dp_MaxStep w)))"

lemma directional_target_step:
  "lets_through d dp \<Longrightarrow> directional_target d cur dp = step_in_range (dp_MaxStep dp) (sd_TargetReplicas d) cur"
  by (auto simp: directional_target_def lets_through_def step_in_range_def Let_def sless_sint)

lemma asymmetric_guard_None:
  "spec_Safety (ai_Spec p) = None \<Longrightarrow> asymmetric_guard d cur p = validate_guard d cur p"
  by (simp add: asymmetric_guard_def validate_guard_def ValidateAsymmetric_def)

lemma asymmetric_guard_Some:
  "spec_Safety (ai_Spec p) = Some sf \<Longrightarrow> asymmetric_guard d cur p = clamp32 (ai_Constraints p)
     (case direction_policy sf (directionOf (sd_TargetReplicas d) cur) of
        None \<Rightarrow> sd_TargetReplicas d | Some dp \<Rightarrow> directional_target d cur dp)"
  by (simp add: asymmetric_guard_def ValidateAsymmetric_def clamp32_def Let_def)

lemma asymmetric_guard_within:
  "bounds_ok (ai_Constraints p) \<Longrightarrow> within_bounds (ai_Constraints p) (asymmetric_guard d cur p)"
  by (cases "spec_Safety (ai_Spec p)")
    (simp_all add: asymmetric_guard_None validate.guard_within asymmetric_guard_Some clamp32_within)

lemma asymmetric_guard_step:
  assumes "asymmetric_applies d p" and cur: "0 \<le> sint cur"
  shows "sint (asymmetric_guard d cur p) = step_clamp (sint (sc_MinReplicas (ai_Constraints p)))
    (sint (sc_MaxReplicas (ai_Constraints p))) (asymmetric_up p) (asymmetric_dn p)
    (sint (sd_TargetReplicas d)) (sint cur)"
proof (cases "spec_Safety (ai_Spec p)")
  case None
  then have "validate_applies d p" using assms(1) by (simp add: asymmetric_applies_def validate_applies_def)
  then show ?thesis
    using validate.guard_step [of d p cur] cur None
    by (simp add: asymmetric_guard_None asymmetric_up_def asymmetric_dn_def)
next
  case (Some sf)
  then obtain u w where uw: "sf_ScaleUp sf = Some u" "sf_ScaleDown sf = Some w"
      and l: "lets_through d u" "lets_through d w" and t: "0 \<le> sint (sd_TargetReplicas d)"
    using assms(1) by (auto simp: asymmetric_applies_def split: option.splits)
  have s: "0 < sint (dp_MaxStep u)" "0 < sint (dp_MaxStep w)" using l by (simp_all add: lets_through_def)
  show ?thesis
    using step_in_range_sint [OF s(1) cur t] step_in_range_sint [OF s(2) cur t] l uw Some s
    by (auto simp: asymmetric_guard_Some directionOf_def direction_policy_def clamp32_sint
        directional_target_step asymmetric_up_def asymmetric_dn_def step_clamp_def sless_sint not_less
        max_def min_def)
qed

interpretation asymmetric: replica_guard asymmetric_guard asymmetric_applies asymmetric_up asymmetric_dn
  by unfold_locales (auto simp: asymmetric_guard_within asymmetric_guard_step asymmetric_applies_def
      asymmetric_up_def asymmetric_dn_def validate_step_def lets_through_def split: option.splits)

section \<open>Properties\<close>

text \<open>
  C22. The symmetric validator is, on the counts a resource can hold, the abstract guard: the
  decision moved to within maxScaleStep of the current count, then clamped to the bounds.  No
  \<open>int32\<close> operation of it overflows there.
\<close>

theorem Validate_refines:
  assumes "0 \<le> sint (sd_TargetReplicas d)" and "0 \<le> sint cur"
    and "0 \<le> sint (sc_MinReplicas (ai_Constraints p))" and "0 < sint (sc_MaxScaleStep (ai_Constraints p))"
  shows "sint (vr_ValidatedReplicas (Validate d cur p)) =
    step_clamp (sint (sc_MinReplicas (ai_Constraints p))) (sint (sc_MaxReplicas (ai_Constraints p)))
      (sint (sc_MaxScaleStep (ai_Constraints p))) (sint (sc_MaxScaleStep (ai_Constraints p)))
      (sint (sd_TargetReplicas d)) (sint cur)"
  using validate.guard_step [of d p cur] assms
  by (simp add: validate_applies_def validate_step_def validate_guard_def)

definition decide :: "int32 \<Rightarrow> ScalingDecision" where
  "decide n = zero_ScalingDecision \<lparr>sd_TargetReplicas := n\<rparr>"

lemma Validate_refines_witness:
  "sint (vr_ValidatedReplicas (Validate (decide 10) 4 (with_constraints 1 20 3 :: int AIScaler))) = 7"
  using Validate_refines [of "decide 10" 4 "with_constraints 1 20 3 :: int AIScaler"]
  by (simp add: decide_def with_constraints_def zero_defs zero_signal_defs step_clamp_def clamp_def)

text \<open>
  C23. A provider that keeps asking for the same count gets it, clamped to the bounds, after
  finitely many cycles of the symmetric validator: one for every maxScaleStep of the distance.
\<close>

theorem Validate_converges:
  assumes "0 \<le> sint (sd_TargetReplicas d)" and "0 < sint (sc_MaxScaleStep (ai_Constraints p))"
    and "0 \<le> sint (sc_MinReplicas (ai_Constraints p))"
    and "bounds_ok (ai_Constraints p)" and "within_bounds (ai_Constraints p) cur"
    and "\<bar>clamp (sint (sc_MinReplicas (ai_Constraints p))) (sint (sc_MaxReplicas (ai_Constraints p)))
           (sint (sd_TargetReplicas d)) - sint cur\<bar>
         \<le> int n * sint (sc_MaxScaleStep (ai_Constraints p))"
  shows "sint (guard_cycles (\<lambda>d c p. vr_ValidatedReplicas (Validate d c p)) d p n cur) =
    clamp (sint (sc_MinReplicas (ai_Constraints p))) (sint (sc_MaxReplicas (ai_Constraints p)))
      (sint (sd_TargetReplicas d))"
  unfolding validate_guard_def [symmetric]
  using assms by (intro validate.cycles_reach) (simp_all add: validate_applies_def validate_step_def)

lemma Validate_converges_witness:
  "sint (guard_cycles (\<lambda>d c p. vr_ValidatedReplicas (Validate d c p)) (decide 10)
     (with_constraints 1 20 3 :: int AIScaler) 2 4) = 10"
  using Validate_converges [of "decide 10" "with_constraints 1 20 3 :: int AIScaler" 4 2]
  by (simp add: decide_def with_constraints_def zero_defs zero_signal_defs clamp_def bounds_defs)

text \<open>
  The count the asymmetric validator returns is within the bounds of every resource whose
  bounds are ordered, whatever the decision, the current count and the safety policy are; the
  result says so exactly when it changed the decision.
\<close>

theorem ValidateAsymmetric_within:
  assumes "bounds_ok (ai_Constraints p)"
  shows "within_bounds (ai_Constraints p)
      (vr_ValidatedReplicas (av_ValidationResult (ValidateAsymmetric d cur p)))
    \<and> (vr_Clamped (av_ValidationResult (ValidateAsymmetric d cur p)) \<longleftrightarrow>
       vr_ValidatedReplicas (av_ValidationResult (ValidateAsymmetric d cur p)) \<noteq> sd_TargetReplicas d)"
proof -
  have "vr_Clamped (Validate d cur p) \<longleftrightarrow> vr_ValidatedReplicas (Validate d cur p) \<noteq> sd_TargetReplicas d"
    by (simp add: Validate_def Let_def)
  then show ?thesis
    using asymmetric_guard_within [OF assms, of d cur]
    by (cases "spec_Safety (ai_Spec p)") (simp_all add: asymmetric_guard_def ValidateAsymmetric_def Let_def)
qed

lemma ValidateAsymmetric_within_witness:
  "within_bounds (ai_Constraints (with_constraints 1 20 3 :: int AIScaler))
    (vr_ValidatedReplicas (av_ValidationResult (ValidateAsymmetric (decide 90) 4 (with_constraints 1 20 3 :: int AIScaler))))"
  using ValidateAsymmetric_within [of "with_constraints 1 20 3 :: int AIScaler" "decide 90" 4]
  by (simp add: with_constraints_def zero_defs bounds_defs)

text \<open>
  C24. With a policy in both directions whose confidence threshold the decision meets, the
  asymmetric validator moves a count within the bounds by at most the step of the direction of travel.
\<close>

theorem ValidateAsymmetric_step:
  assumes "spec_Safety (ai_Spec p) = Some sf" and "sf_ScaleUp sf = Some u" and "sf_ScaleDown sf = Some w"
    and "lets_through d u" and "lets_through d w"
    and "0 \<le> sint (sd_TargetReplicas d)" and "0 \<le> sint (sc_MinReplicas (ai_Constraints p))"
    and "within_bounds (ai_Constraints p) cur"
  shows "sint cur - sint (dp_MaxStep w)
      \<le> sint (vr_ValidatedReplicas (av_ValidationResult (ValidateAsymmetric d cur p)))
    \<and> sint (vr_ValidatedReplicas (av_ValidationResult (ValidateAsymmetric d cur p)))
      \<le> sint cur + sint (dp_MaxStep u)"
  using asymmetric.guard_step_bound [of d p cur] assms
  by (simp add: asymmetric_applies_def asymmetric_up_def asymmetric_dn_def asymmetric_guard_def)

definition direction_step :: "int32 \<Rightarrow> DirectionPolicy" where
  "direction_step n = \<lparr>dp_MaxStep = n, dp_Cooldown = 0, dp_RequireConfidence = 0, dp_RequireSLOHeadroom = False\<rparr>"

definition with_safety :: "DirectionPolicy option \<Rightarrow> DirectionPolicy option \<Rightarrow> 'q AIScaler \<Rightarrow> 'q AIScaler" where
  "with_safety u w p = p \<lparr>ai_Spec := ai_Spec p \<lparr>spec_Safety := Some \<lparr>sf_ScaleUp = u, sf_ScaleDown = w,
     sf_CircuitBreaker = None, sf_AutoRollback = None, sf_MaxReplicaChangePerMinute = 0,
     sf_MaxWorkloadsChangedPerMinute = 0\<rparr>\<rparr>\<rparr>"

lemma ValidateAsymmetric_step_witness:
  "3 \<le> sint (vr_ValidatedReplicas (av_ValidationResult (ValidateAsymmetric (decide 1) 5
     (with_safety (Some (direction_step 4)) (Some (direction_step 2)) (with_constraints 1 20 3) :: int AIScaler))))"
  using ValidateAsymmetric_step [of "with_safety (Some (direction_step 4)) (Some (direction_step 2)) (with_constraints 1 20 3) :: int AIScaler"
      _ "direction_step 4" "direction_step 2" "decide 1" 5]
  by (simp add: with_safety_def direction_step_def lets_through_def decide_def with_constraints_def
      zero_defs zero_signal_defs within_bounds_def f_less_iff)

text \<open>
  A direction whose required confidence the decision does not reach holds the current count:
  the result is the current count, clamped to the bounds.
\<close>

theorem ValidateAsymmetric_holds:
  assumes "spec_Safety (ai_Spec p) = Some sf"
    and "direction_policy sf (directionOf (sd_TargetReplicas d) cur) = Some dp"
    and "0 < dp_RequireConfidence dp" and "sd_Confidence d < dp_RequireConfidence dp"
    and "within_bounds (ai_Constraints p) cur"
  shows "vr_ValidatedReplicas (av_ValidationResult (ValidateAsymmetric d cur p)) = cur"
proof -
  have "clamp32 (ai_Constraints p) cur = cur"
    using assms(5) by (auto simp: clamp32_def within_bounds_def sless_sint)
  then show ?thesis
    using asymmetric_guard_Some [OF assms(1), of d cur] assms(2-4)
    by (simp add: asymmetric_guard_def directional_target_def Let_def)
qed

lemma ValidateAsymmetric_holds_witness:
  "vr_ValidatedReplicas (av_ValidationResult (ValidateAsymmetric (decide 1) 5
     (with_safety None (Some (direction_step 2 \<lparr>dp_RequireConfidence := 1\<rparr>)) (with_constraints 1 20 3) :: int AIScaler))) = 5"
proof -
  define dp where "dp = direction_step 2 \<lparr>dp_RequireConfidence := 1\<rparr>"
  define p where "p = (with_safety None (Some dp) (with_constraints 1 20 3) :: int AIScaler)"
  obtain sf where sf: "spec_Safety (ai_Spec p) = Some sf" "sf_ScaleDown sf = Some dp"
    by (simp add: p_def with_safety_def)
  have "direction_policy sf (directionOf (sd_TargetReplicas (decide 1)) 5) = Some dp"
    by (simp add: direction_policy_def directionOf_def decide_def sf word_sless_alt zero_signal_defs)
  moreover have "within_bounds (ai_Constraints p) 5"
    by (simp add: p_def with_safety_def with_constraints_def zero_Spec_def within_bounds_def)
  moreover have "dp_RequireConfidence dp = 1" by (simp add: dp_def direction_step_def)
  moreover have "sd_Confidence (decide 1) = 0" by (simp add: decide_def zero_signal_defs)
  ultimately have "vr_ValidatedReplicas (av_ValidationResult (ValidateAsymmetric (decide 1) 5 p)) = 5"
    using ValidateAsymmetric_holds [OF sf(1), of "decide 1" 5 dp] by simp
  then show ?thesis by (simp add: p_def dp_def)
qed

text \<open>
  A decision of the least \<open>int32\<close> wraps the delta around: the validator moves up instead of down.
\<close>

lemma Validate_wraps:
  "vr_ValidatedReplicas (Validate (decide (word_of_int int32_min)) 5 (with_constraints 1 20 3 :: int AIScaler)) = 8"
  by (simp add: Validate_replicas decide_def with_constraints_def zero_defs zero_signal_defs
      step_in_range_def clamp32_def Let_def word_sless_alt)

end
