(* ===== verification/Actuator.thy ===== *)
theory Actuator
  imports Validator
begin

text \<open>
  The actuators of \<open>internal/actuator\<close>: \<open>actuator.go\<close> patches the replica count of the target
  Deployment, \<open>vertical_actuator.go\<close> the resource requests of its first container, and
  \<open>deployment_accessor.go\<close> gives both kinds of workload one interface, the one of \<open>workload.go\<close>.
  The API server is a record of functions: what a read returns at each place of the code, and
  what it answers to a patch.  The patches an operation sends are part of its result, in order.
  Quantities of apimachinery are a type variable with a record of operations.
\<close>

section \<open>Quantities, workloads and patches\<close>

record 'q QuantityOps =
  q_zero :: 'q
  q_absent :: "string \<Rightarrow> 'q"
  q_is_zero :: "'q \<Rightarrow> bool"
  q_cmp :: "'q \<Rightarrow> 'q \<Rightarrow> int"
  q_string :: "'q \<Rightarrow> string"
  q_parse :: "string \<Rightarrow> go_error + 'q"

record 'q Container =
  ct_Name :: string
  ct_Requests :: "(string, 'q) fmap"
  ct_Limits :: "(string, 'q) fmap"

record 'q Workload =
  w_Replicas :: "int32 option"
  w_Selector :: "(string, string) fmap option"
  w_ServiceName :: string
  w_Containers :: "'q Container list"
  w_Annotations :: "(string, string) fmap option"
  w_StatusReplicas :: int32
  w_ReadyReplicas :: int32

record 'q Patch =
  pt_Kind :: string
  pt_Namespace :: string
  pt_Name :: string
  pt_Replicas :: "int32 option"
  pt_Selector :: "(string, string) fmap option"
  pt_ServiceName :: string
  pt_Containers :: "'q Container list"
  pt_FieldOwner :: string
  pt_ForceOwnership :: bool
  pt_DryRunAll :: bool

record 'q Client =
  cl_get :: "string \<Rightarrow> string \<Rightarrow> string \<Rightarrow> string \<Rightarrow> api_error + 'q Workload"
  cl_patch :: "'q Patch \<Rightarrow> api_error option"

definition replicas_or_1 :: "'q Workload \<Rightarrow> int32" where
  "replicas_or_1 w = (case w_Replicas w of None \<Rightarrow> 1 | Some n \<Rightarrow> n)"

section \<open>Horizontal actuator\<close>

record ApplyResult =
  apr_PreviousReplicas :: int32
  apr_AppliedReplicas :: int32
  apr_AppliedAt :: time
  apr_DryRun :: bool

definition replicas_patch :: "string \<Rightarrow> string \<Rightarrow> string \<Rightarrow> 'q Workload \<Rightarrow> int32 \<Rightarrow> bool \<Rightarrow> 'q Patch" where
  "replicas_patch kind ns n existing replicas dryRun =
     \<lparr>pt_Kind = kind, pt_Namespace = ns, pt_Name = n, pt_Replicas = Some replicas,
      pt_Selector = w_Selector existing, pt_ServiceName = [], pt_Containers = [],
      pt_FieldOwner = ''aiscaler'', pt_ForceOwnership = True, pt_DryRunAll = dryRun\<rparr>"

definition Apply :: "'q Client \<Rightarrow> time \<Rightarrow> 'q AIScaler \<Rightarrow> ValidationResult
    \<Rightarrow> (go_error + ApplyResult) \<times> 'q Patch list" where
  "Apply c now policy result = (let
     ns = tr_Namespace (spec_TargetRef (ai_Spec policy));
     n = tr_Name (spec_TargetRef (ai_Spec policy));
     dryRun = spec_DryRun (ai_Spec policy)
   in case cl_get c ''actuator.Apply'' ''Deployment'' ns n of
        Inl e \<Rightarrow> (Inl (''failed to get deployment '' @ ns @ ''/'' @ n @ '': '' @ api_error_text e), [])
      | Inr existing \<Rightarrow> (let currentReplicas = replicas_or_1 existing in
          if currentReplicas = vr_ValidatedReplicas result
          then (Inr \<lparr>apr_PreviousReplicas = currentReplicas, apr_AppliedReplicas = currentReplicas,
                 apr_AppliedAt = now, apr_DryRun = dryRun\<rparr>, [])
          else (let patch = replicas_patch ''Deployment'' ns n existing (vr_ValidatedReplicas result) dryRun in
            case cl_patch c patch of
              Some e \<Rightarrow> (Inl (''SSA patch failed for '' @ ns @ ''/'' @ n @ '': '' @ api_error_text e), [patch])
            | None \<Rightarrow> (Inr \<lparr>apr_PreviousReplicas = currentReplicas, apr_AppliedReplicas = vr_ValidatedReplicas result,
                 apr_AppliedAt = now, apr_DryRun = dryRun\<rparr>, [patch]))))"

definition currentReplicas :: "'q Client \<Rightarrow> 'q AIScaler \<Rightarrow> go_error + int32" where
  "currentReplicas c policy = (let
     ns = tr_Namespace (spec_TargetRef (ai_Spec policy));
     n = tr_Name (spec_TargetRef (ai_Spec policy))
   in case cl_get c ''actuator.currentReplicas'' ''Deployment'' ns n of
        Inl e \<Rightarrow> Inl (''failed to get deployment '' @ ns @ ''/'' @ n @ '': '' @ api_error_text e)
      | Inr deployment \<Rightarrow> Inr (replicas_or_1 deployment))"

section \<open>Vertical actuator\<close>

record 'q VerticalApplyResult =
  var_ContainerName :: string
  var_PreviousCPU :: 'q
  var_PreviousMemory :: 'q
  var_AppliedCPU :: 'q
  var_AppliedMemory :: 'q
  var_Strategy :: string
  var_Applied :: bool
  var_RecommendOnly :: bool
  var_DryRun :: bool

definition ValidateVerticalChange :: "'q QuantityOps \<Rightarrow> 'q VerticalDecision \<Rightarrow> 'q VerticalConstraints \<Rightarrow> go_error option" where
  "ValidateVerticalChange q vd c =
     (if \<not> q_is_zero q (vc_MinCPURequest c) \<and> q_cmp q (vd_CPURequest vd) (vc_MinCPURequest c) < 0
      then Some (''proposed CPU '' @ q_string q (vd_CPURequest vd) @ '' below minimum '' @ q_string q (vc_MinCPURequest c))
      else if \<not> q_is_zero q (vc_MaxCPURequest c) \<and> 0 < q_cmp q (vd_CPURequest vd) (vc_MaxCPURequest c)
      then Some (''proposed CPU '' @ q_string q (vd_CPURequest vd) @ '' above maximum '' @ q_string q (vc_MaxCPURequest c))
      else if \<not> q_is_zero q (vc_MinMemoryRequest c) \<and> q_cmp q (vd_MemoryRequest vd) (vc_MinMemoryRequest c) < 0
      then Some (''proposed memory '' @ q_string q (vd_MemoryRequest vd) @ '' below minimum '' @ q_string q (vc_MinMemoryRequest c))
      else if \<not> q_is_zero q (vc_MaxMemoryRequest c) \<and> 0 < q_cmp q (vd_MemoryRequest vd) (vc_MaxMemoryRequest c)
      then Some (''proposed memory '' @ q_string q (vd_MemoryRequest vd) @ '' above maximum '' @ q_string q (vc_MaxMemoryRequest c))
      else None)"

definition listed_quantity :: "'q QuantityOps \<Rightarrow> string \<Rightarrow> (string, 'q) fmap \<Rightarrow> 'q" where
  "listed_quantity q name rs = (case fmlookup rs name of Some v \<Rightarrow> v | None \<Rightarrow> q_absent q name)"

definition vertical_limits :: "'q QuantityOps \<Rightarrow> 'q VerticalDecision \<Rightarrow> (string, 'q) fmap" where
  "vertical_limits q vd = (let
     l1 = (if \<not> q_is_zero q (vd_CPULimit vd) then fmupd ''cpu'' (vd_CPULimit vd) fmempty else fmempty)
   in if \<not> q_is_zero q (vd_MemoryLimit vd) then fmupd ''memory'' (vd_MemoryLimit vd) l1 else l1)"

definition vertical_patch :: "'q QuantityOps \<Rightarrow> string \<Rightarrow> string \<Rightarrow> 'q Workload \<Rightarrow> 'q Container
    \<Rightarrow> 'q VerticalDecision \<Rightarrow> bool \<Rightarrow> 'q Patch" where
  "vertical_patch q ns n existing container vd dryRun =
     \<lparr>pt_Kind = ''Deployment'', pt_Namespace = ns, pt_Name = n, pt_Replicas = None,
      pt_Selector = w_Selector existing, pt_ServiceName = [],
      pt_Containers = [\<lparr>ct_Name = ct_Name container,
        ct_Requests = fmupd ''memory'' (vd_MemoryRequest vd) (fmupd ''cpu'' (vd_CPURequest vd) fmempty),
        ct_Limits = vertical_limits q vd\<rparr>],
      pt_FieldOwner = ''aiscaler-vertical'', pt_ForceOwnership = True, pt_DryRunAll = dryRun\<rparr>"

definition vertical_Apply :: "'q QuantityOps \<Rightarrow> 'q Client \<Rightarrow> 'q AIScaler \<Rightarrow> 'q VerticalDecision
    \<Rightarrow> (go_error + 'q VerticalApplyResult) \<times> 'q Patch list" where
  "vertical_Apply q c policy vd = (let
     ns = tr_Namespace (spec_TargetRef (ai_Spec policy));
     n = tr_Name (spec_TargetRef (ai_Spec policy));
     dryRun = spec_DryRun (ai_Spec policy)
   in case spec_VerticalScaling (ai_Spec policy) of
        None \<Rightarrow> (Inl ''vertical scaling not enabled'', [])
      | Some vc \<Rightarrow> (if \<not> vs_Enabled vc then (Inl ''vertical scaling not enabled'', [])
          else (case ValidateVerticalChange q vd (vs_Constraints vc) of
              Some e \<Rightarrow> (Inl (''vertical validation failed: '' @ e), [])
            | None \<Rightarrow> (case cl_get c ''vertical.Apply'' ''Deployment'' ns n of
                Inl e \<Rightarrow> (Inl (''failed to get deployment: '' @ api_error_text e), [])
              | Inr existing \<Rightarrow> (case w_Containers existing of
                  [] \<Rightarrow> (Inl ''deployment has no containers'', [])
                | container # _ \<Rightarrow> (let
                    result = \<lparr>var_ContainerName = ct_Name container,
                      var_PreviousCPU = listed_quantity q ''cpu'' (ct_Requests container),
                      var_PreviousMemory = listed_quantity q ''memory'' (ct_Requests container),
                      var_AppliedCPU = q_zero q, var_AppliedMemory = q_zero q,
                      var_Strategy = vs_ResizePolicy vc, var_Applied = False, var_RecommendOnly = False,
                      var_DryRun = dryRun\<rparr>
                  in if vs_ResizePolicy vc = ''RecommendOnly''
                     then (Inr (result \<lparr>var_RecommendOnly := True, var_AppliedCPU := vd_CPURequest vd,
                             var_AppliedMemory := vd_MemoryRequest vd\<rparr>), [])
                     else (let patch = vertical_patch q ns n existing container vd dryRun in
                       case cl_patch c patch of
                         Some e \<Rightarrow> (Inl (''vertical SSA patch failed: '' @ api_error_text e), [patch])
                       | None \<Rightarrow> (Inr (result \<lparr>var_AppliedCPU := vd_CPURequest vd,
                           var_AppliedMemory := vd_MemoryRequest vd, var_Applied := True\<rparr>), [patch]))))))))"

section \<open>Accessors of the two workload kinds\<close>

datatype WorkloadAccessor = DeploymentAccessor string string | StatefulSetAccessor string string

definition NewWorkloadAccessor :: "string \<Rightarrow> string \<Rightarrow> string \<Rightarrow> go_error + WorkloadAccessor" where
  "NewWorkloadAccessor kind ns n =
     (if kind = ''Deployment'' \<or> kind = '''' then Inr (DeploymentAccessor ns n)
      else if kind = ''StatefulSet'' then Inr (StatefulSetAccessor ns n)
      else Inl (''unsupported workload kind: '' @ kind))"

definition dep_GetReplicas :: "'q Client \<Rightarrow> string \<Rightarrow> string \<Rightarrow> api_error + int32" where
  "dep_GetReplicas c ns n = (case cl_get c ''GetReplicas'' ''Deployment'' ns n of
     Inl e \<Rightarrow> Inl e | Inr dep \<Rightarrow> Inr (replicas_or_1 dep))"

definition dep_SetReplicas :: "'q Client \<Rightarrow> string \<Rightarrow> string \<Rightarrow> int32 \<Rightarrow> bool \<Rightarrow> api_error option \<times> 'q Patch list" where
  "dep_SetReplicas c ns n replicas dryRun = (case cl_get c ''SetReplicas'' ''Deployment'' ns n of
     Inl e \<Rightarrow> (Some e, [])
   | Inr dep \<Rightarrow> (let patch = replicas_patch ''Deployment'' ns n dep replicas dryRun
       in (cl_patch c patch, [patch])))"

definition dep_GetResources :: "'q Client \<Rightarrow> string \<Rightarrow> string \<Rightarrow> api_error + 'q Container list" where
  "dep_GetResources c ns n = (case cl_get c ''GetResources'' ''Deployment'' ns n of
     Inl e \<Rightarrow> Inl e | Inr dep \<Rightarrow> Inr (w_Containers dep))"

definition dep_GetSelector :: "'q Client \<Rightarrow> string \<Rightarrow> string \<Rightarrow> api_error + (string, string) fmap option" where
  "dep_GetSelector c ns n = (case cl_get c ''GetSelector'' ''Deployment'' ns n of
     Inl e \<Rightarrow> Inl e | Inr dep \<Rightarrow> Inr (w_Selector dep))"

definition dep_IsReady :: "'q Client \<Rightarrow> string \<Rightarrow> string \<Rightarrow> api_error + bool" where
  "dep_IsReady c ns n = (case cl_get c ''IsReady'' ''Deployment'' ns n of
     Inl e \<Rightarrow> Inl e
   | Inr dep \<Rightarrow> Inr (case w_Replicas dep of None \<Rightarrow> 1 <=s w_ReadyReplicas dep
       | Some r \<Rightarrow> r <=s w_ReadyReplicas dep))"

definition ss_GetReplicas :: "'q Client \<Rightarrow> string \<Rightarrow> string \<Rightarrow> api_error + int32" where
  "ss_GetReplicas c ns n = (case cl_get c ''GetReplicas'' ''StatefulSet'' ns n of
     Inl e \<Rightarrow> Inl e | Inr ss \<Rightarrow> Inr (replicas_or_1 ss))"

definition ss_SetReplicas :: "'q Client \<Rightarrow> string \<Rightarrow> string \<Rightarrow> int32 \<Rightarrow> bool \<Rightarrow> api_error option \<times> 'q Patch list" where
  "ss_SetReplicas c ns n replicas dryRun = (case cl_get c ''SetReplicas'' ''StatefulSet'' ns n of
     Inl e \<Rightarrow> (Some e, [])
   | Inr ss \<Rightarrow> (let patch = (replicas_patch ''StatefulSet'' ns n ss replicas dryRun) \<lparr>pt_ServiceName := w_ServiceName ss\<rparr>
       in (cl_patch c patch, [patch])))"

definition ss_GetResources :: "'q Client \<Rightarrow> string \<Rightarrow> string \<Rightarrow> api_error + 'q Container list" where
  "ss_GetResources c ns n = (case cl_get c ''GetResources'' ''StatefulSet'' ns n of
     Inl e \<Rightarrow> Inl e | Inr ss \<Rightarrow> Inr (w_Containers ss))"

definition ss_GetSelector :: "'q Client \<Rightarrow> string \<Rightarrow> string \<Rightarrow> api_error + (string, string) fmap option" where
  "ss_GetSelector c ns n = (case cl_get c ''GetSelector'' ''StatefulSet'' ns n of
     Inl e \<Rightarrow> Inl e | Inr ss \<Rightarrow> Inr (w_Selector ss))"

definition ss_IsReady :: "'q Client \<Rightarrow> string \<Rightarrow> string \<Rightarrow> api_error + bool" where
  "ss_IsReady c ns n = (case cl_get c ''IsReady'' ''StatefulSet'' ns n of
     Inl e \<Rightarrow> Inl e
   | Inr ss \<Rightarrow> Inr (case w_Replicas ss of None \<Rightarrow> 1 <=s w_ReadyReplicas ss
       | Some r \<Rightarrow> r <=s w_ReadyReplicas ss))"

fun accessor_Kind :: "WorkloadAccessor \<Rightarrow> string" where
  "accessor_Kind (DeploymentAccessor ns n) = ''Deployment''"
| "accessor_Kind (StatefulSetAccessor ns n) = ''StatefulSet''"

fun SupportsInPlaceResize :: "WorkloadAccessor \<Rightarrow> bool" where
  "SupportsInPlaceResize (DeploymentAccessor ns n) = False"
| "SupportsInPlaceResize (StatefulSetAccessor ns n) = False"

fun accessor_SetReplicas :: "'q Client \<Rightarrow> WorkloadAccessor \<Rightarrow> int32 \<Rightarrow> bool \<Rightarrow> api_error option \<times> 'q Patch list" where
  "accessor_SetReplicas c (DeploymentAccessor ns n) replicas dryRun = dep_SetReplicas c ns n replicas dryRun"
| "accessor_SetReplicas c (StatefulSetAccessor ns n) replicas dryRun = ss_SetReplicas c ns n replicas dryRun"

section \<open>The interface of an accessor\<close>

text \<open>
  What the interface promises: a set sends at most one patch, of the accessor's kind and target,
  that owns the replica count only and carries the dry-run flag, and a successful set sends it; the
  count read is the one readiness is judged by.
\<close>

definition owns_replicas_only :: "string \<Rightarrow> string \<Rightarrow> string \<Rightarrow> int32 \<Rightarrow> bool \<Rightarrow> 'q Patch \<Rightarrow> bool" where
  "owns_replicas_only kind ns n replicas dryRun p \<longleftrightarrow> pt_Kind p = kind \<and> pt_Namespace p = ns \<and> pt_Name p = n
     \<and> pt_Replicas p = Some replicas \<and> pt_Containers p = [] \<and> pt_DryRunAll p = dryRun"

lemma replicas_patch_owns: "owns_replicas_only kind ns n r d (replicas_patch kind ns n w r d)"
  by (simp add: owns_replicas_only_def replicas_patch_def)

lemma IsReady_eq:
  "dep_IsReady c ns n = (case cl_get c ''IsReady'' ''Deployment'' ns n of
     Inl e \<Rightarrow> Inl e | Inr w \<Rightarrow> Inr (replicas_or_1 w <=s w_ReadyReplicas w))"
  "ss_IsReady c ns n = (case cl_get c ''IsReady'' ''StatefulSet'' ns n of
     Inl e \<Rightarrow> Inl e | Inr w \<Rightarrow> Inr (replicas_or_1 w <=s w_ReadyReplicas w))"
  by (simp_all add: dep_IsReady_def ss_IsReady_def replicas_or_1_def split: sum.split option.split)

locale workload_accessor =
  fixes kind :: string
    and set_replicas :: "'q Client \<Rightarrow> string \<Rightarrow> string \<Rightarrow> int32 \<Rightarrow> bool \<Rightarrow> api_error option \<times> 'q Patch list"
    and get_replicas :: "'q Client \<Rightarrow> string \<Rightarrow> string \<Rightarrow> api_error + int32"
    and is_ready :: "'q Client \<Rightarrow> string \<Rightarrow> string \<Rightarrow> api_error + bool"
  assumes set_sends: "set_replicas c ns n r d = (e, ps) \<Longrightarrow> p \<in> set ps \<Longrightarrow> owns_replicas_only kind ns n r d p"
    and set_once: "set_replicas c ns n r d = (e, ps) \<Longrightarrow> length ps \<le> 1"
    and set_done: "set_replicas c ns n r d = (None, ps) \<Longrightarrow> ps \<noteq> []"
    and set_undone: "set_replicas c ns n r d = (Some err, ps) \<Longrightarrow> (\<forall>p. cl_patch c p = None) \<Longrightarrow> ps = []"
    and ready_reads: "\<exists>site. (\<exists>er. cl_get c site kind ns n = Inl er \<and> is_ready c ns n = Inl er)
      \<or> (\<exists>w. cl_get c site kind ns n = Inr w \<and> is_ready c ns n = Inr (replicas_or_1 w <=s w_ReadyReplicas w))"
    and get_reads: "\<exists>site. (\<exists>er. cl_get c site kind ns n = Inl er \<and> get_replicas c ns n = Inl er)
      \<or> (\<exists>w. cl_get c site kind ns n = Inr w \<and> get_replicas c ns n = Inr (replicas_or_1 w))"
begin

lemma set_success:
  assumes "set_replicas c ns n r d = (None, ps)"
  shows "\<exists>p. ps = [p] \<and> owns_replicas_only kind ns n r d p"
proof -
  have "length ps = 1"
    using set_once [OF assms] set_done [OF assms] by (cases ps) auto
  then obtain p where "ps = [p]" by (auto simp: length_Suc_conv)
  then show ?thesis using set_sends [OF assms] by simp
qed

text \<open>On a server whose answers do not depend on the place of the read, readiness and count agree.\<close>

lemma ready_iff:
  assumes "\<And>site. cl_get c site kind ns n = Inr w"
  shows "get_replicas c ns n = Inr (replicas_or_1 w)
    \<and> is_ready c ns n = Inr (replicas_or_1 w <=s w_ReadyReplicas w)"
  using ready_reads [of c ns n] get_reads [of c ns n] assms by auto

end

interpretation dep: workload_accessor "''Deployment''" dep_SetReplicas dep_GetReplicas dep_IsReady
  by unfold_locales (auto simp: dep_SetReplicas_def dep_GetReplicas_def IsReady_eq Let_def replicas_patch_owns
      split: sum.splits option.splits)

interpretation sts: workload_accessor "''StatefulSet''" ss_SetReplicas ss_GetReplicas ss_IsReady
  by unfold_locales (auto simp: ss_SetReplicas_def ss_GetReplicas_def IsReady_eq Let_def owns_replicas_only_def
      replicas_patch_def split: sum.splits option.splits)

section \<open>Properties\<close>

abbreviation target_ns :: "'q AIScaler \<Rightarrow> string" where
  "target_ns p \<equiv> tr_Namespace (spec_TargetRef (ai_Spec p))"

abbreviation target_name :: "'q AIScaler \<Rightarrow> string" where
  "target_name p \<equiv> tr_Name (spec_TargetRef (ai_Spec p))"

lemma Apply_sends:
  assumes "Apply c now p v = (r, ps)"
  shows "length ps \<le> 1" and "pt \<in> set ps \<Longrightarrow> owns_replicas_only ''Deployment'' (target_ns p) (target_name p)
    (vr_ValidatedReplicas v) (spec_DryRun (ai_Spec p)) pt"
  using assms by (auto simp: Apply_def Let_def replicas_patch_owns split: sum.splits option.splits if_splits)

lemma Apply_success: "Apply c now p v = (Inr a, ps) \<Longrightarrow> apr_AppliedReplicas a = vr_ValidatedReplicas v
    \<and> apr_DryRun a = spec_DryRun (ai_Spec p)"
  by (auto simp: Apply_def Let_def split: sum.splits option.splits if_splits)

lemma vertical_sends:
  assumes "vertical_Apply q c p vd = (r, ps)"
  shows "length ps \<le> 1" and "pt \<in> set ps \<Longrightarrow> pt_Replicas pt = None \<and> pt_Namespace pt = target_ns p
    \<and> pt_Name pt = target_name p \<and> pt_DryRunAll pt = spec_DryRun (ai_Spec p)"
  using assms by (auto simp: vertical_Apply_def vertical_patch_def Let_def split: sum.splits option.splits if_splits list.splits)

text \<open>
  The horizontal actuator sends at most one patch, for exactly the validated count of the target
  Deployment and nothing else, with the dry-run flag of the resource; it sends none when the
  Deployment already has that count or cannot be read; and a success reports the count it read and
  the validated count.
\<close>

theorem Apply_patches:
  assumes "Apply c now p v = (r, ps)"
  shows "(\<forall>pt\<in>set ps. owns_replicas_only ''Deployment'' (target_ns p) (target_name p)
        (vr_ValidatedReplicas v) (spec_DryRun (ai_Spec p)) pt) \<and> length ps \<le> 1
    \<and> (case cl_get c ''actuator.Apply'' ''Deployment'' (target_ns p) (target_name p) of
         Inl e \<Rightarrow> ps = [] \<and> (\<exists>e. r = Inl e)
       | Inr w \<Rightarrow> (ps = [] \<longleftrightarrow> replicas_or_1 w = vr_ValidatedReplicas v)
           \<and> (\<forall>a. r = Inr a \<longrightarrow> apr_PreviousReplicas a = replicas_or_1 w
               \<and> apr_AppliedReplicas a = vr_ValidatedReplicas v \<and> apr_DryRun a = spec_DryRun (ai_Spec p)))"
  using assms by (auto simp: Apply_def Let_def replicas_patch_owns split: sum.splits option.splits if_splits)

definition sample_workload :: "int32 \<Rightarrow> nat Workload" where
  "sample_workload n = \<lparr>w_Replicas = Some n, w_Selector = None, w_ServiceName = [],
     w_Containers = [\<lparr>ct_Name = ''app'', ct_Requests = fmempty, ct_Limits = fmempty\<rparr>],
     w_Annotations = None, w_StatusReplicas = n, w_ReadyReplicas = n\<rparr>"

definition sample_client :: "int32 \<Rightarrow> nat Client" where
  "sample_client n = \<lparr>cl_get = (\<lambda>_ _ _ _. Inr (sample_workload n)), cl_patch = (\<lambda>_. None)\<rparr>"

definition nat_quantities :: "nat QuantityOps" where
  "nat_quantities = \<lparr>q_zero = 0, q_absent = (\<lambda>_. 0), q_is_zero = (\<lambda>n. n = 0),
     q_cmp = (\<lambda>a b. if a < b then - 1 else if b < a then 1 else 0), q_string = show_nat,
     q_parse = (\<lambda>s. Inr (length s))\<rparr>"

definition validated :: "int32 \<Rightarrow> ValidationResult" where
  "validated n = \<lparr>vr_OriginalReplicas = n, vr_ValidatedReplicas = n, vr_Clamped = False, vr_Reason = []\<rparr>"

lemma Apply_patches_witness:
  "snd (Apply (sample_client 3) 0 zero_AIScaler (validated 5)) \<noteq> []"
  using Apply_patches [where c = "sample_client 3" and now = 0 and p = zero_AIScaler and v = "validated 5",
    OF prod.collapse [symmetric]]
  by (simp add: sample_client_def sample_workload_def replicas_or_1_def validated_def)

text \<open>The requests of a decision within the configured bounds, a zero bound being no bound.\<close>

definition vertical_within :: "'q QuantityOps \<Rightarrow> 'q VerticalConstraints \<Rightarrow> 'q VerticalDecision \<Rightarrow> bool" where
  "vertical_within q c vd \<longleftrightarrow>
     (q_is_zero q (vc_MinCPURequest c) \<or> 0 \<le> q_cmp q (vd_CPURequest vd) (vc_MinCPURequest c))
   \<and> (q_is_zero q (vc_MaxCPURequest c) \<or> q_cmp q (vd_CPURequest vd) (vc_MaxCPURequest c) \<le> 0)
   \<and> (q_is_zero q (vc_MinMemoryRequest c) \<or> 0 \<le> q_cmp q (vd_MemoryRequest vd) (vc_MinMemoryRequest c))
   \<and> (q_is_zero q (vc_MaxMemoryRequest c) \<or> q_cmp q (vd_MemoryRequest vd) (vc_MaxMemoryRequest c) \<le> 0)"

lemma ValidateVerticalChange_iff: "ValidateVerticalChange q vd c = None \<longleftrightarrow> vertical_within q c vd"
  by (auto simp: ValidateVerticalChange_def vertical_within_def not_less)

definition vertical_request :: "'q VerticalDecision \<Rightarrow> 'q Patch \<Rightarrow> bool" where
  "vertical_request vd p \<longleftrightarrow> pt_Replicas p = None \<and> (\<exists>c. pt_Containers p = [c]
     \<and> fmlookup (ct_Requests c) ''cpu'' = Some (vd_CPURequest vd)
     \<and> fmlookup (ct_Requests c) ''memory'' = Some (vd_MemoryRequest vd))"

text \<open>
  C35. The vertical actuator patches nothing unless vertical scaling is enabled, its policy is not
  \<open>RecommendOnly\<close> and the requests are within every configured bound; what it sends asks for the
  decided requests of one container, never touches the replica count and keeps the dry-run flag.
\<close>

theorem vertical_Apply_patches:
  assumes "vertical_Apply q c p vd = (r, ps)"
  shows "(\<forall>pt\<in>set ps. vertical_request vd pt \<and> pt_Namespace pt = target_ns p \<and> pt_Name pt = target_name p
        \<and> pt_DryRunAll pt = spec_DryRun (ai_Spec p)) \<and> length ps \<le> 1
    \<and> (ps \<noteq> [] \<longrightarrow> (\<exists>vc. spec_VerticalScaling (ai_Spec p) = Some vc \<and> vs_Enabled vc
         \<and> vs_ResizePolicy vc \<noteq> ''RecommendOnly'' \<and> vertical_within q (vs_Constraints vc) vd))
    \<and> (\<forall>a. r = Inr a \<longrightarrow> (var_Applied a \<longleftrightarrow> ps \<noteq> []) \<and> (var_RecommendOnly a \<longleftrightarrow> ps = []))"
  using assms by (auto simp: vertical_Apply_def Let_def vertical_patch_def vertical_request_def
      ValidateVerticalChange_iff split: sum.splits option.splits if_splits list.splits)

definition vertical_config :: "string \<Rightarrow> nat VerticalScalingConfig" where
  "vertical_config policy = \<lparr>vs_Enabled = True, vs_ResizePolicy = policy,
     vs_Constraints = \<lparr>vc_MinCPURequest = 1, vc_MaxCPURequest = 10, vc_MinMemoryRequest = 0,
       vc_MaxMemoryRequest = 100, vc_MaxCPUStepPercent = 0, vc_MaxMemoryStepPercent = 0\<rparr>, vs_Containers = []\<rparr>"

definition cpu_decision :: "nat \<Rightarrow> nat VerticalDecision" where
  "cpu_decision n = \<lparr>vd_CPURequest = n, vd_MemoryRequest = 5, vd_CPULimit = 0, vd_MemoryLimit = 0,
     vd_ResizeStrategy = []\<rparr>"

lemma vertical_Apply_patches_witness:
  "snd (vertical_Apply nat_quantities (sample_client 3)
     (zero_AIScaler \<lparr>ai_Spec := zero_Spec \<lparr>spec_VerticalScaling := Some (vertical_config ''InPlace'')\<rparr>\<rparr>)
     (cpu_decision 50)) = []"
  using vertical_Apply_patches [where q = nat_quantities and c = "sample_client 3"
    and p = "zero_AIScaler \<lparr>ai_Spec := zero_Spec \<lparr>spec_VerticalScaling := Some (vertical_config ''InPlace'')\<rparr>\<rparr>"
    and vd = "cpu_decision 50", OF prod.collapse [symmetric]]
  by (auto simp: vertical_config_def vertical_within_def nat_quantities_def cpu_decision_def)

text \<open>
  Every accessor the factory returns keeps the interface of \<open>workload.go\<close>: a successful set sends
  one patch of the kind asked for (a Deployment when none is named), to the target, owning only the
  replica count, dry exactly when asked to be; other kinds are refused.
\<close>

theorem accessor_contract:
  "case NewWorkloadAccessor kind ns n of
     Inl e \<Rightarrow> kind \<notin> {[], ''Deployment'', ''StatefulSet''}
   | Inr a \<Rightarrow> kind \<in> {[], ''Deployment'', ''StatefulSet''}
       \<and> accessor_Kind a = (if kind = [] then ''Deployment'' else kind)
       \<and> (\<forall>ps. accessor_SetReplicas c a r d = (None, ps) \<longrightarrow>
            (\<exists>p. ps = [p] \<and> owns_replicas_only (accessor_Kind a) ns n r d p))"
  by (auto simp: NewWorkloadAccessor_def dest: dep.set_success sts.set_success)

lemma accessor_contract_witness:
  "\<exists>p. snd (accessor_SetReplicas (sample_client 3) (StatefulSetAccessor ''ns'' ''db'') 4 True) = [p] \<and> pt_DryRunAll p"
  using accessor_contract [where kind = "''StatefulSet''" and ns = "''ns''" and n = "''db''" and c = "sample_client 3"
    and r = 4 and d = True]
  by (auto simp: NewWorkloadAccessor_def owns_replicas_only_def ss_SetReplicas_def sample_client_def Let_def)

end
