(* ===== verification/Plugin_Manager.thy ===== *)
theory Plugin_Manager
  imports Actuator Config
begin

text \<open>
  The signal plugins: the registry of \<open>internal/plugin/registry.go\<close>, the manager of
  \<open>internal/plugin/manager.go\<close>, which builds the plugins of a resource and merges their signals into
  one bundle, and the two plugins every resource without a signal list gets, \<open>annotations.go\<close> and
  \<open>metrics_server.go\<close> of \<open>internal/plugin/builtin\<close>.  A plugin is a record of its methods; what it
  was given (configuration, secret data) is passed to them.  Parsers, the metrics API and the
  secrets of the cluster are parameters.
\<close>

section \<open>Registry\<close>

type_synonym secret_data = "(string, string) fmap"

record 'q SignalPlugin =
  pg_Name :: string
  pg_k8sAware :: bool
  pg_secretReader :: bool
  pg_Init :: "secret_data option \<Rightarrow> (string, string) fmap \<Rightarrow> go_error option"
  pg_Collect :: "secret_data option \<Rightarrow> (string, string) fmap \<Rightarrow> 'q AIScaler \<Rightarrow> Bundle
     \<Rightarrow> go_error option \<times> Bundle \<times> bool"

type_synonym 'q registry = "(string, 'q SignalPlugin) fmap"

text \<open>A second registration under a name panics: no value.\<close>

definition Register :: "string \<Rightarrow> 'q SignalPlugin \<Rightarrow> 'q registry \<Rightarrow> 'q registry option" where
  "Register n factory reg = (case fmlookup reg n of Some _ \<Rightarrow> None | None \<Rightarrow> Some (fmupd n factory reg))"

definition List_plugins :: "('q registry \<Rightarrow> string list) \<Rightarrow> 'q registry \<Rightarrow> string list" where
  "List_plugins order reg = order reg"

definition Get_plugin :: "('q registry \<Rightarrow> string list) \<Rightarrow> string \<Rightarrow> 'q registry \<Rightarrow> go_error + 'q SignalPlugin" where
  "Get_plugin order n reg = (case fmlookup reg n of
     None \<Rightarrow> Inl (''unknown signal plugin '' @ go_quote n @ ''; available: ['' @ join_with '' '' (List_plugins order reg) @ '']'')
   | Some factory \<Rightarrow> Inr factory)"

section \<open>Manager\<close>

record 'q pluginInstance =
  pi_plugin :: "'q SignalPlugin"
  pi_secret :: "secret_data option"
  pi_config :: "(string, string) fmap"
  pi_required :: bool
  pi_healthy :: bool

record 'q PluginEnv =
  ge_registry :: "'q registry"
  ge_order :: "'q registry \<Rightarrow> string list"
  ge_hasClient :: bool
  ge_secret :: "string \<Rightarrow> string \<Rightarrow> api_error + secret_data"
  ge_now :: time

definition readSecretData :: "'q PluginEnv \<Rightarrow> SecretRef \<Rightarrow> go_error + secret_data" where
  "readSecretData env ref = (case ge_secret env (sr_Namespace ref) (sr_Name ref) of
     Inl e \<Rightarrow> Inl (''failed to read secret '' @ sr_Namespace ref @ ''/'' @ sr_Name ref @ '': '' @ api_error_text e)
   | Inr data \<Rightarrow> (if fmlookup data (sr_Key ref) = None
       then Inl (''key '' @ go_quote (sr_Key ref) @ '' not found in secret '' @ sr_Namespace ref @ ''/'' @ sr_Name ref)
       else Inr data))"

definition plugin_secret :: "'q PluginEnv \<Rightarrow> 'q SignalPlugin \<Rightarrow> SignalSourceConfig \<Rightarrow> go_error + secret_data option" where
  "plugin_secret env p sc = (case ss_SecretRef sc of
     None \<Rightarrow> Inr None
   | Some ref \<Rightarrow>
       (if \<not> pg_secretReader p then Inl (''plugin '' @ go_quote (ss_Name sc) @ '' does not support secretRef'')
        else if \<not> ge_hasClient env
        then Inl (''plugin '' @ go_quote (ss_Name sc) @ '' secretRef requires a Kubernetes client'')
        else (case readSecretData env ref of
            Inl e \<Rightarrow> Inl (''failed to load secret for plugin '' @ go_quote (ss_Name sc) @ '': '' @ e)
          | Inr data \<Rightarrow> Inr (Some data))))"

definition new_instance :: "'q PluginEnv \<Rightarrow> SignalSourceConfig \<Rightarrow> go_error + 'q pluginInstance" where
  "new_instance env sc = (case Get_plugin (ge_order env) (ss_Name sc) (ge_registry env) of
     Inl e \<Rightarrow> Inl (''failed to get plugin '' @ go_quote (ss_Name sc) @ '': '' @ e)
   | Inr p \<Rightarrow> (case plugin_secret env p sc of
       Inl e \<Rightarrow> Inl e
     | Inr secret \<Rightarrow> (case pg_Init p secret (ss_Config sc) of
         Some e \<Rightarrow> Inl (''failed to init plugin '' @ go_quote (ss_Name sc) @ '': '' @ e)
       | None \<Rightarrow> Inr \<lparr>pi_plugin = p, pi_secret = secret, pi_config = ss_Config sc,
           pi_required = ss_Required sc, pi_healthy = True\<rparr>)))"

fun new_instances :: "'q PluginEnv \<Rightarrow> SignalSourceConfig list \<Rightarrow> go_error + 'q pluginInstance list" where
  "new_instances env [] = Inr []"
| "new_instances env (sc # scs) = (case new_instance env sc of
     Inl e \<Rightarrow> Inl e
   | Inr i \<Rightarrow> (case new_instances env scs of Inl e \<Rightarrow> Inl e | Inr is \<Rightarrow> Inr (i # is)))"

definition default_signals :: "SignalSourceConfig list" where
  "default_signals =
     [\<lparr>ss_Name = ''metrics-server'', ss_Required = True, ss_Config = fmempty, ss_SecretRef = None\<rparr>,
      \<lparr>ss_Name = ''annotations'', ss_Required = False, ss_Config = fmempty, ss_SecretRef = None\<rparr>]"

definition NewManager :: "'q PluginEnv \<Rightarrow> SignalSourceConfig list \<Rightarrow> go_error + 'q pluginInstance list" where
  "NewManager env signalConfigs =
     new_instances env (if length signalConfigs = 0 then default_signals else signalConfigs)"

definition run_plugin :: "'q AIScaler \<Rightarrow> 'q pluginInstance \<Rightarrow> Bundle \<Rightarrow> go_error option \<times> Bundle \<times> 'q pluginInstance" where
  "run_plugin policy i bundle = (case pg_Collect (pi_plugin i) (pi_secret i) (pi_config i) policy bundle of
     (err, b, healthy) \<Rightarrow> (err,
       b \<lparr>b_SourceHealth := fmupd (pg_Name (pi_plugin i)) (err = None) (b_SourceHealth b)\<rparr>,
       i \<lparr>pi_healthy := healthy\<rparr>))"

fun collect_from :: "'q AIScaler \<Rightarrow> 'q pluginInstance list \<Rightarrow> Bundle \<Rightarrow> (go_error + Bundle) \<times> 'q pluginInstance list" where
  "collect_from policy [] bundle = (Inr bundle, [])"
| "collect_from policy (i # is) bundle = (case run_plugin policy i bundle of
     (Some e, b, i') \<Rightarrow> (if pi_required i
       then (Inl (''required signal plugin '' @ go_quote (pg_Name (pi_plugin i)) @ '' failed: '' @ e), i' # is)
       else (case collect_from policy is b of (r, is') \<Rightarrow> (r, i' # is')))
   | (None, b, i') \<Rightarrow> (case collect_from policy is b of (r, is') \<Rightarrow> (r, i' # is')))"

definition manager_Collect :: "'q PluginEnv \<Rightarrow> 'q AIScaler \<Rightarrow> 'q pluginInstance list
    \<Rightarrow> (go_error + Bundle) \<times> 'q pluginInstance list" where
  "manager_Collect env policy is = collect_from policy is (zero_Bundle \<lparr>b_CollectedAt := ge_now env\<rparr>)"

fun HealthStatus :: "'q pluginInstance list \<Rightarrow> (string, bool) fmap \<Rightarrow> (string, bool) fmap" where
  "HealthStatus [] status = status"
| "HealthStatus (i # is) status = HealthStatus is (fmupd (pg_Name (pi_plugin i)) (pi_healthy i) status)"

section \<open>The annotations plugin\<close>

record AnnotationEnv =
  ae_parseTime :: "string \<Rightarrow> go_error + time"
  ae_parseRules :: "string \<Rightarrow> go_error + ReactiveRule list"

definition annotation_or_empty :: "(string, string) fmap \<Rightarrow> string \<Rightarrow> string" where
  "annotation_or_empty ann k = (case fmlookup ann k of Some v \<Rightarrow> v | None \<Rightarrow> [])"

definition set_annotations :: "(AnnotationSignals \<Rightarrow> AnnotationSignals) \<Rightarrow> Bundle \<Rightarrow> Bundle" where
  "set_annotations f b = b \<lparr>b_Annotations := f (b_Annotations b)\<rparr>"

definition annotation_texts :: "(string, string) fmap \<Rightarrow> Bundle \<Rightarrow> Bundle" where
  "annotation_texts ann = set_annotations (\<lambda>a. a
     \<lparr>an_ExpectedTraffic := annotation_or_empty ann ''aiscaler.io/expected-traffic'',
      an_ScaleConservatively := annotation_or_empty ann ''aiscaler.io/scale-conservatively'' = ''true'',
      an_Note := annotation_or_empty ann ''aiscaler.io/note'',
      an_PeakHours := annotation_or_empty ann ''aiscaler.io/peak-hours''\<rparr>)"

definition annotation_rules :: "AnnotationEnv \<Rightarrow> (string, string) fmap \<Rightarrow> Bundle \<Rightarrow> go_error option \<times> Bundle" where
  "annotation_rules env ann b = (case fmlookup ann ''aiscaler.io/reactive-rules'' of
     None \<Rightarrow> (None, b)
   | Some raw \<Rightarrow> (if raw = [] then (None, b) else (case ae_parseRules env raw of
       Inl e \<Rightarrow> (Some (''invalid reactive-rules JSON: '' @ e), b)
     | Inr rules \<Rightarrow> (None, set_annotations (\<lambda>a. a \<lparr>an_ReactiveRules := rules\<rparr>) b))))"

definition annotation_signals :: "AnnotationEnv \<Rightarrow> (string, string) fmap \<Rightarrow> Bundle \<Rightarrow> go_error option \<times> Bundle" where
  "annotation_signals env ann b0 = (let b = annotation_texts ann b0 in
     case fmlookup ann ''aiscaler.io/freeze-until'' of
       None \<Rightarrow> annotation_rules env ann b
     | Some raw \<Rightarrow> (case ae_parseTime env raw of
         Inl e \<Rightarrow> (Some (''invalid freeze-until timestamp '' @ go_quote raw @ '': '' @ e), b)
       | Inr t \<Rightarrow> annotation_rules env ann (set_annotations (\<lambda>a. a \<lparr>an_FreezeUntil := Some t\<rparr>) b)))"

definition annotations_Collect :: "'q Client \<Rightarrow> AnnotationEnv \<Rightarrow> 'q AIScaler \<Rightarrow> Bundle
    \<Rightarrow> go_error option \<times> Bundle \<times> bool" where
  "annotations_Collect c env policy bundle =
     (case cl_get c ''annotations'' ''Deployment'' (target_ns policy) (target_name policy) of
        Inl e \<Rightarrow> (Some (''failed to get deployment '' @ target_ns policy @ ''/'' @ target_name policy
                   @ '': '' @ api_error_text e), bundle, False)
      | Inr deploy \<Rightarrow> (case w_Annotations deploy of
          None \<Rightarrow> (None, bundle, True)
        | Some ann \<Rightarrow> (case annotation_signals env ann bundle of (err, b) \<Rightarrow> (err, b, True))))"

definition annotations_plugin :: "'q Client \<Rightarrow> AnnotationEnv \<Rightarrow> 'q SignalPlugin" where
  "annotations_plugin c env = \<lparr>pg_Name = ''annotations'', pg_k8sAware = True, pg_secretReader = False,
     pg_Init = (\<lambda>_ _. None), pg_Collect = (\<lambda>_ _. annotations_Collect c env)\<rparr>"

section \<open>The metrics-server plugin\<close>

record 'q MetricsEnv =
  me_milliValue :: "'q \<Rightarrow> int64"
  me_value :: "'q \<Rightarrow> int64"
  me_podMetrics :: "string \<Rightarrow> (string, string) fmap option \<Rightarrow> go_error + (int64 \<times> int64) list list"

definition f_of_int64 :: "int64 \<Rightarrow> float64" where
  "f_of_int64 a = f_of_int (sint a)"

fun sum_requests :: "string \<Rightarrow> ('q \<Rightarrow> int64) \<Rightarrow> 'q Container list \<Rightarrow> int64 \<Rightarrow> int64" where
  "sum_requests name f [] t = t"
| "sum_requests name f (ct # cts) t = sum_requests name f cts
     (case fmlookup (ct_Requests ct) name of Some req \<Rightarrow> t + f req | None \<Rightarrow> t)"

fun sum_usage :: "((int64 \<times> int64) \<Rightarrow> int64) \<Rightarrow> (int64 \<times> int64) list \<Rightarrow> float64 \<Rightarrow> float64" where
  "sum_usage f [] s = s"
| "sum_usage f (u # us) s = sum_usage f us (s + f_of_int64 (f u))"

definition usage_percent :: "float64 \<Rightarrow> nat \<Rightarrow> int64 \<Rightarrow> float64" where
  "usage_percent sumUsage n requested = (if 0 <s requested
     then sumUsage div f_of_int (int n) div f_of_int64 requested * f_of_int 100 else 0)"

definition podUtilization :: "'q MetricsEnv \<Rightarrow> string \<Rightarrow> 'q Workload \<Rightarrow> go_error + (float64 \<times> float64)" where
  "podUtilization env ns deploy = (case me_podMetrics env ns (w_Selector deploy) of
     Inl e \<Rightarrow> Inl e
   | Inr items \<Rightarrow> (if items = [] then Inr (0, 0) else
       Inr (usage_percent (sum_usage fst (concat items) 0) (length items)
              (sum_requests ''cpu'' (me_milliValue env) (w_Containers deploy) 0),
            usage_percent (sum_usage snd (concat items) 0) (length items)
              (sum_requests ''memory'' (me_value env) (w_Containers deploy) 0))))"

definition metrics_Collect :: "'q Client \<Rightarrow> 'q MetricsEnv \<Rightarrow> 'q AIScaler \<Rightarrow> Bundle \<Rightarrow> go_error option \<times> Bundle \<times> bool" where
  "metrics_Collect c env policy bundle =
     (case cl_get c ''metrics-server'' ''Deployment'' (target_ns policy) (target_name policy) of
        Inl e \<Rightarrow> (Some (''failed to get deployment '' @ target_ns policy @ ''/'' @ target_name policy
                   @ '': '' @ api_error_text e), bundle, False)
      | Inr deploy \<Rightarrow> (let
          b = bundle \<lparr>b_CurrentReplicas := w_StatusReplicas deploy, b_ReadyReplicas := w_ReadyReplicas deploy,
            b_DeploymentReady := (w_ReadyReplicas deploy = w_StatusReplicas deploy \<and> 0 <s w_StatusReplicas deploy)\<rparr>
        in case podUtilization env (target_ns policy) deploy of
             Inl e \<Rightarrow> (None, b \<lparr>b_CPUUtilization := 0, b_MemoryUtilization := 0\<rparr>, False)
           | Inr (cpuPct, memPct) \<Rightarrow> (None, b \<lparr>b_CPUUtilization := cpuPct, b_MemoryUtilization := memPct\<rparr>, True)))"

definition metrics_plugin :: "'q Client \<Rightarrow> 'q MetricsEnv \<Rightarrow> 'q SignalPlugin" where
  "metrics_plugin c env = \<lparr>pg_Name = ''metrics-server'', pg_k8sAware = True, pg_secretReader = False,
     pg_Init = (\<lambda>_ _. None), pg_Collect = (\<lambda>_ _. metrics_Collect c env)\<rparr>"

section \<open>The interface of a plugin\<close>

text \<open>
  A plugin fills in signals; the health table and the time of the bundle belong to the manager.
\<close>

locale signal_plugin =
  fixes collect :: "'q AIScaler \<Rightarrow> Bundle \<Rightarrow> go_error option \<times> Bundle \<times> bool"
  assumes keeps_health: "collect p b = (e, b', h) \<Longrightarrow> b_SourceHealth b' = b_SourceHealth b"
    and keeps_time: "collect p b = (e, b', h) \<Longrightarrow> b_CollectedAt b' = b_CollectedAt b"
begin

lemma run_records:
  assumes "run_plugin p i b = (e, b', i')" and "pg_Collect (pi_plugin i) (pi_secret i) (pi_config i) = collect"
  shows "b_SourceHealth b' = fmupd (pg_Name (pi_plugin i)) (e = None) (b_SourceHealth b)
    \<and> b_CollectedAt b' = b_CollectedAt b \<and> pi_required i' = pi_required i"
  using assms keeps_health keeps_time by (force simp: run_plugin_def split: prod.splits)

end

lemma annotation_signals_keeps:
  assumes "annotation_signals env ann b = (e, b')"
  shows "b_SourceHealth b' = b_SourceHealth b" "b_CollectedAt b' = b_CollectedAt b"
    "b_CurrentReplicas b' = b_CurrentReplicas b" "b_ReadyReplicas b' = b_ReadyReplicas b"
  using assms by (auto simp: annotation_signals_def annotation_rules_def annotation_texts_def set_annotations_def Let_def
      split: option.splits sum.splits if_splits)

interpretation ann: signal_plugin "annotations_Collect c env" for c env
  by unfold_locales (auto simp: annotations_Collect_def annotation_signals_keeps
      split: sum.splits option.splits prod.splits)

interpretation met: signal_plugin "metrics_Collect c env" for c env
  by unfold_locales (auto simp: metrics_Collect_def Let_def split: sum.splits option.splits prod.splits)

section \<open>Lemmas\<close>

lemma new_instances_Inr:
  "new_instances env scs = Inr is \<longleftrightarrow> list_all2 (\<lambda>sc i. new_instance env sc = Inr i) scs is"
proof (induction scs arbitrary: "is")
  case Nil
  then show ?case by auto
next
  case (Cons sc scs)
  then show ?case by (cases "is") (auto simp: Cons.IH [symmetric] split: sum.splits)
qed

lemma new_instance_fields:
  "new_instance env sc = Inr i \<Longrightarrow> fmlookup (ge_registry env) (ss_Name sc) = Some (pi_plugin i)
     \<and> pi_required i = ss_Required sc \<and> pi_config i = ss_Config sc"
  by (auto simp: new_instance_def Get_plugin_def split: sum.splits option.splits)

text \<open>The outcome of every plugin that runs: its name, whether it is required and whether it worked.\<close>

fun outcomes :: "'q AIScaler \<Rightarrow> 'q pluginInstance list \<Rightarrow> Bundle \<Rightarrow> (string \<times> bool \<times> bool) list" where
  "outcomes policy [] b = []"
| "outcomes policy (i # is) b = (case run_plugin policy i b of (err, b1, i') \<Rightarrow>
     (pg_Name (pi_plugin i), pi_required i, err = None)
       # (if err \<noteq> None \<and> pi_required i then [] else outcomes policy is b1))"

lemma collect_from_fails_iff:
  "(\<exists>e. fst (collect_from p is b) = Inl e) \<longleftrightarrow> (\<exists>n. (n, True, False) \<in> set (outcomes p is b))"
proof (induction "is" arbitrary: b)
  case (Cons i "is")
  obtain err b1 i' where r: "run_plugin p i b = (err, b1, i')" by (metis prod_cases3)
  obtain x is' where c: "collect_from p is b1 = (x, is')" by force
  show ?case using Cons.IH [of b1] r c by (cases err) auto
qed simp

lemma set_annotations_freeze [simp]:
  "an_FreezeUntil (b_Annotations (annotation_texts ann b)) = an_FreezeUntil (b_Annotations b)"
  "an_FreezeUntil (b_Annotations (set_annotations (\<lambda>a. a \<lparr>an_FreezeUntil := t\<rparr>) b)) = t"
  "an_FreezeUntil (b_Annotations (set_annotations (\<lambda>a. a \<lparr>an_ReactiveRules := rs\<rparr>) b)) = an_FreezeUntil (b_Annotations b)"
  by (simp_all add: annotation_texts_def set_annotations_def)

definition freeze_annotation :: "AnnotationEnv \<Rightarrow> (string, string) fmap option \<Rightarrow> time option" where
  "freeze_annotation env ann = (case ann of None \<Rightarrow> None
     | Some m \<Rightarrow> (case fmlookup m ''aiscaler.io/freeze-until'' of None \<Rightarrow> None
         | Some raw \<Rightarrow> (case ae_parseTime env raw of Inl e \<Rightarrow> None | Inr t \<Rightarrow> Some t)))"

lemma annotation_rules_freeze:
  "annotation_rules env m b = (e, b') \<Longrightarrow> an_FreezeUntil (b_Annotations b') = an_FreezeUntil (b_Annotations b)"
  by (auto simp: annotation_rules_def split: option.splits if_splits sum.splits)

lemma annotations_freeze:
  assumes "annotations_Collect c env p b = (e, b', h)" and "an_FreezeUntil (b_Annotations b) = None"
  shows "an_FreezeUntil (b_Annotations b') = (case cl_get c ''annotations'' ''Deployment'' (target_ns p) (target_name p) of
      Inl _ \<Rightarrow> None | Inr d \<Rightarrow> freeze_annotation env (w_Annotations d))"
  using assms by (auto simp: annotations_Collect_def annotation_signals_def freeze_annotation_def Let_def
      dest!: annotation_rules_freeze split: sum.splits option.splits prod.splits)

section \<open>Properties\<close>

text \<open>
  Collecting fails exactly when a required plugin fails on the bundle left by the plugins before
  it; failures of optional plugins never stop it, and no plugin runs after a failed required one.
\<close>

theorem manager_Collect_fails_iff:
  "(\<exists>e. fst (manager_Collect env p is) = Inl e) \<longleftrightarrow>
    (\<exists>n. (n, True, False) \<in> set (outcomes p is (zero_Bundle \<lparr>b_CollectedAt := ge_now env\<rparr>)))"
  by (simp add: manager_Collect_def collect_from_fails_iff)

text \<open>
  For a resource without a signal list and the two built-in plugins registered under their names,
  a successful collection reports the replica status of the target Deployment, marks the
  metrics plugin healthy, and carries a freeze time exactly when the freeze annotation is there and
  parses; an annotation that does not parse leaves the resource unfrozen.
\<close>

theorem default_signals_status:
  assumes "fmlookup (ge_registry env) ''metrics-server'' = Some (metrics_plugin c me)"
    and "fmlookup (ge_registry env) ''annotations'' = Some (annotations_plugin c ae)"
    and "NewManager env [] = Inr is" and "fst (manager_Collect env p is) = Inr b"
  shows "\<exists>w. cl_get c ''metrics-server'' ''Deployment'' (target_ns p) (target_name p) = Inr w
    \<and> b_CurrentReplicas b = w_StatusReplicas w \<and> b_ReadyReplicas b = w_ReadyReplicas w
    \<and> fmlookup (b_SourceHealth b) ''metrics-server'' = Some True
    \<and> an_FreezeUntil (b_Annotations b) =
        (case cl_get c ''annotations'' ''Deployment'' (target_ns p) (target_name p) of
           Inl _ \<Rightarrow> None | Inr d \<Rightarrow> freeze_annotation ae (w_Annotations d))"
proof -
  have "list_all2 (\<lambda>sc i. new_instance env sc = Inr i) default_signals is"
    using assms(3) by (simp add: NewManager_def new_instances_Inr)
  then obtain i j where ij: "is = [i, j]" "pi_plugin i = metrics_plugin c me" "pi_plugin j = annotations_plugin c ae"
      "pi_required i" "\<not> pi_required j"
    using assms(1,2) by (auto simp: default_signals_def list_all2_Cons1 dest!: new_instance_fields)
  define b0 where "b0 = zero_Bundle \<lparr>b_CollectedAt := ge_now env\<rparr>"
  obtain e1 b1 h1 where m: "metrics_Collect c me p b0 = (e1, b1, h1)" by (metis prod_cases3)
  define b1' where "b1' = b1 \<lparr>b_SourceHealth := fmupd ''metrics-server'' (e1 = None) (b_SourceHealth b1)\<rparr>"
  obtain e2 b2 h2 where a: "annotations_Collect c ae p b1' = (e2, b2, h2)" by (metis prod_cases3)
  have run: "run_plugin p i b0 = (e1, b1', i \<lparr>pi_healthy := h1\<rparr>)"
    using ij(2) m by (simp add: run_plugin_def metrics_plugin_def b1'_def)
  have ok: "e1 = None" and b: "b = b2 \<lparr>b_SourceHealth := fmupd ''annotations'' (e2 = None) (b_SourceHealth b2)\<rparr>"
    using assms(4) ij a run by (auto simp: manager_Collect_def b0_def [symmetric] run_plugin_def [of p j]
        annotations_plugin_def split: option.splits)
  obtain w where w: "cl_get c ''metrics-server'' ''Deployment'' (target_ns p) (target_name p) = Inr w"
      "b_CurrentReplicas b1 = w_StatusReplicas w" "b_ReadyReplicas b1 = w_ReadyReplicas w"
      "b_Annotations b1 = b_Annotations b0"
    using m ok by (auto simp: metrics_Collect_def Let_def split: sum.splits)
  have keep: "b_CurrentReplicas b2 = b_CurrentReplicas b1" "b_ReadyReplicas b2 = b_ReadyReplicas b1"
    using a by (auto simp: annotations_Collect_def b1'_def split: sum.splits option.splits prod.splits
        dest: annotation_signals_keeps(3,4))
  have "b_SourceHealth b2 = b_SourceHealth b1'" using ann.keeps_health [OF a] .
  moreover have "an_FreezeUntil (b_Annotations b1') = None"
    using w(4) by (simp add: b1'_def b0_def zero_signal_defs)
  ultimately show ?thesis
    using w keep ok annotations_freeze [OF a] by (simp add: b b1'_def)
qed

definition builtin_env :: "nat Client \<Rightarrow> (string, string) fmap option \<Rightarrow> nat PluginEnv" where
  "builtin_env c ann = \<lparr>ge_registry = fmupd ''annotations''
       (annotations_plugin c \<lparr>ae_parseTime = (\<lambda>_. Inl ''bad''), ae_parseRules = (\<lambda>_. Inr [])\<rparr>)
       (fmupd ''metrics-server'' (metrics_plugin c \<lparr>me_milliValue = (\<lambda>_. 0), me_value = (\<lambda>_. 0),
          me_podMetrics = (\<lambda>_ _. Inr [])\<rparr>) fmempty),
     ge_order = (\<lambda>_. []), ge_hasClient = True, ge_secret = (\<lambda>_ _. Inl (ApiNotFound [])), ge_now = 7\<rparr>"

lemma default_signals_status_witness:
  "\<exists>is b. NewManager (builtin_env (sample_client 3) None) [] = Inr is
    \<and> fst (manager_Collect (builtin_env (sample_client 3) None) zero_AIScaler is) = Inr b \<and> b_CurrentReplicas b = 3"
proof -
  let ?env = "builtin_env (sample_client 3) None"
  let ?i = "\<lambda>p r. \<lparr>pi_plugin = p, pi_secret = None, pi_config = fmempty, pi_required = r, pi_healthy = True\<rparr>"
  let ?m = "metrics_plugin (sample_client 3) \<lparr>me_milliValue = (\<lambda>_. 0), me_value = (\<lambda>_. 0), me_podMetrics = (\<lambda>_ _. Inr [])\<rparr>"
  let ?a = "annotations_plugin (sample_client 3) \<lparr>ae_parseTime = (\<lambda>_. Inl ''bad''), ae_parseRules = (\<lambda>_. Inr [])\<rparr>"
  have reg: "fmlookup (ge_registry ?env) ''metrics-server'' = Some ?m" "fmlookup (ge_registry ?env) ''annotations'' = Some ?a"
    by (simp_all add: builtin_env_def)
  have new: "NewManager ?env [] = Inr [?i ?m True, ?i ?a False]"
    by (simp add: NewManager_def default_signals_def new_instance_def Get_plugin_def reg plugin_secret_def
        metrics_plugin_def annotations_plugin_def)
  obtain b where b: "fst (manager_Collect ?env zero_AIScaler [?i ?m True, ?i ?a False]) = Inr b"
    by (simp add: manager_Collect_def run_plugin_def metrics_plugin_def annotations_plugin_def metrics_Collect_def
        annotations_Collect_def podUtilization_def sample_client_def sample_workload_def Let_def)
  from default_signals_status [OF reg new b] new b show ?thesis
    by (auto simp: sample_client_def sample_workload_def)
qed

end
