(* ===== verification/Slo.thy ===== *)
theory Slo
  imports Signal
begin

text \<open>
  \<open>internal/decision/slo.go\<close>: the value of a metric in a bundle, the margin of an objective in
  floating-point arithmetic, and the status block of the prompt.
\<close>

record SLOStatus =
  ss_slo_Name :: string
  ss_slo_Metric :: string
  ss_slo_Target :: float64
  ss_slo_Actual :: float64
  ss_slo_Breached :: bool
  ss_slo_Margin :: float64
  ss_slo_Priority :: int32

definition resolveMetric :: "string \<Rightarrow> Bundle \<Rightarrow> float64" where
  "resolveMetric metric bundle =
     (if metric = ''p95_latency'' then b_P95LatencyMs bundle
      else if metric = ''p99_latency'' then b_P95LatencyMs bundle
      else if metric = ''error_rate'' then b_ErrorRate bundle
      else if metric = ''cpu_utilization'' then b_CPUUtilization bundle
      else if metric = ''memory_utilization'' then b_MemoryUtilization bundle
      else if metric = ''queue_depth'' then b_QueueDepth bundle
      else case fmlookup (b_CustomSignals bundle) metric of Some v \<Rightarrow> v | None \<Rightarrow> 0)"

definition computeMargin :: "string \<Rightarrow> float64 \<Rightarrow> float64 \<Rightarrow> float64" where
  "computeMargin metric target actual =
     (if f_eq target 0 then (if f_eq actual 0 then f_of_int 100 else f_of_int (- 100))
      else if metric = ''availability'' then (actual - target) div target * f_of_int 100
      else (target - actual) div target * f_of_int 100)"

definition slo_status :: "Bundle \<Rightarrow> SLO \<Rightarrow> SLOStatus" where
  "slo_status bundle slo = (let
     actual = resolveMetric (slo_Metric slo) bundle;
     margin = computeMargin (slo_Metric slo) (slo_Target slo) actual;
     breached = margin < 0
   in \<lparr>ss_slo_Name = slo_Name slo, ss_slo_Metric = slo_Metric slo, ss_slo_Target = slo_Target slo,
       ss_slo_Actual = actual, ss_slo_Breached = breached, ss_slo_Margin = margin,
       ss_slo_Priority = slo_Priority slo\<rparr>)"

fun EvaluateSLOs :: "SLO list \<Rightarrow> Bundle \<Rightarrow> SLOStatus list" where
  "EvaluateSLOs [] bundle = []"
| "EvaluateSLOs (slo # slos) bundle = slo_status bundle slo # EvaluateSLOs slos bundle"

fun AnyBreached :: "SLOStatus list \<Rightarrow> bool" where
  "AnyBreached [] = False"
| "AnyBreached (s # statuses) = (if ss_slo_Breached s then True else AnyBreached statuses)"

definition slo_line :: "SLOStatus \<Rightarrow> string" where
  "slo_line s = ''  - '' @ ss_slo_Name s @ '' ('' @ ss_slo_Metric s @ ''): target=''
     @ show_f 2 (ss_slo_Target s) @ '' actual='' @ show_f 2 (ss_slo_Actual s) @ '' [''
     @ (if ss_slo_Breached s then ''BREACHED'' else ''OK'') @ ''] margin='' @ show_f 1 (ss_slo_Margin s)
     @ ''%'' @ nl"

definition FormatSLOContext :: "SLOStatus list \<Rightarrow> string" where
  "FormatSLOContext statuses = (if length statuses = 0 then ''''
     else ''SLO Status:'' @ nl @ concat (List.map slo_line statuses) @ nl
       @ ''Prioritize keeping SLOs within target. If any SLO is breached, scale up.'')"

section \<open>Lemmas\<close>

lemma EvaluateSLOs_map: "EvaluateSLOs slos b = List.map (slo_status b) slos"
  by (induction slos) simp_all

lemma AnyBreached_iff: "AnyBreached ss \<longleftrightarrow> (\<exists>s\<in>set ss. ss_slo_Breached s)"
  by (induction ss) auto

lemma breached_lower_is_better:
  assumes "is_finite (slo_Target s)" and "0 < slo_Target s" and "slo_Metric s \<noteq> ''availability''"
  shows "ss_slo_Breached (slo_status b s) \<longleftrightarrow> slo_Target s < resolveMetric (slo_Metric s) b"
proof -
  have "\<not> f_eq (slo_Target s) 0" using assms(2) by (auto simp: f_eq_iff f_less_iff)
  then show ?thesis
    using margin_sign [OF assms(1,2), of "f_of_int 100"] assms(3)
    by (simp add: slo_status_def computeMargin_def Let_def float_hundred)
qed

lemma breached_zero_target:
  assumes "f_eq (slo_Target s) 0"
  shows "ss_slo_Breached (slo_status b s) \<longleftrightarrow> \<not> f_eq (resolveMetric (slo_Metric s) b) 0"
  using assms f_of_int_val [of 100] f_of_int_val [of "- 100"] f_of_int_not_nan [of "- 100"]
  by (simp add: slo_status_def computeMargin_def Let_def f_less_zero_iff)

section \<open>Properties\<close>

text \<open>
  C26. The floating-point margin decides an objective exactly: with finite positive targets of
  metrics for which lower is better, some objective is reported breached if and only if the
  measured value of one exceeds its target, for all measured values, infinities and NaN
  included.
\<close>

theorem AnyBreached_exact:
  assumes "\<forall>s\<in>set slos. is_finite (slo_Target s) \<and> 0 < slo_Target s \<and> slo_Metric s \<noteq> ''availability''"
  shows "AnyBreached (EvaluateSLOs slos b) \<longleftrightarrow>
    (\<exists>s\<in>set slos. slo_Target s < resolveMetric (slo_Metric s) b)"
  using assms by (auto simp: AnyBreached_iff EvaluateSLOs_map breached_lower_is_better)

definition latency_slo :: "int \<Rightarrow> SLO" where
  "latency_slo t = \<lparr>slo_Name = ''latency'', slo_Metric = ''p95_latency'', slo_Target = f_of_int t,
     slo_Priority = 1\<rparr>"

lemma AnyBreached_exact_witness:
  "AnyBreached (EvaluateSLOs [latency_slo 200] (zero_Bundle \<lparr>b_P95LatencyMs := f_of_int 201\<rparr>))"
  using AnyBreached_exact [of "[latency_slo 200]" "zero_Bundle \<lparr>b_P95LatencyMs := f_of_int 201\<rparr>"]
  by (simp add: latency_slo_def resolveMetric_def f_of_int_val f_of_int_less float_zero_of_int)

text \<open>
  Every objective gets one status, in order, and the context of the prompt is empty exactly
  when no objective is configured.
\<close>

theorem EvaluateSLOs_complete:
  "List.map ss_slo_Name (EvaluateSLOs slos b) = List.map slo_Name slos
    \<and> List.map ss_slo_Actual (EvaluateSLOs slos b) = List.map (\<lambda>s. resolveMetric (slo_Metric s) b) slos
    \<and> (FormatSLOContext (EvaluateSLOs slos b) = '''' \<longleftrightarrow> slos = [])"
  by (simp add: EvaluateSLOs_map slo_status_def Let_def FormatSLOContext_def)

end
