(* ===== verification/Reactive.thy ===== *)
theory Reactive
  imports Slo
begin

text \<open>
  \<open>internal/decision/reactive.go\<close>: the rules of the workload's annotations, evaluated in order
  against the bundle; the first that holds gives the count, and the provider is not asked.
\<close>

record ReactiveResult =
  rx_Fired :: bool
  rx_Rule :: ReactiveRule
  rx_Actual :: float64
  rx_Replicas :: int32

definition evalCondition :: "float64 \<Rightarrow> string \<Rightarrow> float64 \<Rightarrow> bool" where
  "evalCondition actual op threshold =
     (if op = ''>'' then threshold < actual
      else if op = ''>='' then threshold \<le> actual
      else if op = ''<'' then actual < threshold
      else if op = ''<='' then actual \<le> threshold
      else if op = ''=='' then f_eq actual threshold
      else if op = ''!='' then \<not> f_eq actual threshold
      else False)"

definition computeReactiveReplicas :: "ReactiveRule \<Rightarrow> int32 \<Rightarrow> int32" where
  "computeReactiveReplicas rule current =
     (if rr_Action rule = ''scale_up'' then current + rr_Amount rule
      else if rr_Action rule = ''scale_down'' then
        (let result = current - rr_Amount rule in if result <s 1 then 1 else result)
      else if rr_Action rule = ''set'' then rr_Amount rule
      else current)"

fun EvaluateReactiveRules :: "ReactiveRule list \<Rightarrow> Bundle \<Rightarrow> ReactiveResult option" where
  "EvaluateReactiveRules [] bundle = None"
| "EvaluateReactiveRules (rule # rules) bundle = (let actual = resolveMetric (rr_Metric rule) bundle in
     if \<not> evalCondition actual (rr_Operator rule) (rr_Threshold rule)
     then EvaluateReactiveRules rules bundle
     else Some \<lparr>rx_Fired = True, rx_Rule = rule, rx_Actual = actual,
                rx_Replicas = computeReactiveReplicas rule (b_CurrentReplicas bundle)\<rparr>)"

section \<open>Lemmas\<close>

definition rule_holds :: "Bundle \<Rightarrow> ReactiveRule \<Rightarrow> bool" where
  "rule_holds b r = evalCondition (resolveMetric (rr_Metric r) b) (rr_Operator r) (rr_Threshold r)"

lemma EvaluateReactiveRules_find:
  "EvaluateReactiveRules rs b = map_option (\<lambda>r. \<lparr>rx_Fired = True, rx_Rule = r,
     rx_Actual = resolveMetric (rr_Metric r) b,
     rx_Replicas = computeReactiveReplicas r (b_CurrentReplicas b)\<rparr>) (List.find (rule_holds b) rs)"
  by (induction rs) (simp_all add: rule_holds_def Let_def)

lemma EvaluateReactiveRules_None: "EvaluateReactiveRules rs b = None \<longleftrightarrow> (\<forall>r\<in>set rs. \<not> rule_holds b r)"
  by (simp add: EvaluateReactiveRules_find find_None_all)

section \<open>Properties\<close>

text \<open>
  The result is that of the first rule whose condition holds: every rule before it in the
  list fails, and there is no result exactly when all fail.
\<close>

theorem EvaluateReactiveRules_first:
  "(case EvaluateReactiveRules rs b of
      None \<Rightarrow> List.filter (rule_holds b) rs = []
    | Some res \<Rightarrow> (\<exists>xs ys. rs = xs @ rx_Rule res # ys \<and> List.filter (rule_holds b) xs = [])
        \<and> rule_holds b (rx_Rule res)
        \<and> rx_Replicas res = computeReactiveReplicas (rx_Rule res) (b_CurrentReplicas b))"
proof (cases "List.find (rule_holds b) rs")
  case None
  moreover have "List.filter (rule_holds b) rs = []"
    using None by (simp add: find_None_all filter_empty_conv)
  ultimately show ?thesis by (simp add: EvaluateReactiveRules_find)
next
  case (Some r)
  then obtain i where i: "i < length rs" "rule_holds b (rs ! i)" "r = rs ! i" "\<forall>j<i. \<not> rule_holds b (rs ! j)"
    by (auto simp: find_Some_iff)
  then have "rs = take i rs @ r # drop (Suc i) rs" by (simp add: id_take_nth_drop)
  moreover have "List.filter (rule_holds b) (take i rs) = []"
    using i by (auto simp: filter_empty_conv in_set_conv_nth)
  ultimately show ?thesis using i Some by (auto simp: EvaluateReactiveRules_find)
qed

text \<open>
  A rule that scales down by a nonnegative amount never leaves a running workload with fewer
  than one replica nor with more than it had.
\<close>

theorem reactive_scale_down:
  assumes "rr_Action r = ''scale_down''" and "0 \<le> sint (rr_Amount r)" and "1 \<le> sint cur"
  shows "1 \<le> sint (computeReactiveReplicas r cur) \<and> sint (computeReactiveReplicas r cur) \<le> sint cur
    \<and> (sint (rr_Amount r) < sint cur \<longrightarrow> sint (computeReactiveReplicas r cur) = sint cur - sint (rr_Amount r))"
proof -
  have "sint (cur - rr_Amount r) = sint cur - sint (rr_Amount r)"
    using assms sint32_range [of cur] sint32_range [of "rr_Amount r"] by (intro sint32_sub) linarith+
  then show ?thesis using assms by (auto simp: computeReactiveReplicas_def sless_sint Let_def)
qed

definition latency_rule :: "string \<Rightarrow> int32 \<Rightarrow> ReactiveRule" where
  "latency_rule act n = \<lparr>rr_Metric = ''p95_latency'', rr_Operator = ''>'', rr_Threshold = f_of_int 200,
     rr_Action = act, rr_Amount = n\<rparr>"

lemma reactive_scale_down_witness: "sint (computeReactiveReplicas (latency_rule ''scale_down'' 3) 5) = 2"
  using reactive_scale_down [of "latency_rule ''scale_down'' 3" 5] by (simp add: latency_rule_def)

text \<open>A large amount of scale_up wraps around: the count falls.\<close>

lemma reactive_scale_up_wraps:
  "sint (computeReactiveReplicas (latency_rule ''scale_up'' (word_of_int int32_max)) 5) = - 2147483644"
  by (simp add: computeReactiveReplicas_def latency_rule_def)

end
