(* ===== verification/Precedence.thy ===== *)
theory Precedence
  imports Api
begin

text \<open>
  \<open>internal/decision/precedence.go\<close>: the resolver that picks one of the layers' targets.  The
  loop over the layers is a fold over the resolver's state (the winner so far and the result
  under construction); the lemmas give its result in closed form.
\<close>

record PrecedenceInputs =
  pi_SafetyOverride :: "int32 option"
  pi_SafetyReason :: string
  pi_HumanOverride :: "int32 option"
  pi_HumanReason :: string
  pi_ScheduleTarget :: "int32 option"
  pi_ScheduleReason :: string
  pi_SLOTarget :: "int32 option"
  pi_SLOReason :: string
  pi_ReactiveTarget :: "int32 option"
  pi_ReactiveReason :: string
  pi_LLMTarget :: "int32 option"
  pi_LLMReason :: string
  pi_LLMConfidence :: float64
  pi_DeterministicTarget :: "int32 option"
  pi_DeterministicReason :: string
  pi_CostConstrainedMax :: "int32 option"
  pi_CostReason :: string
  pi_MinReplicas :: int32
  pi_MaxReplicas :: int32
  pi_ScheduleOverridesLLM :: "bool option"
  pi_ReactiveRulesOverrideLLM :: "bool option"
  pi_SLOAlwaysWins :: "bool option"

record AuditEntry =
  ae_Layer :: string
  ae_Target :: int32
  ae_Reason :: string
  ae_Applied :: bool

record ResolvedDecision =
  rd_TargetReplicas :: int32
  rd_Layers :: "AuditEntry list"
  rd_Conflicts :: "string list"

record layer =
  ly_name :: string
  ly_target :: "int32 option"
  ly_reason :: string

definition boolFlagOrDefault :: "bool option \<Rightarrow> bool \<Rightarrow> bool" where
  "boolFlagOrDefault flag defaultValue = (case flag of None \<Rightarrow> defaultValue | Some b \<Rightarrow> b)"

definition mk_layer :: "string \<Rightarrow> int32 option \<Rightarrow> string \<Rightarrow> layer" where
  "mk_layer n t r = \<lparr>ly_name = n, ly_target = t, ly_reason = r\<rparr>"

definition precedence_layers :: "PrecedenceInputs \<Rightarrow> layer list" where
  "precedence_layers i = (let
     scheduleFirst = boolFlagOrDefault (pi_ScheduleOverridesLLM i) True;
     reactiveFirst = boolFlagOrDefault (pi_ReactiveRulesOverrideLLM i) True;
     sloFirst = boolFlagOrDefault (pi_SLOAlwaysWins i) True;
     schedule = mk_layer ''schedule'' (pi_ScheduleTarget i) (pi_ScheduleReason i);
     slo = mk_layer ''slo'' (pi_SLOTarget i) (pi_SLOReason i);
     reactive = mk_layer ''reactive'' (pi_ReactiveTarget i) (pi_ReactiveReason i)
   in [mk_layer ''safety'' (pi_SafetyOverride i) (pi_SafetyReason i),
       mk_layer ''human'' (pi_HumanOverride i) (pi_HumanReason i)]
    @ (if scheduleFirst then [schedule] else [])
    @ (if sloFirst then [slo] else [])
    @ (if reactiveFirst then [reactive] else [])
    @ [mk_layer ''llm'' (pi_LLMTarget i) (pi_LLMReason i)]
    @ (if \<not> reactiveFirst then [reactive] else [])
    @ (if \<not> sloFirst then [slo] else [])
    @ (if \<not> scheduleFirst then [schedule] else [])
    @ [mk_layer ''deterministic'' (pi_DeterministicTarget i) (pi_DeterministicReason i)])"

text \<open>One turn of the loop: the winner's name and target, the entries and the conflicts.\<close>

definition layer_step ::
  "layer \<Rightarrow> (string \<times> int32) option \<times> AuditEntry list \<times> string list
    \<Rightarrow> (string \<times> int32) option \<times> AuditEntry list \<times> string list" where
  "layer_step l s = (case (ly_target l, s) of
     (None, _) \<Rightarrow> s
   | (Some t, (None, entries, conflicts)) \<Rightarrow>
       (Some (ly_name l, t),
        entries @ [\<lparr>ae_Layer = ly_name l, ae_Target = t, ae_Reason = ly_reason l, ae_Applied = True\<rparr>],
        conflicts)
   | (Some t, (Some (wn, wt), entries, conflicts)) \<Rightarrow>
       (Some (wn, wt),
        entries @ [\<lparr>ae_Layer = ly_name l, ae_Target = t, ae_Reason = ly_reason l, ae_Applied = False\<rparr>],
        (if t \<noteq> wt then conflicts @ [ly_name l @ '': wanted '' @ show_int32 t @ '' but overridden by '' @ wn]
         else conflicts)))"

definition cost_cap :: "PrecedenceInputs \<Rightarrow> ResolvedDecision \<Rightarrow> ResolvedDecision" where
  "cost_cap i rd = (case pi_CostConstrainedMax i of
     None \<Rightarrow> rd
   | Some m \<Rightarrow> (if m <s rd_TargetReplicas rd then
       rd \<lparr>rd_Conflicts := rd_Conflicts rd @ [''cost: capped from target to budget max''],
           rd_TargetReplicas := m,
           rd_Layers := rd_Layers rd @ [\<lparr>ae_Layer = ''cost'', ae_Target = m,
             ae_Reason = pi_CostReason i, ae_Applied = True\<rparr>]\<rparr>
       else rd))"

definition global_bounds :: "PrecedenceInputs \<Rightarrow> ResolvedDecision \<Rightarrow> ResolvedDecision" where
  "global_bounds i rd = (let
     rd1 = (if rd_TargetReplicas rd <s pi_MinReplicas i
            then rd \<lparr>rd_TargetReplicas := pi_MinReplicas i\<rparr> else rd)
   in if 0 <s pi_MaxReplicas i \<and> pi_MaxReplicas i <s rd_TargetReplicas rd1
      then rd1 \<lparr>rd_TargetReplicas := pi_MaxReplicas i\<rparr> else rd1)"

definition Resolve :: "PrecedenceInputs \<Rightarrow> ResolvedDecision" where
  "Resolve i = (let (winner, entries, conflicts) = fold layer_step (precedence_layers i) (None, [], []);
     rd = \<lparr>rd_TargetReplicas = (case winner of None \<Rightarrow> 0 | Some (n, t) \<Rightarrow> t),
           rd_Layers = entries, rd_Conflicts = conflicts\<rparr>
   in global_bounds i (cost_cap i rd))"

section \<open>Closed form of the loop\<close>

definition present :: "layer list \<Rightarrow> (layer \<times> int32) list" where
  "present ls = List.map_filter (\<lambda>l. map_option (\<lambda>t. (l, t)) (ly_target l)) ls"

definition entry :: "bool \<Rightarrow> layer \<times> int32 \<Rightarrow> AuditEntry" where
  "entry a = (\<lambda>(l, t). \<lparr>ae_Layer = ly_name l, ae_Target = t, ae_Reason = ly_reason l, ae_Applied = a\<rparr>)"

definition conflict :: "string \<Rightarrow> layer \<times> int32 \<Rightarrow> string" where
  "conflict wn = (\<lambda>(l, t). ly_name l @ '': wanted '' @ show_int32 t @ '' but overridden by '' @ wn)"

lemma present_simps [simp]:
  "present [] = []"
  "present (l # ls) = (case ly_target l of None \<Rightarrow> present ls | Some t \<Rightarrow> (l, t) # present ls)"
  by (simp_all add: present_def map_filter_simps split: option.split)

lemma present_mem: "(l, t) \<in> set (present ls) \<Longrightarrow> l \<in> set ls \<and> ly_target l = Some t"
  by (induction ls) (auto split: option.splits)

lemma layer_step_simps:
  "ly_target l = None \<Longrightarrow> layer_step l s = s"
  "ly_target l = Some t \<Longrightarrow> layer_step l (None, es, cs) =
     (Some (ly_name l, t), es @ [entry True (l, t)], cs)"
  "ly_target l = Some t \<Longrightarrow> layer_step l (Some (wn, wt), es, cs) = (Some (wn, wt),
     es @ [entry False (l, t)], if t \<noteq> wt then cs @ [conflict wn (l, t)] else cs)"
  by (simp_all add: layer_step_def entry_def conflict_def)

lemma fold_layers_won:
  "fold layer_step ls (Some (wn, wt), es, cs) =
    (Some (wn, wt), es @ List.map (entry False) (present ls),
     cs @ List.map (conflict wn) (List.filter (\<lambda>(l, t). t \<noteq> wt) (present ls)))"
proof (induction ls arbitrary: es cs)
  case (Cons l ls)
  then show ?case by (cases "ly_target l") (simp_all add: layer_step_simps)
qed simp

lemma fold_layers:
  "fold layer_step ls (None, [], []) = (case present ls of
     [] \<Rightarrow> (None, [], [])
   | (l, t) # rest \<Rightarrow> (Some (ly_name l, t), entry True (l, t) # List.map (entry False) rest,
       List.map (conflict (ly_name l)) (List.filter (\<lambda>(l', t'). t' \<noteq> t) rest)))"
proof (induction ls)
  case (Cons l ls)
  then show ?case
    by (cases "ly_target l") (simp_all add: layer_step_simps fold_layers_won)
qed simp

text \<open>The target before and after the ceiling and the bounds.\<close>

definition raw_target :: "PrecedenceInputs \<Rightarrow> int32" where
  "raw_target i = (case present (precedence_layers i) of [] \<Rightarrow> 0 | (l, t) # _ \<Rightarrow> t)"

definition capped_target :: "PrecedenceInputs \<Rightarrow> int" where
  "capped_target i = (case pi_CostConstrainedMax i of None \<Rightarrow> sint (raw_target i)
     | Some m \<Rightarrow> min (sint m) (sint (raw_target i)))"

lemma raw_target_first: "raw_target i = (case first_some ly_target (precedence_layers i) of
    None \<Rightarrow> 0 | Some t \<Rightarrow> t)"
proof -
  have "(case present ls of [] \<Rightarrow> 0 | (l, t) # _ \<Rightarrow> t) =
      (case first_some ly_target ls of None \<Rightarrow> (0 :: int32) | Some t \<Rightarrow> t)" for ls
    by (induction ls) (simp_all split: option.split)
  then show ?thesis by (simp add: raw_target_def)
qed

lemma global_bounds_target:
  "sint (rd_TargetReplicas (global_bounds i rd)) =
     (let x = max (sint (pi_MinReplicas i)) (sint (rd_TargetReplicas rd))
      in if 0 < sint (pi_MaxReplicas i) then min (sint (pi_MaxReplicas i)) x else x)"
  by (simp add: global_bounds_def Let_def sless_sint max_def min_def not_less)

lemma cost_cap_target:
  "sint (rd_TargetReplicas (cost_cap i rd)) = (case pi_CostConstrainedMax i of
     None \<Rightarrow> sint (rd_TargetReplicas rd) | Some m \<Rightarrow> min (sint m) (sint (rd_TargetReplicas rd)))"
  by (simp add: cost_cap_def sless_sint split: option.split)

lemma Resolve_target:
  "sint (rd_TargetReplicas (Resolve i)) =
     (let x = max (sint (pi_MinReplicas i)) (capped_target i)
      in if 0 < sint (pi_MaxReplicas i) then min (sint (pi_MaxReplicas i)) x else x)"
proof -
  obtain w es cs where f: "fold layer_step (precedence_layers i) (None, [], []) = (w, es, cs)"
    by (metis prod_cases3)
  then have "(case w of None \<Rightarrow> 0 | Some (n, t) \<Rightarrow> t) = raw_target i"
    unfolding fold_layers raw_target_def by (auto split: list.splits)
  then show ?thesis
    by (simp add: Resolve_def f global_bounds_target cost_cap_target capped_target_def cong: option.case_cong)
qed

lemma Resolve_layers:
  "\<exists>rest. rd_Layers (Resolve i) = (case present (precedence_layers i) of [] \<Rightarrow> []
     | p # ps \<Rightarrow> entry True p # List.map (entry False) ps) @ rest
   \<and> (rest = [] \<or> (\<exists>m. pi_CostConstrainedMax i = Some m \<and> rest =
        [\<lparr>ae_Layer = ''cost'', ae_Target = m, ae_Reason = pi_CostReason i, ae_Applied = True\<rparr>]))"
  by (auto simp: Resolve_def Let_def fold_layers global_bounds_def cost_cap_def split: list.split option.split)

lemma precedence_layers_not_cost: "l \<in> set (precedence_layers i) \<Longrightarrow> ly_name l \<noteq> ''cost''"
  by (auto simp: precedence_layers_def mk_layer_def Let_def split: if_splits)

section \<open>Properties\<close>

definition default_order :: "PrecedenceInputs \<Rightarrow> bool" where
  "default_order i \<longleftrightarrow> pi_ScheduleOverridesLLM i \<noteq> Some False \<and> pi_ReactiveRulesOverrideLLM i \<noteq> Some False
     \<and> pi_SLOAlwaysWins i \<noteq> Some False"

text \<open>
  C25. With the default flags the resolver takes the first present target in the order safety,
  human, schedule, objective, reactive rule, provider, deterministic adviser, cuts it at the cost
  ceiling and then moves it into the global bounds.
\<close>

theorem Resolve_default_order:
  assumes "default_order i" and "0 < sint (pi_MaxReplicas i)"
  shows "sint (rd_TargetReplicas (Resolve i)) =
    min (sint (pi_MaxReplicas i)) (max (sint (pi_MinReplicas i))
      ((case pi_CostConstrainedMax i of None \<Rightarrow> id | Some m \<Rightarrow> min (sint m))
        (case first_some id [pi_SafetyOverride i, pi_HumanOverride i, pi_ScheduleTarget i, pi_SLOTarget i,
           pi_ReactiveTarget i, pi_LLMTarget i, pi_DeterministicTarget i] of None \<Rightarrow> 0 | Some t \<Rightarrow> sint t)))"
proof -
  have f: "boolFlagOrDefault (pi_ScheduleOverridesLLM i) True" "boolFlagOrDefault (pi_ReactiveRulesOverrideLLM i) True"
      "boolFlagOrDefault (pi_SLOAlwaysWins i) True"
    using assms(1) by (auto simp: boolFlagOrDefault_def default_order_def split: option.split)
  have "raw_target i = (case first_some id [pi_SafetyOverride i, pi_HumanOverride i, pi_ScheduleTarget i,
      pi_SLOTarget i, pi_ReactiveTarget i, pi_LLMTarget i, pi_DeterministicTarget i] of None \<Rightarrow> 0 | Some t \<Rightarrow> t)"
    by (simp add: raw_target_first precedence_layers_def mk_layer_def f cong: option.case_cong)
  then have "sint (raw_target i) = (case first_some id [pi_SafetyOverride i, pi_HumanOverride i, pi_ScheduleTarget i,
      pi_SLOTarget i, pi_ReactiveTarget i, pi_LLMTarget i, pi_DeterministicTarget i] of None \<Rightarrow> 0 | Some t \<Rightarrow> sint t)"
    by (simp only: option.case_distrib [of sint] sint32_0)
  then show ?thesis
    using assms(2) by (cases "pi_CostConstrainedMax i") (simp_all only: Resolve_target Let_def capped_target_def if_True option.case id_apply)
qed

definition no_inputs :: PrecedenceInputs where
  "no_inputs = \<lparr>pi_SafetyOverride = None, pi_SafetyReason = [], pi_HumanOverride = None,
     pi_HumanReason = [], pi_ScheduleTarget = None, pi_ScheduleReason = [], pi_SLOTarget = None,
     pi_SLOReason = [], pi_ReactiveTarget = None, pi_ReactiveReason = [], pi_LLMTarget = None,
     pi_LLMReason = [], pi_LLMConfidence = 0, pi_DeterministicTarget = None, pi_DeterministicReason = [],
     pi_CostConstrainedMax = None, pi_CostReason = [], pi_MinReplicas = 1, pi_MaxReplicas = 10,
     pi_ScheduleOverridesLLM = None, pi_ReactiveRulesOverrideLLM = None, pi_SLOAlwaysWins = None\<rparr>"

lemma Resolve_default_order_witness:
  "sint (rd_TargetReplicas (Resolve (no_inputs \<lparr>pi_SLOTarget := Some 8, pi_LLMTarget := Some 3,
     pi_CostConstrainedMax := Some 5\<rparr>))) = 5"
  using Resolve_default_order [of "no_inputs \<lparr>pi_SLOTarget := Some 8, pi_LLMTarget := Some 3,
     pi_CostConstrainedMax := Some 5\<rparr>"]
  by (simp add: no_inputs_def default_order_def)

text \<open>
  The audit trail of the resolver is faithful: apart from the cost ceiling exactly one layer
  is marked applied when any layer has a target, none otherwise, and it is the first entry.
\<close>

theorem Resolve_one_applied:
  "List.filter (\<lambda>e. ae_Applied e \<and> ae_Layer e \<noteq> ''cost'') (rd_Layers (Resolve i)) =
    take 1 (List.map (entry True) (present (precedence_layers i)))"
proof -
  have nc: "ly_name l \<noteq> ''cost''" if "(l, t) \<in> set (present (precedence_layers i))" for l t
    using present_mem [OF that] precedence_layers_not_cost by blast
  have no: "List.filter (\<lambda>e. ae_Applied e \<and> ae_Layer e \<noteq> ''cost'') (List.map (entry False) ps) = []" for ps
    by (auto simp: filter_empty_conv entry_def)
  obtain rest where l: "rd_Layers (Resolve i) = (case present (precedence_layers i) of [] \<Rightarrow> []
       | p # ps \<Rightarrow> entry True p # List.map (entry False) ps) @ rest"
      and rest: "List.filter (\<lambda>e. ae_Applied e \<and> ae_Layer e \<noteq> ''cost'') rest = []"
    using Resolve_layers [of i] by auto
  show ?thesis
  proof (cases "present (precedence_layers i)")
    case Nil
    then show ?thesis using l rest by simp
  next
    case (Cons p ps)
    obtain a t where "p = (a, t)" by force
    then show ?thesis using l rest no [of ps] nc [of a t] Cons by (simp add: entry_def [of True])
  qed
qed

text \<open>
  Whatever the flags and the targets are, the resolved count is within ordered bounds with a
  positive maximum, and a cost ceiling at or above the minimum is respected.
\<close>

theorem Resolve_within:
  assumes "sint (pi_MinReplicas i) \<le> sint (pi_MaxReplicas i)" and "0 < sint (pi_MaxReplicas i)"
  shows "sint (pi_MinReplicas i) \<le> sint (rd_TargetReplicas (Resolve i))
    \<and> sint (rd_TargetReplicas (Resolve i)) \<le> sint (pi_MaxReplicas i)
    \<and> (\<forall>m. pi_CostConstrainedMax i = Some m \<and> sint (pi_MinReplicas i) \<le> sint m \<longrightarrow>
         sint (rd_TargetReplicas (Resolve i)) \<le> sint m)"
  using assms by (auto simp: Resolve_target Let_def capped_target_def)

lemma Resolve_within_witness:
  "sint (rd_TargetReplicas (Resolve (no_inputs \<lparr>pi_SafetyOverride := Some 50\<rparr>))) \<le> 10"
  using Resolve_within [of "no_inputs \<lparr>pi_SafetyOverride := Some 50\<rparr>"] by (simp add: no_inputs_def)

text \<open>
  Human and safety targets outrank every flag: whatever the flags are, a safety target within
  the bounds and the ceiling is the result, and so is a human one when there is no safety target.
\<close>

theorem Resolve_override:
  assumes "pi_SafetyOverride i = Some n \<or> pi_SafetyOverride i = None \<and> pi_HumanOverride i = Some n"
    and "sint (pi_MinReplicas i) \<le> sint n" and "sint n \<le> sint (pi_MaxReplicas i)"
    and "\<forall>m. pi_CostConstrainedMax i = Some m \<longrightarrow> sint n \<le> sint m"
  shows "rd_TargetReplicas (Resolve i) = n"
proof -
  have "raw_target i = n"
    using assms(1) by (auto simp: raw_target_def precedence_layers_def mk_layer_def Let_def)
  then have "sint (rd_TargetReplicas (Resolve i)) = sint n"
    using assms(2-4) by (auto simp: Resolve_target Let_def capped_target_def split: option.split)
  then show ?thesis by (simp only: sint32_inject)
qed

lemma Resolve_override_witness:
  "rd_TargetReplicas (Resolve (no_inputs \<lparr>pi_HumanOverride := Some 4, pi_ReactiveTarget := Some 9\<rparr>)) = 4"
  by (rule Resolve_override) (simp_all add: no_inputs_def)

text \<open>
  The bounds are applied after the ceiling: a ceiling below the minimum is exceeded.
\<close>

lemma Resolve_exceeds_ceiling:
  "sint (rd_TargetReplicas (Resolve (no_inputs \<lparr>pi_LLMTarget := Some 4, pi_CostConstrainedMax := Some 2,
     pi_MinReplicas := 3\<rparr>))) = 3"
  by (simp add: Resolve_target Let_def capped_target_def raw_target_def precedence_layers_def mk_layer_def no_inputs_def)

end
