(* ===== verification/Oscillation.thy ===== *)
theory Oscillation
  imports Bounded_Log
begin

text \<open>
  \<open>internal/decision/oscillation.go\<close>: the detector of rapid changes of direction.  A slice
  expression out of range panics, so \<open>Record\<close> returns an option; a detector with a positive
  capacity, the only ones the program builds, never panics and is a \<open>bounded_log\<close>.
\<close>

record ScalingEvent =
  se_Timestamp :: time
  se_Direction :: string
  se_From :: int32
  se_To :: int32

record OscillationDetector =
  od_events :: "ScalingEvent list"
  od_maxSize :: int
  od_window :: duration

definition NewOscillationDetector :: "duration \<Rightarrow> int \<Rightarrow> OscillationDetector" where
  "NewOscillationDetector window maxSize =
     \<lparr>od_events = [], od_maxSize = maxSize, od_window = window\<rparr>"

definition Record :: "ScalingEvent \<Rightarrow> OscillationDetector \<Rightarrow> OscillationDetector option" where
  "Record event o' = (let evs = od_events o' in
     if od_maxSize o' \<le> int (length evs)
     then (case evs of [] \<Rightarrow> None | _ # rest \<Rightarrow> Some (o' \<lparr>od_events := rest @ [event]\<rparr>))
     else Some (o' \<lparr>od_events := evs @ [event]\<rparr>))"

definition RecentEvents :: "time \<Rightarrow> OscillationDetector \<Rightarrow> ScalingEvent list" where
  "RecentEvents now o' = (let cutoff = now - od_window o' in
     List.filter (\<lambda>e. cutoff < se_Timestamp e) (od_events o'))"

fun direction_changes :: "string list \<Rightarrow> nat" where
  "direction_changes (d1 # d2 # ds) = (if d2 \<noteq> d1 then 1 else 0) + direction_changes (d2 # ds)"
| "direction_changes _ = 0"

definition IsOscillating :: "time \<Rightarrow> OscillationDetector \<Rightarrow> bool" where
  "IsOscillating now o' = (let
     cutoff = now - od_window o';
     recent = List.filter (\<lambda>e. cutoff < se_Timestamp e) (od_events o')
   in if length recent < 3 then False
      else 2 \<le> direction_changes (List.map se_Direction recent))"

section \<open>Lemmas\<close>

text \<open>The detector after \<open>Record\<close>, where \<open>Record\<close> has a value.\<close>

definition recorded :: "ScalingEvent \<Rightarrow> OscillationDetector \<Rightarrow> OscillationDetector" where
  "recorded e d = the (Record e d)"

lemma Record_Some: "0 < od_maxSize d \<Longrightarrow> Record e d = Some (recorded e d)"
  by (auto simp: recorded_def Record_def Let_def split: list.split)

interpretation detector: bounded_log recorded od_events od_maxSize
  by unfold_locales (auto simp: recorded_def Record_def Let_def split: list.split)

lemma changes_le_length: "direction_changes ds \<le> length ds - 1"
  by (induction ds rule: direction_changes.induct) auto

lemma IsOscillating_changes:
  "IsOscillating now d \<longleftrightarrow> 2 \<le> direction_changes (List.map se_Direction (RecentEvents now d))"
  using changes_le_length [of "List.map se_Direction (RecentEvents now d)"]
  by (auto simp: IsOscillating_def RecentEvents_def Let_def)

text \<open>Dropping elements never adds changes of direction.\<close>

lemma changes_Cons: "direction_changes ds \<le> direction_changes (d # ds)"
  by (cases ds) auto

lemma changes_Cons_le: "direction_changes (d # ds) \<le> Suc (direction_changes ds)"
  by (cases ds) auto

lemma changes_drop_second: "direction_changes (a # ds) \<le> direction_changes (a # b # ds)"
  by (cases ds) auto

lemma changes_subseq_Cons: "subseq xs (y # ys) \<Longrightarrow> xs \<noteq> [] \<Longrightarrow> hd xs = y \<or> subseq xs ys"
  by (cases xs) (auto split: if_splits)

lemma changes_skip:
  "subseq xs ys \<Longrightarrow> direction_changes (a # xs) \<le> direction_changes (a # ys)"
proof (induction ys arbitrary: a xs)
  case Nil
  then have "xs = []" by (cases xs) auto
  then show ?case by simp
next
  case (Cons y ys)
  show ?case
  proof (cases xs)
    case Nil
    then show ?thesis by simp
  next
    case xs: (Cons x xs')
    show ?thesis
    proof (cases "x = y")
      case True
      then have "subseq xs' ys" using Cons.prems xs by simp
      then show ?thesis using Cons.IH [of xs' y] True xs by simp
    next
      case False
      then have "subseq xs ys" using Cons.prems xs by simp
      then have "direction_changes (a # xs) \<le> direction_changes (a # ys)" by (rule Cons.IH)
      then show ?thesis using changes_drop_second [of a ys y] by linarith
    qed
  qed
qed

lemma changes_subseq: "subseq xs ys \<Longrightarrow> direction_changes xs \<le> direction_changes ys"
proof (induction ys arbitrary: xs)
  case (Cons y ys)
  show ?case
  proof (cases xs)
    case xs: (Cons x xs')
    show ?thesis
    proof (cases "x = y")
      case True
      then show ?thesis using Cons.prems xs changes_skip [of xs' ys y] by simp
    next
      case False
      then have "direction_changes xs \<le> direction_changes ys" using Cons.prems xs Cons.IH by simp
      then show ?thesis using changes_Cons [of ys y] by linarith
    qed
  qed simp
next
  case Nil
  then have "xs = []" by (cases xs) auto
  then show ?case by simp
qed

lemma change_witness:
  "1 \<le> direction_changes (a # ds) \<Longrightarrow> \<exists>b\<in>set ds. b \<noteq> a"
  by (induction "a # ds" arbitrary: a ds rule: direction_changes.induct) (auto split: if_splits)

lemma two_changes_witness:
  "2 \<le> direction_changes ds \<Longrightarrow> \<exists>a b c. subseq [a, b, c] ds \<and> a \<noteq> b \<and> b \<noteq> c"
proof (induction ds rule: direction_changes.induct)
  case (1 d1 d2 ds)
  show ?case
  proof (cases "d2 = d1")
    case True
    then have "2 \<le> direction_changes (d2 # ds)" using "1.prems" by simp
    then show ?thesis using "1.IH" by (meson list_emb_Cons)
  next
    case False
    then have "1 \<le> direction_changes (d2 # ds)" using "1.prems" by simp
    then obtain c where "c \<in> set ds" "c \<noteq> d2" using change_witness by blast
    then have "subseq [d1, d2, c] (d1 # d2 # ds)" by (simp add: subseq_singleton_left)
    then show ?thesis using False \<open>c \<noteq> d2\<close> by metis
  qed
qed simp_all

section \<open>Properties\<close>

text \<open>
  C27. The detector reports an oscillation exactly when some three events of the window, in the
  order of the history, go one way, then another, then back or on: two reversals are enough.
\<close>

theorem IsOscillating_reversals:
  "IsOscillating now d \<longleftrightarrow>
    (\<exists>a b c. subseq [a, b, c] (List.map se_Direction (RecentEvents now d)) \<and> a \<noteq> b \<and> b \<noteq> c)"
proof
  assume "IsOscillating now d"
  then show "\<exists>a b c. subseq [a, b, c] (List.map se_Direction (RecentEvents now d)) \<and> a \<noteq> b \<and> b \<noteq> c"
    using two_changes_witness by (simp add: IsOscillating_changes)
next
  assume "\<exists>a b c. subseq [a, b, c] (List.map se_Direction (RecentEvents now d)) \<and> a \<noteq> b \<and> b \<noteq> c"
  then obtain a b c where "subseq [a, b, c] (List.map se_Direction (RecentEvents now d))" "a \<noteq> b" "b \<noteq> c"
    by blast
  then show "IsOscillating now d"
    using changes_subseq [of "[a, b, c]"] by (fastforce simp: IsOscillating_changes)
qed

fun record_events :: "ScalingEvent list \<Rightarrow> OscillationDetector \<Rightarrow> OscillationDetector option" where
  "record_events [] d = Some d"
| "record_events (e # es) d = (case Record e d of None \<Rightarrow> None | Some d' \<Rightarrow> record_events es d')"

lemma record_events_fold:
  "0 < od_maxSize d \<Longrightarrow> record_events es d = Some (fold recorded es d)"
  by (induction es arbitrary: d) (simp_all add: Record_Some detector.record_cap)

text \<open>
  A detector of positive capacity never panics, and after any events it holds exactly the
  last of them, as many as its capacity, in order.
\<close>

theorem record_events_keep_last:
  assumes "0 < n"
  shows "map_option od_events (record_events es (NewOscillationDetector w n)) = Some (keep_last n es)"
  using assms detector.record_all [of "NewOscillationDetector w n" es]
    record_events_fold [of "NewOscillationDetector w n" es]
  by (simp add: NewOscillationDetector_def)

definition event_at :: "time \<Rightarrow> string \<Rightarrow> ScalingEvent" where
  "event_at t d = \<lparr>se_Timestamp = t, se_Direction = d, se_From = 1, se_To = 2\<rparr>"

lemma record_events_keep_last_witness:
  "map_option od_events (record_events [event_at 1 ''up'', event_at 2 ''down'', event_at 3 ''up'']
     (NewOscillationDetector minute 2)) = Some [event_at 2 ''down'', event_at 3 ''up'']"
  using record_events_keep_last [of 2 "[event_at 1 ''up'', event_at 2 ''down'', event_at 3 ''up'']" minute]
  by (simp add: keep_last_def del: record_events.simps)

end
