(* ===== verification/Slots.thy ===== *)
theory Slots
  imports Prelude
begin

text \<open>
  The contract of the counters that limit concurrent work (the rate limiter's calls in flight
  and the coordinator's scaling slots): no operation takes the number held above the capacity.
\<close>

locale slots =
  fixes apply_op :: "'op \<Rightarrow> 's \<Rightarrow> 's"
    and held :: "'s \<Rightarrow> int"
    and cap :: "'s \<Rightarrow> int"
  assumes op_cap: "cap (apply_op e s) = cap s"
    and op_held: "0 < cap s \<Longrightarrow> 0 \<le> held s \<Longrightarrow> held s \<le> cap s \<Longrightarrow>
      0 \<le> held (apply_op e s) \<and> held (apply_op e s) \<le> cap s"
begin

lemma ops_held:
  "0 < cap s \<Longrightarrow> 0 \<le> held s \<Longrightarrow> held s \<le> cap s \<Longrightarrow>
    0 \<le> held (fold apply_op es s) \<and> held (fold apply_op es s) \<le> cap s"
proof (induction es arbitrary: s)
  case (Cons e es)
  then show ?case using op_held [of s e] op_cap [of e s] Cons.IH [of "apply_op e s"] by simp
qed simp

lemma ops_cap: "cap (fold apply_op es s) = cap s"
  by (induction es arbitrary: s) (simp_all add: op_cap)

end

end
