(* ===== verification/Coordinator.thy ===== *)
theory Coordinator
  imports Slots Api
begin

text \<open>
  \<open>internal/coordinator/coordinator.go\<close> and \<open>dependency.go\<close>: the cluster-wide slots and the
  dependency graph.  The methods are atomic; \<open>t\<close> is the time read by the cleanup, \<open>u\<close> the one
  stored in the slot.
\<close>

section \<open>Scaling slots\<close>

record ClusterCoordinator =
  co_activeOps :: "(string, time) fmap"
  co_totalBudget :: float64
  co_currentSpend :: float64
  co_maxConcurrent :: int

definition NewClusterCoordinator :: "int \<Rightarrow> float64 \<Rightarrow> ClusterCoordinator" where
  "NewClusterCoordinator maxConcurrent totalBudget =
     \<lparr>co_activeOps = fmempty, co_totalBudget = totalBudget, co_currentSpend = 0,
      co_maxConcurrent = maxConcurrent\<rparr>"

definition map_len :: "('k, 'v) fmap \<Rightarrow> int" where
  "map_len m = int (fcard (fmdom m))"

definition cleanupLocked :: "time \<Rightarrow> ClusterCoordinator \<Rightarrow> ClusterCoordinator" where
  "cleanupLocked now c = (let cutoff = now + (- 5 * minute) in
     c \<lparr>co_activeOps := fmfilter (\<lambda>w. case fmlookup (co_activeOps c) w of
          Some startedAt \<Rightarrow> \<not> startedAt < cutoff | None \<Rightarrow> True) (co_activeOps c)\<rparr>)"

definition AcquireScalingSlot ::
  "time \<Rightarrow> time \<Rightarrow> string \<Rightarrow> ClusterCoordinator \<Rightarrow> go_error option \<times> ClusterCoordinator" where
  "AcquireScalingSlot t u workload c0 = (let c = cleanupLocked t c0 in
     if fmlookup (co_activeOps c) workload \<noteq> None
     then (None, c \<lparr>co_activeOps := fmupd workload u (co_activeOps c)\<rparr>)
     else if 0 < co_maxConcurrent c \<and> co_maxConcurrent c \<le> map_len (co_activeOps c)
     then (Some (''max concurrent scaling operations reached ('' @ show_int (co_maxConcurrent c)
                 @ ''), deferring '' @ workload), c)
     else (None, c \<lparr>co_activeOps := fmupd workload u (co_activeOps c)\<rparr>))"

definition ReleaseScalingSlot :: "string \<Rightarrow> ClusterCoordinator \<Rightarrow> ClusterCoordinator" where
  "ReleaseScalingSlot workload c = c \<lparr>co_activeOps := fmdrop workload (co_activeOps c)\<rparr>"

definition ActiveOperations :: "time \<Rightarrow> ClusterCoordinator \<Rightarrow> int \<times> ClusterCoordinator" where
  "ActiveOperations t c0 = (let c = cleanupLocked t c0 in (map_len (co_activeOps c), c))"

text \<open>The snapshot is used as a set of names; an absent key of a Go map reads as false.\<close>

definition ActiveWorkloads :: "time \<Rightarrow> ClusterCoordinator \<Rightarrow> (string \<Rightarrow> bool) \<times> ClusterCoordinator" where
  "ActiveWorkloads t c0 = (let c = cleanupLocked t c0
     in (\<lambda>w. fmlookup (co_activeOps c) w \<noteq> None, c))"

definition CheckBudget :: "float64 \<Rightarrow> ClusterCoordinator \<Rightarrow> bool \<times> float64" where
  "CheckBudget deltaCost c =
     (if co_totalBudget c \<le> 0 then (True, 0)
      else (let remaining = co_totalBudget c - co_currentSpend c in
        if remaining < deltaCost then (False, remaining) else (True, remaining - deltaCost)))"

definition RecordSpend :: "float64 \<Rightarrow> ClusterCoordinator \<Rightarrow> ClusterCoordinator" where
  "RecordSpend amount c = c \<lparr>co_currentSpend := co_currentSpend c + amount\<rparr>"

section \<open>The dependency graph\<close>

record CoscaleEntry =
  ce_Workload :: string
  ce_Ratio :: float64

record WorkloadNode =
  wn_Name :: string
  wn_Upstream :: "string list"
  wn_Downstream :: "string list"
  wn_Coscales :: "CoscaleEntry list"

type_synonym DependencyGraph = "(string, WorkloadNode) fmap"

definition NewDependencyGraph :: DependencyGraph where
  "NewDependencyGraph = fmempty"

definition node_name :: "'q AIScaler \<Rightarrow> string" where
  "node_name p = (let n = tr_Name (spec_TargetRef (ai_Spec p)) in if n = '''' then ai_Name p else n)"

definition policy_node :: "'q AIScaler \<Rightarrow> WorkloadNode" where
  "policy_node p = (case spec_Dependencies (ai_Spec p) of
     None \<Rightarrow> \<lparr>wn_Name = node_name p, wn_Upstream = [], wn_Downstream = [], wn_Coscales = []\<rparr>
   | Some d \<Rightarrow> \<lparr>wn_Name = node_name p,
       wn_Upstream = List.map tr_Name (dc_UpstreamOf d),
       wn_Downstream = List.map tr_Name (dc_DownstreamOf d),
       wn_Coscales = List.map (\<lambda>co. \<lparr>ce_Workload = tr_Name (co_TargetRef co), ce_Ratio = co_Ratio co\<rparr>)
         (dc_CoscalesWith d)\<rparr>)"

fun add_policies :: "'q AIScaler list \<Rightarrow> DependencyGraph \<Rightarrow> DependencyGraph" where
  "add_policies [] g = g"
| "add_policies (p # ps) g = add_policies ps (fmupd (node_name p) (policy_node p) g)"

definition BuildFromPolicies :: "'q AIScaler list \<Rightarrow> DependencyGraph" where
  "BuildFromPolicies policies = add_policies policies fmempty"

definition ShouldDefer :: "string \<Rightarrow> (string \<Rightarrow> bool) \<Rightarrow> DependencyGraph \<Rightarrow> bool" where
  "ShouldDefer workload activeScaling g = (case fmlookup g workload of
     None \<Rightarrow> False
   | Some node \<Rightarrow> (if list_ex activeScaling (wn_Upstream node) then True
                  else if list_ex activeScaling (wn_Downstream node) then True
                  else False))"

definition GetCoscaleTargets :: "string \<Rightarrow> DependencyGraph \<Rightarrow> CoscaleEntry list" where
  "GetCoscaleTargets workload g = (case fmlookup g workload of None \<Rightarrow> [] | Some node \<Rightarrow> wn_Coscales node)"

section \<open>Lemmas on the slots\<close>

lemma map_len_nonneg [simp]: "0 \<le> map_len m"
  by (simp add: map_len_def)

lemma map_len_upd: "map_len (fmupd k v m) = (if fmlookup m k = None then map_len m + 1 else map_len m)"
  by (auto simp: map_len_def fcard_finsert_if fmlookup_dom_iff)

lemma map_len_filter: "map_len (fmfilter P m) \<le> map_len m"
  unfolding map_len_def of_nat_le_iff by (intro fcard_mono) auto

lemma map_len_empty [simp]: "map_len fmempty = 0"
  by (simp add: map_len_def)

lemma map_len_drop: "map_len (fmdrop k m) \<le> map_len m"
  unfolding map_len_def of_nat_le_iff by (intro fcard_mono) auto

lemma cleanup_lookup:
  "fmlookup (co_activeOps (cleanupLocked t c)) w = (case fmlookup (co_activeOps c) w of
     None \<Rightarrow> None | Some s \<Rightarrow> if s < t - 5 * minute then None else Some s)"
  by (simp add: cleanupLocked_def Let_def split: option.split)

lemma cleanup_simps [simp]:
  "co_maxConcurrent (cleanupLocked t c) = co_maxConcurrent c"
  "co_totalBudget (cleanupLocked t c) = co_totalBudget c"
  "co_currentSpend (cleanupLocked t c) = co_currentSpend c"
  by (simp_all add: cleanupLocked_def Let_def)

lemma cleanup_len: "map_len (co_activeOps (cleanupLocked t c)) \<le> map_len (co_activeOps c)"
  by (simp add: cleanupLocked_def Let_def map_len_filter)

datatype slot_op = OpAcquire time time string | OpReleaseSlot string | OpActive time

fun slot_apply :: "slot_op \<Rightarrow> ClusterCoordinator \<Rightarrow> ClusterCoordinator" where
  "slot_apply (OpAcquire t u w) c = snd (AcquireScalingSlot t u w c)"
| "slot_apply (OpReleaseSlot w) c = ReleaseScalingSlot w c"
| "slot_apply (OpActive t) c = snd (ActiveWorkloads t c)"

lemma Acquire_len:
  "0 < co_maxConcurrent c \<Longrightarrow> map_len (co_activeOps c) \<le> co_maxConcurrent c \<Longrightarrow>
    map_len (co_activeOps (snd (AcquireScalingSlot t u w c))) \<le> co_maxConcurrent c"
  using cleanup_len [of t c] by (auto simp: AcquireScalingSlot_def Let_def map_len_upd)

lemma Acquire_max [simp]: "co_maxConcurrent (snd (AcquireScalingSlot t u w c)) = co_maxConcurrent c"
  by (simp add: AcquireScalingSlot_def Let_def)

interpretation slot_count: slots slot_apply "\<lambda>c. map_len (co_activeOps c)" co_maxConcurrent
proof (unfold_locales, goal_cases)
  case (1 e s)
  then show ?case
    by (cases e) (simp_all add: ReleaseScalingSlot_def ActiveWorkloads_def Let_def)
next
  case (2 s e)
  then show ?case
  proof (cases e)
    case (OpReleaseSlot w)
    then show ?thesis using 2 map_len_drop [of w "co_activeOps s"] by (simp add: ReleaseScalingSlot_def)
  next
    case (OpActive t)
    then show ?thesis using 2 cleanup_len [of t s] by (simp add: ActiveWorkloads_def Let_def)
  qed (simp add: Acquire_len)
qed

section \<open>Lemmas on the graph\<close>

lemma add_policies_lookup:
  "fmlookup (add_policies ps g) w = (case List.find (\<lambda>p. node_name p = w) (rev ps) of
     None \<Rightarrow> fmlookup g w | Some p \<Rightarrow> Some (policy_node p))"
proof (induction ps arbitrary: g)
  case (Cons p ps)
  have "List.find P (xs @ [x]) = (case List.find P xs of None \<Rightarrow> if P x then Some x else None | Some y \<Rightarrow> Some y)"
    for P xs and x :: "'a AIScaler"
    by (induction xs) simp_all
  then show ?case using Cons by (simp split: option.split)
qed simp

section \<open>Properties\<close>

text \<open>
  C29. Starting from an empty coordinator with a positive limit, no sequence of acquisitions,
  releases and snapshots, for any workloads at any times, holds more slots than the limit.
\<close>

theorem coordinator_slots:
  assumes "0 < n"
  shows "map_len (co_activeOps (fold slot_apply ops (NewClusterCoordinator n b))) \<le> n"
  using slot_count.ops_held [of "NewClusterCoordinator n b" ops] assms
  by (simp add: NewClusterCoordinator_def)

lemma coordinator_slots_witness:
  "map_len (co_activeOps (fold slot_apply [OpAcquire 0 0 ''a'', OpAcquire 1 1 ''b'']
     (NewClusterCoordinator 1 0))) \<le> 1"
  by (rule coordinator_slots) simp

text \<open>
  A workload is refused a slot only when it holds none and as many others as the limit hold
  one they took or renewed in the last five minutes; when it gets one the snapshot names it and
  every other holder keeps its slot; giving it back leaves it out of the snapshot.
\<close>

theorem slot_contract:
  "(fst (AcquireScalingSlot t u w c) \<noteq> None \<longleftrightarrow>
      fmlookup (co_activeOps (cleanupLocked t c)) w = None \<and> 0 < co_maxConcurrent c
      \<and> co_maxConcurrent c \<le> map_len (co_activeOps (cleanupLocked t c)))
   \<and> (fst (AcquireScalingSlot t u w c) = None \<longrightarrow>
      fmlookup (co_activeOps (snd (AcquireScalingSlot t u w c))) w = Some u
      \<and> fst (ActiveWorkloads u (snd (AcquireScalingSlot t u w c))) w)
   \<and> (\<forall>v. v \<noteq> w \<longrightarrow> fmlookup (co_activeOps (snd (AcquireScalingSlot t u w c))) v
        = fmlookup (co_activeOps (cleanupLocked t c)) v)
   \<and> \<not> fst (ActiveWorkloads t' (ReleaseScalingSlot w c)) w"
  by (auto simp: AcquireScalingSlot_def ActiveWorkloads_def ReleaseScalingSlot_def Let_def cleanup_lookup duration_defs
      split: option.splits if_splits)

lemma slot_contract_witness:
  "fst (AcquireScalingSlot 0 0 ''a'' (NewClusterCoordinator 1 0)) = None
   \<and> fmlookup (co_activeOps (snd (AcquireScalingSlot 0 0 ''a'' (NewClusterCoordinator 1 0)))) ''a'' = Some 0"
  using slot_contract [of 0 0 "''a''" "NewClusterCoordinator 1 0" 0]
  by (simp add: NewClusterCoordinator_def cleanupLocked_def)

text \<open>
  In the graph built from the policies a workload defers exactly when the last policy that
  targets it names, upstream or downstream, a workload that is scaling.
\<close>

theorem ShouldDefer_iff:
  "ShouldDefer w act (BuildFromPolicies ps) \<longleftrightarrow>
    (\<exists>p d r. List.find (\<lambda>p. node_name p = w) (rev ps) = Some p \<and> spec_Dependencies (ai_Spec p) = Some d
       \<and> r \<in> set (dc_UpstreamOf d) \<union> set (dc_DownstreamOf d) \<and> act (tr_Name r))"
  by (auto simp: ShouldDefer_def BuildFromPolicies_def add_policies_lookup policy_node_def list_ex_iff
      split: option.splits)

text \<open>
  Within a positive budget the coordinator admits a cost change exactly when it is not more
  than what the spending recorded so far leaves, and reports the rest.
\<close>

theorem CheckBudget_iff:
  "0 < co_totalBudget c \<Longrightarrow>
    fst (CheckBudget d c) = (\<not> co_totalBudget c - co_currentSpend c < d)
    \<and> snd (CheckBudget d c) = (if fst (CheckBudget d c) then co_totalBudget c - co_currentSpend c - d
        else co_totalBudget c - co_currentSpend c)"
  by (auto simp: CheckBudget_def Let_def f_less_iff f_le_iff)

lemma CheckBudget_iff_witness:
  "fst (CheckBudget 0 (NewClusterCoordinator 1 1)) = (\<not> (1 :: float64) - 0 < 0)"
  using CheckBudget_iff [of "NewClusterCoordinator 1 1" 0] by (simp add: NewClusterCoordinator_def)

end
