(* ===== verification/Rollback.thy ===== *)
theory Rollback
  imports Float64
begin

text \<open>
  \<open>internal/decision/rollback.go\<close>: whether the last decision should be reverted.  The
  conditions are tried in the order of the policy; the first that holds gives the action.
\<close>

record RollbackAction =
  ra_Recommended :: bool
  ra_Reason :: string
  ra_TargetReplicas :: int32
  ra_PreviousReplicas :: int32

record RollbackInput =
  ri_PreviousReplicas :: int32
  ri_CurrentReplicas :: int32
  ri_SLOsMetBefore :: bool
  ri_SLOsMetAfter :: bool
  ri_ErrorRateBefore :: float64
  ri_ErrorRateAfter :: float64
  ri_LatencyBefore :: float64
  ri_LatencyAfter :: float64
  ri_CrashLoopDetected :: bool
  ri_AutoRollbackEnabled :: bool
  ri_RollbackConditions :: "string list"

definition no_rollback :: RollbackAction where
  "no_rollback = \<lparr>ra_Recommended = False, ra_Reason = [], ra_TargetReplicas = 0, ra_PreviousReplicas = 0\<rparr>"

definition roll_back :: "RollbackInput \<Rightarrow> string \<Rightarrow> RollbackAction" where
  "roll_back i reason = \<lparr>ra_Recommended = True, ra_Reason = reason,
     ra_TargetReplicas = ri_PreviousReplicas i, ra_PreviousReplicas = ri_CurrentReplicas i\<rparr>"

definition check_condition :: "RollbackInput \<Rightarrow> string \<Rightarrow> RollbackAction option" where
  "check_condition i condition =
     (if condition = ''sloViolationWithin'' then
        (if ri_SLOsMetBefore i \<and> \<not> ri_SLOsMetAfter i
         then Some (roll_back i (''SLO violation detected after scaling from ''
           @ show_int32 (ri_PreviousReplicas i) @ '' to '' @ show_int32 (ri_CurrentReplicas i)))
         else None)
      else if condition = ''crashLoopDetected'' then
        (if ri_CrashLoopDetected i then Some (roll_back i ''crash loop detected after scaling'') else None)
      else if condition = ''errorRateIncrease'' then
        (if ri_ErrorRateBefore i * f_lit 3 2 < ri_ErrorRateAfter i \<and> f_lit 1 100 < ri_ErrorRateAfter i
         then Some (roll_back i (''error rate increased from '' @ show_f 2 (ri_ErrorRateBefore i * f_of_int 100)
           @ ''% to '' @ show_f 2 (ri_ErrorRateAfter i * f_of_int 100) @ ''% after scaling''))
         else None)
      else if condition = ''latencyIncrease'' then
        (if ri_LatencyBefore i * f_of_int 2 < ri_LatencyAfter i \<and> f_of_int 50 < ri_LatencyAfter i
         then Some (roll_back i (''latency increased from '' @ show_f 1 (ri_LatencyBefore i)
           @ ''ms to '' @ show_f 1 (ri_LatencyAfter i) @ ''ms after scaling''))
         else None)
      else None)"

fun check_conditions :: "RollbackInput \<Rightarrow> string list \<Rightarrow> RollbackAction" where
  "check_conditions i [] = no_rollback"
| "check_conditions i (c # cs) = (case check_condition i c of
     Some a \<Rightarrow> a | None \<Rightarrow> check_conditions i cs)"

definition CheckForRollback :: "RollbackInput \<Rightarrow> RollbackAction" where
  "CheckForRollback i = (if \<not> ri_AutoRollbackEnabled i then no_rollback
     else check_conditions i (ri_RollbackConditions i))"

lemma check_condition_action: "check_condition i c = Some a \<Longrightarrow>
    ra_Recommended a \<and> ra_TargetReplicas a = ri_PreviousReplicas i \<and> ra_PreviousReplicas a = ri_CurrentReplicas i"
  by (auto simp: check_condition_def roll_back_def split: if_splits)

lemma check_conditions_recommended:
  "ra_Recommended (check_conditions i cs) \<longleftrightarrow> (\<exists>c\<in>set cs. check_condition i c \<noteq> None)"
  by (induction cs) (auto simp: no_rollback_def split: option.split dest: check_condition_action)

text \<open>A recommended rollback always goes back to the count before the decision.\<close>

lemma CheckForRollback_target:
  "ra_Recommended (CheckForRollback i) \<Longrightarrow> ra_TargetReplicas (CheckForRollback i) = ri_PreviousReplicas i"
proof -
  have "ra_Recommended (check_conditions i cs) \<longrightarrow> ra_TargetReplicas (check_conditions i cs) = ri_PreviousReplicas i" for cs
    by (induction cs) (auto simp: no_rollback_def split: option.split dest: check_condition_action)
  then show "ra_Recommended (CheckForRollback i) \<Longrightarrow> ?thesis" by (auto simp: CheckForRollback_def no_rollback_def split: if_splits)
qed

end
