(* ===== verification/Approval.thy ===== *)
theory Approval
  imports Signal Cost
begin

text \<open>
  \<open>internal/approval/manager.go\<close>: when a decision needs a human.  \<open>abs32\<close> is on \<open>int32\<close>: the
  least value is its own absolute value.
\<close>

record ApprovalRequest =
  aq_Workload :: string
  aq_Namespace :: string
  aq_CurrentReplicas :: int32
  aq_TargetReplicas :: int32
  aq_Reasoning :: string
  aq_Confidence :: float64
  aq_CostDelta :: float64

definition abs32 :: "int32 \<Rightarrow> int32" where
  "abs32 x = (if x <s 0 then - x else x)"

fun any_trigger :: "ApprovalTrigger list \<Rightarrow> int32 \<Rightarrow> float64 \<Rightarrow> float64 \<Rightarrow> bool" where
  "any_trigger [] replicaChange costDelta confidence = False"
| "any_trigger (t # ts) replicaChange costDelta confidence =
     (if at_Type t = ''ReplicaChangeExceeds'' then
        (if at_Threshold t < f_of_int32 replicaChange then True else any_trigger ts replicaChange costDelta confidence)
      else if at_Type t = ''CostIncreaseExceeds'' then
        (if at_Threshold t < costDelta then True else any_trigger ts replicaChange costDelta confidence)
      else if at_Type t = ''ConfidenceBelow'' then
        (if confidence < at_Threshold t then True else any_trigger ts replicaChange costDelta confidence)
      else if at_Type t = ''Always'' then True
      else any_trigger ts replicaChange costDelta confidence)"

definition NeedsApproval :: "'q AIScaler \<Rightarrow> ScalingDecision \<Rightarrow> int32 \<Rightarrow> float64 \<Rightarrow> bool" where
  "NeedsApproval policy dec currentReplicas costDelta =
     (if spec_RequireApproval (ai_Spec policy) then True
      else (case spec_Approval (ai_Spec policy) of
          None \<Rightarrow> False
        | Some approval \<Rightarrow> (if \<not> apc_Enabled approval then False
            else any_trigger (apc_RequireApprovalWhen approval)
              (abs32 (sd_TargetReplicas dec - currentReplicas)) costDelta (sd_Confidence dec))))"

definition CreateRequest :: "'q AIScaler \<Rightarrow> ScalingDecision \<Rightarrow> int32 \<Rightarrow> float64 \<Rightarrow> ApprovalRequest" where
  "CreateRequest policy dec currentReplicas costDelta =
     \<lparr>aq_Workload = tr_Name (spec_TargetRef (ai_Spec policy)),
      aq_Namespace = tr_Namespace (spec_TargetRef (ai_Spec policy)),
      aq_CurrentReplicas = currentReplicas, aq_TargetReplicas = sd_TargetReplicas dec,
      aq_Reasoning = sd_Reasoning dec, aq_Confidence = sd_Confidence dec, aq_CostDelta = costDelta\<rparr>"

definition FormatMessage :: "ApprovalRequest \<Rightarrow> string" where
  "FormatMessage ar = ''[AIScaler] Approval required to ''
     @ (if aq_TargetReplicas ar <s aq_CurrentReplicas ar then ''scale down'' else ''scale up'')
     @ '' '' @ aq_Namespace ar @ ''/'' @ aq_Workload ar @ '' from '' @ show_int32 (aq_CurrentReplicas ar)
     @ '' to '' @ show_int32 (aq_TargetReplicas ar) @ '' replicas (confidence: ''
     @ show_f 0 (aq_Confidence ar * f_of_int 100) @ ''%, cost delta: $'' @ show_f 2 (aq_CostDelta ar)
     @ ''/hr)'' @ nl @ ''Reason: '' @ aq_Reasoning ar"

lemma any_trigger_iff: "any_trigger ts rc cd cf \<longleftrightarrow> (\<exists>t\<in>set ts.
    at_Type t = ''Always''
    \<or> at_Type t = ''ReplicaChangeExceeds'' \<and> at_Threshold t < f_of_int32 rc
    \<or> at_Type t = ''CostIncreaseExceeds'' \<and> at_Threshold t < cd
    \<or> at_Type t = ''ConfidenceBelow'' \<and> cf < at_Threshold t)"
  by (induction ts) auto

lemma abs32_sint: "sint x \<noteq> int32_min \<Longrightarrow> sint (abs32 x) = \<bar>sint x\<bar>"
  by (simp add: abs32_def sless_sint sint32_neg)

text \<open>
  With the simple flag off and the approval configuration on, a decision on a workload of at
  least zero replicas needs a human exactly when a trigger of the policy holds; the trigger on
  the change of replicas compares the exact distance of the counts.
\<close>

theorem NeedsApproval_iff:
  assumes "\<not> spec_RequireApproval (ai_Spec p)" and "spec_Approval (ai_Spec p) = Some a" and "apc_Enabled a"
    and "0 \<le> sint cur" and "0 \<le> sint (sd_TargetReplicas d)"
  shows "NeedsApproval p d cur cost \<longleftrightarrow> (\<exists>t\<in>set (apc_RequireApprovalWhen a).
      at_Type t = ''Always''
      \<or> at_Type t = ''ReplicaChangeExceeds'' \<and> at_Threshold t < f_of_int \<bar>sint (sd_TargetReplicas d) - sint cur\<bar>
      \<or> at_Type t = ''CostIncreaseExceeds'' \<and> at_Threshold t < cost
      \<or> at_Type t = ''ConfidenceBelow'' \<and> sd_Confidence d < at_Threshold t)"
proof -
  have "sint (sd_TargetReplicas d - cur) = sint (sd_TargetReplicas d) - sint cur"
    using assms(4,5) sint32_range [of cur] sint32_range [of "sd_TargetReplicas d"] by (intro sint32_sub) linarith+
  moreover have "sint (sd_TargetReplicas d) - sint cur \<noteq> int32_min"
    using assms(4,5) sint32_range [of cur] by linarith
  ultimately have "f_of_int32 (abs32 (sd_TargetReplicas d - cur)) = f_of_int \<bar>sint (sd_TargetReplicas d) - sint cur\<bar>"
    using abs32_sint [of "sd_TargetReplicas d - cur"] by (simp add: f_of_int32_def)
  then show ?thesis using assms(1-3) by (simp add: NeedsApproval_def any_trigger_iff)
qed

definition with_approval :: "ApprovalTrigger list \<Rightarrow> 'q AIScaler" where
  "with_approval ts = zero_AIScaler \<lparr>ai_Spec := zero_Spec \<lparr>spec_Approval := Some
     \<lparr>apc_Enabled = True, apc_RequireApprovalWhen = ts, apc_Channels = [], apc_ApprovalTimeout = 0,
      apc_AutoApproveAfterTimeout = False\<rparr>\<rparr>\<rparr>"

lemma NeedsApproval_iff_witness:
  "NeedsApproval (with_approval [\<lparr>at_Type = ''ReplicaChangeExceeds'', at_Threshold = f_of_int 2\<rparr>] :: int AIScaler)
     (zero_ScalingDecision \<lparr>sd_TargetReplicas := 2\<rparr>) 5 0"
  using NeedsApproval_iff [of "with_approval [\<lparr>at_Type = ''ReplicaChangeExceeds'', at_Threshold = f_of_int 2\<rparr>] :: int AIScaler"
      _ 5 "zero_ScalingDecision \<lparr>sd_TargetReplicas := 2\<rparr>" 0]
  by (simp add: with_approval_def zero_defs zero_signal_defs f_of_int_less)

end
