(* ===== verification/Audit_Log.thy ===== *)
theory Audit_Log
  imports Validator "HOL-Library.List_Lexorder" "HOL-Library.Char_ord"
begin

text \<open>
  \<open>internal/audit\<close>: decision records and the store that keeps the last of them in a ConfigMap per
  workload.  The API server's ConfigMaps are the state; every call of the client may fail, as the
  parameter \<open>fails\<close> says by call site.  The JSON codec and the iteration order of a Go map are
  parameters.  \<open>sort.Slice\<close> is not stable: with an arbitrary iteration order before it, the stable
  sort of the model reaches every order the code can.
\<close>

section \<open>Records\<close>

record DecisionRecord =
  dr_ID :: string
  dr_Timestamp :: time
  dr_Workload :: string
  dr_Namespace :: string
  dr_Signals :: "Bundle option"
  dr_PromptUsed :: string
  dr_RawResponse :: string
  dr_Provider :: string
  dr_Model :: string
  dr_LLMLatencyMs :: float64
  dr_ParsedDecision :: "ScalingDecision option"
  dr_PreValidation :: "ValidationResult option"
  dr_PostValidation :: "ValidationResult option"
  dr_WasClamped :: bool
  dr_PreviousReplicas :: int32
  dr_NewReplicas :: int32
  dr_Applied :: bool
  dr_DryRun :: bool
  dr_CostDeltaHourly :: float64
  dr_CostDeltaMonthly :: float64

section \<open>The store\<close>

type_synonym cm_data = "(string, string) fmap"

record ConfigMapStore =
  cms_namespace :: string
  cms_maxPerCM :: int

record StoreEnv =
  se_fails :: "string \<Rightarrow> api_error option"
  se_marshal :: "DecisionRecord \<Rightarrow> go_error + string"
  se_unmarshal :: "string \<Rightarrow> go_error + DecisionRecord"
  se_iter :: "cm_data \<Rightarrow> (string \<times> string) list"

definition NewConfigMapStore :: "string \<Rightarrow> int \<Rightarrow> ConfigMapStore" where
  "NewConfigMapStore namespace maxPerCM =
     \<lparr>cms_namespace = namespace, cms_maxPerCM = (if maxPerCM \<le> 0 then 50 else maxPerCM)\<rparr>"

definition cmName :: "string \<Rightarrow> string" where
  "cmName workload = ''aiscaler-audit-'' @ workload"

text \<open>The ConfigMaps of the store's namespace, by name.\<close>

type_synonym cluster = "(string, cm_data) fmap"

definition get_cm :: "StoreEnv \<Rightarrow> string \<Rightarrow> cluster \<Rightarrow> api_error + cm_data" where
  "get_cm env name cl = (case se_fails env ''get'' of
     Some e \<Rightarrow> Inl e
   | None \<Rightarrow> (case fmlookup cl name of None \<Rightarrow> Inl (ApiNotFound name) | Some d \<Rightarrow> Inr d))"

fun decode_entries :: "StoreEnv \<Rightarrow> (string \<times> string) list \<Rightarrow> (string \<times> DecisionRecord) list" where
  "decode_entries env [] = []"
| "decode_entries env ((k, v) # kvs) = (case se_unmarshal env v of
     Inl e \<Rightarrow> decode_entries env kvs | Inr rec \<Rightarrow> (k, rec) # decode_entries env kvs)"

definition pruneOldest :: "StoreEnv \<Rightarrow> int \<Rightarrow> cm_data \<Rightarrow> cm_data" where
  "pruneOldest env maxPerCM data = (let
     entries = decode_entries env (se_iter env data);
     readable = fmfilter (\<lambda>k. case fmlookup data k of
       Some v \<Rightarrow> (case se_unmarshal env v of Inr _ \<Rightarrow> True | Inl _ \<Rightarrow> False) | None \<Rightarrow> True) data;
     sorted = sort_key (\<lambda>(k, rec). dr_Timestamp rec) entries;
     toRemove = int (length entries) - maxPerCM
   in fold (\<lambda>(k, rec) d. fmdrop k d) (take (nat toRemove) sorted) readable)"

definition open_cm :: "StoreEnv \<Rightarrow> string \<Rightarrow> cluster \<Rightarrow> go_error + (cm_data \<times> cluster)" where
  "open_cm env name cl = (case get_cm env name cl of
     Inr d \<Rightarrow> Inr (d, cl)
   | Inl e \<Rightarrow> (if is_not_found e then
         (case se_fails env ''create'' of
            Some e' \<Rightarrow> Inl (''create audit configmap: '' @ api_error_text e')
          | None \<Rightarrow> Inr (fmempty, fmupd name fmempty cl))
       else Inl (''get audit configmap: '' @ api_error_text e)))"

definition add_record :: "StoreEnv \<Rightarrow> int \<Rightarrow> string \<Rightarrow> string \<Rightarrow> cm_data \<Rightarrow> cm_data" where
  "add_record env maxPerCM rid data d = (let d1 = fmupd rid data d in
     if maxPerCM < int (fcard (fmdom d1)) then pruneOldest env maxPerCM d1 else d1)"

definition Store :: "StoreEnv \<Rightarrow> ConfigMapStore \<Rightarrow> DecisionRecord \<Rightarrow> cluster \<Rightarrow> go_error option \<times> cluster" where
  "Store env s rec cl = (let name = cmName (dr_Workload rec) in
     case open_cm env name cl of
       Inl e \<Rightarrow> (Some e, cl)
     | Inr (d, cl1) \<Rightarrow> (case se_marshal env rec of
           Inl e \<Rightarrow> (Some (''marshal record: '' @ e), cl1)
         | Inr data \<Rightarrow> (case se_fails env ''update'' of
               Some e \<Rightarrow> (Some (api_error_text e), cl1)
             | None \<Rightarrow> (None, fmupd name (add_record env (cms_maxPerCM s) (dr_ID rec) data d) cl1))))"

definition List_records :: "StoreEnv \<Rightarrow> string \<Rightarrow> int \<Rightarrow> cluster \<Rightarrow> go_error + DecisionRecord list" where
  "List_records env workload limit cl = (case get_cm env (cmName workload) cl of
     Inl e \<Rightarrow> (if is_not_found e then Inr [] else Inl (api_error_text e))
   | Inr d \<Rightarrow> (let
       records = List.map snd (decode_entries env (se_iter env d));
       sorted = sort_key (\<lambda>r. - dr_Timestamp r) records
     in Inr (if 0 < limit \<and> limit < int (length sorted) then take (nat limit) sorted else sorted)))"

fun find_record :: "StoreEnv \<Rightarrow> string \<Rightarrow> cm_data list \<Rightarrow> go_error + DecisionRecord" where
  "find_record env rid [] = Inl (''record '' @ rid @ '' not found'')"
| "find_record env rid (d # ds) = (case fmlookup d rid of
     Some data \<Rightarrow> (case se_unmarshal env data of Inl e \<Rightarrow> Inl e | Inr rec \<Rightarrow> Inr rec)
   | None \<Rightarrow> find_record env rid ds)"

text \<open>\<open>Get\<close> searches the audit ConfigMaps the API server lists.\<close>

definition Get_record :: "StoreEnv \<Rightarrow> (cluster \<Rightarrow> cm_data list) \<Rightarrow> string \<Rightarrow> cluster \<Rightarrow> go_error + DecisionRecord" where
  "Get_record env items rid cl = (case se_fails env ''list'' of
     Some e \<Rightarrow> Inl (api_error_text e) | None \<Rightarrow> find_record env rid (items cl))"

section \<open>The interface of the store\<close>

text \<open>
  What the clients of \<open>audit.Store\<close> rely on: the records come newest first, and no more than a
  positive limit.
\<close>

locale audit_store =
  fixes list_records :: "string \<Rightarrow> int \<Rightarrow> 's \<Rightarrow> go_error + DecisionRecord list"
  assumes list_limit: "list_records w n s = Inr rs \<Longrightarrow> 0 < n \<Longrightarrow> int (length rs) \<le> n"
    and list_newest_first: "list_records w n s = Inr rs \<Longrightarrow> sorted_wrt (\<lambda>a b. dr_Timestamp b \<le> dr_Timestamp a) rs"
begin

lemma first_match_newest:
  assumes "list_records w n s = Inr rs" and "List.find P rs = Some r" and "r' \<in> set rs" and "P r'"
  shows "dr_Timestamp r' \<le> dr_Timestamp r"
proof -
  obtain i where i: "i < length rs" "r = rs ! i" "\<forall>j<i. \<not> P (rs ! j)"
    using assms(2) by (auto simp: find_Some_iff)
  obtain j where j: "j < length rs" "r' = rs ! j" using assms(3) by (auto simp: in_set_conv_nth)
  then have "i \<le> j" using i assms(4) not_le by blast
  then show ?thesis
    using list_newest_first [OF assms(1)] i j by (cases "i = j") (auto simp: sorted_wrt_iff_nth_less)
qed

end

lemma sorted_desc: "sorted_wrt (\<lambda>a b. dr_Timestamp b \<le> dr_Timestamp a) (sort_key (\<lambda>r. - dr_Timestamp r) rs)"
  using sorted_sort_key [of "\<lambda>r. - dr_Timestamp r" rs] by (simp add: sorted_map)

interpretation cm_store: audit_store "List_records env"
  by unfold_locales (auto simp: List_records_def Let_def sorted_desc sorted_wrt_take split: sum.splits if_splits)

section \<open>Lemmas\<close>

definition enumerates :: "StoreEnv \<Rightarrow> bool" where
  "enumerates env \<longleftrightarrow> (\<forall>d. distinct (List.map fst (se_iter env d))
     \<and> (\<forall>k v. (k, v) \<in> set (se_iter env d) \<longleftrightarrow> fmlookup d k = Some v))"

lemma decode_mem: "(k, r) \<in> set (decode_entries env kvs) \<longleftrightarrow> (\<exists>v. (k, v) \<in> set kvs \<and> se_unmarshal env v = Inr r)"
proof (induction kvs)
  case (Cons kv kvs)
  then show ?case by (cases kv) (auto split: sum.split)
qed simp

lemma decode_distinct: "distinct (List.map fst kvs) \<Longrightarrow> distinct (List.map fst (decode_entries env kvs))"
proof (induction kvs)
  case (Cons kv kvs)
  have "fst ` set (decode_entries env kvs) \<subseteq> fst ` set kvs"
    by (auto simp: decode_mem image_iff) force
  then show ?case using Cons by (cases kv) (auto split: sum.split)
qed simp

lemma fold_drop_lookup:
  "fmlookup (fold (\<lambda>(k, r) d. fmdrop k d) es d) k = (if k \<in> fst ` set es then None else fmlookup d k)"
  by (induction es arbitrary: d) (auto split: if_splits)

lemma prune_lookup:
  assumes "enumerates env"
  shows "fmlookup (pruneOldest env n d) k = (case fmlookup d k of None \<Rightarrow> None
    | Some v \<Rightarrow> (case se_unmarshal env v of Inl _ \<Rightarrow> None
      | Inr r \<Rightarrow> (if (k, r) \<in> set (take (nat (int (length (decode_entries env (se_iter env d))) - n))
            (sort_key (\<lambda>(k, rec). dr_Timestamp rec) (decode_entries env (se_iter env d)))) then None else Some v)))"
proof -
  define es where "es = decode_entries env (se_iter env d)"
  define rm where "rm = take (nat (int (length es) - n)) (sort_key (\<lambda>(k, rec). dr_Timestamp rec) es)"
  have sub: "set rm \<subseteq> set es" using set_take_subset [of _ "sort_key (\<lambda>(k, rec). dr_Timestamp rec) es"] by (simp add: rm_def)
  have key: "k \<in> fst ` set rm \<longleftrightarrow> (k, r) \<in> set rm" if "fmlookup d k = Some v" "se_unmarshal env v = Inr r" for v r
    using that assms sub by (force simp: es_def decode_mem enumerates_def)
  show ?thesis
    unfolding pruneOldest_def Let_def es_def [symmetric] rm_def [symmetric] fold_drop_lookup
    using key by (auto split: option.split sum.split)
qed

lemma pruneOldest_keeps_newest_aux:
  assumes "enumerates env" and "0 \<le> n"
  shows "int (fcard (fmdom (pruneOldest env n d))) \<le> n
    \<and> (\<forall>k v. fmlookup (pruneOldest env n d) k = Some v \<longrightarrow>
         fmlookup d k = Some v \<and> (\<exists>r. se_unmarshal env v = Inr r
           \<and> (\<forall>k' v' r'. fmlookup d k' = Some v' \<and> se_unmarshal env v' = Inr r'
                \<and> fmlookup (pruneOldest env n d) k' = None \<longrightarrow> dr_Timestamp r' \<le> dr_Timestamp r)))"
proof -
  define es where "es = decode_entries env (se_iter env d)"
  define srt where "srt = sort_key (\<lambda>(k, rec). dr_Timestamp rec) es"
  define m where "m = nat (int (length es) - n)"
  note lk = prune_lookup [OF assms(1), of n d, folded es_def, folded srt_def m_def]
  have es: "(k, r) \<in> set es \<longleftrightarrow> (\<exists>v. fmlookup d k = Some v \<and> se_unmarshal env v = Inr r)" for k r
    using assms(1) by (simp add: es_def decode_mem enumerates_def)
  have dist: "distinct (List.map fst srt)"
  proof -
    have "distinct (List.map fst es)"
      using assms(1) decode_distinct by (simp add: es_def enumerates_def)
    then show ?thesis by (simp add: srt_def distinct_map)
  qed
  have kept: "(k, r) \<in> set (drop m srt)" if "fmlookup (pruneOldest env n d) k = Some v" "se_unmarshal env v = Inr r" for k v r
  proof -
    have "(k, r) \<in> set es" "(k, r) \<notin> set (take m srt)"
      using that lk [of k] es by (auto split: option.splits sum.splits if_splits)
    then have "(k, r) \<in> set (take m srt) \<union> set (drop m srt)"
      by (metis append_take_drop_id set_append set_sort srt_def)
    then show ?thesis using \<open>(k, r) \<notin> set (take m srt)\<close> by blast
  qed
  have readable: "\<exists>r. se_unmarshal env v = Inr r \<and> fmlookup d k = Some v" if "fmlookup (pruneOldest env n d) k = Some v" for k v
    using that lk [of k] by (auto split: option.splits sum.splits if_splits)
  have older: "dr_Timestamp r' \<le> dr_Timestamp r" if "(k', r') \<in> set (take m srt)" "(k, r) \<in> set (drop m srt)" for k k' r r'
  proof -
    have "sorted (List.map (\<lambda>(k, rec). dr_Timestamp rec) (take m srt @ drop m srt))"
      by (simp add: srt_def)
    then show ?thesis using that unfolding map_append sorted_append by force
  qed
  have "fset (fmdom (pruneOldest env n d)) \<subseteq> fst ` set (drop m srt)"
  proof
    fix k
    assume "k \<in> fset (fmdom (pruneOldest env n d))"
    then obtain v where v: "fmlookup (pruneOldest env n d) k = Some v" by (auto simp: fmlookup_dom_iff)
    then obtain r where "se_unmarshal env v = Inr r" using readable by blast
    then show "k \<in> fst ` set (drop m srt)" using kept [OF v] by force
  qed
  then have "fcard (fmdom (pruneOldest env n d)) \<le> card (fst ` set (drop m srt))"
    by (simp add: fcard.rep_eq card_mono)
  also have "\<dots> \<le> length (drop m srt)" by (metis card_length length_map list.set_map)
  also have "int (length (drop m srt)) \<le> n" using assms(2) by (auto simp: m_def srt_def)
  finally have "int (fcard (fmdom (pruneOldest env n d))) \<le> n" by simp
  moreover have "dr_Timestamp r' \<le> dr_Timestamp r"
    if "fmlookup (pruneOldest env n d) k = Some v" "se_unmarshal env v = Inr r"
      "fmlookup d k' = Some v'" "se_unmarshal env v' = Inr r'" "fmlookup (pruneOldest env n d) k' = None"
    for k v r k' v' r'
  proof -
    have "(k', r') \<in> set (take m srt)" using that lk [of k'] by (auto split: if_splits)
    then show ?thesis using older kept [OF that(1,2)] by blast
  qed
  ultimately show ?thesis using readable by metis
qed

lemma prune_nonempty:
  assumes "enumerates env" and "0 < n" and "fmlookup d k = Some v" and "se_unmarshal env v = Inr r"
  shows "fmdom (pruneOldest env n d) \<noteq> {||}"
proof -
  define es where "es = decode_entries env (se_iter env d)"
  define srt where "srt = sort_key (\<lambda>(k, rec). dr_Timestamp rec) es"
  define m where "m = nat (int (length es) - n)"
  have mem: "(k, r) \<in> set es \<longleftrightarrow> (\<exists>v. fmlookup d k = Some v \<and> se_unmarshal env v = Inr r)" for k r
    using assms(1) by (simp add: es_def decode_mem enumerates_def)
  then have "es \<noteq> []" using assms(3,4) by force
  then have "0 < length es" by simp
  then have "m < length srt" using assms(2) unfolding m_def srt_def length_sort by linarith
  then obtain k' r' where l: "(k', r') = srt ! m" "(k', r') \<in> set srt" by (metis nth_mem surj_pair)
  have "distinct srt"
    using assms(1) decode_distinct by (simp add: srt_def es_def enumerates_def distinct_map)
  then have nt: "(k', r') \<notin> set (take m srt)"
    using l(1) \<open>m < length srt\<close> by (auto simp: in_set_conv_nth nth_eq_iff_index_eq)
  obtain v' where "fmlookup d k' = Some v'" "se_unmarshal env v' = Inr r'"
    using l(2) mem by (auto simp: srt_def)
  then have "fmlookup (pruneOldest env n d) k' = Some v'"
    using prune_lookup [OF assms(1), of n d k'] nt by (simp add: es_def srt_def m_def)
  then show ?thesis by (auto simp: fmlookup_dom_iff dest: fmdomI)
qed

section \<open>Properties\<close>

text \<open>
  Pruning keeps the newest: with any iteration order of the map and any decoder, what is left is
  readable and fits the limit, and no readable record that was dropped is newer than one that
  was kept.
\<close>

theorem pruneOldest_keeps_newest:
  assumes "enumerates env" and "0 \<le> n"
  shows "int (fcard (fmdom (pruneOldest env n d))) \<le> n
    \<and> (\<forall>k v. fmlookup (pruneOldest env n d) k = Some v \<longrightarrow>
         fmlookup d k = Some v \<and> (\<exists>r. se_unmarshal env v = Inr r
           \<and> (\<forall>k' v' r'. fmlookup d k' = Some v' \<and> se_unmarshal env v' = Inr r'
                \<and> fmlookup (pruneOldest env n d) k' = None \<longrightarrow> dr_Timestamp r' \<le> dr_Timestamp r)))"
  by (rule pruneOldest_keeps_newest_aux [OF assms])

definition ident_env :: "(DecisionRecord \<Rightarrow> string) \<Rightarrow> (string \<Rightarrow> DecisionRecord) \<Rightarrow> (cm_data \<Rightarrow> (string \<times> string) list) \<Rightarrow> StoreEnv" where
  "ident_env enc dec it = \<lparr>se_fails = (\<lambda>_. None), se_marshal = (\<lambda>r. Inr (enc r)),
     se_unmarshal = (\<lambda>s. Inr (dec s)), se_iter = it\<rparr>"

text \<open>The iteration in the order of the keys.\<close>

definition key_order :: "cm_data \<Rightarrow> (string \<times> string) list" where
  "key_order d = List.map (\<lambda>k. (k, the (fmlookup d k))) (sorted_list_of_fset (fmdom d))"

lemma key_order_enumerates: "enumerates (ident_env enc dec key_order)"
proof -
  have "List.map fst (key_order d) = sorted_list_of_fset (fmdom d)" for d
    by (simp add: key_order_def comp_def)
  moreover have "(k, v) \<in> set (key_order d) \<longleftrightarrow> fmlookup d k = Some v" for d k v
    by (auto simp: key_order_def fmlookup_dom_iff)
  moreover have "distinct (sorted_list_of_fset (fmdom d))" for d :: cm_data
    by (simp add: sorted_list_of_fset.rep_eq)
  ultimately show ?thesis by (simp add: enumerates_def ident_env_def)
qed

definition sample_record :: DecisionRecord where
  "sample_record = \<lparr>dr_ID = ''r1'', dr_Timestamp = 5, dr_Workload = ''api'', dr_Namespace = [],
     dr_Signals = None, dr_PromptUsed = [], dr_RawResponse = [], dr_Provider = [], dr_Model = [],
     dr_LLMLatencyMs = 0, dr_ParsedDecision = None, dr_PreValidation = None, dr_PostValidation = None,
     dr_WasClamped = False, dr_PreviousReplicas = 1, dr_NewReplicas = 2, dr_Applied = True,
     dr_DryRun = False, dr_CostDeltaHourly = 0, dr_CostDeltaMonthly = 0\<rparr>"

lemma pruneOldest_keeps_newest_witness:
  "int (fcard (fmdom (pruneOldest (ident_env (\<lambda>_. ''x'') (\<lambda>_. sample_record) key_order) 1
     (fmupd ''a'' ''1'' (fmupd ''b'' ''2'' fmempty))))) \<le> 1"
  using pruneOldest_keeps_newest [OF key_order_enumerates, of 1 "\<lambda>_. ''x''" "\<lambda>_. sample_record"
      "fmupd ''a'' ''1'' (fmupd ''b'' ''2'' fmempty)"] by simp

text \<open>Adding a record newer than the readable ones prunes others, never the record itself.\<close>

lemma pruneOldest_keeps_newer:
  assumes "enumerates env" and "0 < n" and "fmlookup d k = Some x" and "se_unmarshal env x = Inr rec"
    and old: "\<And>k' v r. k' \<noteq> k \<Longrightarrow> fmlookup d k' = Some v \<Longrightarrow> se_unmarshal env v = Inr r \<Longrightarrow> dr_Timestamp r < dr_Timestamp rec"
  shows "fmlookup (pruneOldest env n d) k = Some x \<and> int (fcard (fmdom (pruneOldest env n d))) \<le> n"
proof -
  have card: "int (fcard (fmdom (pruneOldest env n d))) \<le> n"
    and keep: "\<And>k v. fmlookup (pruneOldest env n d) k = Some v \<Longrightarrow> fmlookup d k = Some v \<and> (\<exists>r. se_unmarshal env v = Inr r
         \<and> (\<forall>k' v' r'. fmlookup d k' = Some v' \<and> se_unmarshal env v' = Inr r'
              \<and> fmlookup (pruneOldest env n d) k' = None \<longrightarrow> dr_Timestamp r' \<le> dr_Timestamp r))"
    using pruneOldest_keeps_newest_aux [OF assms(1), of n d] assms(2) by auto
  have "fmlookup (pruneOldest env n d) k \<noteq> None"
  proof
    assume none: "fmlookup (pruneOldest env n d) k = None"
    obtain k' v where v: "fmlookup (pruneOldest env n d) k' = Some v"
      using prune_nonempty [OF assms(1-4)] by (auto simp: fmlookup_dom_iff)
    then obtain r where r: "fmlookup d k' = Some v" "se_unmarshal env v = Inr r" "dr_Timestamp rec \<le> dr_Timestamp r"
      using keep [OF v] assms(3,4) none by metis
    moreover have "k' \<noteq> k" using v none by auto
    ultimately show False using old [of k' v r] by simp
  qed
  then show ?thesis using card keep assms(3) by (metis not_None_eq)
qed

lemma add_record_keeps:
  assumes "enumerates env" and "0 < n" and "se_unmarshal env x = Inr rec"
    and "\<And>k v r. fmlookup d k = Some v \<Longrightarrow> se_unmarshal env v = Inr r \<Longrightarrow> dr_Timestamp r < dr_Timestamp rec"
  shows "fmlookup (add_record env n i x d) i = Some x \<and> int (fcard (fmdom (add_record env n i x d))) \<le> n"
  using pruneOldest_keeps_newer [OF assms(1,2), of "fmupd i x d" i x rec] assms(3,4)
  by (auto simp: add_record_def Let_def)

text \<open>
  C33. A stored record stays: when a store succeeds, with a codec that decodes what it encodes and a
  clock ahead of the readable records, the workload's ConfigMap holds the record under its ID and
  at most the configured number of records.
\<close>

theorem Store_keeps_new:
  assumes "enumerates env" and "0 < cms_maxPerCM s"
    and "Store env s rec cl = (None, cl')"
    and "\<forall>x. se_marshal env rec = Inr x \<longrightarrow> se_unmarshal env x = Inr rec"
    and "\<forall>d k v r. fmlookup cl (cmName (dr_Workload rec)) = Some d \<and> fmlookup d k = Some v
           \<and> se_unmarshal env v = Inr r \<longrightarrow> dr_Timestamp r < dr_Timestamp rec"
  shows "\<exists>d v. fmlookup cl' (cmName (dr_Workload rec)) = Some d \<and> fmlookup d (dr_ID rec) = Some v
    \<and> se_unmarshal env v = Inr rec \<and> int (fcard (fmdom d)) \<le> cms_maxPerCM s"
proof -
  define name where "name = cmName (dr_Workload rec)"
  obtain d cl1 where d: "open_cm env name cl = Inr (d, cl1)"
    using assms(3) by (auto simp: Store_def Let_def name_def split: sum.splits)
  obtain x where x: "se_marshal env rec = Inr x"
    using assms(3) d by (auto simp: Store_def Let_def name_def split: sum.splits)
  have "cl' = fmupd name (add_record env (cms_maxPerCM s) (dr_ID rec) x d) cl1"
    using assms(3) d x by (simp add: Store_def Let_def name_def split: option.splits)
  then have cl': "fmlookup cl' name = Some (add_record env (cms_maxPerCM s) (dr_ID rec) x d)" by simp
  have old: "dr_Timestamp r < dr_Timestamp rec" if "fmlookup d k = Some v" "se_unmarshal env v = Inr r" for k v r
    using d that assms(5) unfolding name_def [symmetric]
    by (auto simp: open_cm_def get_cm_def split: sum.splits option.splits if_splits)
  have ux: "se_unmarshal env x = Inr rec" using assms(4) x by blast
  show ?thesis
    using add_record_keeps [OF assms(1,2) ux old] cl' ux by (auto simp: name_def)
qed

lemma Store_keeps_new_witness:
  "\<exists>d v. fmlookup (snd (Store (ident_env (\<lambda>_. ''x'') (\<lambda>_. sample_record) key_order)
     (NewConfigMapStore ''ns'' 10) sample_record fmempty)) (cmName ''api'') = Some d \<and> fmlookup d ''r1'' = Some v"
proof -
  define env where "env = ident_env (\<lambda>_. ''x'') (\<lambda>_. sample_record) key_order"
  have f: "se_fails env x = None" "se_marshal env r = Inr ''x''" "se_unmarshal env y = Inr sample_record" for x r y
    by (simp_all add: env_def ident_env_def)
  have "fst (Store env (NewConfigMapStore ''ns'' 10) sample_record fmempty) = None"
    by (simp add: Store_def open_cm_def get_cm_def f is_not_found_def Let_def)
  then obtain cl' where st: "Store env (NewConfigMapStore ''ns'' 10) sample_record fmempty = (None, cl')"
    by (metis prod.collapse)
  have en: "enumerates env" unfolding env_def by (rule key_order_enumerates)
  have "\<exists>d v. fmlookup cl' (cmName (dr_Workload sample_record)) = Some d \<and> fmlookup d (dr_ID sample_record) = Some v
      \<and> se_unmarshal env v = Inr sample_record \<and> int (fcard (fmdom d)) \<le> cms_maxPerCM (NewConfigMapStore ''ns'' 10)"
    by (rule Store_keeps_new [OF en _ st]) (simp_all add: NewConfigMapStore_def f)
  then show ?thesis using st by (auto simp: env_def sample_record_def)
qed

end
