(* ===== verification/Feedback.thy ===== *)
theory Feedback
  imports Audit_Log Cost
begin

text \<open>
  \<open>internal/feedback\<close>: how past decisions turned out, and the learned profile of a workload.
  The records come from the audit store, of which only the interface is used.
\<close>

record DecisionOutcome =
  oc_RecordID :: string
  oc_Effective :: bool
  oc_SLOsMetBefore :: bool
  oc_SLOsMetAfter :: bool
  oc_CPUBefore :: float64
  oc_CPUAfter :: float64
  oc_LatencyBefore :: float64
  oc_LatencyAfter :: float64
  oc_EvaluatedAt :: time

definition evaluate_record :: "time \<Rightarrow> Bundle \<Rightarrow> DecisionRecord \<Rightarrow> DecisionOutcome" where
  "evaluate_record now b rec = (let
     cpuBefore = (case dr_Signals rec of Some s \<Rightarrow> b_CPUUtilization s | None \<Rightarrow> 0);
     latencyBefore = (case dr_Signals rec of Some s \<Rightarrow> b_P95LatencyMs s | None \<Rightarrow> 0);
     cpuAfter = b_CPUUtilization b;
     latencyAfter = b_P95LatencyMs b;
     effective = (if dr_PreviousReplicas rec <s dr_NewReplicas rec
         then cpuAfter \<le> cpuBefore \<or> latencyAfter \<le> latencyBefore
       else if dr_NewReplicas rec <s dr_PreviousReplicas rec
         then cpuAfter < f_of_int 80 \<and> latencyAfter < latencyBefore * f_lit 3 2
       else True)
   in \<lparr>oc_RecordID = dr_ID rec, oc_Effective = effective, oc_SLOsMetBefore = False,
       oc_SLOsMetAfter = False, oc_CPUBefore = cpuBefore, oc_CPUAfter = cpuAfter,
       oc_LatencyBefore = latencyBefore, oc_LatencyAfter = latencyAfter, oc_EvaluatedAt = now\<rparr>)"

fun evaluate_records :: "time \<Rightarrow> duration \<Rightarrow> Bundle \<Rightarrow> DecisionRecord list \<Rightarrow> DecisionOutcome list" where
  "evaluate_records now delay b [] = []"
| "evaluate_records now delay b (rec # recs) =
     (if time_sub now (dr_Timestamp rec) < delay then evaluate_records now delay b recs
      else evaluate_record now b rec # evaluate_records now delay b recs)"

definition Evaluate :: "time \<Rightarrow> (string \<Rightarrow> int \<Rightarrow> go_error + DecisionRecord list)
    \<Rightarrow> string \<Rightarrow> Bundle option \<Rightarrow> duration \<Rightarrow> int \<Rightarrow> go_error + DecisionOutcome list" where
  "Evaluate now list_records workload currentBundle evaluationDelay limit = (case currentBundle of
     None \<Rightarrow> Inr []
   | Some b \<Rightarrow> (let n = (if limit \<le> 0 then 10 else limit) in
       case list_records workload n of
         Inl e \<Rightarrow> Inl e
       | Inr records \<Rightarrow> Inr (evaluate_records now evaluationDelay b records)))"

section \<open>The learned profile\<close>

record WorkloadProfile =
  wp_RPSPerReplica :: float64
  wp_BreakEvenCPU :: float64
  wp_AvgLatencyPerRPS :: float64
  wp_TotalObservations :: int

definition NewWorkloadProfile :: WorkloadProfile where
  "NewWorkloadProfile = \<lparr>wp_RPSPerReplica = 0, wp_BreakEvenCPU = 0, wp_AvgLatencyPerRPS = 0,
     wp_TotalObservations = 0\<rparr>"

definition profile_Update :: "DecisionOutcome \<Rightarrow> WorkloadProfile \<Rightarrow> WorkloadProfile" where
  "profile_Update outcome wp0 = (let
     wp = wp0 \<lparr>wp_TotalObservations := wp_TotalObservations wp0 + 1\<rparr>;
     alpha = (if wp_TotalObservations wp < 10 then f_lit 3 10 else f_lit 1 10)
   in if oc_Effective outcome
      then wp \<lparr>wp_BreakEvenCPU := wp_BreakEvenCPU wp * (1 - alpha) + oc_CPUAfter outcome * alpha\<rparr>
      else wp)"

definition GetRPSPerReplica :: "WorkloadProfile \<Rightarrow> float64" where
  "GetRPSPerReplica wp = wp_RPSPerReplica wp"

definition GetBreakEvenCPU :: "WorkloadProfile \<Rightarrow> float64" where
  "GetBreakEvenCPU wp = wp_BreakEvenCPU wp"

definition HasSufficientData :: "WorkloadProfile \<Rightarrow> bool" where
  "HasSufficientData wp = (10 \<le> wp_TotalObservations wp)"

section \<open>Lemmas\<close>

lemma evaluate_records_filter:
  "evaluate_records now delay b rs = List.map (evaluate_record now b)
     (List.filter (\<lambda>r. \<not> time_sub now (dr_Timestamp r) < delay) rs)"
  by (induction rs) simp_all

lemma profile_observations: "wp_TotalObservations (fold profile_Update os wp) = wp_TotalObservations wp + int (length os)"
  by (induction os arbitrary: wp) (simp_all add: profile_Update_def Let_def)

context audit_store
begin

lemma Evaluate_limit:
  assumes "Evaluate now (\<lambda>w n. list_records w n s) w (Some b) delay n = Inr os" and "0 < n"
  shows "int (length os) \<le> n"
proof -
  obtain rs where rs: "list_records w n s = Inr rs" "os = evaluate_records now delay b rs"
    using assms by (auto simp: Evaluate_def Let_def split: sum.splits)
  have "length os \<le> length rs"
    unfolding rs(2) evaluate_records_filter by (simp add: le_trans [OF length_filter_le])
  then show ?thesis using list_limit [OF rs(1) assms(2)] by simp
qed

end

section \<open>Properties\<close>

text \<open>
  The feedback over the ConfigMap store never exceeds the history depth asked for and judges
  only records at least as old as the evaluation delay, each by the direction it went.
\<close>

theorem Evaluate_store:
  assumes "Evaluate now (\<lambda>w n. List_records env w n cl) w (Some b) delay n = Inr os" and "0 < n"
  shows "int (length os) \<le> n
    \<and> (\<exists>rs. List_records env w n cl = Inr rs
         \<and> os = List.map (evaluate_record now b) (List.filter (\<lambda>r. \<not> time_sub now (dr_Timestamp r) < delay) rs))"
proof -
  have "\<exists>rs. List_records env w n cl = Inr rs \<and> os = evaluate_records now delay b rs"
    using assms by (auto simp: Evaluate_def Let_def split: sum.splits)
  then show ?thesis
    using cm_store.Evaluate_limit [OF assms] by (auto simp: evaluate_records_filter)
qed

lemma Evaluate_store_witness:
  "int (length ([] :: DecisionOutcome list)) \<le> 5"
  using Evaluate_store [of 100 "ident_env (\<lambda>_. ''x'') (\<lambda>_. sample_record) key_order" fmempty "''api''" zero_Bundle 10 5 "[]"]
  by (simp add: Evaluate_def List_records_def get_cm_def ident_env_def is_not_found_def)

end
