(* ===== verification/Notification.thy ===== *)
theory Notification
  imports Prelude
begin

text \<open>
  \<open>internal/notification\<close>: events and the dispatcher.  A notifier is its type and whether its
  \<open>Send\<close> succeeds for an event; \<open>Dispatch\<close> returns the deliveries it attempted, in order, which is
  all its callers can observe (failures are logged).
\<close>

record Event =
  ev_Type :: string
  ev_Severity :: string
  ev_Workload :: string
  ev_Namespace :: string
  ev_Cluster :: string
  ev_Message :: string
  ev_Details :: "(string, string) fmap"
  ev_Timestamp :: time

definition EventScalingApplied :: string where "EventScalingApplied = ''scaling_applied''"
definition EventBudgetExceeded :: string where "EventBudgetExceeded = ''budget_exceeded''"
definition EventApprovalRequired :: string where "EventApprovalRequired = ''approval_required''"
definition EventRollbackTriggered :: string where "EventRollbackTriggered = ''rollback_triggered''"
definition EventOscillationDetected :: string where "EventOscillationDetected = ''oscillation_detected''"
definition EventLLMFailure :: string where "EventLLMFailure = ''llm_failure''"
definition SeverityInfo :: string where "SeverityInfo = ''info''"
definition SeverityWarning :: string where "SeverityWarning = ''warning''"

lemmas event_defs = EventScalingApplied_def EventBudgetExceeded_def EventApprovalRequired_def
  EventRollbackTriggered_def EventOscillationDetected_def EventLLMFailure_def SeverityInfo_def
  SeverityWarning_def

record Notifier =
  nt_Type :: string
  nt_Send :: "Event \<Rightarrow> go_error option"

record Dispatcher =
  dp_notifiers :: "Notifier list"
  dp_filters :: "(string, Notifier list) fmap"

definition NewDispatcher :: "Notifier list \<Rightarrow> Dispatcher" where
  "NewDispatcher notifiers = \<lparr>dp_notifiers = notifiers, dp_filters = fmempty\<rparr>"

definition RegisterFilter :: "string \<Rightarrow> Notifier \<Rightarrow> Dispatcher \<Rightarrow> Dispatcher" where
  "RegisterFilter eventType notifier d = d \<lparr>dp_filters := fmupd eventType
     ((case fmlookup (dp_filters d) eventType of None \<Rightarrow> [] | Some ns \<Rightarrow> ns) @ [notifier]) (dp_filters d)\<rparr>"

fun send_all :: "Event \<Rightarrow> Notifier list \<Rightarrow> (string \<times> go_error option) list" where
  "send_all e [] = []"
| "send_all e (n # ns) = (nt_Type n, nt_Send n e) # send_all e ns"

definition Dispatch :: "Event \<Rightarrow> Dispatcher \<Rightarrow> (string \<times> go_error option) list" where
  "Dispatch event d = send_all event (case fmlookup (dp_filters d) (ev_Type event) of
     Some ns \<Rightarrow> ns | None \<Rightarrow> dp_notifiers d)"

text \<open>
  A failing notifier does not stop the others, and the first filter registered for a type of event
  takes it away from every notifier without a filter for it.
\<close>

theorem Dispatch_reaches_all:
  "List.map fst (Dispatch e d) = List.map nt_Type (case fmlookup (dp_filters d) (ev_Type e) of
      Some ns \<Rightarrow> ns | None \<Rightarrow> dp_notifiers d)
   \<and> (fmlookup (dp_filters d) (ev_Type e) = None \<longrightarrow>
        Dispatch e (RegisterFilter (ev_Type e) n d) = [(nt_Type n, nt_Send n e)])"
proof -
  have "List.map fst (send_all e ns) = List.map nt_Type ns" for ns
    by (induction ns) simp_all
  then show ?thesis by (simp add: Dispatch_def RegisterFilter_def split: option.split)
qed

end
