(* ===== verification/Prediction.thy ===== *)
theory Prediction
  imports Api
begin

text \<open>
  \<open>internal/prediction\<close>: the weekly baselines (an exponential moving average per hour of the
  week), the known events, and the table built from history.  A Go array of 168 elements is a type of
  lists of that length; an access out of its range panics and has no value.
  The calendar is that of the operator's time zone, given as the offset from UTC at a time;
  weekday 0 is Sunday.
\<close>

section \<open>Hours of the week\<close>

definition unix_day :: int where "unix_day = 24 * hour"

definition timeToSlot :: "(time \<Rightarrow> duration) \<Rightarrow> time \<Rightarrow> nat" where
  "timeToSlot tz t = (let l = t + tz t;
     weekday = (4 + l div unix_day) mod 7;
     hour_of_day = (l mod unix_day) div hour
   in nat (weekday * 24 + hour_of_day))"

lemma timeToSlot_range: "timeToSlot tz t < 168"
proof -
  define l where "l = t + tz t"
  have "0 \<le> (4 + l div unix_day) mod 7" "(4 + l div unix_day) mod 7 \<le> 6"
    using pos_mod_bound [of 7 "4 + l div unix_day"] pos_mod_sign [of 7 "4 + l div unix_day"] by linarith+
  moreover have "0 \<le> l mod unix_day" "l mod unix_day < 24 * hour"
    by (simp_all add: unix_day_def duration_defs)
  then have "0 \<le> l mod unix_day div hour" "l mod unix_day div hour < 24"
    by (simp_all add: duration_defs pos_imp_zdiv_nonneg_iff div_less_iff_less_mult)
  ultimately show ?thesis
    unfolding timeToSlot_def Let_def l_def [symmetric] by (simp add: nat_less_iff)
qed

section \<open>Arrays of 168 elements\<close>

typedef 'a week = "{xs :: 'a list. length xs = 168}" morphisms week_list Week
proof
  show "replicate 168 undefined \<in> {xs :: 'a list. length xs = 168}" by simp
qed

setup_lifting type_definition_week

lift_definition zero_week :: "'a \<Rightarrow> 'a week" is "replicate 168" by simp

lift_definition week_at :: "'a week \<Rightarrow> nat \<Rightarrow> 'a" is "(!)" .

lift_definition week_with :: "'a week \<Rightarrow> nat \<Rightarrow> 'a \<Rightarrow> 'a week" is "list_update" by simp

lift_definition for_slots :: "(nat \<Rightarrow> 'a) \<Rightarrow> 'a week" is "\<lambda>f. List.map f [0..<168]" by simp

text \<open>Reading and writing an element: \<open>None\<close> is the panic of an index out of range.\<close>

definition week_get :: "'a week \<Rightarrow> nat \<Rightarrow> 'a option" where
  "week_get w i = (if i < 168 then Some (week_at w i) else None)"

definition week_set :: "'a week \<Rightarrow> nat \<Rightarrow> 'a \<Rightarrow> 'a week option" where
  "week_set w i x = (if i < 168 then Some (week_with w i x) else None)"

section \<open>The predictor\<close>

record SeasonalPredictor =
  sp_baselines :: "(string, float64 week) fmap"
  sp_counts :: "(string, int64 week) fmap"

definition NewSeasonalPredictor :: SeasonalPredictor where
  "NewSeasonalPredictor = \<lparr>sp_baselines = fmempty, sp_counts = fmempty\<rparr>"

text \<open>\<open>math.Min\<close>, with its special cases.\<close>

definition math_Min :: "float64 \<Rightarrow> float64 \<Rightarrow> float64" where
  "math_Min x y = (if f_eq x (f_inf True) \<or> f_eq y (f_inf True) then f_inf True
     else if is_nan x \<or> is_nan y then f_nan
     else if f_eq x 0 \<and> f_eq x y then (if f_neg x then x else y)
     else if x < y then x else y)"

text \<open>A metric that is not in the map has the array of zeros.\<close>

definition array_of :: "'a \<Rightarrow> (string, 'a week) fmap \<Rightarrow> string \<Rightarrow> 'a week" where
  "array_of z m metric = (case fmlookup m metric of Some w \<Rightarrow> w | None \<Rightarrow> zero_week z)"

definition float_count :: "int64 \<Rightarrow> float64" where
  "float_count n = f_of_int (sint n)"

definition UpdateBaseline :: "(time \<Rightarrow> duration) \<Rightarrow> time \<Rightarrow> string \<Rightarrow> float64 \<Rightarrow> SeasonalPredictor
    \<Rightarrow> SeasonalPredictor option" where
  "UpdateBaseline tz now metric v s = (let
     slot = timeToSlot tz now;
     bl = array_of 0 (sp_baselines s) metric;
     cn = array_of 0 (sp_counts s) metric
   in case week_get cn slot of
        None \<Rightarrow> None
      | Some n \<Rightarrow> (case week_set cn slot (n + 1) of
          None \<Rightarrow> None
        | Some cn1 \<Rightarrow> (case week_get bl slot of
            None \<Rightarrow> None
          | Some old \<Rightarrow> (let alpha = 1 div math_Min (float_count (n + 1)) (f_of_int 100) in
              case week_set bl slot (old * (1 - alpha) + v * alpha) of
                None \<Rightarrow> None
              | Some bl1 \<Rightarrow> Some (s \<lparr>sp_baselines := fmupd metric bl1 (sp_baselines s),
                  sp_counts := fmupd metric cn1 (sp_counts s)\<rparr>)))))"

definition Predict :: "(time \<Rightarrow> duration) \<Rightarrow> time \<Rightarrow> string \<Rightarrow> duration \<Rightarrow> SeasonalPredictor
    \<Rightarrow> (float64 \<times> float64) option" where
  "Predict tz now metric lookahead s = (case fmlookup (sp_baselines s) metric of
     None \<Rightarrow> Some (0, 0)
   | Some bl \<Rightarrow> (let futureSlot = timeToSlot tz (now + lookahead) in
       case week_get bl futureSlot of
         None \<Rightarrow> None
       | Some predicted \<Rightarrow> (case week_get (array_of 0 (sp_counts s) metric) futureSlot of
           None \<Rightarrow> None
         | Some n \<Rightarrow> Some (predicted, math_Min (float_count n div f_of_int 20) 1))))"

definition CurrentBaseline :: "(time \<Rightarrow> duration) \<Rightarrow> time \<Rightarrow> string \<Rightarrow> SeasonalPredictor \<Rightarrow> float64 option" where
  "CurrentBaseline tz now metric s = (case fmlookup (sp_baselines s) metric of
     None \<Rightarrow> Some 0 | Some bl \<Rightarrow> week_get bl (timeToSlot tz now))"

definition SetBaselines :: "string \<Rightarrow> float64 week \<Rightarrow> SeasonalPredictor \<Rightarrow> SeasonalPredictor" where
  "SetBaselines metric baselines s = s \<lparr>sp_baselines := fmupd metric baselines (sp_baselines s),
     sp_counts := fmupd metric (for_slots (\<lambda>i. if 0 < week_at baselines i then 20 else 0)) (sp_counts s)\<rparr>"

section \<open>Events\<close>

record UpcomingEvent =
  ue_Name :: string
  ue_StartsIn :: duration
  ue_ExpectedLoadMultiplier :: float64

fun check_events :: "time \<Rightarrow> duration \<Rightarrow> PredictiveEvent list \<Rightarrow> UpcomingEvent list" where
  "check_events now lookahead [] = []"
| "check_events now lookahead (ev # evs) = (let
     preScale = sint (pe_PreScaleMinutes ev) * minute;
     effectiveStart = pe_Start ev - preScale
   in (if now < effectiveStart \<and> effectiveStart < now + lookahead
       then [\<lparr>ue_Name = pe_Name ev, ue_StartsIn = time_sub effectiveStart now,
              ue_ExpectedLoadMultiplier = pe_ExpectedLoadMultiplier ev\<rparr>] else [])
    @ (if pe_Start ev < now \<and> now < pe_End ev
       then [\<lparr>ue_Name = pe_Name ev @ '' (ACTIVE)'', ue_StartsIn = 0,
              ue_ExpectedLoadMultiplier = pe_ExpectedLoadMultiplier ev\<rparr>] else [])
    @ check_events now lookahead evs)"

section \<open>History\<close>

definition BuildBaselines :: "(int, float64) fmap \<Rightarrow> float64 week" where
  "BuildBaselines averages = for_slots (\<lambda>i. case fmlookup averages (int i) of Some a \<Rightarrow> a | None \<Rightarrow> 0)"

section \<open>Lemmas\<close>

lemma week_get_Some: "i < 168 \<Longrightarrow> week_get w i = Some (week_at w i)"
  by (simp add: week_get_def)

lemma week_set_Some: "i < 168 \<Longrightarrow> week_set w i x = Some (week_with w i x)"
  by (simp add: week_set_def)

lemma week_at_with: "i < 168 \<Longrightarrow> week_at (week_with w i x) j = (if j = i then x else week_at w j)"
  by transfer simp

lemma week_at_zero: "i < 168 \<Longrightarrow> week_at (zero_week z) i = z"
  by transfer simp

lemma week_at_for: "i < 168 \<Longrightarrow> week_at (for_slots f) i = f i"
  by transfer simp

text \<open>No access is out of range: the slot of every time is one of the week.\<close>

lemmas slot_access = week_get_Some [OF timeToSlot_range] week_set_Some [OF timeToSlot_range]

lemma UpdateBaseline_Some: "\<exists>s'. UpdateBaseline tz now m v s = Some s'"
  by (simp add: UpdateBaseline_def Let_def slot_access)

lemma Predict_Some: "\<exists>x. Predict tz now m d s = Some x"
  by (simp add: Predict_def Let_def slot_access split: option.split)

lemma CurrentBaseline_Some: "\<exists>x. CurrentBaseline tz now m s = Some x"
  by (simp add: CurrentBaseline_def slot_access split: option.split)

section \<open>Properties\<close>

text \<open>Observations of the reconciler and tables built from history, in any order.\<close>

datatype predictor_op = Observe time string float64 | Preload string "(int, float64) fmap"

fun predictor_run :: "(time \<Rightarrow> duration) \<Rightarrow> predictor_op list \<Rightarrow> SeasonalPredictor \<Rightarrow> SeasonalPredictor option" where
  "predictor_run tz [] s = Some s"
| "predictor_run tz (Observe now m v # ops) s =
     (case UpdateBaseline tz now m v s of None \<Rightarrow> None | Some s' \<Rightarrow> predictor_run tz ops s')"
| "predictor_run tz (Preload m a # ops) s = predictor_run tz ops (SetBaselines m (BuildBaselines a) s)"

text \<open>
  No array access of the predictor is out of range: after any observations and any tables built from
  history, at any time in any time zone, every observation and every prediction has a value.
\<close>

theorem predictor_total:
  "\<exists>s. predictor_run tz ops NewSeasonalPredictor = Some s
    \<and> Predict tz now m d s \<noteq> None \<and> CurrentBaseline tz now m s \<noteq> None"
proof -
  have "\<exists>s'. predictor_run tz ops s = Some s'" for s
  proof (induction tz ops s rule: predictor_run.induct)
    case (2 tz now m v ops s)
    then show ?case using UpdateBaseline_Some [of tz now m v s] by auto
  qed simp_all
  then show ?thesis using Predict_Some CurrentBaseline_Some by (metis option.distinct(1))
qed

end
