(* ===== verification/Node.thy ===== *)
theory Node
  imports Cost
begin

text \<open>
  \<open>internal/node\<close>: the cluster's nodes as the operator sees them, and whether more pods fit.  A
  quantity enters through its approximate \<open>float64\<close>.  The labels of a node are a map, its
  conditions the list of (type, status).  The pools of the code are a map whose iteration order is
  not specified; the parameter \<open>order\<close> is that order.
\<close>

record NodePoolInfo =
  np_Name :: string
  np_InstanceType :: string
  np_CurrentNodes :: int32
  np_CPUAllocatable :: float64
  np_MemAllocatable :: float64
  np_IsSpot :: bool
  np_CostPerHour :: float64

record NodeContext =
  nx_TotalNodes :: int32
  nx_ReadyNodes :: int32
  nx_ClusterCPURequested :: float64
  nx_ClusterMemRequested :: float64
  nx_ClusterCPUCapacity :: float64
  nx_ClusterMemCapacity :: float64
  nx_PendingPods :: int32
  nx_NodePools :: "NodePoolInfo list"

record k8s_node =
  kn_labels :: "(string, string) fmap"
  kn_conditions :: "(string \<times> string) list"
  kn_cpu :: float64
  kn_mem :: float64

record k8s_pod =
  kp_phase :: string
  kp_nodeName :: string
  kp_requests :: "(float64 \<times> float64) list"

section \<open>Collection\<close>

definition label_or :: "(string, string) fmap \<Rightarrow> string \<Rightarrow> string \<Rightarrow> string" where
  "label_or ls l d = (case fmlookup ls l of Some v \<Rightarrow> v | None \<Rightarrow> d)"

definition pool_name :: "(string, string) fmap \<Rightarrow> string" where
  "pool_name ls = label_or ls ''eks.amazonaws.com/nodegroup''
     (label_or ls ''cloud.google.com/gke-nodepool''
       (label_or ls ''node.kubernetes.io/instance-type'' ''default''))"

definition new_pool :: "(string, string) fmap \<Rightarrow> NodePoolInfo" where
  "new_pool ls = \<lparr>np_Name = pool_name ls, np_InstanceType = label_or ls ''node.kubernetes.io/instance-type'' [],
     np_CurrentNodes = 0, np_CPUAllocatable = 0, np_MemAllocatable = 0,
     np_IsSpot = (fmlookup ls ''cloud.google.com/gke-spot'' \<noteq> None
        \<or> fmlookup ls ''eks.amazonaws.com/capacityType'' = Some ''SPOT''),
     np_CostPerHour = 0\<rparr>"

definition add_node :: "k8s_node \<Rightarrow> NodeContext \<times> (string, NodePoolInfo) fmap
    \<Rightarrow> NodeContext \<times> (string, NodePoolInfo) fmap" where
  "add_node n s = (case s of (nc, pools) \<Rightarrow> (let
     ready = list_ex (\<lambda>(t, st). t = ''Ready'' \<and> st = ''True'') (kn_conditions n);
     nc1 = (if ready then nc \<lparr>nx_ReadyNodes := nx_ReadyNodes nc + 1\<rparr> else nc);
     nc2 = nc1 \<lparr>nx_ClusterCPUCapacity := nx_ClusterCPUCapacity nc1 + kn_cpu n,
                nx_ClusterMemCapacity := nx_ClusterMemCapacity nc1 + kn_mem n\<rparr>;
     name = pool_name (kn_labels n);
     pool = (case fmlookup pools name of Some p \<Rightarrow> p | None \<Rightarrow> new_pool (kn_labels n));
     pool1 = pool \<lparr>np_CurrentNodes := np_CurrentNodes pool + 1,
                   np_CPUAllocatable := np_CPUAllocatable pool + kn_cpu n,
                   np_MemAllocatable := np_MemAllocatable pool + kn_mem n\<rparr>
   in (nc2, fmupd name pool1 pools)))"

fun add_requests :: "(float64 \<times> float64) list \<Rightarrow> NodeContext \<Rightarrow> NodeContext" where
  "add_requests [] nc = nc"
| "add_requests ((cpu, mem) # rs) nc = add_requests rs
     (nc \<lparr>nx_ClusterCPURequested := nx_ClusterCPURequested nc + cpu,
          nx_ClusterMemRequested := nx_ClusterMemRequested nc + mem\<rparr>)"

definition add_pod :: "k8s_pod \<Rightarrow> NodeContext \<Rightarrow> NodeContext" where
  "add_pod p nc = (if kp_phase p = ''Pending'' then nc \<lparr>nx_PendingPods := nx_PendingPods nc + 1\<rparr>
     else if kp_nodeName p = [] \<or> kp_phase p = ''Succeeded'' \<or> kp_phase p = ''Failed'' then nc
     else add_requests (kp_requests p) nc)"

definition node_Collect :: "((string, NodePoolInfo) fmap \<Rightarrow> NodePoolInfo list) \<Rightarrow> go_error + k8s_node list
    \<Rightarrow> go_error + k8s_pod list \<Rightarrow> go_error + NodeContext" where
  "node_Collect order nodes pods = (case nodes of
     Inl e \<Rightarrow> Inl e
   | Inr ns \<Rightarrow> (let
       nc0 = \<lparr>nx_TotalNodes = word_of_int (int (length ns)), nx_ReadyNodes = 0, nx_ClusterCPURequested = 0,
              nx_ClusterMemRequested = 0, nx_ClusterCPUCapacity = 0, nx_ClusterMemCapacity = 0,
              nx_PendingPods = 0, nx_NodePools = []\<rparr>;
       (nc1, pools) = fold add_node ns (nc0, fmempty);
       nc2 = nc1 \<lparr>nx_NodePools := order pools\<rparr>
     in Inr (case pods of Inl e \<Rightarrow> nc2 | Inr ps \<Rightarrow> fold add_pod ps nc2)))"

section \<open>Feasibility\<close>

record FeasibilityResult =
  fr_CanSchedule :: bool
  fr_Reason :: string
  fr_RemainingCPU :: float64
  fr_RemainingMemory :: float64
  fr_ConsolidationPossible :: bool
  fr_ConsolidationNodeCount :: int32

definition CanSchedule :: "NodeContext \<Rightarrow> int32 \<Rightarrow> float64 \<Rightarrow> float64 \<Rightarrow> FeasibilityResult" where
  "CanSchedule nc additionalPods cpuPerPod memPerPod = (let
     cpuNeeded = cpuPerPod * f_of_int32 additionalPods;
     memNeeded = memPerPod * f_of_int32 additionalPods;
     remainingCPU = nx_ClusterCPUCapacity nc - nx_ClusterCPURequested nc;
     remainingMem = nx_ClusterMemCapacity nc - nx_ClusterMemRequested nc;
     result = \<lparr>fr_CanSchedule = False, fr_Reason = [], fr_RemainingCPU = remainingCPU,
       fr_RemainingMemory = remainingMem, fr_ConsolidationPossible = False, fr_ConsolidationNodeCount = 0\<rparr>
   in if remainingCPU < cpuNeeded then result \<lparr>fr_Reason := ''insufficient cluster CPU capacity''\<rparr>
      else if remainingMem < memNeeded then result \<lparr>fr_Reason := ''insufficient cluster memory capacity''\<rparr>
      else result \<lparr>fr_CanSchedule := True\<rparr>)"

fun find_consolidation :: "(float64 \<Rightarrow> int32) \<Rightarrow> float64 \<Rightarrow> NodePoolInfo list \<Rightarrow> int32 option" where
  "find_consolidation oor cpuFreed [] = None"
| "find_consolidation oor cpuFreed (pool # pools) =
     (if np_CurrentNodes pool <s 2 then find_consolidation oor cpuFreed pools
      else (let avg = np_CPUAllocatable pool div f_of_int32 (np_CurrentNodes pool) in
        if avg \<le> cpuFreed then Some (f_to_int32 oor (cpuFreed div avg))
        else find_consolidation oor cpuFreed pools))"

definition ConsolidationOpportunity :: "(float64 \<Rightarrow> int32) \<Rightarrow> NodeContext \<Rightarrow> int32 \<Rightarrow> float64 \<Rightarrow> FeasibilityResult" where
  "ConsolidationOpportunity oor nc removedPods cpuPerPod = (let
     cpuFreed = cpuPerPod * f_of_int32 removedPods;
     result = \<lparr>fr_CanSchedule = False, fr_Reason = [], fr_RemainingCPU = 0, fr_RemainingMemory = 0,
       fr_ConsolidationPossible = False, fr_ConsolidationNodeCount = 0\<rparr>
   in case find_consolidation oor cpuFreed (nx_NodePools nc) of
        None \<Rightarrow> result
      | Some n \<Rightarrow> result \<lparr>fr_ConsolidationPossible := True, fr_ConsolidationNodeCount := n\<rparr>)"

section \<open>Lemmas\<close>

lemma CanSchedule_iff:
  "fr_CanSchedule (CanSchedule nc n cpu mem) \<longleftrightarrow>
     \<not> nx_ClusterCPUCapacity nc - nx_ClusterCPURequested nc < cpu * f_of_int32 n
   \<and> \<not> nx_ClusterMemCapacity nc - nx_ClusterMemRequested nc < mem * f_of_int32 n"
  by (simp add: CanSchedule_def Let_def)

lemma add_node_pool:
  "fmlookup (snd (add_node n (nc, pools))) w = (if w = pool_name (kn_labels n)
     then Some (let pool = (case fmlookup pools w of Some p \<Rightarrow> p | None \<Rightarrow> new_pool (kn_labels n))
       in pool \<lparr>np_CurrentNodes := np_CurrentNodes pool + 1, np_CPUAllocatable := np_CPUAllocatable pool + kn_cpu n,
                np_MemAllocatable := np_MemAllocatable pool + kn_mem n\<rparr>)
     else fmlookup pools w)"
  by (simp add: add_node_def Let_def)

section \<open>Properties\<close>

text \<open>
  The pools partition the nodes: the \<open>int32\<close> counter of each pool is the number of nodes the labels
  assign to it, for any nodes in any order.
\<close>

theorem pool_counts:
  "(case fmlookup (snd (fold add_node ns (nc, fmempty))) w of Some p \<Rightarrow> np_CurrentNodes p | None \<Rightarrow> 0) =
    word_of_nat (length (List.filter (\<lambda>n. pool_name (kn_labels n) = w) ns))"
proof -
  have "(case fmlookup (snd (fold add_node ns (nc, pools))) w of Some p \<Rightarrow> np_CurrentNodes p | None \<Rightarrow> 0) =
      (case fmlookup pools w of Some p \<Rightarrow> np_CurrentNodes p | None \<Rightarrow> 0)
      + word_of_nat (length (List.filter (\<lambda>n. pool_name (kn_labels n) = w) ns))" for pools
  proof (induction ns arbitrary: nc pools)
    case (Cons n ns)
    obtain nc' pools' where s: "add_node n (nc, pools) = (nc', pools')" by force
    have "(case fmlookup pools' w of Some p \<Rightarrow> np_CurrentNodes p | None \<Rightarrow> 0) =
        (case fmlookup pools w of Some p \<Rightarrow> np_CurrentNodes p | None \<Rightarrow> 0)
        + (if pool_name (kn_labels n) = w then 1 else 0)"
      using add_node_pool [of n nc pools w] s
      by (auto simp: Let_def new_pool_def split: option.split)
    then show ?case using Cons.IH [of nc' pools'] s by simp
  qed simp
  then show ?thesis by simp
qed

end
