(* ===== verification/Telemetry.thy ===== *)
theory Telemetry
  imports Float64
begin

text \<open>
  \<open>internal/metrics/exporter.go\<close>: the metric vectors of the operator, their registration, and the class of
  an error; and every place of the program that reports to one of them.  A vector is its options and its
  label names.  The Prometheus client is not part of the repository: which label values \<open>WithLabelValues\<close>
  accepts for the label names of a vector, rather than panics, is a parameter.  Its documentation says that
  it panics when the numbers differ, and that \<open>MustRegister\<close> panics at two metrics of one name.
\<close>

section \<open>Vectors\<close>

datatype metric_kind = Counter | Gauge | Histogram "float64 list"

record metric_vec =
  mv_Name :: string
  mv_Help :: string
  mv_Kind :: metric_kind
  mv_Labels :: "string list"

definition ScalingDecisions :: metric_vec where
  "ScalingDecisions = \<lparr>mv_Name = ''aiscaler_scaling_decisions_total'', mv_Help = ''Total scaling decisions by direction and provider'',
     mv_Kind = Counter, mv_Labels = [''aiscaler'', ''provider'', ''direction'']\<rparr>"

definition CurrentReplicas :: metric_vec where
  "CurrentReplicas = \<lparr>mv_Name = ''aiscaler_current_replicas'', mv_Help = ''Current replica count per managed workload'',
     mv_Kind = Gauge, mv_Labels = [''aiscaler'', ''namespace'', ''deployment'']\<rparr>"

definition DesiredReplicas :: metric_vec where
  "DesiredReplicas = \<lparr>mv_Name = ''aiscaler_desired_replicas'', mv_Help = ''Desired replica count from last decision'',
     mv_Kind = Gauge, mv_Labels = [''aiscaler'', ''namespace'', ''deployment'']\<rparr>"

definition LLMLatency :: metric_vec where
  "LLMLatency = \<lparr>mv_Name = ''aiscaler_llm_latency_seconds'', mv_Help = ''LLM API call latency in seconds'',
     mv_Kind = Histogram [f_lit 1 10, f_lit 25 100, f_lit 5 10, f_lit 1 1, f_lit 25 10, f_lit 5 1, f_lit 10 1, f_lit 30 1], mv_Labels = [''provider'', ''model'']\<rparr>"

definition LLMErrors :: metric_vec where
  "LLMErrors = \<lparr>mv_Name = ''aiscaler_llm_errors_total'', mv_Help = ''LLM API call errors by provider and error type'',
     mv_Kind = Counter, mv_Labels = [''provider'', ''error_type'']\<rparr>"

definition LLMConfidence :: metric_vec where
  "LLMConfidence = \<lparr>mv_Name = ''aiscaler_llm_confidence'', mv_Help = ''LLM decision confidence score distribution'',
     mv_Kind = Histogram [f_lit 1 10, f_lit 2 10, f_lit 3 10, f_lit 4 10, f_lit 5 10, f_lit 6 10, f_lit 7 10, f_lit 8 10, f_lit 9 10, f_lit 10 10], mv_Labels = [''provider'']\<rparr>"

definition ValidationClamps :: metric_vec where
  "ValidationClamps = \<lparr>mv_Name = ''aiscaler_validation_clamps_total'', mv_Help = ''Times validator clamped an LLM decision'',
     mv_Kind = Counter, mv_Labels = [''aiscaler'', ''reason'']\<rparr>"

definition ReconcileDuration :: metric_vec where
  "ReconcileDuration = \<lparr>mv_Name = ''aiscaler_reconcile_duration_seconds'', mv_Help = ''Total reconcile cycle duration'',
     mv_Kind = Histogram [f_lit 1 10, f_lit 5 10, f_lit 1 1, f_lit 2 1, f_lit 5 1, f_lit 10 1, f_lit 30 1, f_lit 60 1], mv_Labels = [''aiscaler'']\<rparr>"

definition ReconcileErrors :: metric_vec where
  "ReconcileErrors = \<lparr>mv_Name = ''aiscaler_reconcile_errors_total'', mv_Help = ''Reconcile cycle errors by step and type'',
     mv_Kind = Counter, mv_Labels = [''aiscaler'', ''step'']\<rparr>"

definition SignalPluginHealth :: metric_vec where
  "SignalPluginHealth = \<lparr>mv_Name = ''aiscaler_signal_plugin_healthy'', mv_Help = ''Health status of each signal plugin (1=healthy, 0=unhealthy)'',
     mv_Kind = Gauge, mv_Labels = [''aiscaler'', ''plugin'']\<rparr>"

definition SignalCollectionLatency :: metric_vec where
  "SignalCollectionLatency = \<lparr>mv_Name = ''aiscaler_signal_collection_seconds'', mv_Help = ''Signal collection latency per plugin'',
     mv_Kind = Histogram [f_lit 1 100, f_lit 5 100, f_lit 1 10, f_lit 25 100, f_lit 5 10, f_lit 1 1, f_lit 2 1, f_lit 5 1], mv_Labels = [''plugin'']\<rparr>"

definition CircuitBreakerState :: metric_vec where
  "CircuitBreakerState = \<lparr>mv_Name = ''aiscaler_circuit_breaker_state'', mv_Help = ''Circuit breaker state (0=closed, 1=half-open, 2=open)'',
     mv_Kind = Gauge, mv_Labels = [''provider'']\<rparr>"

definition CostPerHour :: metric_vec where
  "CostPerHour = \<lparr>mv_Name = ''aiscaler_cost_per_hour_dollars'', mv_Help = ''Estimated hourly cost of managed workload'',
     mv_Kind = Gauge, mv_Labels = [''aiscaler'', ''namespace'', ''deployment'']\<rparr>"

definition SLOBreach :: metric_vec where
  "SLOBreach = \<lparr>mv_Name = ''aiscaler_slo_breach'', mv_Help = ''SLO breach status (1=breached, 0=ok)'',
     mv_Kind = Gauge, mv_Labels = [''aiscaler'', ''slo_name'', ''metric'']\<rparr>"

definition CacheHits :: metric_vec where
  "CacheHits = \<lparr>mv_Name = ''aiscaler_llm_cache_hits_total'', mv_Help = ''LLM response cache hits and misses'',
     mv_Kind = Counter, mv_Labels = [''result'']\<rparr>"

definition DryRunDecisions :: metric_vec where
  "DryRunDecisions = \<lparr>mv_Name = ''aiscaler_dryrun_decisions_total'', mv_Help = ''Scaling decisions made in dry-run mode'',
     mv_Kind = Counter, mv_Labels = [''aiscaler'', ''direction'']\<rparr>"

definition OscillationDetected :: metric_vec where
  "OscillationDetected = \<lparr>mv_Name = ''aiscaler_oscillation_detected'', mv_Help = ''Whether oscillation was detected (1=yes, 0=no)'',
     mv_Kind = Gauge, mv_Labels = [''aiscaler'']\<rparr>"

definition SLOHeadroom :: metric_vec where
  "SLOHeadroom = \<lparr>mv_Name = ''aiscaler_slo_headroom_percent'', mv_Help = ''SLO headroom percentage per SLO target'',
     mv_Kind = Gauge, mv_Labels = [''aiscaler'', ''slo_name'']\<rparr>"

definition WorkloadWaste :: metric_vec where
  "WorkloadWaste = \<lparr>mv_Name = ''aiscaler_workload_waste_percent'', mv_Help = ''Estimated resource waste percentage'',
     mv_Kind = Gauge, mv_Labels = [''aiscaler'', ''namespace'', ''deployment'']\<rparr>"

definition CostSavingsHourly :: metric_vec where
  "CostSavingsHourly = \<lparr>mv_Name = ''aiscaler_cost_savings_hourly'', mv_Help = ''Estimated hourly cost savings from scaling'',
     mv_Kind = Gauge, mv_Labels = [''aiscaler'']\<rparr>"

definition ApprovalPending :: metric_vec where
  "ApprovalPending = \<lparr>mv_Name = ''aiscaler_approval_pending'', mv_Help = ''Number of pending approval requests'',
     mv_Kind = Gauge, mv_Labels = [''aiscaler'']\<rparr>"

definition PredictionConfidence :: metric_vec where
  "PredictionConfidence = \<lparr>mv_Name = ''aiscaler_prediction_confidence'', mv_Help = ''Confidence of the seasonal prediction'',
     mv_Kind = Gauge, mv_Labels = [''aiscaler'', ''metric'']\<rparr>"

definition VerticalResizes :: metric_vec where
  "VerticalResizes = \<lparr>mv_Name = ''aiscaler_vertical_resizes_total'', mv_Help = ''Total vertical resize operations'',
     mv_Kind = Counter, mv_Labels = [''aiscaler'', ''strategy'']\<rparr>"

section \<open>Registration\<close>

text \<open>The vectors the package registers when it is loaded, in the order of the call.\<close>

definition exporter_vecs :: "metric_vec list" where
  "exporter_vecs = [ScalingDecisions, CurrentReplicas, DesiredReplicas, LLMLatency, LLMErrors, LLMConfidence,
     ValidationClamps, ReconcileDuration, ReconcileErrors, SignalPluginHealth, SignalCollectionLatency,
     CircuitBreakerState, CostPerHour, SLOBreach, CacheHits, DryRunDecisions, OscillationDetected, SLOHeadroom,
     WorkloadWaste, CostSavingsHourly, ApprovalPending, PredictionConfidence, VerticalResizes]"

section \<open>Classes of errors\<close>

definition contains_any :: "string \<Rightarrow> string list \<Rightarrow> bool" where
  "contains_any s substrs = list_ex (\<lambda>sub. length sub \<le> length s
     \<and> list_ex (\<lambda>i. take (length sub) (drop i s) = sub) [0..<length s - length sub + 1]) substrs"

definition ClassifyError :: "go_error option \<Rightarrow> string" where
  "ClassifyError err = (case err of None \<Rightarrow> []
   | Some s \<Rightarrow>
       (if contains_any s [''timeout'', ''deadline''] then ''timeout''
        else if contains_any s [''401'', ''403'', ''unauthorized'', ''forbidden''] then ''auth''
        else if contains_any s [''parse'', ''unmarshal'', ''json''] then ''parse''
        else ''server''))"

section \<open>Reports\<close>

datatype metric_op = Inc | SetTo float64 | Observe float64

record report =
  rp_vec :: metric_vec
  rp_values :: "string list"
  rp_op :: metric_op

text \<open>
  What the client library accepts: the label names of a vector, then the values of a call.  A row of reports
  goes through, or panics at the first that is not accepted.
\<close>

type_synonym label_check = "string list \<Rightarrow> string list \<Rightarrow> bool"

definition accepted :: "label_check \<Rightarrow> report \<Rightarrow> bool" where
  "accepted labels p = labels (mv_Labels (rp_vec p)) (rp_values p)"

definition exported :: "label_check \<Rightarrow> report list \<Rightarrow> bool" where
  "exported labels ps = list_all (accepted labels) ps"

text \<open>
  The documented behaviour: a call with another number of values than the vector has labels panics
  (\<open>rejects_miscount\<close>), and a call with the right number, the values being valid UTF-8, does not
  (\<open>counts_labels\<close>; the values of the program are names of API objects, literals and decoded JSON).
\<close>

definition rejects_miscount :: "label_check \<Rightarrow> bool" where
  "rejects_miscount labels \<longleftrightarrow> (\<forall>names vals. labels names vals \<longrightarrow> length vals = length names)"

definition counts_labels :: "label_check \<Rightarrow> bool" where
  "counts_labels labels \<longleftrightarrow> (\<forall>names vals. labels names vals \<longleftrightarrow> length vals = length names)"

definition label_count :: label_check where
  "label_count names vals \<longleftrightarrow> length vals = length names"

definition flag_value :: "bool \<Rightarrow> float64" where
  "flag_value b = (if b then 1 else 0)"

definition report_cache :: "bool \<Rightarrow> report" where
  "report_cache hit = \<lparr>rp_vec = CacheHits, rp_values = [if hit then ''hit'' else ''miss''], rp_op = Inc\<rparr>"

definition report_breaker :: "string \<Rightarrow> string \<Rightarrow> report" where
  "report_breaker provider state = \<lparr>rp_vec = CircuitBreakerState, rp_values = [provider],
     rp_op = SetTo (if state = ''half-open'' then 1 else if state = ''open'' then f_of_int 2 else 0)\<rparr>"

definition report_collection :: "string \<Rightarrow> float64 \<Rightarrow> report" where
  "report_collection plugin secs = \<lparr>rp_vec = SignalCollectionLatency, rp_values = [plugin], rp_op = Observe secs\<rparr>"

definition report_step_error :: "string \<Rightarrow> string \<Rightarrow> report" where
  "report_step_error name step = \<lparr>rp_vec = ReconcileErrors, rp_values = [name, step], rp_op = Inc\<rparr>"

definition report_duration :: "string \<Rightarrow> float64 \<Rightarrow> report" where
  "report_duration name secs = \<lparr>rp_vec = ReconcileDuration, rp_values = [name], rp_op = Observe secs\<rparr>"

definition report_health :: "string \<Rightarrow> string \<Rightarrow> bool \<Rightarrow> report" where
  "report_health name plugin healthy = \<lparr>rp_vec = SignalPluginHealth, rp_values = [name, plugin],
     rp_op = SetTo (flag_value healthy)\<rparr>"

definition report_prediction :: "string \<Rightarrow> string \<Rightarrow> float64 \<Rightarrow> report" where
  "report_prediction name metric conf = \<lparr>rp_vec = PredictionConfidence, rp_values = [name, metric], rp_op = SetTo conf\<rparr>"

definition report_breach :: "string \<Rightarrow> string \<Rightarrow> string \<Rightarrow> bool \<Rightarrow> report" where
  "report_breach name slo metric breached = \<lparr>rp_vec = SLOBreach, rp_values = [name, slo, metric],
     rp_op = SetTo (flag_value breached)\<rparr>"

definition report_llm_latency :: "string \<Rightarrow> string \<Rightarrow> float64 \<Rightarrow> report" where
  "report_llm_latency provider model secs = \<lparr>rp_vec = LLMLatency,
     rp_values = [provider, if model = [] then ''default'' else model], rp_op = Observe secs\<rparr>"

definition report_llm_error :: "string \<Rightarrow> go_error \<Rightarrow> report" where
  "report_llm_error primary err = \<lparr>rp_vec = LLMErrors, rp_values = [primary, ClassifyError (Some err)], rp_op = Inc\<rparr>"

definition report_confidence :: "string \<Rightarrow> float64 \<Rightarrow> report" where
  "report_confidence provider conf = \<lparr>rp_vec = LLMConfidence, rp_values = [provider], rp_op = Observe conf\<rparr>"

definition report_oscillation :: "string \<Rightarrow> bool \<Rightarrow> report" where
  "report_oscillation name detected = \<lparr>rp_vec = OscillationDetected, rp_values = [name],
     rp_op = SetTo (flag_value detected)\<rparr>"

definition report_savings :: "string \<Rightarrow> float64 \<Rightarrow> report" where
  "report_savings name delta = \<lparr>rp_vec = CostSavingsHourly, rp_values = [name], rp_op = SetTo (- delta)\<rparr>"

definition report_waste :: "string \<Rightarrow> float64 \<Rightarrow> report" where
  "report_waste name waste = \<lparr>rp_vec = WorkloadWaste, rp_values = [name], rp_op = SetTo waste\<rparr>"

definition report_approval :: "string \<Rightarrow> bool \<Rightarrow> report" where
  "report_approval name pending = \<lparr>rp_vec = ApprovalPending, rp_values = [name], rp_op = SetTo (flag_value pending)\<rparr>"

definition report_clamp :: "string \<Rightarrow> string \<Rightarrow> report" where
  "report_clamp name reason = \<lparr>rp_vec = ValidationClamps, rp_values = [name, reason], rp_op = Inc\<rparr>"

definition report_dry_run :: "string \<Rightarrow> string \<Rightarrow> report" where
  "report_dry_run name direction = \<lparr>rp_vec = DryRunDecisions, rp_values = [name, direction], rp_op = Inc\<rparr>"

definition report_decision :: "string \<Rightarrow> string \<Rightarrow> string \<Rightarrow> report" where
  "report_decision name provider direction = \<lparr>rp_vec = ScalingDecisions, rp_values = [name, provider, direction], rp_op = Inc\<rparr>"

definition report_current :: "string \<Rightarrow> string \<Rightarrow> string \<Rightarrow> int32 \<Rightarrow> report" where
  "report_current name ns target n = \<lparr>rp_vec = CurrentReplicas, rp_values = [name, ns, target],
     rp_op = SetTo (f_of_int (sint n))\<rparr>"

definition report_desired :: "string \<Rightarrow> string \<Rightarrow> string \<Rightarrow> int32 \<Rightarrow> report" where
  "report_desired name ns target n = \<lparr>rp_vec = DesiredReplicas, rp_values = [name, ns, target],
     rp_op = SetTo (f_of_int (sint n))\<rparr>"

text \<open>All the places of the program that report, whatever the values they report.\<close>

inductive reported :: "report \<Rightarrow> bool" where
  "reported (report_cache hit)"
| "reported (report_breaker provider state)"
| "reported (report_collection plugin secs)"
| "reported (report_step_error name step)"
| "reported (report_duration name secs)"
| "reported (report_health name plugin healthy)"
| "reported (report_prediction name metric conf)"
| "reported (report_breach name slo metric breached)"
| "reported (report_llm_latency provider model secs)"
| "reported (report_llm_error primary err)"
| "reported (report_confidence provider conf)"
| "reported (report_oscillation name detected)"
| "reported (report_savings name delta)"
| "reported (report_waste name waste)"
| "reported (report_approval name pending)"
| "reported (report_clamp name reason)"
| "reported (report_dry_run name direction)"
| "reported (report_decision name provider direction)"
| "reported (report_current name ns target n)"
| "reported (report_desired name ns target n)"

section \<open>Lemmas\<close>

lemmas vec_defs = ScalingDecisions_def CurrentReplicas_def DesiredReplicas_def LLMLatency_def LLMErrors_def LLMConfidence_def
  ValidationClamps_def ReconcileDuration_def ReconcileErrors_def SignalPluginHealth_def SignalCollectionLatency_def
  CircuitBreakerState_def CostPerHour_def SLOBreach_def CacheHits_def DryRunDecisions_def OscillationDetected_def
  SLOHeadroom_def WorkloadWaste_def CostSavingsHourly_def ApprovalPending_def PredictionConfidence_def VerticalResizes_def

lemmas report_defs = report_cache_def report_breaker_def report_collection_def report_step_error_def report_duration_def
  report_health_def report_prediction_def report_breach_def report_llm_latency_def report_llm_error_def
  report_confidence_def report_oscillation_def report_savings_def report_waste_def report_approval_def report_clamp_def
  report_dry_run_def report_decision_def report_current_def report_desired_def

lemma occurs_iff:
  "length sub \<le> length s \<and> list_ex (\<lambda>i. take (length sub) (drop i s) = sub) [0..<length s - length sub + 1]
    \<longleftrightarrow> sublist sub s"
proof
  assume "length sub \<le> length s \<and> list_ex (\<lambda>i. take (length sub) (drop i s) = sub) [0..<length s - length sub + 1]"
  then obtain i where "take (length sub) (drop i s) = sub" unfolding list_ex_iff by blast
  then have "s = take i s @ sub @ drop (length sub) (drop i s)" by (metis append_take_drop_id)
  then show "sublist sub s" unfolding sublist_def by blast
next
  assume "sublist sub s"
  then obtain ps ss where "s = ps @ sub @ ss" by (auto simp: sublist_def)
  then show "length sub \<le> length s \<and> list_ex (\<lambda>i. take (length sub) (drop i s) = sub) [0..<length s - length sub + 1]"
    by (auto simp: list_ex_iff intro!: bexI [of _ "length ps"])
qed

lemma contains_any_iff: "contains_any s subs \<longleftrightarrow> (\<exists>sub\<in>set subs. sublist sub s)"
  unfolding contains_any_def occurs_iff by (auto simp: list_ex_iff)

lemma label_count_counts: "counts_labels label_count" "rejects_miscount label_count"
  by (simp_all add: counts_labels_def rejects_miscount_def label_count_def)

text \<open>Three of the vectors are registered and never reported to.\<close>

lemma unreported_vecs: "reported p \<Longrightarrow> rp_vec p \<notin> {CostPerHour, SLOHeadroom, VerticalResizes}"
  by (induction rule: reported.induct) (simp_all add: report_defs vec_defs)

section \<open>Properties\<close>

text \<open>
  The names of the registered vectors differ, and every vector the program reports to is registered.
\<close>

theorem exporter_registered:
  "distinct (List.map mv_Name exporter_vecs) \<and> (reported p \<longrightarrow> rp_vec p \<in> set exporter_vecs)"
proof -
  have "distinct (List.map mv_Name exporter_vecs)"
    by (simp add: exporter_vecs_def vec_defs)
  moreover have "rp_vec p \<in> set exporter_vecs" if "reported p"
    using that by cases (simp_all add: report_defs exporter_vecs_def)
  ultimately show ?thesis by blast
qed

text \<open>
  The one report that panics: of all the places that report a metric, whatever the values, only the report of
  the workload's waste passes a number of label values its vector does not have.
\<close>

theorem reports_labelled:
  assumes "reported p" and "counts_labels labels"
  shows "accepted labels p \<longleftrightarrow> rp_vec p \<noteq> WorkloadWaste"
  using assms(1) assms(2) [unfolded counts_labels_def]
  by cases (simp_all add: report_defs vec_defs accepted_def)

lemma reports_labelled_witness:
  "\<not> accepted label_count (report_waste ''web'' 1) \<and> accepted label_count (report_clamp ''web'' ''step'')"
  using reports_labelled [OF reported.intros(14) label_count_counts(1), of "''web''" 1]
    reports_labelled [OF reported.intros(16) label_count_counts(1), of "''web''" "''step''"]
  by (simp add: report_defs vec_defs)

text \<open>
  An error is classed by the first of four groups of words that occurs anywhere in its text: a timeout comes
  before a refusal, a refusal before an unreadable answer, and only an error with none of the words counts
  as one of the server.
\<close>

theorem ClassifyError_first:
  "ClassifyError (Some s) =
    (if sublist ''timeout'' s \<or> sublist ''deadline'' s then ''timeout''
     else if sublist ''401'' s \<or> sublist ''403'' s \<or> sublist ''unauthorized'' s \<or> sublist ''forbidden'' s then ''auth''
     else if sublist ''parse'' s \<or> sublist ''unmarshal'' s \<or> sublist ''json'' s then ''parse'' else ''server'')"
  by (simp add: ClassifyError_def contains_any_iff)

end
