(* ===== verification/Controller_State.thy ===== *)
theory Controller_State
  imports Alerting Plugin_Manager Slo Reactive Precedence Oscillation Coordinator Rollback Approval Feedback
    Notification Prediction Node Telemetry
begin

text \<open>
  The data of the reconciler in \<open>internal/controller/aiscaler_controller.go\<close>: the state one
  reconcile carries between its steps, the reconciler with its subsystems, the environment of one
  reconcile (clocks, API server, parsers), and the pure helper functions of the second half of the
  file.
\<close>

section \<open>State of one reconcile\<close>

record 'q reconcileState =
  x_obj :: "'q AIScaler"
  x_bundle :: "Bundle option"
  x_decision :: "ScalingDecision option"
  x_llmDecision :: "ScalingDecision option"
  x_reactiveDecision :: "ScalingDecision option"
  x_deterministicDecision :: "ScalingDecision option"
  x_sloDecision :: "ScalingDecision option"
  x_safetyDecision :: "ScalingDecision option"
  x_humanDecision :: "ScalingDecision option"
  x_provider :: LLMProvider
  x_llmProvider :: LLMProvider
  x_safetySource :: LLMProvider
  x_validation :: "ValidationResult option"
  x_phase :: ScalingPhase
  x_precedence :: "ResolvedDecision option"
  x_rollbackAction :: "RollbackAction option"
  x_currentSLOs :: "SLOStatus list"
  x_coordinationSlotHeld :: bool
  x_coordinationWorkload :: string
  x_currentWorkloadCost :: "WorkloadCost option"
  x_costEstimate :: "CostEstimate option"
  x_costCeiling :: "int32 option"
  x_costReason :: string
  x_nodeCtx :: "NodeContext option"
  x_currentResources :: "'q ResourceStatus option"
  x_verticalDecision :: "'q VerticalDecision option"
  x_verticalContext :: string
  x_feedbackContext :: string
  x_feedbackStatus :: "FeedbackStatus option"
  x_verticalApplyResult :: "'q VerticalApplyResult option"
  x_decisionID :: string
  x_predictedCPU :: float64
  x_cpuConfidence :: float64
  x_predictedQueueDepth :: float64
  x_queueConfidence :: float64

definition new_state :: "'q AIScaler \<Rightarrow> string \<Rightarrow> 'q reconcileState" where
  "new_state obj uuid = \<lparr>x_obj = obj, x_bundle = None, x_decision = None, x_llmDecision = None,
     x_reactiveDecision = None, x_deterministicDecision = None, x_sloDecision = None,
     x_safetyDecision = None, x_humanDecision = None, x_provider = [], x_llmProvider = [],
     x_safetySource = [], x_validation = None, x_phase = PhaseObserving, x_precedence = None,
     x_rollbackAction = None, x_currentSLOs = [], x_coordinationSlotHeld = False,
     x_coordinationWorkload = [], x_currentWorkloadCost = None, x_costEstimate = None,
     x_costCeiling = None, x_costReason = [], x_nodeCtx = None, x_currentResources = None,
     x_verticalDecision = None, x_verticalContext = [], x_feedbackContext = [],
     x_feedbackStatus = None, x_verticalApplyResult = None, x_decisionID = uuid,
     x_predictedCPU = 0, x_cpuConfidence = 0, x_predictedQueueDepth = 0, x_queueConfidence = 0\<rparr>"

abbreviation x_spec :: "'q reconcileState \<Rightarrow> 'q AIScalerSpec" where
  "x_spec s \<equiv> ai_Spec (x_obj s)"

section \<open>The reconciler\<close>

text \<open>
  A pointer to a subsystem without state of its own is a flag.  The last five fields record
  what leaves the process, in order: the patches of workloads, the notifications with the answer of
  every notifier, the alerts with the outcome of their webhook, the writes of the resource and the
  writes of its status.  The maps of the
  ConfigMaps of the audit store are the field \<open>r_auditMaps\<close>.
\<close>

record 'q Reconciler =
  r_Router :: Router
  r_VerticalActuator :: bool
  r_Alerting :: "Evaluator option"
  r_OscillationDetector :: "OscillationDetector option"
  r_RollbackManager :: bool
  r_Coordinator :: "ClusterCoordinator option"
  r_CoordinationRequeue :: duration
  r_ClusterMaxHourlyCost :: float64
  r_CostClient :: "string option"
  r_CostEstimator :: bool
  r_BudgetEnforcer :: bool
  r_AuditStore :: "ConfigMapStore option"
  r_ApprovalManager :: bool
  r_Dispatcher :: "Dispatcher option"
  r_NodeCollector :: bool
  r_Predictor :: "SeasonalPredictor option"
  r_FeedbackEvaluator :: bool
  r_auditMaps :: cluster
  r_patches :: "'q Patch list"
  r_events :: "(Event \<times> (string \<times> go_error option) list) list"
  r_alerts :: "(FiredAlert list \<times> go_error option) list"
  r_updates :: "'q AIScaler list"
  r_statuses :: "'q AIScaler list"

text \<open>
  One reconcile's environment.  \<open>e_now\<close> is the clock at each place that reads it.  The API server
  answers a write with an error or with the object as stored.
\<close>

record 'q Env =
  e_now :: "string \<Rightarrow> time"
  e_uuid :: string
  e_get :: "api_error + 'q AIScaler"
  e_update :: "'q AIScaler \<Rightarrow> api_error + 'q AIScaler"
  e_status_update :: "'q AIScaler \<Rightarrow> api_error + 'q AIScaler"
  e_policies :: "api_error + 'q AIScaler list"
  e_client :: "'q Client"
  e_quantities :: "'q QuantityOps"
  e_plugins :: "'q PluginEnv"
  e_router :: RouterEnv
  e_store :: StoreEnv
  e_nodes :: "go_error + k8s_node list"
  e_pods :: "go_error + k8s_pod list"
  e_pool_order :: "(string, NodePoolInfo) fmap \<Rightarrow> NodePoolInfo list"
  e_cost_fetch :: "string \<Rightarrow> http_result"
  e_cost_decode :: "string \<Rightarrow> go_error + (string, allocationEntry) fmap list"
  e_time_zone :: "time \<Rightarrow> duration"
  e_float_overflow :: "float64 \<Rightarrow> int32"
  e_parse_float :: "string \<Rightarrow> go_error + float64"
  e_alert_clock :: AlertClock
  e_alert_marshal :: "FiredAlert list \<Rightarrow> go_error + string"
  e_alert_post :: "string \<Rightarrow> string \<Rightarrow> string \<Rightarrow> http_result"
  e_set_condition :: "Condition \<Rightarrow> Condition list \<Rightarrow> Condition list"
  e_duration_text :: "duration \<Rightarrow> string"
  e_time_text :: "time \<Rightarrow> string"
  e_labels :: label_check

record ctrl_Result =
  cr_Requeue :: bool
  cr_RequeueAfter :: duration

definition empty_result :: ctrl_Result where
  "empty_result = \<lparr>cr_Requeue = False, cr_RequeueAfter = 0\<rparr>"

definition requeue_after :: "duration \<Rightarrow> ctrl_Result" where
  "requeue_after d = \<lparr>cr_Requeue = False, cr_RequeueAfter = d\<rparr>"

text \<open>
  A step, and a reconcile, fails with an error it returns or with a panic, which unwinds past the error
  handling of the reconcile; its deferred calls still run.
\<close>

datatype failure = Failed go_error | Panicked string

definition inconsistent_cardinality :: string where
  "inconsistent_cardinality = ''inconsistent label cardinality''"

definition nil_dereference :: string where
  "nil_dereference = ''nil pointer dereference''"

definition index_out_of_range :: string where
  "index_out_of_range = ''index out of range''"

definition slice_out_of_range :: string where
  "slice_out_of_range = ''slice bounds out of range''"

type_synonym 'q step =
  "'q Env \<Rightarrow> 'q reconcileState \<times> 'q Reconciler \<Rightarrow> (failure + ctrl_Result option) \<times> 'q reconcileState \<times> 'q Reconciler"

section \<open>Conditions and notifications\<close>

definition setCondition :: "'q Env \<Rightarrow> string \<Rightarrow> string \<Rightarrow> string \<Rightarrow> string \<Rightarrow> 'q AIScaler \<Rightarrow> 'q AIScaler" where
  "setCondition env condType status reason message obj = obj \<lparr>ai_Status := ai_Status obj
     \<lparr>st_Conditions := e_set_condition env
        \<lparr>cond_Type = condType, cond_Status = status, cond_ObservedGeneration = ai_Generation obj,
         cond_LastTransitionTime = zero_time, cond_Reason = reason, cond_Message = message\<rparr>
        (st_Conditions (ai_Status obj))\<rparr>\<rparr>"

definition set_cond :: "'q Env \<Rightarrow> string \<Rightarrow> string \<Rightarrow> string \<Rightarrow> string \<Rightarrow> 'q reconcileState \<Rightarrow> 'q reconcileState" where
  "set_cond env condType status reason message s =
     s \<lparr>x_obj := setCondition env condType status reason message (x_obj s)\<rparr>"

definition workload_event :: "'q Env \<Rightarrow> 'q reconcileState \<Rightarrow> string \<Rightarrow> string \<Rightarrow> string \<Rightarrow> Event" where
  "workload_event env s type severity message =
     \<lparr>ev_Type = type, ev_Severity = severity, ev_Workload = target_name (x_obj s),
      ev_Namespace = target_ns (x_obj s), ev_Cluster = [], ev_Message = message, ev_Details = fmempty,
      ev_Timestamp = e_now env type\<rparr>"

definition notify :: "'q Env \<Rightarrow> 'q reconcileState \<Rightarrow> string \<Rightarrow> string \<Rightarrow> string \<Rightarrow> 'q Reconciler \<Rightarrow> 'q Reconciler" where
  "notify env s type severity message r = (case r_Dispatcher r of
     None \<Rightarrow> r
   | Some d \<Rightarrow> (let e = workload_event env s type severity message
       in r \<lparr>r_events := r_events r @ [(e, Dispatch e d)]\<rparr>))"

section \<open>Decisions\<close>

definition actionTypeForTarget :: "int32 \<Rightarrow> int32 \<Rightarrow> string" where
  "actionTypeForTarget target current =
     (if current <s target then ''scale_up'' else if target <s current then ''scale_down'' else ''no_change'')"

definition mk_decision :: "int32 \<Rightarrow> string \<Rightarrow> float64 \<Rightarrow> string \<Rightarrow> ScalingDecision" where
  "mk_decision target reasoning confidence act = zero_ScalingDecision \<lparr>sd_TargetReplicas := target,
     sd_Reasoning := reasoning, sd_Confidence := confidence, sd_ActionType := act\<rparr>"

definition raise_target :: "int32 \<Rightarrow> ScalingDecision option \<Rightarrow> int32" where
  "raise_target target candidate = (case candidate of
     None \<Rightarrow> target | Some d \<Rightarrow> (if target <s sd_TargetReplicas d then sd_TargetReplicas d else target))"

definition buildSLODecision :: "'q reconcileState \<Rightarrow> ScalingDecision option" where
  "buildSLODecision s = (case x_bundle s of
     None \<Rightarrow> None
   | Some b \<Rightarrow> (if length (x_currentSLOs s) = 0 \<or> \<not> AnyBreached (x_currentSLOs s) then None
       else (let target = raise_target (raise_target (raise_target (b_CurrentReplicas b)
               (x_reactiveDecision s)) (x_llmDecision s)) (x_deterministicDecision s)
         in Some (mk_decision target ''SLO breach prevents scale-down while objectives are violated'' 1
              (actionTypeForTarget target (b_CurrentReplicas b))))))"

definition target_of :: "ScalingDecision option \<Rightarrow> int32 option" where
  "target_of d = map_option sd_TargetReplicas d"

definition reason_of :: "ScalingDecision option \<Rightarrow> string" where
  "reason_of d = (case d of None \<Rightarrow> [] | Some x \<Rightarrow> sd_Reasoning x)"

definition buildPrecedenceInputs :: "'q reconcileState \<Rightarrow> bool \<Rightarrow> bool \<Rightarrow> PrecedenceInputs" where
  "buildPrecedenceInputs s includeHuman includeCost = (let
     prec = spec_Precedence (x_spec s);
     human = (if includeHuman then x_humanDecision s else None);
     useCost = includeCost \<and> x_costCeiling s \<noteq> None
   in \<lparr>pi_SafetyOverride = target_of (x_safetyDecision s), pi_SafetyReason = reason_of (x_safetyDecision s),
       pi_HumanOverride = target_of human, pi_HumanReason = reason_of human,
       pi_ScheduleTarget = None, pi_ScheduleReason = [],
       pi_SLOTarget = target_of (x_sloDecision s), pi_SLOReason = reason_of (x_sloDecision s),
       pi_ReactiveTarget = target_of (x_reactiveDecision s), pi_ReactiveReason = reason_of (x_reactiveDecision s),
       pi_LLMTarget = target_of (x_llmDecision s), pi_LLMReason = reason_of (x_llmDecision s),
       pi_LLMConfidence = (case x_llmDecision s of None \<Rightarrow> 0 | Some d \<Rightarrow> sd_Confidence d),
       pi_DeterministicTarget = target_of (x_deterministicDecision s),
       pi_DeterministicReason = reason_of (x_deterministicDecision s),
       pi_CostConstrainedMax = (if useCost then x_costCeiling s else None),
       pi_CostReason = (if useCost then x_costReason s else []),
       pi_MinReplicas = sc_MinReplicas (spec_Constraints (x_spec s)),
       pi_MaxReplicas = sc_MaxReplicas (spec_Constraints (x_spec s)),
       pi_ScheduleOverridesLLM = map_option pc_ScheduleOverridesLLM prec,
       pi_ReactiveRulesOverrideLLM = map_option pc_ReactiveRulesOverrideLLM prec,
       pi_SLOAlwaysWins = map_option pc_SLOAlwaysWins prec\<rparr>)"

definition decisionForLayer :: "'q reconcileState \<Rightarrow> string \<Rightarrow> ScalingDecision option \<times> LLMProvider" where
  "decisionForLayer s layer =
     (if layer = ''safety'' then (case x_safetyDecision s of
        Some d \<Rightarrow> (Some d, if x_safetySource s = [] then ''safety'' else x_safetySource s) | None \<Rightarrow> (None, []))
      else if layer = ''human'' then (x_humanDecision s, ''approval-hold'')
      else if layer = ''slo'' then (x_sloDecision s, ''slo'')
      else if layer = ''reactive'' then (x_reactiveDecision s, ''reactive-rule'')
      else if layer = ''llm'' then (x_llmDecision s, x_llmProvider s)
      else if layer = ''deterministic'' then (x_deterministicDecision s, ''keda'')
      else (None, []))"

text \<open>The loop over the applied layers: the base layer, and the cost layer's reason if it applied.\<close>

fun applied_layers :: "AuditEntry list \<Rightarrow> string \<times> bool \<times> string \<Rightarrow> string \<times> bool \<times> string" where
  "applied_layers [] acc = acc"
| "applied_layers (e # es) (baseLayer, costApplied, costReason) =
     (if \<not> ae_Applied e then applied_layers es (baseLayer, costApplied, costReason)
      else if ae_Layer e = ''cost'' then applied_layers es (baseLayer, True, ae_Reason e)
      else applied_layers es (if baseLayer = [] then ae_Layer e else baseLayer, costApplied, costReason))"

definition appliedLayerReason :: "ResolvedDecision \<Rightarrow> string \<Rightarrow> string" where
  "appliedLayerReason resolved layerName =
     (case List.find (\<lambda>e. ae_Layer e = layerName) (rd_Layers resolved) of Some e \<Rightarrow> ae_Reason e | None \<Rightarrow> [])"

text \<open>A copy of an immutable value is the value.\<close>

definition cloneScalingDecision :: "ScalingDecision \<Rightarrow> ScalingDecision" where
  "cloneScalingDecision d = \<lparr>sd_TargetReplicas = sd_TargetReplicas d, sd_Reasoning = sd_Reasoning d,
     sd_Confidence = sd_Confidence d, sd_ActionType = sd_ActionType d, sd_Urgency = sd_Urgency d,
     sd_ReasonCodes = sd_ReasonCodes d, sd_VerticalChanges = sd_VerticalChanges d\<rparr>"

definition materializeResolvedDecision :: "'q reconcileState \<Rightarrow> Bundle \<Rightarrow> ResolvedDecision
    \<Rightarrow> ScalingDecision \<times> LLMProvider" where
  "materializeResolvedDecision s b resolved = (let
     (baseLayer, costApplied, costReason) = applied_layers (rd_Layers resolved) ([], False, []);
     (found, provider) = decisionForLayer s baseLayer;
     base = (case found of Some d \<Rightarrow> d
       | None \<Rightarrow> mk_decision (rd_TargetReplicas resolved) ''resolved scaling decision'' 1 []);
     d1 = (cloneScalingDecision base) \<lparr>sd_TargetReplicas := rd_TargetReplicas resolved,
       sd_ActionType := actionTypeForTarget (rd_TargetReplicas resolved) (b_CurrentReplicas b)\<rparr>;
     d2 = (if sd_Reasoning d1 = [] then d1 \<lparr>sd_Reasoning := appliedLayerReason resolved baseLayer\<rparr> else d1);
     d3 = (if \<not> costApplied then d2
       else if sd_Reasoning d2 = [] then d2 \<lparr>sd_Reasoning := costReason\<rparr>
       else if costReason \<noteq> [] then d2 \<lparr>sd_Reasoning := sd_Reasoning d2 @ ''; '' @ costReason\<rparr> else d2);
     provider1 = (if costApplied then ''cost-override'' else provider)
   in (d3, if provider1 = [] then ''precedence'' else provider1))"

text \<open>\<open>strings.SplitN(s, ": ", 2)\<close>: the parts around the first separator, or nothing.\<close>

fun split_colon :: "string \<Rightarrow> string \<Rightarrow> (string \<times> string) option" where
  "split_colon acc [] = None"
| "split_colon acc (c # cs) = (if prefix '': '' (c # cs) then Some (acc, drop 1 cs) else split_colon (acc @ [c]) cs)"

definition buildPrecedenceStatus :: "ResolvedDecision \<Rightarrow> PrecedenceStatus" where
  "buildPrecedenceStatus resolved = \<lparr>pcs_ResolvedReplicas = rd_TargetReplicas resolved,
     pcs_Conflicts = List.map (\<lambda>conflict. case split_colon [] conflict of
         Some (layer, message) \<Rightarrow> \<lparr>pcf_Layer = layer, pcf_Message = message\<rparr>
       | None \<Rightarrow> \<lparr>pcf_Layer = conflict, pcf_Message = conflict\<rparr>) (rd_Conflicts resolved),
     pcs_ActiveOverrides = List.map (\<lambda>e. \<lparr>ao_Layer = ae_Layer e, ao_ExpiresAt = []\<rparr>)
       (List.filter (\<lambda>e. ae_Applied e \<and> ae_Layer e \<noteq> ''llm'') (rd_Layers resolved))\<rparr>"

definition shouldSkipLLMForReactiveRules :: "PrecedenceConfig option \<Rightarrow> bool" where
  "shouldSkipLLMForReactiveRules config = (case config of None \<Rightarrow> True | Some c \<Rightarrow> pc_ReactiveRulesOverrideLLM c)"

definition selectRollbackRecord :: "DecisionRecord list \<Rightarrow> int32 \<Rightarrow> DecisionRecord option" where
  "selectRollbackRecord records current = List.find (\<lambda>rec. \<not> (\<not> dr_Applied rec \<or> dr_DryRun rec
     \<or> dr_NewReplicas rec = dr_PreviousReplicas rec) \<and> \<not> dr_NewReplicas rec \<noteq> current) records"

section \<open>Cost\<close>

definition cost_cap_message :: "int32 \<Rightarrow> string" where
  "cost_cap_message n = ''cost budget caps replicas at '' @ show_int32 n"

definition computeCostCeiling :: "(float64 \<Rightarrow> int32) \<Rightarrow> CostConstraints \<Rightarrow> CostEstimate \<Rightarrow> int32
    \<Rightarrow> int32 option \<times> string" where
  "computeCostCeiling oor constraints estimate minReplicas =
     (if est_CostPerReplica estimate \<le> 0 then (None, [])
      else (let
        hourly = (if 0 < cx_MaxHourlyCost constraints
          then Some (f_to_int32 oor (cx_MaxHourlyCost constraints div est_CostPerReplica estimate)) else None);
        maxAffordable = (if 0 < cx_MaxMonthlyCost constraints
          then (let monthlyCap = f_to_int32 oor ((cx_MaxMonthlyCost constraints div f_of_int (24 * 30)) div est_CostPerReplica estimate)
            in case hourly of None \<Rightarrow> Some monthlyCap
               | Some h \<Rightarrow> Some (if monthlyCap <s h then monthlyCap else h))
          else hourly)
      in case maxAffordable of
           None \<Rightarrow> (None, [])
         | Some m \<Rightarrow> (let m' = (if m <s minReplicas then minReplicas else m)
             in (Some m', cost_cap_message m'))))"

definition computeBudgetUtilization :: "CostConstraints \<Rightarrow> CostEstimate \<Rightarrow> float64" where
  "computeBudgetUtilization constraints estimate = (let
     utilization = (if 0 < cx_MaxHourlyCost constraints
       then est_ProposedHourlyCost estimate div cx_MaxHourlyCost constraints * f_of_int 100 else 0)
   in if 0 < cx_MaxMonthlyCost constraints
      then (let monthlyUtilization = est_ProposedHourlyCost estimate * f_of_int 24 * f_of_int 30
              div cx_MaxMonthlyCost constraints * f_of_int 100
        in if utilization < monthlyUtilization then monthlyUtilization else utilization)
      else utilization)"

section \<open>Coordination\<close>

definition coordinationDelay :: "'q Reconciler \<Rightarrow> duration" where
  "coordinationDelay r = (if 0 < r_CoordinationRequeue r then r_CoordinationRequeue r else 15 * second)"

definition coordinationWorkloadName :: "'q AIScaler \<Rightarrow> string" where
  "coordinationWorkloadName obj = (if target_name obj \<noteq> [] then target_name obj else ai_Name obj)"

definition hasVerticalMutation :: "'q QuantityOps \<Rightarrow> 'q reconcileState \<Rightarrow> bool" where
  "hasVerticalMutation q s = (case (x_verticalDecision s, spec_VerticalScaling (x_spec s)) of
     (Some vd, Some vs) \<Rightarrow>
       (if \<not> vs_Enabled vs then False
        else if vs_ResizePolicy vs = ''RecommendOnly'' \<or> spec_DryRun (x_spec s) then False
        else (case x_currentResources s of
            None \<Rightarrow> True
          | Some cur \<Rightarrow> q_cmp q (vd_CPURequest vd) (rst_CPURequest cur) \<noteq> 0
              \<or> q_cmp q (vd_MemoryRequest vd) (rst_MemoryRequest cur) \<noteq> 0
              \<or> (\<not> q_is_zero q (vd_CPULimit vd) \<and> q_cmp q (vd_CPULimit vd) (rst_CPULimit cur) \<noteq> 0)
              \<or> (\<not> q_is_zero q (vd_MemoryLimit vd) \<and> q_cmp q (vd_MemoryLimit vd) (rst_MemoryLimit cur) \<noteq> 0)))
   | _ \<Rightarrow> False)"

definition needsLiveCoordination :: "'q QuantityOps \<Rightarrow> 'q reconcileState \<Rightarrow> bool" where
  "needsLiveCoordination q s = (case x_bundle s of
     None \<Rightarrow> False
   | Some b \<Rightarrow> (if spec_DryRun (x_spec s) then False
       else (case x_validation s of
           Some v \<Rightarrow> (if vr_ValidatedReplicas v \<noteq> b_CurrentReplicas b then True else hasVerticalMutation q s)
         | None \<Rightarrow> hasVerticalMutation q s)))"

fun other_costs :: "string \<Rightarrow> 'q AIScaler list \<Rightarrow> float64 \<Rightarrow> float64" where
  "other_costs currentWorkload [] t = t"
| "other_costs currentWorkload (p # ps) t =
     (if coordinationWorkloadName p = currentWorkload then other_costs currentWorkload ps t
      else (case st_Cost (ai_Status p) of
          None \<Rightarrow> other_costs currentWorkload ps t
        | Some c \<Rightarrow> other_costs currentWorkload ps (t + cst_CurrentHourlyCost c)))"

definition exceedsClusterBudget :: "'q AIScaler list \<Rightarrow> 'q reconcileState \<Rightarrow> float64 \<Rightarrow> bool" where
  "exceedsClusterBudget policies s clusterMaxHourlyCost = (case x_costEstimate s of
     None \<Rightarrow> False
   | Some est \<Rightarrow> (if clusterMaxHourlyCost \<le> 0 \<or> est_DeltaHourlyCost est \<le> 0 then False
       else (let currentTotal = other_costs (coordinationWorkloadName (x_obj s)) policies 0 + est_CurrentHourlyCost est
         in clusterMaxHourlyCost < currentTotal + est_DeltaHourlyCost est)))"

section \<open>Vertical scaling\<close>

definition readCurrentResources :: "'q Env \<Rightarrow> 'q AIScaler \<Rightarrow> go_error + 'q ResourceStatus" where
  "readCurrentResources env obj = (case cl_get (e_client env) ''readCurrentResources'' ''Deployment'' (target_ns obj) (target_name obj) of
     Inl e \<Rightarrow> Inl (''get deployment resources: '' @ api_error_text e)
   | Inr deployment \<Rightarrow> (case w_Containers deployment of
       [] \<Rightarrow> Inl (''deployment '' @ target_ns obj @ ''/'' @ target_name obj @ '' has no containers'')
     | ct # _ \<Rightarrow> (let listed = (\<lambda>rs k. case fmlookup rs k of Some v \<Rightarrow> v | None \<Rightarrow> q_zero (e_quantities env))
         in Inr \<lparr>rst_CPURequest = listed (ct_Requests ct) ''cpu'', rst_MemoryRequest = listed (ct_Requests ct) ''memory'',
              rst_CPULimit = listed (ct_Limits ct) ''cpu'', rst_MemoryLimit = listed (ct_Limits ct) ''memory'',
              rst_LastResizeTime = None, rst_LastResizeStrategy = []\<rparr>)))"

definition parse_optional :: "'q QuantityOps \<Rightarrow> string \<Rightarrow> string \<Rightarrow> go_error + 'q" where
  "parse_optional q what s = (if s = [] then Inr (q_zero q) else (case q_parse q s of
     Inl e \<Rightarrow> Inl (''parse '' @ what @ '': '' @ e) | Inr v \<Rightarrow> Inr v))"

definition buildVerticalDecision :: "'q QuantityOps \<Rightarrow> 'q VerticalScalingConfig option \<Rightarrow> VerticalProposal option
    \<Rightarrow> go_error + 'q VerticalDecision option" where
  "buildVerticalDecision q config proposal = (case (config, proposal) of
     (Some cfg, Some p) \<Rightarrow>
       (if \<not> vs_Enabled cfg then Inr None
        else if vp_CPURequest p = [] \<and> vp_MemoryRequest p = [] \<and> vp_CPULimit p = [] \<and> vp_MemoryLimit p = [] then Inr None
        else if vp_CPURequest p = [] \<or> vp_MemoryRequest p = []
        then Inl ''vertical recommendation requires both cpu_request and memory_request''
        else (case parse_optional q ''cpu_request'' (vp_CPURequest p) of Inl e \<Rightarrow> Inl e | Inr cpu \<Rightarrow>
          (case parse_optional q ''memory_request'' (vp_MemoryRequest p) of Inl e \<Rightarrow> Inl e | Inr mem \<Rightarrow>
          (case parse_optional q ''cpu_limit'' (vp_CPULimit p) of Inl e \<Rightarrow> Inl e | Inr cpul \<Rightarrow>
          (case parse_optional q ''memory_limit'' (vp_MemoryLimit p) of Inl e \<Rightarrow> Inl e | Inr meml \<Rightarrow>
             Inr (Some \<lparr>vd_CPURequest = cpu, vd_MemoryRequest = mem, vd_CPULimit = cpul, vd_MemoryLimit = meml,
               vd_ResizeStrategy = (if vp_ResizeStrategy p = [] then vs_ResizePolicy cfg else vp_ResizeStrategy p)\<rparr>))))))
   | _ \<Rightarrow> Inr None)"

definition quantityString :: "'q QuantityOps \<Rightarrow> 'q \<Rightarrow> string" where
  "quantityString q v = (if q_is_zero q v then ''0'' else q_string q v)"

definition buildVerticalContext :: "'q QuantityOps \<Rightarrow> 'q ResourceStatus \<Rightarrow> 'q VerticalScalingConfig \<Rightarrow> string" where
  "buildVerticalContext q resources config = (if \<not> vs_Enabled config then [] else (let
     c = vs_Constraints config;
     lines = [''- Resize policy: '' @ vs_ResizePolicy config,
        ''- Current CPU request: '' @ quantityString q (rst_CPURequest resources),
        ''- Current memory request: '' @ quantityString q (rst_MemoryRequest resources),
        ''- Current CPU limit: '' @ quantityString q (rst_CPULimit resources),
        ''- Current memory limit: '' @ quantityString q (rst_MemoryLimit resources)]
      @ (if \<not> q_is_zero q (vc_MinCPURequest c) \<or> \<not> q_is_zero q (vc_MaxCPURequest c)
         then [''- CPU request bounds: '' @ quantityString q (vc_MinCPURequest c) @ '' to '' @ quantityString q (vc_MaxCPURequest c)]
         else [])
      @ (if \<not> q_is_zero q (vc_MinMemoryRequest c) \<or> \<not> q_is_zero q (vc_MaxMemoryRequest c)
         then [''- Memory request bounds: '' @ quantityString q (vc_MinMemoryRequest c) @ '' to ''
               @ quantityString q (vc_MaxMemoryRequest c)] else [])
   in ''Vertical scaling context:'' @ nl @ join_with nl lines))"

section \<open>Feedback, predictions and nodes in the prompt\<close>

fun count_effective :: "DecisionOutcome list \<Rightarrow> nat" where
  "count_effective [] = 0"
| "count_effective (oc # os) = (if oc_Effective oc then Suc (count_effective os) else count_effective os)"

definition summarizeFeedback :: "DecisionOutcome list \<Rightarrow> FeedbackStatus option" where
  "summarizeFeedback os = (if length os = 0 then None
     else Some \<lparr>fs_TotalDecisions = word_of_int (int (length os)),
       fs_EffectiveRate = f_of_int (int (count_effective os)) div f_of_int (int (length os))\<rparr>)"

definition shortDecisionID :: "string \<Rightarrow> string" where
  "shortDecisionID i = (if length i \<le> 8 then i else take 8 i)"

definition outcome_line :: "DecisionOutcome \<Rightarrow> string" where
  "outcome_line oc = ''- Decision '' @ shortDecisionID (oc_RecordID oc) @ '' was ''
     @ (if oc_Effective oc then ''effective'' else ''ineffective'')
     @ '' (CPU '' @ show_f 1 (oc_CPUBefore oc) @ ''%'' @ right_arrow @ show_f 1 (oc_CPUAfter oc)
     @ ''%, p95 '' @ show_f 1 (oc_LatencyBefore oc) @ ''ms'' @ right_arrow @ show_f 1 (oc_LatencyAfter oc) @ ''ms)''"

definition buildFeedbackContext :: "DecisionOutcome list \<Rightarrow> int32 \<Rightarrow> string" where
  "buildFeedbackContext os includeInPrompt = (if length os = 0 \<or> includeInPrompt <=s 0 then []
     else (let
       cnt = (word_of_int (int (length os)) :: int32);
       k = (if cnt <s includeInPrompt then cnt else includeInPrompt);
       rate = f_of_int (int (count_effective os)) div f_of_int (int (length os)) * f_of_int 100
     in join_with nl ((''Feedback summary: '' @ show_int (int (length os)) @ '' evaluated decisions, ''
          @ show_f 0 rate @ ''% effective.'') # List.map outcome_line (take (nat (sint k)) os))))"

definition buildPredictiveContext :: "float64 \<Rightarrow> float64 \<Rightarrow> float64 \<Rightarrow> float64 \<Rightarrow> string" where
  "buildPredictiveContext cpuPred cpuConf queuePred queueConf = (let
     lines = (if 0 < cpuPred \<or> 0 < cpuConf
         then [''- CPU in 1h: '' @ show_f 1 cpuPred @ ''% (confidence '' @ show_f 2 cpuConf @ '')''] else [])
       @ (if 0 < queuePred \<or> 0 < queueConf
         then [''- Queue depth in 1h: '' @ show_f 0 queuePred @ '' (confidence '' @ show_f 2 queueConf @ '')''] else [])
   in if length lines = 0 then [] else ''Predictions:'' @ nl @ join_with nl lines)"

definition percent_of :: "float64 \<Rightarrow> float64 \<Rightarrow> float64" where
  "percent_of part whole = (if 0 < whole then part div whole * f_of_int 100 else 0)"

definition buildNodeContext :: "NodeContext option \<Rightarrow> string" where
  "buildNodeContext nodeCtx = (case nodeCtx of None \<Rightarrow> [] | Some nc \<Rightarrow>
     ''Cluster state:'' @ nl @ ''- Ready nodes: '' @ show_int32 (nx_ReadyNodes nc) @ ''/'' @ show_int32 (nx_TotalNodes nc)
     @ nl @ ''- Pending pods: '' @ show_int32 (nx_PendingPods nc)
     @ nl @ ''- Node pools: '' @ show_int (int (length (nx_NodePools nc)))
     @ nl @ ''- CPU requested: '' @ show_f 2 (nx_ClusterCPURequested nc) @ ''/'' @ show_f 2 (nx_ClusterCPUCapacity nc)
     @ '' cores ('' @ show_f 1 (percent_of (nx_ClusterCPURequested nc) (nx_ClusterCPUCapacity nc)) @ ''%)''
     @ nl @ ''- Memory requested: '' @ show_f 0 (nx_ClusterMemRequested nc) @ ''/'' @ show_f 0 (nx_ClusterMemCapacity nc)
     @ '' bytes ('' @ show_f 1 (percent_of (nx_ClusterMemRequested nc) (nx_ClusterMemCapacity nc)) @ ''%)'')"

end
