(* ===== verification/Controller_Steps.thy ===== *)
theory Controller_Steps
  imports Controller_State
begin

text \<open>
  The steps of one reconcile, in the order of \<open>internal/controller/aiscaler_controller.go\<close>.  A step
  takes the environment, the state and the reconciler and returns an error (\<open>Inl\<close>), a result that
  ends the reconcile (\<open>Inr (Some _)\<close>) or nothing (\<open>Inr None\<close>), with the new state and reconciler.
  A step that panics returns \<open>Panicked\<close> with the state at that point.
  Logging is left out, and so are the reports to the Prometheus metrics but the two of \<open>estimateCost\<close>, one
  of which panics if the client library behaves as documented; no other report does then
  (\<open>reports_labelled\<close> of theory \<open>Telemetry\<close>).
\<close>

section \<open>Writes to the API server\<close>

definition update_obj :: "'q Env \<Rightarrow> 'q reconcileState \<Rightarrow> 'q Reconciler
    \<Rightarrow> api_error option \<times> 'q reconcileState \<times> 'q Reconciler" where
  "update_obj env s r = (let r1 = r \<lparr>r_updates := r_updates r @ [x_obj s]\<rparr> in
     case e_update env (x_obj s) of Inl e \<Rightarrow> (Some e, s, r1) | Inr obj \<Rightarrow> (None, s \<lparr>x_obj := obj\<rparr>, r1))"

definition update_status :: "'q Env \<Rightarrow> 'q reconcileState \<Rightarrow> 'q Reconciler
    \<Rightarrow> api_error option \<times> 'q reconcileState \<times> 'q Reconciler" where
  "update_status env s r = (let r1 = r \<lparr>r_statuses := r_statuses r @ [x_obj s]\<rparr> in
     case e_status_update env (x_obj s) of Inl e \<Rightarrow> (Some e, s, r1) | Inr obj \<Rightarrow> (None, s \<lparr>x_obj := obj\<rparr>, r1))"

section \<open>ensureFinalizer\<close>

definition finalizerName :: string where
  "finalizerName = ''aiscaler.io/finalizer''"

definition being_deleted :: "'q AIScaler \<Rightarrow> bool" where
  "being_deleted obj = (case ai_DeletionTimestamp obj of None \<Rightarrow> False | Some t \<Rightarrow> t \<noteq> zero_time)"

definition remove_finalizer :: "'q reconcileState \<Rightarrow> 'q reconcileState" where
  "remove_finalizer s = s \<lparr>x_obj := x_obj s \<lparr>ai_Finalizers := removeAll finalizerName (ai_Finalizers (x_obj s))\<rparr>\<rparr>"

definition add_finalizer :: "'q reconcileState \<Rightarrow> 'q reconcileState" where
  "add_finalizer s = s \<lparr>x_obj := x_obj s \<lparr>ai_Finalizers := ai_Finalizers (x_obj s) @ [finalizerName]\<rparr>\<rparr>"

definition ensureFinalizer :: "'q step" where
  "ensureFinalizer env w = (case w of (s, r) \<Rightarrow>
     if being_deleted (x_obj s) then
       (if finalizerName \<in> set (ai_Finalizers (x_obj s))
        then (case update_obj env (remove_finalizer s) r of
            (Some e, s1, r1) \<Rightarrow> (Inl (Failed (api_error_text e)), s1, r1)
          | (None, s1, r1) \<Rightarrow> (Inr (Some empty_result), s1, r1))
        else (Inr (Some empty_result), s, r))
     else (case ValidateSpec (x_spec s) of
         Some err \<Rightarrow> (case update_status env (set_cond env ConditionReady ''False'' ''InvalidSpec'' err s) r of
             (Some e, s1, r1) \<Rightarrow> (Inl (Failed (api_error_text e)), s1, r1)
           | (None, s1, r1) \<Rightarrow> (Inr (Some empty_result), s1, r1))
       | None \<Rightarrow>
           (if finalizerName \<in> set (ai_Finalizers (x_obj s)) then (Inr None, s, r)
            else (case update_obj env (add_finalizer s) r of
                (Some e, s1, r1) \<Rightarrow> (Inl (Failed (api_error_text e)), s1, r1)
              | (None, s1, r1) \<Rightarrow> (Inr None, s1, r1)))))"

section \<open>checkCooldown\<close>

definition checkCooldown :: "'q step" where
  "checkCooldown env w = (case w of (s, r) \<Rightarrow>
     case st_LastScaleTime (ai_Status (x_obj s)) of
       None \<Rightarrow> (Inr None, s, r)
     | Some t \<Rightarrow> (let elapsed = time_sub (e_now env ''checkCooldown'') t in
         if elapsed < spec_CooldownPeriod (x_spec s)
         then (let remaining = spec_CooldownPeriod (x_spec s) - elapsed in
           (Inr (Some (requeue_after remaining)),
            set_cond env ConditionScaling ''False'' ''Cooldown''
              (''waiting '' @ e_duration_text env remaining @ '' before next scaling action'')
              (s \<lparr>x_phase := PhaseCoolingDown\<rparr>), r))
         else (Inr None, s, r)))"

section \<open>collectSignals\<close>

text \<open>The predictor after an observation, and whether the observation went through rather than panicked.\<close>

definition observe_metric :: "'q Env \<Rightarrow> string \<Rightarrow> float64 \<Rightarrow> SeasonalPredictor \<Rightarrow> bool \<times> SeasonalPredictor" where
  "observe_metric env metric v p =
     (if 0 < v
      then (case UpdateBaseline (e_time_zone env) (e_now env (''UpdateBaseline '' @ metric)) metric v p of
          None \<Rightarrow> (False, p) | Some p1 \<Rightarrow> (True, p1))
      else (True, p))"

definition observe_baselines :: "'q Env \<Rightarrow> Bundle \<Rightarrow> SeasonalPredictor \<Rightarrow> bool \<times> SeasonalPredictor" where
  "observe_baselines env b p = (case observe_metric env ''cpu'' (b_CPUUtilization b) p of
     (ok, p1) \<Rightarrow> (if ok then observe_metric env ''queue_depth'' (b_QueueDepth b) p1 else (False, p1)))"

definition frozen :: "'q Env \<Rightarrow> Bundle \<Rightarrow> time option" where
  "frozen env b = (case an_FreezeUntil (b_Annotations b) of
     None \<Rightarrow> None | Some t \<Rightarrow> (if e_now env ''freeze'' < t then Some t else None))"

definition collectSignals :: "'q step" where
  "collectSignals env w = (case w of (s, r) \<Rightarrow>
     case NewManager (e_plugins env) (spec_Signals (x_spec s)) of
       Inl e \<Rightarrow> (Inl (Failed e), set_cond env ConditionSignalsReady ''False'' ''ManagerCreateFailed'' e s, r)
     | Inr mgr \<Rightarrow> (case fst (manager_Collect (e_plugins env) (x_obj s) mgr) of
         Inl e \<Rightarrow> (Inl (Failed e), set_cond env ConditionSignalsReady ''False'' ''CollectionFailed'' e s, r)
       | Inr b \<Rightarrow> (let s1 = s \<lparr>x_bundle := Some b\<rparr> in
           case frozen env b of
             Some t \<Rightarrow> (Inr (Some (requeue_after (time_sub t (e_now env ''time.Until'')))),
               set_cond env ConditionScaling ''False'' ''Frozen'' (''scaling frozen until '' @ e_time_text env t)
                 (s1 \<lparr>x_phase := PhaseObserving\<rparr>), r)
           | None \<Rightarrow> (let
               s2 = set_cond env ConditionSignalsReady ''True'' ''Collected'' ''all signals collected successfully'' s1
             in case r_Predictor r of
                  None \<Rightarrow> (Inr None, s2, r)
                | Some p \<Rightarrow> (case observe_baselines env b p of
                    (ok, p1) \<Rightarrow> (if ok then Inr None else Inl (Panicked index_out_of_range), s2,
                      r \<lparr>r_Predictor := Some p1\<rparr>))))))"

section \<open>enrichContext\<close>

definition enrich_nodes :: "'q Env \<Rightarrow> 'q Reconciler \<Rightarrow> 'q reconcileState \<Rightarrow> 'q reconcileState" where
  "enrich_nodes env r s = (if r_NodeCollector r
     then (case node_Collect (e_pool_order env) (e_nodes env) (e_pods env) of
         Inl e \<Rightarrow> s | Inr nc \<Rightarrow> s \<lparr>x_nodeCtx := Some nc\<rparr>)
     else s)"

text \<open>The two predictions, or none where reading a baseline panics.\<close>

definition enrich_predictions :: "'q Env \<Rightarrow> 'q Reconciler \<Rightarrow> 'q reconcileState \<Rightarrow> 'q reconcileState option" where
  "enrich_predictions env r s = (case r_Predictor r of
     None \<Rightarrow> Some s
   | Some p \<Rightarrow> (case Predict (e_time_zone env) (e_now env ''Predict cpu'') ''cpu'' hour p of
       None \<Rightarrow> None
     | Some (cpu, cpuc) \<Rightarrow>
         (case Predict (e_time_zone env) (e_now env ''Predict queue_depth'') ''queue_depth'' hour p of
            None \<Rightarrow> None
          | Some (queue, queuec) \<Rightarrow> Some (s \<lparr>x_predictedCPU := cpu, x_cpuConfidence := cpuc,
              x_predictedQueueDepth := queue, x_queueConfidence := queuec\<rparr>))))"

definition enrich_resources :: "'q Env \<Rightarrow> 'q reconcileState \<Rightarrow> 'q reconcileState" where
  "enrich_resources env s = (case spec_VerticalScaling (x_spec s) of
     None \<Rightarrow> s
   | Some vs \<Rightarrow> (if vs_Enabled vs then (case readCurrentResources env (x_obj s) of
         Inl e \<Rightarrow> s
       | Inr res \<Rightarrow> s \<lparr>x_currentResources := Some res,
           x_verticalContext := buildVerticalContext (e_quantities env) res vs\<rparr>)
       else s))"

definition enrich_feedback :: "'q Env \<Rightarrow> 'q Reconciler \<Rightarrow> 'q reconcileState \<Rightarrow> 'q reconcileState" where
  "enrich_feedback env r s = (case spec_Feedback (x_spec s) of
     None \<Rightarrow> s
   | Some f \<Rightarrow> (if fc_Enabled f \<and> r_FeedbackEvaluator r
       then (let depth = (if sint (fc_HistoryDepth f) \<le> 0 then 10 else sint (fc_HistoryDepth f)) in
         case Evaluate (e_now env ''feedback'') (\<lambda>wl n. List_records (e_store env) wl n (r_auditMaps r))
             (target_name (x_obj s)) (x_bundle s) (fc_EvaluationDelay f) depth of
           Inl e \<Rightarrow> s
         | Inr os \<Rightarrow> s \<lparr>x_feedbackStatus := summarizeFeedback os,
             x_feedbackContext := buildFeedbackContext os (fc_IncludeInPrompt f)\<rparr>)
       else s))"

definition enrichContext :: "'q step" where
  "enrichContext env w = (case w of (s, r) \<Rightarrow>
     case enrich_predictions env r (enrich_nodes env r s) of
       None \<Rightarrow> (Inl (Panicked index_out_of_range), enrich_nodes env r s, r)
     | Some s1 \<Rightarrow> (Inr None, enrich_feedback env r (enrich_resources env s1), r))"

section \<open>fetchDecision\<close>

definition keda_answer :: "Bundle \<Rightarrow> ScalingDecision" where
  "keda_answer b = (mk_decision (b_KEDADesiredReplicas b)
     (''KEDA recommends '' @ show_int32 (b_KEDADesiredReplicas b) @ '' replicas'') 1
     (actionTypeForTarget (b_KEDADesiredReplicas b) (b_CurrentReplicas b))) \<lparr>sd_Urgency := ''medium''\<rparr>"

definition keda_decision :: "Bundle \<Rightarrow> 'q reconcileState \<Rightarrow> 'q reconcileState" where
  "keda_decision b s = (case spec_KEDAIntegration (x_spec s) of
     None \<Rightarrow> s
   | Some k \<Rightarrow> (if ki_Enabled k \<and> 0 <s b_KEDADesiredReplicas b
       then s \<lparr>x_deterministicDecision := Some (keda_answer b)\<rparr> else s))"

definition reactive_reason :: "ReactiveResult \<Rightarrow> string" where
  "reactive_reason result = ''reactive rule: '' @ rr_Metric (rx_Rule result) @ '' '' @ rr_Operator (rx_Rule result)
     @ '' '' @ show_f 2 (rr_Threshold (rx_Rule result)) @ '' (actual='' @ show_f 2 (rx_Actual result) @ '')''"

definition reactive_decision :: "Bundle \<Rightarrow> ScalingDecision option" where
  "reactive_decision b = (if length (an_ReactiveRules (b_Annotations b)) = 0 then None
     else (case EvaluateReactiveRules (an_ReactiveRules (b_Annotations b)) b of
         None \<Rightarrow> None
       | Some result \<Rightarrow> Some (mk_decision (rx_Replicas result) (reactive_reason result) 1
           (actionTypeForTarget (rx_Replicas result) (b_CurrentReplicas b)))))"

definition scaling_request :: "'q reconcileState \<Rightarrow> Bundle \<Rightarrow> string \<Rightarrow> ScalingRequest" where
  "scaling_request s b sloContext = (let c = spec_Constraints (x_spec s) in
     \<lparr>rq_PolicyName = ai_Name (x_obj s), rq_Namespace = target_ns (x_obj s),
      rq_CurrentReplicas = b_CurrentReplicas b, rq_MinReplicas = sc_MinReplicas c,
      rq_MaxReplicas = sc_MaxReplicas c, rq_MaxScaleStep = sc_MaxScaleStep c,
      rq_CPUUtilization = b_CPUUtilization b, rq_MemoryUtilization = b_MemoryUtilization b,
      rq_P95LatencyMs = b_P95LatencyMs b, rq_ErrorRate = b_ErrorRate b, rq_QueueDepth = b_QueueDepth b,
      rq_DeploymentReady = b_DeploymentReady b, rq_ExpectedTraffic = an_ExpectedTraffic (b_Annotations b),
      rq_ScaleConservatively = an_ScaleConservatively (b_Annotations b), rq_Note = an_Note (b_Annotations b),
      rq_PeakHours = an_PeakHours (b_Annotations b), rq_CustomSignals = b_CustomSignals b,
      rq_SLOContext = sloContext, rq_CostContext = [],
      rq_PredictiveContext = buildPredictiveContext (x_predictedCPU s) (x_cpuConfidence s)
        (x_predictedQueueDepth s) (x_queueConfidence s),
      rq_NodeContext = buildNodeContext (x_nodeCtx s), rq_VerticalContext = x_verticalContext s,
      rq_FeedbackContext = x_feedbackContext s\<rparr>)"

text \<open>What becomes of the provider's answer: low confidence, or a decision with a vertical proposal.\<close>

definition accept_decision :: "'q Env \<Rightarrow> Bundle \<Rightarrow> ScalingDecision \<Rightarrow> LLMProvider \<Rightarrow> 'q reconcileState \<Rightarrow> 'q reconcileState" where
  "accept_decision env b d provider s0 = (let
     s = s0 \<lparr>x_llmProvider := provider\<rparr>;
     minConf = sc_MinConfidence (spec_Constraints (x_spec s))
   in if 0 < minConf \<and> sd_Confidence d < minConf then (let
        s1 = (if x_reactiveDecision s = None \<and> x_deterministicDecision s = None
          then s \<lparr>x_llmDecision := Some (mk_decision (b_CurrentReplicas b)
            (''confidence '' @ show_f 2 (sd_Confidence d) @ '' below threshold '' @ show_f 2 minConf)
            (sd_Confidence d) ''no_change'')\<rparr> else s)
        in set_cond env ConditionLLMReady ''True'' ''LowConfidence''
             ''confidence below threshold, maintaining current replicas'' s1)
      else (let
        s1 = (case spec_VerticalScaling (x_spec s) of
            Some vs \<Rightarrow> (if vs_Enabled vs
              then (case buildVerticalDecision (e_quantities env) (Some vs) (sd_VerticalChanges d) of
                  Inl e \<Rightarrow> s | Inr vd \<Rightarrow> s \<lparr>x_verticalDecision := vd\<rparr>) else s)
          | None \<Rightarrow> s)
        in set_cond env ConditionLLMReady ''True'' ''DecisionMade'' (sd_Reasoning d) (s1 \<lparr>x_llmDecision := Some d\<rparr>)))"

definition ask_provider :: "'q Env \<Rightarrow> Bundle \<Rightarrow> string \<Rightarrow> 'q reconcileState \<Rightarrow> 'q Reconciler
    \<Rightarrow> (failure + ctrl_Result option) \<times> 'q reconcileState \<times> 'q Reconciler" where
  "ask_provider env b sloContext s r = (case Decide (e_router env) (x_obj s) (scaling_request s b sloContext) (r_Router r) of
     (Inl e, router) \<Rightarrow> (let
         s1 = set_cond env ConditionLLMReady ''False'' ''DecisionFailed'' e s;
         r1 = notify env s1 EventLLMFailure SeverityWarning e (r \<lparr>r_Router := router\<rparr>)
       in if x_reactiveDecision s1 \<noteq> None \<or> x_deterministicDecision s1 \<noteq> None
          then (Inr None, s1, r1) else (Inl (Failed e), s1, r1))
   | (Inr (d, provider), router) \<Rightarrow> (Inr None, accept_decision env b d provider s, r \<lparr>r_Router := router\<rparr>))"

definition evaluate_objectives :: "Bundle \<Rightarrow> 'q reconcileState \<Rightarrow> 'q reconcileState \<times> string" where
  "evaluate_objectives b s = (if 0 < length (spec_SLOs (x_spec s))
     then (let statuses = EvaluateSLOs (spec_SLOs (x_spec s)) b
       in (s \<lparr>x_currentSLOs := statuses\<rparr>, FormatSLOContext statuses))
     else (s, []))"

text \<open>The bundle is there: the step before stored it or ended the reconcile.\<close>

definition fetchDecision :: "'q step" where
  "fetchDecision env w = (case w of (s0, r) \<Rightarrow>
     case x_bundle s0 of
       None \<Rightarrow> (Inl (Panicked nil_dereference), s0, r)
     | Some b \<Rightarrow> (let s = keda_decision b s0 in
         case reactive_decision b of
           Some d \<Rightarrow> (let s1 = s \<lparr>x_reactiveDecision := Some d\<rparr> in
             if shouldSkipLLMForReactiveRules (spec_Precedence (x_spec s1))
             then (Inr None, set_cond env ConditionLLMReady ''True'' ''ReactiveRule'' (sd_Reasoning d) s1, r)
             else (case evaluate_objectives b s1 of (s2, sloContext) \<Rightarrow> ask_provider env b sloContext s2 r))
         | None \<Rightarrow> (case evaluate_objectives b s of (s2, sloContext) \<Rightarrow> ask_provider env b sloContext s2 r)))"

section \<open>checkOscillation and checkRollback\<close>

definition checkOscillation :: "'q step" where
  "checkOscillation env w = (case w of (s, r) \<Rightarrow>
     case (r_OscillationDetector r, x_bundle s) of
       (Some det, Some b) \<Rightarrow>
         (if IsOscillating (e_now env ''IsOscillating'') det
          then (Inr None,
            s \<lparr>x_safetyDecision := Some (mk_decision (b_CurrentReplicas b)
                 ''oscillation detected, maintaining current replicas'' 1 ''no_change''),
               x_safetySource := ''safety''\<rparr>,
            notify env s EventOscillationDetected SeverityWarning
              (''Oscillation detected '' @ em_dash @ '' holding current replicas'') r)
          else (Inr None, s, r))
     | _ \<Rightarrow> (Inr None, s, r))"

definition rollback_input :: "'q reconcileState \<Rightarrow> Bundle \<Rightarrow> string list \<Rightarrow> DecisionRecord \<Rightarrow> Bundle \<Rightarrow> RollbackInput" where
  "rollback_input s b conditions rec before = (let
     slos = spec_SLOs (x_spec s);
     beforeMet = (if 0 < length slos then \<not> AnyBreached (EvaluateSLOs slos before) else True);
     afterMet = (if 0 < length slos then
         (if 0 < length (x_currentSLOs s) then \<not> AnyBreached (x_currentSLOs s)
          else \<not> AnyBreached (EvaluateSLOs slos b)) else True)
   in \<lparr>ri_PreviousReplicas = dr_PreviousReplicas rec, ri_CurrentReplicas = b_CurrentReplicas b,
       ri_SLOsMetBefore = beforeMet, ri_SLOsMetAfter = afterMet,
       ri_ErrorRateBefore = b_ErrorRate before, ri_ErrorRateAfter = b_ErrorRate b,
       ri_LatencyBefore = b_P95LatencyMs before, ri_LatencyAfter = b_P95LatencyMs b,
       ri_CrashLoopDetected = False, ri_AutoRollbackEnabled = True, ri_RollbackConditions = conditions\<rparr>)"

definition rollback_conditions :: "'q AIScalerSpec \<Rightarrow> string list" where
  "rollback_conditions spec = (case spec_Safety spec of
     None \<Rightarrow> []
   | Some safety \<Rightarrow> (case sf_AutoRollback safety of
       None \<Rightarrow> [] | Some a \<Rightarrow> (if arc_Enabled a then arc_Conditions a else [])))"

definition apply_rollback :: "'q Env \<Rightarrow> Bundle \<Rightarrow> RollbackAction \<Rightarrow> 'q reconcileState \<Rightarrow> 'q reconcileState" where
  "apply_rollback env b act s = s \<lparr>x_rollbackAction := Some act,
     x_safetyDecision := Some (mk_decision (ra_TargetReplicas act) (ra_Reason act) 1
       (actionTypeForTarget (ra_TargetReplicas act) (b_CurrentReplicas b))),
     x_safetySource := ''rollback''\<rparr>"

definition checkRollback :: "'q step" where
  "checkRollback env w = (case w of (s, r) \<Rightarrow>
     case (r_AuditStore r, x_bundle s) of
       (Some store, Some b) \<Rightarrow>
         (if \<not> r_RollbackManager r \<or> rollback_conditions (x_spec s) = [] then (Inr None, s, r)
          else (case List_records (e_store env) (target_name (x_obj s)) 5 (r_auditMaps r) of
              Inl e \<Rightarrow> (Inr None, s, r)
            | Inr records \<Rightarrow> (case selectRollbackRecord records (b_CurrentReplicas b) of
                None \<Rightarrow> (Inr None, s, r)
              | Some rec \<Rightarrow> (case dr_Signals rec of
                  None \<Rightarrow> (Inr None, s, r)
                | Some before \<Rightarrow> (let act = CheckForRollback
                      (rollback_input s b (rollback_conditions (x_spec s)) rec before) in
                    if \<not> ra_Recommended act then (Inr None, s, r)
                    else (Inr None, apply_rollback env b act s,
                      notify env s EventRollbackTriggered SeverityWarning (ra_Reason act) r))))))
     | _ \<Rightarrow> (Inr None, s, r))"

section \<open>Resolution\<close>

definition no_inputs_present :: "'q reconcileState \<Rightarrow> bool" where
  "no_inputs_present s \<longleftrightarrow> x_safetyDecision s = None \<and> x_humanDecision s = None \<and> x_reactiveDecision s = None
     \<and> x_llmDecision s = None \<and> x_deterministicDecision s = None \<and> x_sloDecision s = None"

definition recalculate_cost :: "bool \<Rightarrow> Bundle \<Rightarrow> 'q reconcileState \<Rightarrow> 'q Reconciler \<Rightarrow> go_error option \<times> 'q reconcileState" where
  "recalculate_cost includeCost b s r = (case (x_currentWorkloadCost s, x_decision s) of
     (Some wc, Some d) \<Rightarrow>
       (if includeCost \<and> r_CostEstimator r
        then (case Estimate wc (b_CurrentReplicas b) (sd_TargetReplicas d) of
            Inl e \<Rightarrow> (Some (''recalculate final cost estimate: '' @ e), s)
          | Inr est \<Rightarrow> (None, s \<lparr>x_costEstimate := Some est\<rparr>))
        else (None, s))
   | _ \<Rightarrow> (None, s))"

definition resolveDecisionState :: "bool \<Rightarrow> bool \<Rightarrow> 'q reconcileState \<times> 'q Reconciler
    \<Rightarrow> go_error option \<times> 'q reconcileState" where
  "resolveDecisionState includeHuman includeCost w = (case w of (s0, r) \<Rightarrow>
     case x_bundle s0 of
       None \<Rightarrow> (None, s0)
     | Some b \<Rightarrow> (let s = s0 \<lparr>x_sloDecision := buildSLODecision s0\<rparr> in
         if no_inputs_present s
         then (None, s \<lparr>x_decision := Some (mk_decision (b_CurrentReplicas b)
                 ''no applicable scaling inputs; maintaining current replicas'' 1 ''no_change''),
               x_provider := ''fallback'', x_precedence := None\<rparr>)
         else (let
             resolved = Resolve (buildPrecedenceInputs s includeHuman includeCost);
             (d, provider) = materializeResolvedDecision s b resolved
           in recalculate_cost includeCost b
                (s \<lparr>x_precedence := Some resolved, x_decision := Some d, x_provider := provider\<rparr>) r)))"

definition resolveTentativeDecision :: "'q step" where
  "resolveTentativeDecision env w = (case resolveDecisionState False False w of
     (Some e, s) \<Rightarrow> (Inl (Failed e), s, snd w) | (None, s) \<Rightarrow> (Inr None, s, snd w))"

definition resolveFinalDecision :: "'q step" where
  "resolveFinalDecision env w = (case resolveDecisionState True True w of
     (Some e, s) \<Rightarrow> (Inl (Failed e), s, snd w) | (None, s) \<Rightarrow> (Inr None, s, snd w))"

section \<open>estimateCost\<close>

definition cost_ceiling :: "'q Env \<Rightarrow> 'q reconcileState \<Rightarrow> Bundle \<Rightarrow> CostConstraints \<Rightarrow> CostEstimate
    \<Rightarrow> string \<Rightarrow> 'q reconcileState" where
  "cost_ceiling env s b cc est checkReason =
     (case computeCostCeiling (e_float_overflow env) cc est (sc_MinReplicas (spec_Constraints (x_spec s))) of
        (cap, reason) \<Rightarrow> s
          \<lparr>x_costCeiling := Some (case cap of None \<Rightarrow> b_CurrentReplicas b | Some c \<Rightarrow> c),
           x_costReason := (if reason = [] then checkReason else reason)\<rparr>)"

definition estimateCost :: "'q step" where
  "estimateCost env w = (case w of (s, r) \<Rightarrow>
     case (r_CostClient r, x_bundle s, x_decision s) of
       (Some endpoint, Some b, Some d) \<Rightarrow>
         (if \<not> r_CostEstimator r then (Inr None, s, r)
          else (case GetWorkloadCost (e_cost_fetch env) (e_cost_decode env) endpoint (target_ns (x_obj s)) of
              Inl e \<Rightarrow> (Inr None, s, r)
            | Inr wc \<Rightarrow> (let s1 = s \<lparr>x_currentWorkloadCost := Some wc\<rparr> in
                case Estimate wc (b_CurrentReplicas b) (sd_TargetReplicas d) of
                  Inl e \<Rightarrow> (Inr None, s1, r)
                | Inr est \<Rightarrow> (let s2 = s1 \<lparr>x_costEstimate := Some est\<rparr> in
                    if \<not> exported (e_labels env) [report_savings (ai_Name (x_obj s2)) (est_DeltaHourlyCost est),
                         report_waste (ai_Name (x_obj s2)) (est_WasteReduction est)]
                    then (Inl (Panicked inconsistent_cardinality), s2, r)
                    else (case spec_CostConstraints (x_spec s2) of
                      None \<Rightarrow> (Inr None, s2, r)
                    | Some cc \<Rightarrow>
                        (if \<not> r_BudgetEnforcer r then (Inr None, s2, r)
                         else (let res = Check (cx_MaxHourlyCost cc) (cx_MaxMonthlyCost cc) (cx_Enforcement cc) est in
                           if bc_Allowed res then (Inr None, s2, r)
                           else (Inr None, cost_ceiling env s2 b cc est (bc_Reason res),
                             notify env s2 EventBudgetExceeded SeverityWarning (bc_Reason res) r))))))))
     | _ \<Rightarrow> (Inr None, s, r))"

section \<open>checkApproval\<close>

definition approval_message :: "ApprovalRequest \<Rightarrow> string" where
  "approval_message q = ''Approval required: scale '' @ aq_Workload q @ '' from ''
     @ show_int32 (aq_CurrentReplicas q) @ '' to '' @ show_int32 (aq_TargetReplicas q)"

definition checkApproval :: "'q step" where
  "checkApproval env w = (case w of (s, r) \<Rightarrow>
     case (x_bundle s, x_decision s) of
       (Some b, Some d) \<Rightarrow>
         (if \<not> r_ApprovalManager r then (Inr None, s, r)
          else (let costDelta = (case x_costEstimate s of None \<Rightarrow> 0 | Some est \<Rightarrow> est_DeltaHourlyCost est) in
            if NeedsApproval (x_obj s) d (b_CurrentReplicas b) costDelta
            then (Inr None,
              s \<lparr>x_humanDecision := Some (mk_decision (b_CurrentReplicas b) ''awaiting human approval''
                   (sd_Confidence d) ''no_change'')\<rparr>,
              notify env s EventApprovalRequired SeverityWarning
                (approval_message (CreateRequest (x_obj s) d (b_CurrentReplicas b) costDelta)) r)
            else (Inr None, s \<lparr>x_humanDecision := None\<rparr>, r)))
     | _ \<Rightarrow> (Inr None, s, r))"

section \<open>validateDecision\<close>

definition has_direction_policy :: "'q AIScalerSpec \<Rightarrow> bool" where
  "has_direction_policy spec = (case spec_Safety spec of
     None \<Rightarrow> False | Some sf \<Rightarrow> sf_ScaleUp sf \<noteq> None \<or> sf_ScaleDown sf \<noteq> None)"

definition validateDecision :: "'q step" where
  "validateDecision env w = (case w of (s, r) \<Rightarrow>
     case (x_decision s, x_bundle s) of
       (Some d, Some b) \<Rightarrow> (Inr None, s \<lparr>x_validation := Some
           (if has_direction_policy (x_spec s)
            then av_ValidationResult (ValidateAsymmetric d (b_CurrentReplicas b) (x_obj s))
            else Validate d (b_CurrentReplicas b) (x_obj s))\<rparr>, r)
     | _ \<Rightarrow> (Inr None, s, r))"

section \<open>checkCoordination\<close>

definition defer_change :: "'q Env \<Rightarrow> string \<Rightarrow> string \<Rightarrow> 'q reconcileState \<Rightarrow> 'q Reconciler
    \<Rightarrow> (failure + ctrl_Result option) \<times> 'q reconcileState \<times> 'q Reconciler" where
  "defer_change env reason msg s r = (Inr (Some (requeue_after (coordinationDelay r))),
     (set_cond env ConditionScaling ''False'' reason msg s) \<lparr>x_phase := PhaseObserving\<rparr>, r)"

definition set_coordinator :: "ClusterCoordinator \<Rightarrow> 'q Reconciler \<Rightarrow> 'q Reconciler" where
  "set_coordinator c r = r \<lparr>r_Coordinator := Some c\<rparr>"

definition acquire_slot :: "'q Env \<Rightarrow> ClusterCoordinator \<Rightarrow> 'q reconcileState \<Rightarrow> 'q Reconciler
    \<Rightarrow> (failure + ctrl_Result option) \<times> 'q reconcileState \<times> 'q Reconciler" where
  "acquire_slot env c s r = (let wl = coordinationWorkloadName (x_obj s) in
     case AcquireScalingSlot (e_now env ''acquire.cleanup'') (e_now env ''acquire.start'') wl c of
       (Some e, c1) \<Rightarrow> defer_change env ''CoordinatorDeferred'' e s (set_coordinator c1 r)
     | (None, c1) \<Rightarrow> (Inr None, s \<lparr>x_coordinationSlotHeld := True, x_coordinationWorkload := wl\<rparr>, set_coordinator c1 r))"

definition checkCoordination :: "'q step" where
  "checkCoordination env w = (case w of (s, r) \<Rightarrow>
     case r_Coordinator r of
       None \<Rightarrow> (Inr None, s, r)
     | Some c0 \<Rightarrow>
         (if \<not> needsLiveCoordination (e_quantities env) s then (Inr None, s, r)
          else (case e_policies env of
              Inl e \<Rightarrow> (Inl (Failed (''list AIScaler policies for coordination: '' @ api_error_text e)), s, r)
            | Inr policies \<Rightarrow> (let
                wl = coordinationWorkloadName (x_obj s);
                (active, c) = ActiveWorkloads (e_now env ''ActiveWorkloads'') c0;
                r1 = set_coordinator c r
              in if ShouldDefer wl (\<lambda>v. active v \<and> v \<noteq> wl) (BuildFromPolicies policies)
                 then defer_change env ''DependencyDeferred''
                   ''dependent workload is currently scaling; deferring coordinated change'' s r1
                 else if 0 < r_ClusterMaxHourlyCost r \<and> exceedsClusterBudget policies s (r_ClusterMaxHourlyCost r)
                 then (let msg = ''projected cluster hourly cost would exceed limit $'' @ show_f 2 (r_ClusterMaxHourlyCost r)
                   in defer_change env ''ClusterBudgetDeferred'' msg s (notify env s EventBudgetExceeded SeverityWarning msg r1))
                 else acquire_slot env c s r1))))"

section \<open>actuate\<close>

definition apply_replicas :: "'q Env \<Rightarrow> 'q reconcileState \<Rightarrow> 'q Reconciler
    \<Rightarrow> (go_error + ApplyResult option) \<times> 'q Reconciler" where
  "apply_replicas env s r = (case x_validation s of
     None \<Rightarrow> (Inr None, r)
   | Some v \<Rightarrow> (case Apply (e_client env) (e_now env ''actuator.Apply'') (x_obj s) v of
       (Inl e, ps) \<Rightarrow> (Inl e, r \<lparr>r_patches := r_patches r @ ps\<rparr>)
     | (Inr a, ps) \<Rightarrow> (Inr (Some a), r \<lparr>r_patches := r_patches r @ ps\<rparr>)))"

definition apply_vertical :: "'q Env \<Rightarrow> 'q reconcileState \<Rightarrow> 'q Reconciler
    \<Rightarrow> go_error option \<times> 'q reconcileState \<times> 'q Reconciler" where
  "apply_vertical env s r = (case x_verticalDecision s of
     None \<Rightarrow> (None, s, r)
   | Some vd \<Rightarrow> (if \<not> r_VerticalActuator r then (None, s, r)
       else (case vertical_Apply (e_quantities env) (e_client env) (x_obj s) vd of
           (Inl e, ps) \<Rightarrow> (Some e, s \<lparr>x_verticalApplyResult := None\<rparr>, r \<lparr>r_patches := r_patches r @ ps\<rparr>)
         | (Inr a, ps) \<Rightarrow> (None, s \<lparr>x_verticalApplyResult := Some a\<rparr>, r \<lparr>r_patches := r_patches r @ ps\<rparr>))))"

definition apply_direction :: "ApplyResult option \<Rightarrow> string" where
  "apply_direction a = (case a of
     None \<Rightarrow> ''none''
   | Some x \<Rightarrow> (if apr_PreviousReplicas x <s apr_AppliedReplicas x then ''up''
       else if apr_AppliedReplicas x <s apr_PreviousReplicas x then ''down'' else ''none''))"

definition is_dry_run :: "ApplyResult option \<Rightarrow> 'q reconcileState \<Rightarrow> bool" where
  "is_dry_run a s = ((case a of None \<Rightarrow> False | Some x \<Rightarrow> apr_DryRun x)
     \<or> (case x_verticalApplyResult s of None \<Rightarrow> False | Some x \<Rightarrow> var_DryRun x))"

text \<open>The scaling event goes to the detector, which may panic (\<open>None\<close>), and to the notifiers.\<close>

definition applied_event :: "'q Env \<Rightarrow> ApplyResult \<Rightarrow> ScalingEvent" where
  "applied_event env x = \<lparr>se_Timestamp = e_now env ''Record'', se_Direction = apply_direction (Some x),
     se_From = apr_PreviousReplicas x, se_To = apr_AppliedReplicas x\<rparr>"

definition record_applied :: "'q Env \<Rightarrow> ApplyResult option \<Rightarrow> 'q Reconciler \<Rightarrow> 'q Reconciler option" where
  "record_applied env a r = (case (a, r_OscillationDetector r) of
     (Some x, Some det) \<Rightarrow>
       (if apply_direction a = ''none'' then Some r
        else (case Record (applied_event env x) det of
            None \<Rightarrow> None | Some det1 \<Rightarrow> Some (r \<lparr>r_OscillationDetector := Some det1\<rparr>)))
   | _ \<Rightarrow> Some r)"

definition notify_applied :: "'q Env \<Rightarrow> ApplyResult option \<Rightarrow> 'q reconcileState \<Rightarrow> 'q Reconciler \<Rightarrow> 'q Reconciler" where
  "notify_applied env a s r = (case a of
     None \<Rightarrow> r
   | Some x \<Rightarrow> (if apply_direction a = ''none'' then r
       else notify env s EventScalingApplied SeverityInfo (''Scaled '' @ apply_direction a @ right_arrow
         @ show_int32 (apr_AppliedReplicas x) @ '' (was '' @ show_int32 (apr_PreviousReplicas x) @ '')'') r))"

definition scaling_condition :: "'q Env \<Rightarrow> ApplyResult option \<Rightarrow> 'q reconcileState \<Rightarrow> 'q reconcileState" where
  "scaling_condition env a s = (let
     verticalApplied = (case x_verticalApplyResult s of None \<Rightarrow> False | Some x \<Rightarrow> var_Applied x);
     verticalRecommended = (case x_verticalApplyResult s of None \<Rightarrow> False | Some x \<Rightarrow> var_RecommendOnly x)
   in if is_dry_run a s
      then set_cond env ConditionScaling ''False'' ''DryRun'' ''scaling decision computed in dry-run mode'' s
      else if verticalRecommended \<and> apply_direction a = ''none''
      then set_cond env ConditionScaling ''False'' ''RecommendOnly'' ''vertical recommendation generated but not applied'' s
      else if apply_direction a \<noteq> ''none'' \<or> verticalApplied
      then set_cond env ConditionScaling ''True'' ''Applied'' ''scaling changes applied successfully'' s
      else set_cond env ConditionScaling ''False'' ''NoChange'' ''workload already at desired scale'' s)"

definition actuate :: "'q step" where
  "actuate env w = (case w of (s, r) \<Rightarrow>
     if x_validation s = None \<and> x_verticalDecision s = None
     then (Inr None, set_cond env ConditionScaling ''False'' ''NoDecision'' ''no scaling changes to apply'' s, r)
     else (case apply_replicas env s r of
         (Inl e, r1) \<Rightarrow> (Inl (Failed e), s, r1)
       | (Inr a, r1) \<Rightarrow> (case apply_vertical env s r1 of
           (Some e, s2, r2) \<Rightarrow> (Inl (Failed e), s2, r2)
         | (None, s2, r2) \<Rightarrow> (case record_applied env a r2 of
             None \<Rightarrow> (Inl (Panicked slice_out_of_range), s2, r2)
           | Some r3 \<Rightarrow> (Inr None, scaling_condition env a s2, notify_applied env a s2 r3)))))"

definition releaseCoordination :: "'q reconcileState \<times> 'q Reconciler \<Rightarrow> 'q Reconciler" where
  "releaseCoordination w = (case w of (s, r) \<Rightarrow>
     case r_Coordinator r of
       None \<Rightarrow> r
     | Some c \<Rightarrow> (if \<not> x_coordinationSlotHeld s then r
         else (let wl = (if x_coordinationWorkload s = [] then coordinationWorkloadName (x_obj s) else x_coordinationWorkload s)
           in if wl = [] then r else set_coordinator (ReleaseScalingSlot wl c) r)))"

section \<open>evaluateAlerts and recordAudit\<close>

text \<open>
  Without a bundle the first rule with a condition on a signal would dereference it; the model panics at any
  rule.  Theory \<open>Lifetime\<close> shows that the bundle is always there.
\<close>

definition evaluateAlerts :: "'q step" where
  "evaluateAlerts env w = (case w of (s, r) \<Rightarrow>
     case (r_Alerting r, spec_Alerting (x_spec s)) of
       (Some ev, Some cfg) \<Rightarrow>
         (if \<not> ac_Enabled cfg \<or> length (ac_Rules cfg) = 0 then (Inr None, s, r)
          else (case x_bundle s of
              None \<Rightarrow> (Inl (Panicked nil_dereference), s, r)
            | Some b \<Rightarrow> (case alert_Evaluate (e_parse_float env) (e_alert_clock env) b (ac_Rules cfg) ev of
                (fired, ev1) \<Rightarrow> (Inr None, s, r \<lparr>r_Alerting := Some ev1,
                  r_alerts := (if 0 < length fired
                    then r_alerts r @ [(fired, alert_Notify (e_alert_marshal env) (e_alert_post env) ev1 fired)]
                    else r_alerts r)\<rparr>))))
     | _ \<Rightarrow> (Inr None, s, r))"

definition audit_record :: "'q Env \<Rightarrow> 'q reconcileState \<Rightarrow> Bundle \<Rightarrow> ScalingDecision \<Rightarrow> ValidationResult \<Rightarrow> DecisionRecord" where
  "audit_record env s b d v =
     \<lparr>dr_ID = x_decisionID s, dr_Timestamp = e_now env ''recordAudit'', dr_Workload = target_name (x_obj s),
      dr_Namespace = target_ns (x_obj s), dr_Signals = Some b, dr_PromptUsed = [], dr_RawResponse = [],
      dr_Provider = x_provider s, dr_Model = [], dr_LLMLatencyMs = 0, dr_ParsedDecision = Some d,
      dr_PreValidation = Some \<lparr>vr_OriginalReplicas = sd_TargetReplicas d, vr_ValidatedReplicas = sd_TargetReplicas d,
        vr_Clamped = False, vr_Reason = []\<rparr>,
      dr_PostValidation = Some v, dr_WasClamped = vr_Clamped v, dr_PreviousReplicas = b_CurrentReplicas b,
      dr_NewReplicas = vr_ValidatedReplicas v, dr_Applied = (vr_ValidatedReplicas v \<noteq> b_CurrentReplicas b),
      dr_DryRun = spec_DryRun (x_spec s),
      dr_CostDeltaHourly = (case x_costEstimate s of None \<Rightarrow> 0 | Some est \<Rightarrow> est_DeltaHourlyCost est),
      dr_CostDeltaMonthly = (case x_costEstimate s of None \<Rightarrow> 0 | Some est \<Rightarrow> est_DeltaMonthlyCost est)\<rparr>"

definition recordAudit :: "'q step" where
  "recordAudit env w = (case w of (s, r) \<Rightarrow>
     case (r_AuditStore r, x_bundle s, x_decision s, x_validation s) of
       (Some store, Some b, Some d, Some v) \<Rightarrow>
         (Inr None, s, r \<lparr>r_auditMaps := snd (Store (e_store env) store (audit_record env s b d v) (r_auditMaps r))\<rparr>)
     | _ \<Rightarrow> (Inr None, s, r))"

section \<open>persistStatus and updateStatus\<close>

definition set_status :: "('q AIScalerStatus \<Rightarrow> 'q AIScalerStatus) \<Rightarrow> 'q AIScaler \<Rightarrow> 'q AIScaler" where
  "set_status f obj = obj \<lparr>ai_Status := f (ai_Status obj)\<rparr>"

definition status_basics :: "'q reconcileState \<Rightarrow> 'q AIScalerStatus \<Rightarrow> 'q AIScalerStatus" where
  "status_basics s st0 = (let
     st1 = (if x_phase s \<noteq> [] then st0 \<lparr>st_Phase := x_phase s\<rparr>
       else if st_Phase st0 = [] then st0 \<lparr>st_Phase := PhaseObserving\<rparr> else st0);
     st2 = (case x_bundle s of
         None \<Rightarrow> st1
       | Some b \<Rightarrow> (let st = st1 \<lparr>st_CurrentReplicas := b_CurrentReplicas b\<rparr> in
           if x_decision s = None \<and> x_validation s = None then st \<lparr>st_DesiredReplicas := b_CurrentReplicas b\<rparr> else st));
     st3 = (case x_validation s of
         Some v \<Rightarrow> st2 \<lparr>st_DesiredReplicas := vr_ValidatedReplicas v\<rparr>
       | None \<Rightarrow> (case x_decision s of Some d \<Rightarrow> st2 \<lparr>st_DesiredReplicas := sd_TargetReplicas d\<rparr> | None \<Rightarrow> st2));
     st4 = (if x_provider s \<noteq> [] then st3 \<lparr>st_LastProvider := x_provider s\<rparr> else st3);
     st5 = (case x_decision s of
         Some d \<Rightarrow> (if sd_Reasoning d \<noteq> [] then st4 \<lparr>st_LastDecisionReason := sd_Reasoning d\<rparr> else st4)
       | None \<Rightarrow> st4)
   in if x_decisionID s \<noteq> [] then st5 \<lparr>st_LastDecisionID := x_decisionID s\<rparr> else st5)"

definition zero_resources :: "'q QuantityOps \<Rightarrow> 'q ResourceStatus" where
  "zero_resources q = \<lparr>rst_CPURequest = q_zero q, rst_MemoryRequest = q_zero q, rst_CPULimit = q_zero q,
     rst_MemoryLimit = q_zero q, rst_LastResizeTime = None, rst_LastResizeStrategy = []\<rparr>"

definition resized_resources :: "'q QuantityOps \<Rightarrow> time \<Rightarrow> 'q VerticalDecision option \<Rightarrow> 'q VerticalApplyResult
    \<Rightarrow> 'q ResourceStatus \<Rightarrow> 'q ResourceStatus" where
  "resized_resources q now decided a res =
     (if var_Applied a \<and> \<not> var_DryRun a then (let
        res1 = res \<lparr>rst_CPURequest := var_AppliedCPU a, rst_MemoryRequest := var_AppliedMemory a\<rparr>;
        res2 = (case decided of
            None \<Rightarrow> res1
          | Some vd \<Rightarrow> (let
              rc = (if \<not> q_is_zero q (vd_CPULimit vd) then res1 \<lparr>rst_CPULimit := vd_CPULimit vd\<rparr> else res1)
            in if \<not> q_is_zero q (vd_MemoryLimit vd) then rc \<lparr>rst_MemoryLimit := vd_MemoryLimit vd\<rparr> else rc))
        in res2 \<lparr>rst_LastResizeStrategy := var_Strategy a, rst_LastResizeTime := Some now\<rparr>)
      else if var_RecommendOnly a \<or> var_DryRun a then res \<lparr>rst_LastResizeStrategy := var_Strategy a\<rparr>
      else res)"

definition status_resources :: "'q QuantityOps \<Rightarrow> time \<Rightarrow> 'q reconcileState \<Rightarrow> 'q AIScalerStatus \<Rightarrow> 'q AIScalerStatus" where
  "status_resources q now s st0 = (let
     st1 = (case x_currentResources s of None \<Rightarrow> st0 | Some res \<Rightarrow> st0 \<lparr>st_CurrentResources := Some res\<rparr>)
   in case x_verticalApplyResult s of
        None \<Rightarrow> st1
      | Some a \<Rightarrow> st1 \<lparr>st_CurrentResources := Some (resized_resources q now (x_verticalDecision s) a
          (case st_CurrentResources st1 of None \<Rightarrow> zero_resources q | Some res \<Rightarrow> res))\<rparr>)"

definition status_context :: "'q reconcileState \<Rightarrow> 'q AIScalerStatus \<Rightarrow> 'q AIScalerStatus" where
  "status_context s st0 = (let
     st1 = (case x_costEstimate s of
         None \<Rightarrow> st0
       | Some est \<Rightarrow> st0 \<lparr>st_Cost := Some
           \<lparr>cst_CurrentHourlyCost = est_CurrentHourlyCost est,
            cst_CurrentMonthlyCost = est_CurrentHourlyCost est * f_of_int 24 * f_of_int 30,
            cst_WastePercent = est_WasteReduction est,
            cst_BudgetUtilization = (case spec_CostConstraints (x_spec s) of
                None \<Rightarrow> 0 | Some cc \<Rightarrow> computeBudgetUtilization cc est)\<rparr>\<rparr>);
     st2 = (case x_feedbackStatus s of None \<Rightarrow> st1 | Some f \<Rightarrow> st1 \<lparr>st_Feedback := Some f\<rparr>)
   in st2 \<lparr>st_Precedence := map_option buildPrecedenceStatus (x_precedence s)\<rparr>)"

definition status_phase :: "time \<Rightarrow> 'q reconcileState \<Rightarrow> 'q AIScalerStatus \<Rightarrow> 'q AIScalerStatus" where
  "status_phase now s st0 = (let
     st1 = (case (x_bundle s, x_validation s) of
         (Some b, Some v) \<Rightarrow> (if vr_ValidatedReplicas v \<noteq> b_CurrentReplicas b \<and> \<not> spec_DryRun (x_spec s)
           then st0 \<lparr>st_Phase := PhaseScaling, st_LastScaleTime := Some now\<rparr> else st0)
       | _ \<Rightarrow> st0);
     st2 = (case x_verticalApplyResult s of
         None \<Rightarrow> st1
       | Some a \<Rightarrow> (if var_Applied a \<and> \<not> var_DryRun a then st1 \<lparr>st_Phase := PhaseScaling\<rparr> else st1))
   in if st_Phase st2 = [] then st2 \<lparr>st_Phase := PhaseObserving\<rparr> else st2)"

definition new_status :: "'q Env \<Rightarrow> bool \<Rightarrow> 'q reconcileState \<Rightarrow> 'q reconcileState" where
  "new_status env markReady s = (let
     now = e_now env ''persistStatus'';
     s1 = s \<lparr>x_obj := set_status (\<lambda>st. status_phase now s (status_context s
       (status_resources (e_quantities env) now s (status_basics s st)))) (x_obj s)\<rparr>
   in if markReady then set_cond env ConditionReady ''True'' ''Reconciled'' ''reconcile cycle completed successfully'' s1
      else s1)"

definition persistStatus :: "bool \<Rightarrow> 'q step" where
  "persistStatus markReady env w = (case w of (s, r) \<Rightarrow>
     case update_status env (new_status env markReady s) r of
       (Some e, s1, r1) \<Rightarrow> (if is_conflict e
         then (Inr (Some \<lparr>cr_Requeue = True, cr_RequeueAfter = 0\<rparr>), s1, r1)
         else (Inl (Failed (''failed to update status: '' @ api_error_text e)), s1, r1))
     | (None, s1, r1) \<Rightarrow> (Inr None, s1, r1))"

definition updateStatus :: "'q step" where
  "updateStatus = persistStatus True"

section \<open>Reconcile\<close>

definition steps :: "(string \<times> 'q step) list" where
  "steps = [(''ensureFinalizer'', ensureFinalizer), (''checkCooldown'', checkCooldown),
     (''collectSignals'', collectSignals), (''enrichContext'', enrichContext),
     (''fetchDecision'', fetchDecision), (''checkOscillation'', checkOscillation),
     (''checkRollback'', checkRollback), (''resolveTentativeDecision'', resolveTentativeDecision),
     (''estimateCost'', estimateCost), (''checkApproval'', checkApproval),
     (''resolveFinalDecision'', resolveFinalDecision), (''validateDecision'', validateDecision),
     (''checkCoordination'', checkCoordination), (''actuate'', actuate),
     (''evaluateAlerts'', evaluateAlerts), (''recordAudit'', recordAudit), (''updateStatus'', updateStatus)]"

text \<open>A failed step: the Ready condition, the phase, and the status written whatever its outcome.\<close>

definition step_failed :: "'q Env \<Rightarrow> string \<Rightarrow> go_error \<Rightarrow> 'q reconcileState \<times> 'q Reconciler
    \<Rightarrow> 'q reconcileState \<times> 'q Reconciler" where
  "step_failed env name err w = (case w of (s, r) \<Rightarrow>
     snd (persistStatus False env ((set_cond env ConditionReady ''False'' ''ReconcileFailed''
       (name @ '' failed: '' @ err) s) \<lparr>x_phase := PhaseFailed\<rparr>, r)))"

text \<open>A panic unwinds past that.\<close>

definition handle_failure :: "'q Env \<Rightarrow> string \<Rightarrow> failure \<Rightarrow> 'q reconcileState \<times> 'q Reconciler
    \<Rightarrow> 'q reconcileState \<times> 'q Reconciler" where
  "handle_failure env name f w = (case f of Failed err \<Rightarrow> step_failed env name err w | Panicked _ \<Rightarrow> w)"

fun run_steps :: "(string \<times> 'q step) list \<Rightarrow> 'q Env \<Rightarrow> 'q reconcileState \<times> 'q Reconciler
    \<Rightarrow> (failure + ctrl_Result) \<times> 'q reconcileState \<times> 'q Reconciler" where
  "run_steps [] env w = (Inr (requeue_after (spec_EvaluationInterval (x_spec (fst w)))), w)"
| "run_steps ((name, step) # rest) env w = (case step env w of
     (Inl f, w1) \<Rightarrow> (Inl f, handle_failure env name f w1)
   | (Inr (Some result), w1) \<Rightarrow>
       (if name \<noteq> ''ensureFinalizer'' \<and> name \<noteq> ''updateStatus''
        then (case persistStatus False env w1 of
            (Inl statusErr, w2) \<Rightarrow> (Inl statusErr, w2) | (Inr _, w2) \<Rightarrow> (Inr result, w2))
        else (Inr result, w1))
   | (Inr None, w1) \<Rightarrow> run_steps rest env w1)"

definition Reconcile :: "'q Env \<Rightarrow> 'q Reconciler \<Rightarrow> (failure + ctrl_Result) \<times> 'q Reconciler" where
  "Reconcile env r = (case e_get env of
     Inl e \<Rightarrow> (if is_not_found e then Inr empty_result else Inl (Failed (api_error_text e)), r)
   | Inr obj \<Rightarrow> (case run_steps steps env (new_state obj (e_uuid env), r) of
       (res, w) \<Rightarrow> (res, releaseCoordination w)))"

end
