(* ===== verification/Controller_Frames.thy ===== *)
theory Controller_Frames
  imports Controller_Steps
begin

text \<open>
  Which part of the state each reconcile step leaves alone, and what the four steps that change the
  validation, the slot, the patches and the status do to them.
\<close>

section \<open>Frames\<close>

text \<open>
  The API server answers a successful write with the stored object: the specification, the
  identity and the status the write was based on are unchanged.
\<close>

definition server_ok :: "'q Env \<Rightarrow> bool" where
  "server_ok env \<longleftrightarrow>
     (\<forall>p p'. e_update env p = Inr p' \<longrightarrow> ai_Spec p' = ai_Spec p \<and> ai_Name p' = ai_Name p
        \<and> ai_DeletionTimestamp p' = ai_DeletionTimestamp p \<and> ai_Status p' = ai_Status p)
   \<and> (\<forall>p p'. e_status_update env p = Inr p' \<longrightarrow> ai_Spec p' = ai_Spec p \<and> ai_Name p' = ai_Name p
        \<and> ai_DeletionTimestamp p' = ai_DeletionTimestamp p \<and> ai_Status p' = ai_Status p)"

text \<open>The part of the state that only few steps touch, and with it the status writes so far.\<close>

definition base :: "'q reconcileState \<times> 'q Reconciler \<Rightarrow>
    ('q AIScalerSpec \<times> string) \<times> ValidationResult option \<times> (bool \<times> string)
      \<times> 'q Patch list \<times> ClusterCoordinator option \<times> time option" where
  "base w = (case w of (s, r) \<Rightarrow> ((x_spec s, ai_Name (x_obj s)), x_validation s,
     (x_coordinationSlotHeld s, x_coordinationWorkload s), r_patches r, r_Coordinator r,
     st_LastScaleTime (ai_Status (x_obj s))))"

definition core :: "'q reconcileState \<times> 'q Reconciler \<Rightarrow>
    (('q AIScalerSpec \<times> string) \<times> ValidationResult option \<times> (bool \<times> string)
      \<times> 'q Patch list \<times> ClusterCoordinator option \<times> time option) \<times> 'q AIScaler list" where
  "core w = (base w, r_statuses (snd w))"

lemma base_simp: "base (s, r) = ((x_spec s, ai_Name (x_obj s)), x_validation s,
     (x_coordinationSlotHeld s, x_coordinationWorkload s), r_patches r, r_Coordinator r,
     st_LastScaleTime (ai_Status (x_obj s)))"
  by (simp add: base_def)

lemma core_simp: "core (s, r) = (base (s, r), r_statuses r)"
  by (simp add: core_def)

lemmas core_simps = core_simp base_simp

lemma set_cond_simps [simp]:
  "ai_Spec (x_obj (set_cond env a b c d s)) = ai_Spec (x_obj s)"
  "ai_Name (x_obj (set_cond env a b c d s)) = ai_Name (x_obj s)"
  "ai_DeletionTimestamp (x_obj (set_cond env a b c d s)) = ai_DeletionTimestamp (x_obj s)"
  "st_LastScaleTime (ai_Status (x_obj (set_cond env a b c d s))) = st_LastScaleTime (ai_Status (x_obj s))"
  "st_Phase (ai_Status (x_obj (set_cond env a b c d s))) = st_Phase (ai_Status (x_obj s))"
  "x_validation (set_cond env a b c d s) = x_validation s"
  "x_verticalDecision (set_cond env a b c d s) = x_verticalDecision s"
  "x_coordinationSlotHeld (set_cond env a b c d s) = x_coordinationSlotHeld s"
  "x_coordinationWorkload (set_cond env a b c d s) = x_coordinationWorkload s"
  "x_bundle (set_cond env a b c d s) = x_bundle s"
  "x_reactiveDecision (set_cond env a b c d s) = x_reactiveDecision s"
  "x_deterministicDecision (set_cond env a b c d s) = x_deterministicDecision s"
  by (simp_all add: set_cond_def setCondition_def)

lemma notify_simps [simp]:
  "r_patches (notify env s a b c r) = r_patches r"
  "r_Coordinator (notify env s a b c r) = r_Coordinator r"
  "r_statuses (notify env s a b c r) = r_statuses r"
  by (simp_all add: notify_def Let_def split: option.split)

lemma update_obj_base: "server_ok env \<Longrightarrow> base (snd (update_obj env s r)) = base (s, r)"
  by (auto simp: update_obj_def Let_def base_simp server_ok_def split: sum.split)

lemma update_status_base: "server_ok env \<Longrightarrow> base (snd (update_status env s r)) = base (s, r)"
  by (auto simp: update_status_def Let_def base_simp server_ok_def split: sum.split)

lemma write_statuses:
  "r_statuses (snd (snd (update_obj env s r))) = r_statuses r"
  "r_statuses (snd (snd (update_status env s r))) = r_statuses r @ [x_obj s]"
  by (simp_all add: update_obj_def update_status_def Let_def split: sum.split)

lemma after_write [simp]:
  "snd (case x of (Some e, s1, r1) \<Rightarrow> (f e, s1, r1) | (None, s1, r1) \<Rightarrow> (c, s1, r1)) = snd x"
  by (cases x) (simp split: option.split)

lemma finalizer_base: "base (remove_finalizer s, r) = base (s, r)" "base (add_finalizer s, r) = base (s, r)"
  by (simp_all add: remove_finalizer_def add_finalizer_def base_simp)

lemma set_cond_core [simp]: "core (set_cond env a b c d s, r) = core (s, r)"
  by (simp add: core_simps)

lemma set_cond_base [simp]: "base (set_cond env a b c d s, r) = base (s, r)"
  by (simp add: base_simp)

lemma ensureFinalizer_base: "server_ok env \<Longrightarrow> base (snd (ensureFinalizer env w)) = base w"
  by (cases w) (simp add: ensureFinalizer_def update_obj_base update_status_base finalizer_base split: option.split)

lemma ensureFinalizer_statuses:
  "\<exists>os. r_statuses (snd (snd (ensureFinalizer env (s, r)))) = r_statuses r @ os
     \<and> (\<forall>ob\<in>set os. st_LastScaleTime (ai_Status ob) = st_LastScaleTime (ai_Status (x_obj s)))"
  by (simp add: ensureFinalizer_def write_statuses split: option.split)

lemma checkCooldown_core: "core (snd (checkCooldown env w)) = core w"
  by (cases w) (simp add: checkCooldown_def core_simps Let_def split: option.split)

text \<open>The arrays of the predictor are never left: no observation and no prediction panics.\<close>

lemma observe_metric_ok: "fst (observe_metric env m v p)"
  using UpdateBaseline_Some [of "e_time_zone env" "e_now env (''UpdateBaseline '' @ m)" m v p]
  by (auto simp: observe_metric_def)

lemma observe_baselines_ok: "fst (observe_baselines env b p)"
  using observe_metric_ok [of env "''cpu''" "b_CPUUtilization b" p]
  by (cases "observe_metric env ''cpu'' (b_CPUUtilization b) p") (simp add: observe_baselines_def observe_metric_ok)

definition predicted :: "'q Env \<Rightarrow> 'q Reconciler \<Rightarrow> 'q reconcileState \<Rightarrow> 'q reconcileState" where
  "predicted env r s = the (enrich_predictions env r s)"

lemma enrich_predictions_Some: "enrich_predictions env r s = Some (predicted env r s)"
proof (cases "r_Predictor r")
  case (Some p)
  obtain x y where "Predict (e_time_zone env) (e_now env ''Predict cpu'') ''cpu'' hour p = Some x"
      "Predict (e_time_zone env) (e_now env ''Predict queue_depth'') ''queue_depth'' hour p = Some y"
    using Predict_Some by blast
  then show ?thesis using Some by (simp add: predicted_def enrich_predictions_def split: prod.split)
qed (simp add: predicted_def enrich_predictions_def)

lemma enrichContext_total:
  "enrichContext env (s, r) =
    (Inr None, enrich_feedback env r (enrich_resources env (predicted env r (enrich_nodes env r s))), r)"
  by (simp add: enrichContext_def enrich_predictions_Some)

lemma predicted_fields:
  "\<exists>a b c d. predicted env r s = s\<lparr>x_predictedCPU := a, x_cpuConfidence := b, x_predictedQueueDepth := c,
     x_queueConfidence := d\<rparr>"
proof (cases "r_Predictor r")
  case None
  then have "predicted env r s = s\<lparr>x_predictedCPU := x_predictedCPU s, x_cpuConfidence := x_cpuConfidence s,
      x_predictedQueueDepth := x_predictedQueueDepth s, x_queueConfidence := x_queueConfidence s\<rparr>"
    by (simp add: predicted_def enrich_predictions_def)
  then show ?thesis by blast
next
  case (Some p)
  obtain x y where "Predict (e_time_zone env) (e_now env ''Predict cpu'') ''cpu'' hour p = Some x"
      "Predict (e_time_zone env) (e_now env ''Predict queue_depth'') ''queue_depth'' hour p = Some y"
    using Predict_Some by blast
  then have "predicted env r s = s\<lparr>x_predictedCPU := fst x, x_cpuConfidence := snd x,
      x_predictedQueueDepth := fst y, x_queueConfidence := snd y\<rparr>"
    using Some by (simp add: predicted_def enrich_predictions_def split: prod.split)
  then show ?thesis by blast
qed

lemma collectSignals_core: "core (snd (collectSignals env w)) = core w"
  by (cases w) (simp add: collectSignals_def core_simps Let_def split: option.split sum.split prod.split)

lemma predicted_core: "core (predicted env r s, r') = core (s, r')"
  by (rule exE [OF predicted_fields [of env r s]]) (auto simp: core_simps)

lemma enrich_core:
  "core (enrich_nodes env r s, r') = core (s, r')"
  "core (enrich_resources env s, r') = core (s, r')"
  "core (enrich_feedback env r s, r') = core (s, r')"
  by (simp_all add: core_simps enrich_nodes_def enrich_resources_def enrich_feedback_def
      Let_def split: option.split sum.split prod.split)

lemma enrichContext_core: "core (snd (enrichContext env w)) = core w"
  by (cases w) (simp add: enrichContext_total enrich_core predicted_core)

lemma keda_decision_simps [simp]:
  "x_obj (keda_decision b s) = x_obj s"
  "x_validation (keda_decision b s) = x_validation s"
  "x_coordinationSlotHeld (keda_decision b s) = x_coordinationSlotHeld s"
  "x_coordinationWorkload (keda_decision b s) = x_coordinationWorkload s"
  by (simp_all add: keda_decision_def split: option.split)

lemma accept_decision_core: "core (accept_decision env b d p s, r) = core (s, r)"
  by (simp add: accept_decision_def core_simps Let_def split: option.split sum.split)

lemma ask_provider_core: "core (snd (ask_provider env b c s r)) = core (s, r)"
  by (cases "Decide (e_router env) (x_obj s) (scaling_request s b c) (r_Router r)")
    (auto simp: ask_provider_def Let_def accept_decision_core [simplified core_simps] core_simps split: sum.split prod.split)

lemma evaluate_objectives_core: "evaluate_objectives b s = (s', c) \<Longrightarrow> core (s', r) = core (s, r)"
  by (auto simp: evaluate_objectives_def core_simps Let_def split: if_splits)

lemma fetchDecision_core: "core (snd (fetchDecision env w)) = core w"
proof -
  have "core (snd (case evaluate_objectives b s of (s2, c) \<Rightarrow> ask_provider env b c s2 r)) = core (s, r)" for b s r
    by (cases "evaluate_objectives b s") (auto simp: ask_provider_core dest: evaluate_objectives_core [where r = r])
  then show ?thesis
    by (cases w) (auto simp: fetchDecision_def Let_def core_simps split: option.splits prod.splits)
qed

lemma checkOscillation_core: "core (snd (checkOscillation env w)) = core w"
  by (cases w) (simp add: checkOscillation_def core_simps split: option.split)

lemma checkRollback_core: "core (snd (checkRollback env w)) = core w"
  by (cases w) (simp add: checkRollback_def apply_rollback_def core_simps Let_def split: option.split sum.split)

lemma resolveDecisionState_core: "resolveDecisionState h c (s, r) = (e, s') \<Longrightarrow> core (s', r) = core (s, r)"
  by (auto simp: resolveDecisionState_def recalculate_cost_def core_simps Let_def
      split: option.splits prod.splits if_splits sum.splits)

lemma resolve_core:
  "core (snd (resolveTentativeDecision env w)) = core w" "core (snd (resolveFinalDecision env w)) = core w"
  by (cases w; auto simp: resolveTentativeDecision_def resolveFinalDecision_def dest!: resolveDecisionState_core
      split: prod.splits option.splits)+

lemma estimateCost_core: "core (snd (estimateCost env w)) = core w"
  by (cases w) (simp add: estimateCost_def cost_ceiling_def core_simps Let_def split: option.split sum.split prod.split)

lemma checkApproval_core: "core (snd (checkApproval env w)) = core w"
  by (cases w) (simp add: checkApproval_def core_simps Let_def split: option.split)

lemma evaluateAlerts_core: "core (snd (evaluateAlerts env w)) = core w"
  by (cases w) (simp add: evaluateAlerts_def core_simps split: option.split prod.split)

lemma recordAudit_core: "core (snd (recordAudit env w)) = core w"
  by (cases w) (simp add: recordAudit_def core_simps split: option.split)

text \<open>The steps that do change the base: each changes one part of it.\<close>

lemma validateDecision_keeps:
  "snd (validateDecision env (s, r)) = (s', r') \<Longrightarrow>
     r' = r \<and> x_obj s' = x_obj s \<and> x_coordinationSlotHeld s' = x_coordinationSlotHeld s
     \<and> x_coordinationWorkload s' = x_coordinationWorkload s \<and> x_bundle s' = x_bundle s"
  by (auto simp: validateDecision_def split: option.splits)

lemma checkCoordination_keeps:
  "snd (checkCoordination env (s, r)) = (s', r') \<Longrightarrow>
     x_spec s' = x_spec s \<and> ai_Name (x_obj s') = ai_Name (x_obj s)
     \<and> st_LastScaleTime (ai_Status (x_obj s')) = st_LastScaleTime (ai_Status (x_obj s))
     \<and> x_validation s' = x_validation s \<and> r_patches r' = r_patches r \<and> r_statuses r' = r_statuses r"
  by (auto simp: checkCoordination_def acquire_slot_def defer_change_def set_coordinator_def Let_def
      split: option.splits if_splits sum.splits prod.splits)

lemma apply_replicas_keeps:
  "apply_replicas env s r = (res, r') \<Longrightarrow> r_Coordinator r' = r_Coordinator r \<and> r_statuses r' = r_statuses r
     \<and> (\<exists>ps. r_patches r' = r_patches r @ ps \<and> length ps \<le> 1 \<and> (\<forall>p\<in>set ps. \<exists>v. x_validation s = Some v
          \<and> owns_replicas_only ''Deployment'' (target_ns (x_obj s)) (target_name (x_obj s)) (vr_ValidatedReplicas v)
              (spec_DryRun (x_spec s)) p))"
  by (auto simp: apply_replicas_def dest: Apply_sends(1) [simplified] Apply_sends(2) split: option.splits prod.splits sum.splits)

lemma apply_vertical_keeps:
  "apply_vertical env s r = (res, s', r') \<Longrightarrow> base (s', r') = base (s, r'\<lparr>r_Coordinator := r_Coordinator r\<rparr>)
     \<and> r_statuses r' = r_statuses r
     \<and> (\<exists>ps. r_patches r' = r_patches r @ ps \<and> (\<forall>p\<in>set ps. pt_Replicas p = None
          \<and> pt_Namespace p = target_ns (x_obj s) \<and> pt_Name p = target_name (x_obj s)
          \<and> pt_DryRunAll p = spec_DryRun (x_spec s)))"
  by (auto simp: apply_vertical_def base_simp dest: vertical_sends(2) split: option.splits prod.splits sum.splits if_splits)

lemma notify_applied_simps [simp]:
  "r_patches (notify_applied env a s r) = r_patches r"
  "r_Coordinator (notify_applied env a s r) = r_Coordinator r"
  "r_statuses (notify_applied env a s r) = r_statuses r"
  by (simp_all add: notify_applied_def split: option.split)

lemma record_applied_fields:
  assumes "record_applied env a r = Some r'"
  shows "\<exists>d. r' = r\<lparr>r_OscillationDetector := d\<rparr>"
proof (cases "r' = r")
  case True
  then have "r' = r\<lparr>r_OscillationDetector := r_OscillationDetector r\<rparr>" by simp
  then show ?thesis by blast
qed (use assms in \<open>auto simp: record_applied_def split: option.splits if_splits\<close>)

lemma scaling_condition_base [simp]: "base (scaling_condition env a s, r) = base (s, r)"
  by (simp add: scaling_condition_def Let_def)

text \<open>A patch of the target of \<open>s\<close> that asks for the validated count, if for any.\<close>

definition patch_from :: "'q reconcileState \<Rightarrow> 'q Patch \<Rightarrow> bool" where
  "patch_from s p \<longleftrightarrow> pt_Namespace p = target_ns (x_obj s) \<and> pt_Name p = target_name (x_obj s)
     \<and> pt_DryRunAll p = spec_DryRun (x_spec s)
     \<and> (\<forall>n. pt_Replicas p = Some n \<longrightarrow> map_option vr_ValidatedReplicas (x_validation s) = Some n)"

abbreviation replica_patches :: "'q Patch list \<Rightarrow> 'q Patch list" where
  "replica_patches ps \<equiv> List.filter (\<lambda>p. pt_Replicas p \<noteq> None) ps"

lemma actuate_keeps:
  assumes "snd (actuate env (s, r)) = (s', r')"
  shows "x_spec s' = x_spec s \<and> ai_Name (x_obj s') = ai_Name (x_obj s) \<and> x_validation s' = x_validation s
    \<and> st_LastScaleTime (ai_Status (x_obj s')) = st_LastScaleTime (ai_Status (x_obj s))
    \<and> x_coordinationSlotHeld s' = x_coordinationSlotHeld s
    \<and> x_coordinationWorkload s' = x_coordinationWorkload s
    \<and> r_Coordinator r' = r_Coordinator r \<and> r_statuses r' = r_statuses r
    \<and> (\<exists>ps. r_patches r' = r_patches r @ ps \<and> list_all (patch_from s) ps \<and> length (replica_patches ps) \<le> 1)"
proof (cases "x_validation s = None \<and> x_verticalDecision s = None")
  case True
  then show ?thesis using assms(1) by (auto simp: actuate_def intro: exI [of _ "[]"])
next
  case False
  obtain a r1 where a: "apply_replicas env s r = (a, r1)" by force
  obtain ps1 where ps1: "r_patches r1 = r_patches r @ ps1" "list_all (patch_from s) ps1" "length ps1 \<le> 1"
    using apply_replicas_keeps [OF a] by (fastforce simp: list_all_iff patch_from_def owns_replicas_only_def)
  have n1: "length (replica_patches ps1) \<le> 1" using ps1(3) length_filter_le le_trans by blast
  obtain e s2 r2 where v: "apply_vertical env s r1 = (e, s2, r2)" by (metis prod_cases3)
  obtain ps2 where ps2: "r_patches r2 = r_patches r1 @ ps2" "list_all (patch_from s) ps2" "replica_patches ps2 = []"
    using apply_vertical_keeps [OF v] by (auto simp: list_all_iff patch_from_def filter_empty_conv)
  have r: "(s', r') \<in> {(s, r1), (s2, r2)}
      \<or> (\<exists>d. (s', r') = (scaling_condition env x s2, notify_applied env x s2 (r2\<lparr>r_OscillationDetector := d\<rparr>)))"
    if "a = Inr x" for x
    using assms(1) False a v that record_applied_fields [of env x r2]
    by (cases e; cases "record_applied env x r2") (auto simp: actuate_def)
  have l: "(s', r') = (s, r1)" if "a = Inl x" for x
    using assms(1) False a that by (auto simp: actuate_def)
  have b1: "r_Coordinator r1 = r_Coordinator r" "r_statuses r1 = r_statuses r" using apply_replicas_keeps [OF a] by auto
  have b2: "base (s2, r2) = base (s, r2\<lparr>r_Coordinator := r_Coordinator r1\<rparr>)" "r_statuses r2 = r_statuses r1"
    using apply_vertical_keeps [OF v] by auto
  have b: "base (s', r') = base (s, r'\<lparr>r_Coordinator := r_Coordinator r\<rparr>)" "r_statuses r' = r_statuses r"
    and p: "r_patches r' \<in> {r_patches r @ ps1, r_patches r @ ps1 @ ps2}"
    using r l b1 b2 ps1(1) ps2(1) scaling_condition_base [of env _ s2]
    by (cases a; force simp: base_simp)+
  show ?thesis
    using b p ps1 ps2 n1 by (auto simp: base_simp intro: exI [of _ ps1] exI [of _ "ps1 @ ps2"])
qed

lemma status_LastScaleTime:
  "st_LastScaleTime (status_basics s st) = st_LastScaleTime st"
  "st_LastScaleTime (status_resources q now s st) = st_LastScaleTime st"
  "st_LastScaleTime (status_context s st) = st_LastScaleTime st"
  "spec_DryRun (x_spec s) \<Longrightarrow> st_LastScaleTime (status_phase now s st) = st_LastScaleTime st"
  by (simp_all add: status_basics_def status_resources_def status_context_def status_phase_def Let_def split: option.split)

lemma new_status_simps [simp]:
  "x_spec (new_status env m s) = x_spec s"
  "ai_Name (x_obj (new_status env m s)) = ai_Name (x_obj s)"
  "x_validation (new_status env m s) = x_validation s"
  "x_coordinationSlotHeld (new_status env m s) = x_coordinationSlotHeld s"
  "x_coordinationWorkload (new_status env m s) = x_coordinationWorkload s"
  "spec_DryRun (x_spec s) \<Longrightarrow>
     st_LastScaleTime (ai_Status (x_obj (new_status env m s))) = st_LastScaleTime (ai_Status (x_obj s))"
  by (simp_all add: new_status_def set_status_def Let_def status_LastScaleTime)

lemma persistStatus_snd: "snd (persistStatus m env (s, r)) = snd (update_status env (new_status env m s) r)"
  by (cases "update_status env (new_status env m s) r") (simp add: persistStatus_def split: option.split)

lemma persistStatus_keeps:
  assumes "server_ok env" and "snd (persistStatus m env (s, r)) = (s', r')"
  shows "x_spec s' = x_spec s \<and> ai_Name (x_obj s') = ai_Name (x_obj s) \<and> x_validation s' = x_validation s
    \<and> x_coordinationSlotHeld s' = x_coordinationSlotHeld s \<and> x_coordinationWorkload s' = x_coordinationWorkload s
    \<and> r_patches r' = r_patches r \<and> r_Coordinator r' = r_Coordinator r
    \<and> r_statuses r' = r_statuses r @ [x_obj (new_status env m s)]
    \<and> (spec_DryRun (x_spec s) \<longrightarrow>
         st_LastScaleTime (ai_Status (x_obj s')) = st_LastScaleTime (ai_Status (x_obj s)))"
  using update_status_base [OF assms(1), of "new_status env m s" r] write_statuses(2) [of env "new_status env m s" r]
    assms(2) by (auto simp: persistStatus_snd base_simp)

end
