(* ===== verification/Controller.thy ===== *)
theory Controller
  imports Controller_Frames
begin

text \<open>
  What a reconcile guarantees, whatever its environment answers.  The locale \<open>step_invariant\<close>
  carries an invariant of the single steps over a chain of steps and its error handling; it is
  interpreted for the patches a reconcile sends, for the slots it holds and for what a dry run may
  write.
\<close>

section \<open>Chains of steps\<close>

text \<open>The state after all the steps of a list, if none of them fails or ends the reconcile.\<close>

fun passes :: "(string \<times> 'q step) list \<Rightarrow> 'q Env \<Rightarrow> 'q reconcileState \<times> 'q Reconciler
    \<Rightarrow> ('q reconcileState \<times> 'q Reconciler) option" where
  "passes [] env w = Some w"
| "passes ((n, f) # fs) env w = (case f env w of (Inr None, w1) \<Rightarrow> passes fs env w1 | _ \<Rightarrow> None)"

lemma run_steps_split:
  "run_steps (fs @ gs) env w = (case passes fs env w of
     Some w' \<Rightarrow> run_steps gs env w' | None \<Rightarrow> run_steps fs env w)"
  by (induction fs env w rule: passes.induct) (simp_all split: prod.split sum.split option.split)

locale step_invariant =
  fixes inv :: "'q Env \<Rightarrow> 'q reconcileState \<times> 'q Reconciler \<Rightarrow> bool"
    and body :: "(string \<times> 'q step) list"
  assumes step_keeps: "(n, f) \<in> set body \<Longrightarrow> inv env w \<Longrightarrow> inv env (snd (f env w))"
    and persist_keeps: "inv env w \<Longrightarrow> inv env (snd (persistStatus False env w))"
    and failed_keeps: "inv env (s, r) \<Longrightarrow> inv env ((set_cond env a b c d s)\<lparr>x_phase := p\<rparr>, r)"
begin

lemma step_failed_keeps: "inv env w \<Longrightarrow> inv env (step_failed env n e w)"
  by (cases w) (auto simp: step_failed_def intro: persist_keeps failed_keeps)

lemma handled_keeps: "inv env w \<Longrightarrow> inv env (handle_failure env n f w)"
  by (cases f) (auto simp: handle_failure_def intro: step_failed_keeps)

lemma run_keeps: "set fs \<subseteq> set body \<Longrightarrow> inv env w \<Longrightarrow> inv env (snd (run_steps fs env w))"
proof (induction fs arbitrary: w)
  case (Cons nf fs)
  obtain n f where nf: "nf = (n, f)" by force
  obtain x w1 where f: "f env w = (x, w1)" by (meson surj_pair)
  have "inv env w1" using step_keeps [of n f env w] Cons.prems f by (simp add: nf)
  then show ?case
    using Cons.IH [of w1] Cons.prems f handled_keeps [of env w1] persist_keeps [of env w1]
    by (cases "persistStatus False env w1") (simp add: nf split: sum.split option.split)
qed simp

lemma passes_keeps: "set fs \<subseteq> set body \<Longrightarrow> inv env w \<Longrightarrow> passes fs env w = Some w' \<Longrightarrow> inv env w'"
proof (induction fs arbitrary: w)
  case (Cons nf fs)
  obtain n f where nf: "nf = (n, f)" by force
  obtain x w1 where f: "f env w = (x, w1)" by (meson surj_pair)
  have "inv env w1" using step_keeps [of n f env w] Cons.prems f by (simp add: nf)
  then show ?case using Cons.IH [of w1] Cons.prems f by (simp add: nf split: sum.splits option.splits)
qed simp

end

text \<open>The steps that keep the whole core, and the chain before and after the actuation.\<close>

definition core_steps :: "(string \<times> 'q step) list" where
  "core_steps = [(''checkCooldown'', checkCooldown), (''collectSignals'', collectSignals),
     (''enrichContext'', enrichContext), (''fetchDecision'', fetchDecision),
     (''checkOscillation'', checkOscillation), (''checkRollback'', checkRollback),
     (''resolveTentativeDecision'', resolveTentativeDecision), (''estimateCost'', estimateCost),
     (''checkApproval'', checkApproval), (''resolveFinalDecision'', resolveFinalDecision),
     (''evaluateAlerts'', evaluateAlerts), (''recordAudit'', recordAudit)]"

definition before_actuate :: "(string \<times> 'q step) list" where
  "before_actuate = take 13 steps"

definition after_actuate :: "(string \<times> 'q step) list" where
  "after_actuate = drop 14 steps"

lemma steps_split: "steps = before_actuate @ (''actuate'', actuate) # after_actuate"
  by (simp add: before_actuate_def after_actuate_def steps_def)

lemma core_steps_keep: "(n, f) \<in> set core_steps \<Longrightarrow> core (snd (f env w)) = core w"
  by (auto simp: core_steps_def checkCooldown_core collectSignals_core enrichContext_core fetchDecision_core
      checkOscillation_core checkRollback_core resolve_core estimateCost_core checkApproval_core
      evaluateAlerts_core recordAudit_core)

lemma core_base: "core w = core w' \<Longrightarrow> base w = base w'"
  by (simp add: core_def)

lemma set_steps: "set steps = {(''ensureFinalizer'', ensureFinalizer), (''validateDecision'', validateDecision),
    (''checkCoordination'', checkCoordination), (''actuate'', actuate), (''updateStatus'', updateStatus)} \<union> set core_steps"
  by (auto simp: steps_def core_steps_def)

section \<open>Patches\<close>

text \<open>Before the actuation: no patch yet, and a validated count is within the bounds.\<close>

definition quiet :: "'q AIScalerSpec \<Rightarrow> 'q Patch list \<Rightarrow> 'q Env \<Rightarrow> 'q reconcileState \<times> 'q Reconciler \<Rightarrow> bool" where
  "quiet spec ps env w \<longleftrightarrow> server_ok env \<and> (case w of (s, r) \<Rightarrow> x_spec s = spec \<and> r_patches r = ps
     \<and> (\<forall>v. x_validation s = Some v \<longrightarrow> bounds_ok (spec_Constraints spec) \<longrightarrow>
          within_bounds (spec_Constraints spec) (vr_ValidatedReplicas v)))"

lemma quiet_base: "base w = base w' \<Longrightarrow> quiet spec ps env w \<longleftrightarrow> quiet spec ps env w'"
  by (cases w; cases w') (simp add: quiet_def base_simp)

lemma validated_within:
  assumes "bounds_ok (ai_Constraints p)"
  shows "within_bounds (ai_Constraints p) (vr_ValidatedReplicas (Validate d cur p))"
    and "within_bounds (ai_Constraints p) (vr_ValidatedReplicas (av_ValidationResult (ValidateAsymmetric d cur p)))"
  using validate.guard_within [OF assms, of d cur] asymmetric.guard_within [OF assms, of d cur]
  by (simp_all add: validate_guard_def asymmetric_guard_def)

lemma validate_quiet: "quiet spec ps env w \<Longrightarrow> quiet spec ps env (snd (validateDecision env w))"
  by (cases w) (auto simp: quiet_def validateDecision_def validated_within split: option.split)

definition quiet_steps :: "(string \<times> 'q step) list" where
  "quiet_steps = before_actuate @ after_actuate"

lemma set_quiet_steps: "set quiet_steps = {(''ensureFinalizer'', ensureFinalizer), (''validateDecision'', validateDecision),
    (''checkCoordination'', checkCoordination), (''updateStatus'', updateStatus)} \<union> set core_steps"
  by (auto simp: quiet_steps_def before_actuate_def after_actuate_def steps_def core_steps_def)

lemma persist_quiet: "quiet spec ps env w \<Longrightarrow> quiet spec ps env (snd (persistStatus m env w))"
  by (cases w; cases "snd (persistStatus m env w)") (auto simp: quiet_def dest: persistStatus_keeps)

lemma coordination_quiet: "quiet spec ps env w \<Longrightarrow> quiet spec ps env (snd (checkCoordination env w))"
  by (cases w; cases "snd (checkCoordination env w)") (auto simp: quiet_def dest: checkCoordination_keeps)

interpretation quiet: step_invariant "quiet spec ps" quiet_steps for spec ps
proof (unfold_locales, goal_cases)
  case (1 n f env w)
  have "quiet spec ps env (snd (f env w))" if "(n, f) \<in> set core_steps"
    using quiet_base [OF core_base [OF core_steps_keep [OF that]]] 1(2) by blast
  moreover have "quiet spec ps env (snd (ensureFinalizer env w))"
    using quiet_base [OF ensureFinalizer_base] 1(2) by (metis quiet_def)
  ultimately show ?case
    using 1 by (auto simp: set_quiet_steps updateStatus_def intro: validate_quiet persist_quiet coordination_quiet)
next
  case (2 env w)
  then show ?case by (rule persist_quiet)
next
  case (3 env s r a b c d p)
  then show ?case by (simp add: quiet_def)
qed

text \<open>After it: at most one patch of the count, and every patch as the specification allows.\<close>

definition patch_ok :: "'q AIScalerSpec \<Rightarrow> 'q Patch \<Rightarrow> bool" where
  "patch_ok spec p \<longleftrightarrow> pt_Namespace p = tr_Namespace (spec_TargetRef spec) \<and> pt_Name p = tr_Name (spec_TargetRef spec)
     \<and> pt_DryRunAll p = spec_DryRun spec
     \<and> (\<forall>n. pt_Replicas p = Some n \<longrightarrow> within_bounds (spec_Constraints spec) n)"

definition new_patches :: "'q AIScalerSpec \<Rightarrow> 'q Patch list \<Rightarrow> 'q Patch list \<Rightarrow> bool" where
  "new_patches spec old new \<longleftrightarrow>
     (\<exists>ps. new = old @ ps \<and> list_all (patch_ok spec) ps \<and> length (replica_patches ps) \<le> 1)"

lemma new_patches_refl: "new_patches spec ps ps"
  by (simp add: new_patches_def)

lemma run_steps_patches:
  assumes "quiet spec ps env w" and "bounds_ok (spec_Constraints spec)"
    and "set fs \<subseteq> set quiet_steps" and "run_steps (fs @ (''actuate'', actuate) # after_actuate) env w = (res, s, r)"
  shows "new_patches spec ps (r_patches r)"
proof (cases "passes fs env w")
  case None
  then have "quiet spec ps env (s, r)"
    using quiet.run_keeps [OF assms(3,1)] assms(4) by (simp add: run_steps_split)
  then show ?thesis by (simp add: quiet_def new_patches_refl)
next
  case (Some w1)
  obtain s1 r1 where w1: "w1 = (s1, r1)" by force
  have q: "quiet spec ps env (s1, r1)" using quiet.passes_keeps [OF assms(3,1)] Some w1 by blast
  obtain x s2 r2 where a: "actuate env (s1, r1) = (x, s2, r2)" by (metis prod_cases3)
  have k: "x_spec s2 = x_spec s1" "x_validation s2 = x_validation s1"
      "\<exists>qs. r_patches r2 = r_patches r1 @ qs \<and> list_all (patch_from s1) qs \<and> length (replica_patches qs) \<le> 1"
    using actuate_keeps [of env s1 r1 s2 r2] a by auto
  then have n: "new_patches spec ps (r_patches r2)"
    using q assms(2) by (auto simp: quiet_def new_patches_def patch_from_def patch_ok_def list_all_iff)
  have q2: "quiet spec (r_patches r2) env (s2, r2)" using q k by (simp add: quiet_def)
  have after: "set after_actuate \<subseteq> set quiet_steps" by (simp add: quiet_steps_def)
  have "quiet spec (r_patches r2) env (s, r)"
  proof (cases x)
    case (Inl e)
    then have "(s, r) = handle_failure env ''actuate'' e (s2, r2)" using assms(4) Some w1 a by (simp add: run_steps_split)
    then show ?thesis using quiet.handled_keeps [OF q2, of "''actuate''" e] by simp
  next
    case (Inr y)
    have "y = None" using a Inr by (auto simp: actuate_def split: if_splits sum.splits prod.splits option.splits)
    then have "run_steps after_actuate env (s2, r2) = (res, s, r)"
      using assms(4) Some w1 a Inr by (simp add: run_steps_split)
    then show ?thesis using quiet.run_keeps [OF after q2] by simp
  qed
  then show ?thesis using n by (simp add: quiet_def)
qed

lemma Reconcile_run:
  assumes "e_get env = Inr obj" and "Reconcile env r = (res, r')"
  shows "\<exists>s1 r1. run_steps steps env (new_state obj (e_uuid env), r) = (res, s1, r1)
    \<and> r' = releaseCoordination (s1, r1)"
  using assms by (auto simp: Reconcile_def split: prod.splits)

lemma release_simps [simp]:
  "r_patches (releaseCoordination (s, r)) = r_patches r"
  "r_statuses (releaseCoordination (s, r)) = r_statuses r"
  "r_ClusterMaxHourlyCost (releaseCoordination (s, r)) = r_ClusterMaxHourlyCost r"
  by (simp_all add: releaseCoordination_def set_coordinator_def Let_def split: option.split)

lemma new_state_simps [simp]:
  "x_obj (new_state obj u) = obj" "x_validation (new_state obj u) = None" "x_bundle (new_state obj u) = None"
  "x_coordinationSlotHeld (new_state obj u) = False" "x_verticalDecision (new_state obj u) = None"
  by (simp_all add: new_state_def)

lemma quiet_new: "server_ok env \<Longrightarrow> quiet (ai_Spec obj) (r_patches r) env (new_state obj u, r)"
  by (simp add: quiet_def)

lemma write_ends:
  "fst (case z of (Some e, s1, r1) \<Rightarrow> (Inl (f e), s1, r1) | (None, s1, r1) \<Rightarrow> (Inr (Some c), s1, r1)) \<noteq> Inr None"
  by (cases z rule: prod_cases3) (simp split: option.split)

lemma stopped_first:
  assumes "being_deleted obj \<or> ValidateSpec (ai_Spec obj) \<noteq> None"
  shows "fst (ensureFinalizer env (new_state obj u, r)) \<noteq> Inr None"
  using assms by (auto simp: ensureFinalizer_def write_ends split: option.split)

text \<open>A reconcile that stops in its first three steps keeps what these steps keep.\<close>

definition cooling :: "'q Env \<Rightarrow> 'q AIScaler \<Rightarrow> bool" where
  "cooling env obj \<longleftrightarrow> (case st_LastScaleTime (ai_Status obj) of None \<Rightarrow> False
     | Some t \<Rightarrow> time_sub (e_now env ''checkCooldown'') t < spec_CooldownPeriod (ai_Spec obj))"

definition collects_frozen :: "'q Env \<Rightarrow> 'q AIScaler \<Rightarrow> bool" where
  "collects_frozen env obj \<longleftrightarrow> (case NewManager (e_plugins env) (spec_Signals (ai_Spec obj)) of
     Inl e \<Rightarrow> False
   | Inr mgr \<Rightarrow> (case fst (manager_Collect (e_plugins env) obj mgr) of
       Inl e \<Rightarrow> False | Inr b \<Rightarrow> frozen env b \<noteq> None))"

definition withheld :: "'q Env \<Rightarrow> 'q AIScaler \<Rightarrow> bool" where
  "withheld env obj \<longleftrightarrow> being_deleted obj \<or> ValidateSpec (ai_Spec obj) \<noteq> None \<or> cooling env obj
     \<or> (\<forall>p. ai_Spec p = ai_Spec obj \<longrightarrow> collects_frozen env p)"

lemma checkCooldown_stops: "cooling env (x_obj s) \<Longrightarrow> fst (checkCooldown env (s, r)) \<noteq> Inr None"
  by (auto simp: cooling_def checkCooldown_def Let_def split: option.splits)

lemma collectSignals_stops: "collects_frozen env (x_obj s) \<Longrightarrow> fst (collectSignals env (s, r)) \<noteq> Inr None"
  by (auto simp: collects_frozen_def collectSignals_def Let_def split: option.splits sum.splits)

lemma withheld_stops:
  assumes "server_ok env" and "withheld env obj"
  shows "passes (take 3 steps) env (new_state obj u, r) = None"
proof -
  obtain x1 s1 r1 where e: "ensureFinalizer env (new_state obj u, r) = (x1, s1, r1)" by (metis prod_cases3)
  have b1: "x_spec s1 = ai_Spec obj" "st_LastScaleTime (ai_Status (x_obj s1)) = st_LastScaleTime (ai_Status obj)"
    using ensureFinalizer_base [OF assms(1), of "(new_state obj u, r)"] e by (simp_all add: base_simp)
  obtain x2 s2 r2 where c: "checkCooldown env (s1, r1) = (x2, s2, r2)" by (metis prod_cases3)
  have b2: "x_spec s2 = ai_Spec obj"
    using core_base [OF checkCooldown_core, of env "(s1, r1)"] c b1 by (simp add: base_simp)
  obtain x3 w3 where d: "collectSignals env (s2, r2) = (x3, w3)" by (meson surj_pair)
  have "cooling env (x_obj s1) \<longleftrightarrow> cooling env obj" by (simp add: cooling_def b1 cong: option.case_cong)
  then have "x1 \<noteq> Inr None \<or> x2 \<noteq> Inr None \<or> x3 \<noteq> Inr None"
    using assms(2) stopped_first [of obj env u r] checkCooldown_stops [of env s1 r1] collectSignals_stops [of env s2 r2]
      e c d b2 by (auto simp: withheld_def)
  then show ?thesis
    using e c d by (auto simp: steps_def split: sum.split option.split)
qed

lemma withheld_run:
  assumes "server_ok env" and "withheld env obj" and "run_steps steps env (new_state obj u, r) = (res, s', r')"
  shows "run_steps (take 3 steps) env (new_state obj u, r) = (res, s', r')"
proof -
  have "run_steps (take 3 steps @ drop 3 steps) env (new_state obj u, r) = (res, s', r')" using assms(3) by simp
  then show ?thesis using withheld_stops [OF assms(1,2), of u r] by (simp add: run_steps_split del: append_take_drop_id)
qed

lemma set_take3: "set (take 3 steps) \<subseteq> {(''ensureFinalizer'', ensureFinalizer)} \<union> set core_steps"
  by (auto simp: steps_def core_steps_def)

section \<open>Slots\<close>

text \<open>
  A slot is active only if it was before or the reconcile holds it; with \<open>h\<close> false the reconcile
  holds none.
\<close>

definition slots_from :: "string set \<Rightarrow> bool \<Rightarrow> 'q Env \<Rightarrow> 'q reconcileState \<times> 'q Reconciler \<Rightarrow> bool" where
  "slots_from act h env w \<longleftrightarrow> server_ok env \<and> (case w of (s, r) \<Rightarrow> ai_Name (x_obj s) \<noteq> []
     \<and> (x_coordinationSlotHeld s \<longrightarrow> h \<and> x_coordinationWorkload s \<noteq> [])
     \<and> (\<exists>c. r_Coordinator r = Some c \<and> (\<forall>v. fmlookup (co_activeOps c) v \<noteq> None \<longrightarrow>
          v \<in> act \<or> x_coordinationSlotHeld s \<and> v = x_coordinationWorkload s)))"

lemma slots_from_base: "base w = base w' \<Longrightarrow> slots_from act h env w \<longleftrightarrow> slots_from act h env w'"
  by (cases w; cases w') (simp add: slots_from_def base_simp)

lemma cleanup_subset: "fmlookup (co_activeOps (cleanupLocked t c)) v \<noteq> None \<Longrightarrow> fmlookup (co_activeOps c) v \<noteq> None"
  by (simp add: cleanup_lookup split: option.splits)

lemma ActiveWorkloads_subset:
  "ActiveWorkloads t c = (f, c') \<Longrightarrow> fmlookup (co_activeOps c') v \<noteq> None \<Longrightarrow> fmlookup (co_activeOps c) v \<noteq> None"
  using cleanup_subset [of t c v] by (auto simp: ActiveWorkloads_def Let_def)

lemma Acquire_subset:
  "AcquireScalingSlot t u w c = (e, c') \<Longrightarrow> fmlookup (co_activeOps c') v \<noteq> None \<Longrightarrow>
     fmlookup (co_activeOps c) v \<noteq> None \<or> e = None \<and> v = w"
  using cleanup_subset [of t c v] by (auto simp: AcquireScalingSlot_def Let_def split: if_splits)

lemma acquire_slot_cases:
  assumes "snd (acquire_slot env c s r) = (s', r')"
  shows "\<exists>e c'. AcquireScalingSlot (e_now env ''acquire.cleanup'') (e_now env ''acquire.start'')
      (coordinationWorkloadName (x_obj s)) c = (e, c') \<and> r' = set_coordinator c' r
    \<and> (case e of None \<Rightarrow> s' = s \<lparr>x_coordinationSlotHeld := True, x_coordinationWorkload := coordinationWorkloadName (x_obj s)\<rparr>
       | Some _ \<Rightarrow> x_coordinationSlotHeld s' = x_coordinationSlotHeld s \<and> x_coordinationWorkload s' = x_coordinationWorkload s
           \<and> ai_Name (x_obj s') = ai_Name (x_obj s))"
  using assms by (auto simp: acquire_slot_def defer_change_def Let_def split: prod.splits option.splits)

text \<open>What the coordination step does to the slots: nothing, a snapshot, or a snapshot and a request.\<close>

lemma checkCoordination_slots:
  assumes "snd (checkCoordination env (s, r)) = (s', r')" and "r_Coordinator r = Some c0" and "ai_Name (x_obj s) \<noteq> []"
    and "\<not> x_coordinationSlotHeld s"
  shows "ai_Name (x_obj s') = ai_Name (x_obj s) \<and> (x_coordinationSlotHeld s' \<longrightarrow> x_coordinationWorkload s' \<noteq> [])
    \<and> (\<exists>c. r_Coordinator r' = Some c \<and> (\<forall>v. fmlookup (co_activeOps c) v \<noteq> None \<longrightarrow>
          fmlookup (co_activeOps c0) v \<noteq> None \<or> x_coordinationSlotHeld s' \<and> v = x_coordinationWorkload s'))"
proof -
  obtain f c where a: "ActiveWorkloads (e_now env ''ActiveWorkloads'') c0 = (f, c)" by force
  have nm: "coordinationWorkloadName (x_obj s) \<noteq> []" using assms(3) by (simp add: coordinationWorkloadName_def)
  have "(s', r') = (s, r) \<or> (r_Coordinator r' = Some c \<and> x_coordinationSlotHeld s' = x_coordinationSlotHeld s
        \<and> ai_Name (x_obj s') = ai_Name (x_obj s))
      \<or> snd (acquire_slot env c s (set_coordinator c r)) = (s', r')"
    using assms(1,2) a by (auto simp: checkCoordination_def defer_change_def set_coordinator_def Let_def
        split: if_splits sum.splits prod.splits)
  then consider (same) "(s', r') = (s, r)"
    | (snapshot) "r_Coordinator r' = Some c" "x_coordinationSlotHeld s' = x_coordinationSlotHeld s"
        "ai_Name (x_obj s') = ai_Name (x_obj s)"
    | (request) "snd (acquire_slot env c s (set_coordinator c r)) = (s', r')" by blast
  then show ?thesis
  proof cases
    case same
    then show ?thesis using assms(2,4) by auto
  next
    case snapshot
    then show ?thesis using ActiveWorkloads_subset [OF a] assms(4) by auto
  next
    case request
    then obtain e c' where q: "AcquireScalingSlot (e_now env ''acquire.cleanup'') (e_now env ''acquire.start'')
        (coordinationWorkloadName (x_obj s)) c = (e, c')" "r_Coordinator r' = Some c'"
        "case e of None \<Rightarrow> s' = s \<lparr>x_coordinationSlotHeld := True, x_coordinationWorkload := coordinationWorkloadName (x_obj s)\<rparr>
         | Some _ \<Rightarrow> x_coordinationSlotHeld s' = x_coordinationSlotHeld s \<and> x_coordinationWorkload s' = x_coordinationWorkload s
             \<and> ai_Name (x_obj s') = ai_Name (x_obj s)"
      using acquire_slot_cases [OF request] by (auto simp: set_coordinator_def)
    have "fmlookup (co_activeOps c') v \<noteq> None \<Longrightarrow>
        fmlookup (co_activeOps c0) v \<noteq> None \<or> e = None \<and> v = coordinationWorkloadName (x_obj s)" for v
      using Acquire_subset [OF q(1)] ActiveWorkloads_subset [OF a] by blast
    then show ?thesis using q(2,3) nm assms(4) by (cases e) auto
  qed
qed

definition before_coordination :: "(string \<times> 'q step) list" where
  "before_coordination = take 12 steps"

definition after_coordination :: "(string \<times> 'q step) list" where
  "after_coordination = drop 13 steps"

definition slot_steps :: "(string \<times> 'q step) list" where
  "slot_steps = before_coordination @ after_coordination"

lemma set_slot_steps: "set slot_steps = {(''ensureFinalizer'', ensureFinalizer), (''validateDecision'', validateDecision),
    (''actuate'', actuate), (''updateStatus'', updateStatus)} \<union> set core_steps"
  by (auto simp: slot_steps_def before_coordination_def after_coordination_def steps_def core_steps_def)

lemma persist_slots: "slots_from act h env w \<Longrightarrow> slots_from act h env (snd (persistStatus m env w))"
  by (cases w; cases "snd (persistStatus m env w)") (auto simp: slots_from_def dest: persistStatus_keeps)

lemma actuate_slots: "slots_from act h env w \<Longrightarrow> slots_from act h env (snd (actuate env w))"
  by (cases w; cases "snd (actuate env w)") (auto simp: slots_from_def dest: actuate_keeps)

lemma validate_slots: "slots_from act h env w \<Longrightarrow> slots_from act h env (snd (validateDecision env w))"
  by (cases w; cases "snd (validateDecision env w)") (auto simp: slots_from_def dest: validateDecision_keeps)

interpretation slots: step_invariant "slots_from act h" slot_steps for act h
proof (unfold_locales, goal_cases)
  case (1 n f env w)
  have "slots_from act h env (snd (f env w))" if "(n, f) \<in> set core_steps"
    using slots_from_base [OF core_base [OF core_steps_keep [OF that]]] 1(2) by blast
  moreover have "slots_from act h env (snd (ensureFinalizer env w))"
    using slots_from_base [OF ensureFinalizer_base] 1(2) by (metis slots_from_def)
  ultimately show ?case
    using 1 by (auto simp: set_slot_steps updateStatus_def intro: validate_slots persist_slots actuate_slots)
next
  case (2 env w)
  then show ?case by (rule persist_slots)
next
  case (3 env s r a b c d p)
  then show ?case by (simp add: slots_from_def)
qed

lemma coordination_slots:
  assumes "slots_from act False env w"
  shows "slots_from act True env (snd (checkCoordination env w))"
proof -
  obtain s r where w: "w = (s, r)" by force
  obtain s' r' where c: "snd (checkCoordination env (s, r)) = (s', r')" by force
  then show ?thesis
    using checkCoordination_slots [OF c] assms w by (fastforce simp: slots_from_def)
qed

lemma slots_from_weaken: "slots_from act False env w \<Longrightarrow> slots_from act True env w"
  by (cases w) (auto simp: slots_from_def)

lemma run_steps_slots:
  assumes "slots_from act False env w"
  shows "slots_from act True env (snd (run_steps steps env w))"
proof -
  have split: "steps = before_coordination @ (''checkCoordination'', checkCoordination) # after_coordination"
    by (simp add: before_coordination_def after_coordination_def steps_def)
  have sub: "set before_coordination \<subseteq> set slot_steps" "set after_coordination \<subseteq> set slot_steps"
    by (simp_all add: slot_steps_def)
  show ?thesis
  proof (cases "passes before_coordination env w")
    case None
    then show ?thesis
      using slots_from_weaken [OF slots.run_keeps [OF sub(1) assms]] by (simp add: split run_steps_split)
  next
    case (Some w1)
    have s1: "slots_from act False env w1" by (rule slots.passes_keeps [OF sub(1) assms Some])
    obtain x w2 where c: "checkCoordination env w1 = (x, w2)" by (meson surj_pair)
    have s2: "slots_from act True env w2" using coordination_slots [OF s1] c by simp
    show ?thesis
      using slots.run_keeps [OF sub(2) s2] slots.handled_keeps [OF s2] slots.persist_keeps [OF s2] Some c
      by (cases "persistStatus False env w2") (simp add: split run_steps_split split: sum.split option.split)
  qed
qed

lemma release_slots:
  assumes "slots_from act True env (s, r)"
  shows "\<exists>c. r_Coordinator (releaseCoordination (s, r)) = Some c \<and> (\<forall>v. fmlookup (co_activeOps c) v \<noteq> None \<longrightarrow> v \<in> act)"
  using assms by (fastforce simp: slots_from_def releaseCoordination_def set_coordinator_def ReleaseScalingSlot_def)

lemma Reconcile_slots:
  assumes "server_ok env" and "e_get env = Inr obj" and "ai_Name obj \<noteq> []" and "r_Coordinator r = Some c"
  shows "\<exists>c'. r_Coordinator (snd (Reconcile env r)) = Some c' \<and> (\<forall>v. fmlookup (co_activeOps c') v \<noteq> None \<longrightarrow>
    fmlookup (co_activeOps c) v \<noteq> None)"
proof -
  obtain res r' where rec: "Reconcile env r = (res, r')" by force
  obtain s1 r1 where run: "run_steps steps env (new_state obj (e_uuid env), r) = (res, s1, r1)"
      "r' = releaseCoordination (s1, r1)"
    using Reconcile_run [OF assms(2) rec] by blast
  have "slots_from {v. fmlookup (co_activeOps c) v \<noteq> None} False env (new_state obj (e_uuid env), r)"
    using assms by (simp add: slots_from_def)
  then have "slots_from {v. fmlookup (co_activeOps c) v \<noteq> None} True env (s1, r1)"
    using run_steps_slots run(1) by (metis snd_conv)
  then show ?thesis using release_slots rec run(2) by fastforce
qed

end
