(* ===== verification/Reconcile_Safety.thy ===== *)
theory Reconcile_Safety
  imports Controller
begin

text \<open>
  Safety of a whole reconcile, for every answer of its environment: the patches it may send, the
  cases in which it sends none, what a dry run leaves untouched, and the slots of the coordinator.
\<close>

section \<open>Dry runs\<close>

definition dry_inv :: "ClusterCoordinator option \<Rightarrow> time option \<Rightarrow> 'q AIScaler list \<Rightarrow> 'q Env
    \<Rightarrow> 'q reconcileState \<times> 'q Reconciler \<Rightarrow> bool" where
  "dry_inv c t sts env w \<longleftrightarrow> server_ok env \<and> (case w of (s, r) \<Rightarrow> spec_DryRun (x_spec s)
     \<and> \<not> x_coordinationSlotHeld s \<and> r_Coordinator r = c \<and> st_LastScaleTime (ai_Status (x_obj s)) = t
     \<and> (\<exists>os. r_statuses r = sts @ os \<and> (\<forall>ob\<in>set os. st_LastScaleTime (ai_Status ob) = t)))"

lemma dry_inv_core: "core w = core w' \<Longrightarrow> dry_inv c t sts env w \<longleftrightarrow> dry_inv c t sts env w'"
  by (cases w; cases w') (simp add: dry_inv_def core_simps)

lemma finalizer_dry:
  assumes "dry_inv c t sts env w"
  shows "dry_inv c t sts env (snd (ensureFinalizer env w))"
proof -
  obtain s r where w: "w = (s, r)" by force
  have "server_ok env" using assms by (simp add: dry_inv_def)
  then have "base (snd (ensureFinalizer env (s, r))) = base (s, r)" by (rule ensureFinalizer_base)
  then show ?thesis
    using ensureFinalizer_statuses [of env s r] assms
    by (cases "snd (ensureFinalizer env (s, r))") (auto simp: w dry_inv_def base_simp)
qed

lemma coordination_dry: "dry_inv c t sts env w \<Longrightarrow> snd (checkCoordination env w) = w"
  by (cases w) (auto simp: dry_inv_def checkCoordination_def needsLiveCoordination_def split: option.split)

lemma persist_dry:
  assumes "dry_inv c t sts env w"
  shows "dry_inv c t sts env (snd (persistStatus m env w))"
proof -
  obtain s r where w: "w = (s, r)" by force
  obtain s' r' where p: "snd (persistStatus m env (s, r)) = (s', r')" by force
  have i: "server_ok env" "spec_DryRun (x_spec s)" using assms by (simp_all add: dry_inv_def w)
  show ?thesis
    using persistStatus_keeps [OF i(1) p] i(2) assms p by (auto simp: w dry_inv_def)
qed

lemma actuate_dry: "dry_inv c t sts env w \<Longrightarrow> dry_inv c t sts env (snd (actuate env w))"
  by (cases w; cases "snd (actuate env w)") (auto simp: dry_inv_def dest: actuate_keeps)

lemma validate_dry: "dry_inv c t sts env w \<Longrightarrow> dry_inv c t sts env (snd (validateDecision env w))"
  by (cases w; cases "snd (validateDecision env w)") (auto simp: dry_inv_def dest: validateDecision_keeps)

interpretation dry: step_invariant "dry_inv c t sts" steps for c t sts
proof (unfold_locales, goal_cases)
  case (1 n f env w)
  have "dry_inv c t sts env (snd (f env w))" if "(n, f) \<in> set core_steps"
    using dry_inv_core [OF core_steps_keep [OF that]] 1(2) by blast
  then show ?case
    using 1 coordination_dry [OF 1(2)]
    by (auto simp: set_steps updateStatus_def intro: finalizer_dry validate_dry actuate_dry persist_dry)
next
  case (2 env w)
  then show ?case by (rule persist_dry)
next
  case (3 env s r a b c' d p)
  then show ?case by (simp add: dry_inv_def)
qed

text \<open>The first three steps leave the coordinator alone.\<close>

definition unslotted :: "ClusterCoordinator option \<Rightarrow> 'q Env \<Rightarrow> 'q reconcileState \<times> 'q Reconciler \<Rightarrow> bool" where
  "unslotted c env w \<longleftrightarrow> server_ok env
     \<and> (case w of (s, r) \<Rightarrow> \<not> x_coordinationSlotHeld s \<and> r_Coordinator r = c)"

lemma unslotted_base: "base w = base w' \<Longrightarrow> unslotted c env w \<longleftrightarrow> unslotted c env w'"
  by (cases w; cases w') (simp add: unslotted_def base_simp)

lemma persist_unslotted: "unslotted c env w \<Longrightarrow> unslotted c env (snd (persistStatus m env w))"
  by (cases w; cases "snd (persistStatus m env w)") (auto simp: unslotted_def dest: persistStatus_keeps)

interpretation unslotted: step_invariant "unslotted c" "take 3 steps" for c
proof (unfold_locales, goal_cases)
  case (1 n f env w)
  have "unslotted c env (snd (f env w))" if "(n, f) \<in> set core_steps"
    using unslotted_base [OF core_base [OF core_steps_keep [OF that]]] 1(2) by blast
  moreover have "unslotted c env (snd (ensureFinalizer env w))"
    using unslotted_base [OF ensureFinalizer_base] 1(2) by (metis unslotted_def)
  ultimately show ?case using 1(1) set_take3 by auto
next
  case (2 env w)
  then show ?case by (rule persist_unslotted)
next
  case (3 env s r a b c' d p)
  then show ?case by (simp add: unslotted_def)
qed

section \<open>The scenario of the witnesses\<close>

text \<open>
  A resource with bounds 1 to 10 and step 3, a cluster with one Deployment of three replicas whose
  metrics are unavailable, and a server that stores what it is sent.
\<close>

definition plain_store :: StoreEnv where
  "plain_store = \<lparr>se_fails = (\<lambda>_. None), se_marshal = (\<lambda>_. Inr ''record''), se_unmarshal = (\<lambda>_. Inl ''none''),
     se_iter = key_order\<rparr>"

definition plain_env :: "time \<Rightarrow> nat AIScaler \<Rightarrow> nat Env" where
  "plain_env now obj = \<lparr>e_now = (\<lambda>_. now), e_uuid = ''id'', e_get = Inr obj, e_update = Inr, e_status_update = Inr,
     e_policies = Inr [obj], e_client = sample_client 3, e_quantities = nat_quantities,
     e_plugins = builtin_env (sample_client 3) None, e_router = sample_env (\<lambda>_ _ _ _. Inl ''down''),
     e_store = plain_store, e_nodes = Inl ''none'', e_pods = Inl ''none'', e_pool_order = (\<lambda>_. []),
     e_cost_fetch = (\<lambda>_. SendError ''none''), e_cost_decode = (\<lambda>_. Inl ''none''), e_time_zone = (\<lambda>_. 0),
     e_float_overflow = (\<lambda>_. 0), e_parse_float = (\<lambda>_. Inl ''none''), e_alert_clock = clock_at now,
     e_alert_marshal = (\<lambda>_. Inl ''none''), e_alert_post = (\<lambda>_ _ _. SendError ''none''),
     e_set_condition = (\<lambda>c cs. c # cs), e_duration_text = (\<lambda>_. []), e_time_text = (\<lambda>_. []),
     e_labels = label_count\<rparr>"

definition sample_obj :: "nat AIScaler" where
  "sample_obj = (with_constraints 1 10 3) \<lparr>ai_Name := ''web''\<rparr>"

definition bare_reconciler :: "nat Reconciler" where
  "bare_reconciler = \<lparr>r_Router = NewRouter sample_config, r_VerticalActuator = False, r_Alerting = None,
     r_OscillationDetector = None, r_RollbackManager = False, r_Coordinator = Some (NewClusterCoordinator 0 0),
     r_CoordinationRequeue = 0, r_ClusterMaxHourlyCost = 0, r_CostClient = None, r_CostEstimator = False,
     r_BudgetEnforcer = False, r_AuditStore = None, r_ApprovalManager = False, r_Dispatcher = None,
     r_NodeCollector = False, r_Predictor = None, r_FeedbackEvaluator = False, r_auditMaps = fmempty,
     r_patches = [], r_events = [], r_alerts = [], r_updates = [], r_statuses = []\<rparr>"

lemma plain_server: "server_ok (plain_env now obj)"
  by (simp add: server_ok_def plain_env_def)

lemma plain_get: "e_get (plain_env now obj) = Inr obj"
  by (simp add: plain_env_def)

section \<open>The patches of a reconcile\<close>

lemma Reconcile_sends:
  assumes "server_ok env" and "e_get env = Inr obj" and "Reconcile env r = (res, r')"
  shows "\<exists>ps. r_patches r' = r_patches r @ ps \<and> length (replica_patches ps) \<le> 1
    \<and> (\<forall>p\<in>set ps. pt_Namespace p = target_ns obj \<and> pt_Name p = target_name obj
         \<and> pt_DryRunAll p = spec_DryRun (ai_Spec obj)
         \<and> (\<forall>n. pt_Replicas p = Some n \<longrightarrow> within_bounds (ai_Constraints obj) n))"
proof -
  obtain s1 r1 where run: "run_steps steps env (new_state obj (e_uuid env), r) = (res, s1, r1)"
      "r' = releaseCoordination (s1, r1)"
    using Reconcile_run [OF assms(2,3)] by blast
  have q: "quiet (ai_Spec obj) (r_patches r) env (new_state obj (e_uuid env), r)" by (rule quiet_new [OF assms(1)])
  have "new_patches (ai_Spec obj) (r_patches r) (r_patches r1)"
  proof (cases "bounds_ok (ai_Constraints obj)")
    case True
    then show ?thesis
      using run_steps_patches [OF q _ _ run(1) [unfolded steps_split]] by (simp add: quiet_steps_def)
  next
    case False
    then have "withheld env obj" using ValidateSpec_bounds by (auto simp: withheld_def)
    then have "run_steps (take 3 steps) env (new_state obj (e_uuid env), r) = (res, s1, r1)"
      using withheld_run [OF assms(1) _ run(1)] by blast
    then have "quiet (ai_Spec obj) (r_patches r) env (s1, r1)"
      using quiet.run_keeps [OF _ q, of "take 3 steps"] set_take3 by (auto simp: set_quiet_steps)
    then show ?thesis by (simp add: quiet_def new_patches_refl)
  qed
  then show ?thesis using run(2) by (auto simp: new_patches_def list_all_iff patch_ok_def)
qed

section \<open>Properties\<close>

text \<open>
  C1. Whatever the signals, the model provider and the subsystems answer, a reconcile sends patches
  for the target of the resource only, all of them dry exactly when the resource is in dry-run mode,
  asks for a replica count at most once, and every count it asks for is within the bounds of the
  specification.
\<close>

theorem Reconcile_patches:
  assumes "server_ok env" and "e_get env = Inr obj" and "Reconcile env r = (res, r')"
  shows "\<exists>ps. r_patches r' = r_patches r @ ps \<and> length (replica_patches ps) \<le> 1
    \<and> (\<forall>p\<in>set ps. pt_Namespace p = target_ns obj \<and> pt_Name p = target_name obj
         \<and> pt_DryRunAll p = spec_DryRun (ai_Spec obj)
         \<and> (\<forall>n. pt_Replicas p = Some n \<longrightarrow> within_bounds (ai_Constraints obj) n))"
  by (rule Reconcile_sends [OF assms])

lemma Reconcile_patches_witness:
  "\<exists>ps. r_patches (snd (Reconcile (plain_env 7 sample_obj) bare_reconciler)) = ps \<and> length (replica_patches ps) \<le> 1
    \<and> list_all (\<lambda>p. \<not> pt_DryRunAll p) ps"
  using Reconcile_patches [OF plain_server plain_get prod.collapse [symmetric], of 7 sample_obj bare_reconciler]
  by (auto simp: list_all_iff bare_reconciler_def sample_obj_def with_constraints_def zero_defs)

text \<open>
  C3. A resource that is being deleted, has an invalid specification, is in its cooldown or carries
  a freeze that has not passed gets no patch, and no slot of the coordinator is touched.
\<close>

theorem Reconcile_withholds:
  assumes "server_ok env" and "e_get env = Inr obj" and "withheld env obj" and "Reconcile env r = (res, r')"
  shows "r_patches r' = r_patches r \<and> r_Coordinator r' = r_Coordinator r"
proof -
  obtain s1 r1 where run: "run_steps steps env (new_state obj (e_uuid env), r) = (res, s1, r1)"
      "r' = releaseCoordination (s1, r1)"
    using Reconcile_run [OF assms(2,4)] by blast
  have take3: "run_steps (take 3 steps) env (new_state obj (e_uuid env), r) = (res, s1, r1)"
    using withheld_run [OF assms(1,3) run(1)] .
  have "quiet (ai_Spec obj) (r_patches r) env (s1, r1)"
    using quiet.run_keeps [OF _ quiet_new [OF assms(1)], of "take 3 steps" obj r "e_uuid env"] set_take3 take3
    by (auto simp: set_quiet_steps)
  moreover have "unslotted (r_Coordinator r) env (s1, r1)"
    using unslotted.run_keeps [of "take 3 steps" "r_Coordinator r" env "(new_state obj (e_uuid env), r)"] take3 assms(1)
    by (auto simp: unslotted_def)
  ultimately show ?thesis
    using run(2) by (auto simp: quiet_def unslotted_def releaseCoordination_def split: option.split)
qed

definition cooling_obj :: "nat AIScaler" where
  "cooling_obj = sample_obj \<lparr>ai_Spec := (ai_Spec sample_obj) \<lparr>spec_CooldownPeriod := 100\<rparr>,
     ai_Status := zero_Status \<lparr>st_LastScaleTime := Some 0\<rparr>\<rparr>"

lemma Reconcile_withholds_witness:
  "r_patches (snd (Reconcile (plain_env 7 cooling_obj) bare_reconciler)) = []"
proof -
  have "withheld (plain_env 7 cooling_obj) cooling_obj"
    by (simp add: withheld_def cooling_def cooling_obj_def plain_env_def time_sub_def min_duration_def max_duration_def)
  from Reconcile_withholds [OF plain_server plain_get this prod.collapse [symmetric], of bare_reconciler]
  show ?thesis by (simp add: bare_reconciler_def)
qed

text \<open>
  C16. In dry-run mode every patch is dry, the coordinator is untouched, and no status that is
  written moves the time of the last scaling.
\<close>

theorem Reconcile_dry_run:
  assumes "server_ok env" and "e_get env = Inr obj" and "spec_DryRun (ai_Spec obj)" and "Reconcile env r = (res, r')"
  shows "r_Coordinator r' = r_Coordinator r
    \<and> (\<exists>os. r_statuses r' = r_statuses r @ os
         \<and> (\<forall>ob\<in>set os. st_LastScaleTime (ai_Status ob) = st_LastScaleTime (ai_Status obj)))"
proof -
  obtain s1 r1 where run: "run_steps steps env (new_state obj (e_uuid env), r) = (res, s1, r1)"
      "r' = releaseCoordination (s1, r1)"
    using Reconcile_run [OF assms(2,4)] by blast
  have "dry_inv (r_Coordinator r) (st_LastScaleTime (ai_Status obj)) (r_statuses r) env (new_state obj (e_uuid env), r)"
    using assms(1,3) by (simp add: dry_inv_def)
  then have "dry_inv (r_Coordinator r) (st_LastScaleTime (ai_Status obj)) (r_statuses r) env (s1, r1)"
    using dry.run_keeps [of steps] run(1) by (metis order_refl snd_conv)
  then show ?thesis
    using run(2) by (auto simp: dry_inv_def releaseCoordination_def split: option.split)
qed

definition dry_obj :: "nat AIScaler" where
  "dry_obj = sample_obj \<lparr>ai_Spec := (ai_Spec sample_obj) \<lparr>spec_DryRun := True\<rparr>\<rparr>"

lemma Reconcile_dry_run_witness:
  "list_all (\<lambda>ob. st_LastScaleTime (ai_Status ob) = None)
     (r_statuses (snd (Reconcile (plain_env 7 dry_obj) bare_reconciler)))"
  using Reconcile_dry_run [OF plain_server plain_get _ prod.collapse [symmetric], of dry_obj 7 bare_reconciler]
  by (auto simp: list_all_iff dry_obj_def bare_reconciler_def sample_obj_def with_constraints_def zero_defs)

text \<open>
  C15. Every slot the coordinator still counts after a reconcile was counted before it: on success,
  on failure and on a short cut the reconcile gives back the slot it took.
\<close>

theorem Reconcile_releases:
  assumes "server_ok env" and "e_get env = Inr obj" and "ai_Name obj \<noteq> []" and "r_Coordinator r = Some c"
  shows "\<exists>c'. r_Coordinator (snd (Reconcile env r)) = Some c'
    \<and> fmdom (co_activeOps c') |\<subseteq>| fmdom (co_activeOps c)"
  using Reconcile_slots [OF assms] by (auto simp: fmlookup_dom_iff)

lemma Reconcile_releases_witness:
  "\<exists>c'. r_Coordinator (snd (Reconcile (plain_env 7 sample_obj) bare_reconciler)) = Some c' \<and> co_activeOps c' = fmempty"
proof -
  have "\<exists>c'. r_Coordinator (snd (Reconcile (plain_env 7 sample_obj) bare_reconciler)) = Some c'
      \<and> fmdom (co_activeOps c') |\<subseteq>| fmdom (co_activeOps (NewClusterCoordinator 0 0))"
    by (rule Reconcile_releases [OF plain_server plain_get]) (simp_all add: sample_obj_def bare_reconciler_def)
  then show ?thesis by (fastforce simp: NewClusterCoordinator_def intro: fmap_ext fmdom_notD)
qed

fun reconciles :: "'q Env list \<Rightarrow> 'q Reconciler \<Rightarrow> 'q Reconciler" where
  "reconciles [] r = r"
| "reconciles (env # envs) r = reconciles envs (snd (Reconcile env r))"

definition named_env :: "'q Env \<Rightarrow> bool" where
  "named_env env \<longleftrightarrow> server_ok env \<and> (\<forall>obj. e_get env = Inr obj \<longrightarrow> ai_Name obj \<noteq> [])"

lemma idle_reconcile:
  assumes "named_env env" and "r_Coordinator r = Some c" and "co_activeOps c = fmempty"
  shows "\<exists>c'. r_Coordinator (snd (Reconcile env r)) = Some c' \<and> co_activeOps c' = fmempty"
proof (cases "e_get env")
  case (Inl e)
  then show ?thesis using assms(2,3) by (simp add: Reconcile_def)
next
  case (Inr obj)
  then obtain c' where c': "r_Coordinator (snd (Reconcile env r)) = Some c'"
      "\<forall>v. fmlookup (co_activeOps c') v \<noteq> None \<longrightarrow> fmlookup (co_activeOps c) v \<noteq> None"
    using Reconcile_slots [of env obj r c] assms by (auto simp: named_env_def)
  then have "co_activeOps c' = fmempty" using assms(3) by (intro fmap_ext) auto
  then show ?thesis using c'(1) by blast
qed

lemma idle_reconciles:
  "list_all named_env envs \<Longrightarrow> \<exists>c. r_Coordinator r = Some c \<and> co_activeOps c = fmempty \<Longrightarrow>
     \<exists>c. r_Coordinator (reconciles envs r) = Some c \<and> co_activeOps c = fmempty"
  by (induction envs arbitrary: r) (auto dest: idle_reconcile)

text \<open>A change to be made now whose projected cost is above the budget of the cluster.\<close>

definition over_budget :: "'q Env \<Rightarrow> 'q reconcileState \<Rightarrow> 'q Reconciler \<Rightarrow> bool" where
  "over_budget env s r \<longleftrightarrow> needsLiveCoordination (e_quantities env) s \<and> 0 < r_ClusterMaxHourlyCost r
     \<and> (case e_policies env of Inl e \<Rightarrow> False | Inr policies \<Rightarrow> exceedsClusterBudget policies s (r_ClusterMaxHourlyCost r))"

lemma delay_simps [simp]:
  "coordinationDelay (notify env s a b c r) = coordinationDelay r"
  "coordinationDelay (set_coordinator co r) = coordinationDelay r"
  by (simp_all add: coordinationDelay_def notify_def set_coordinator_def Let_def split: option.split)

lemma idle_coordination:
  assumes "r_Coordinator r = Some c" and "co_activeOps c = fmempty"
  shows "fst (checkCoordination env (s, r)) = Inr (Some x) \<longleftrightarrow> over_budget env s r \<and> x = requeue_after (coordinationDelay r)"
    and "needsLiveCoordination (e_quantities env) s \<Longrightarrow> \<not> isl (e_policies env) \<Longrightarrow> \<not> over_budget env s r \<Longrightarrow>
      fst (checkCoordination env (s, r)) = Inr None \<and> x_coordinationSlotHeld (fst (snd (checkCoordination env (s, r))))"
proof -
  have clean: "cleanupLocked t c = c" for t
    by (simp add: cleanupLocked_def assms(2))
  have unblocked: "\<not> ShouldDefer wl (\<lambda>v. False) g" for wl g
    by (auto simp: ShouldDefer_def list_ex_iff split: option.split)
  have slot: "AcquireScalingSlot t u wl c = (None, c \<lparr>co_activeOps := fmupd wl u fmempty\<rparr>)" for t u wl
    by (simp add: AcquireScalingSlot_def clean Let_def assms(2))
  have k: "r_ClusterMaxHourlyCost (set_coordinator co r) = r_ClusterMaxHourlyCost r" for co
    by (simp add: set_coordinator_def)
  note defs = checkCoordination_def over_budget_def ActiveWorkloads_def acquire_slot_def defer_change_def Let_def
  show "fst (checkCoordination env (s, r)) = Inr (Some x) \<longleftrightarrow> over_budget env s r \<and> x = requeue_after (coordinationDelay r)"
    using assms by (cases "e_policies env") (auto simp: defs clean unblocked slot k)
  show "needsLiveCoordination (e_quantities env) s \<Longrightarrow> \<not> isl (e_policies env) \<Longrightarrow> \<not> over_budget env s r \<Longrightarrow>
      fst (checkCoordination env (s, r)) = Inr None \<and> x_coordinationSlotHeld (fst (snd (checkCoordination env (s, r))))"
    using assms by (cases "e_policies env") (auto simp: defs clean unblocked slot k)
qed

text \<open>
  C17. With one reconcile at a time, the default of the controller runtime, coordination never waits for
  another workload: after any sequence of reconciles from an empty coordinator no slot is held, the
  coordination step of the next one puts a change off exactly when its projected cost is above the
  budget of the cluster, if one is configured, and any other change that is to be made now gets its slot
  at once, provided the policies can be listed.
\<close>

theorem coordination_idle:
  assumes "list_all named_env envs" and "r_Coordinator r = Some (NewClusterCoordinator n b)"
  shows "(\<exists>c. r_Coordinator (reconciles envs r) = Some c \<and> co_activeOps c = fmempty)
    \<and> (fst (checkCoordination env (s, reconciles envs r)) = Inr (Some x) \<longleftrightarrow>
         over_budget env s (reconciles envs r) \<and> x = requeue_after (coordinationDelay (reconciles envs r)))
    \<and> (needsLiveCoordination (e_quantities env) s \<and> \<not> isl (e_policies env) \<and> \<not> over_budget env s (reconciles envs r) \<longrightarrow>
         fst (checkCoordination env (s, reconciles envs r)) = Inr None
         \<and> x_coordinationSlotHeld (fst (snd (checkCoordination env (s, reconciles envs r)))))"
proof -
  have "\<exists>c. r_Coordinator r = Some c \<and> co_activeOps c = fmempty"
    using assms(2) by (simp add: NewClusterCoordinator_def)
  from idle_reconciles [OF assms(1) this] obtain c
    where c: "r_Coordinator (reconciles envs r) = Some c" "co_activeOps c = fmempty" by blast
  then show ?thesis
    using idle_coordination(1) [OF c, of env s x] idle_coordination(2) [OF c, of env s] by simp
qed

text \<open>After two reconciles, a third that is to scale from 3 to 5 replicas gets its slot.\<close>

definition growing_state :: "nat reconcileState" where
  "growing_state = (new_state sample_obj []) \<lparr>x_bundle := Some (zero_Bundle \<lparr>b_CurrentReplicas := 3\<rparr>),
     x_validation := Some \<lparr>vr_OriginalReplicas = 5, vr_ValidatedReplicas = 5, vr_Clamped = False, vr_Reason = []\<rparr>\<rparr>"

lemma coordination_idle_witness:
  "x_coordinationSlotHeld (fst (snd (checkCoordination (plain_env 11 sample_obj)
     (growing_state, reconciles [plain_env 7 sample_obj, plain_env 9 sample_obj] bare_reconciler))))"
proof -
  have "list_all named_env [plain_env 7 sample_obj, plain_env 9 sample_obj]"
    by (simp add: named_env_def plain_server plain_get sample_obj_def)
  moreover have "needsLiveCoordination (e_quantities (plain_env 11 sample_obj)) growing_state"
      "\<not> isl (e_policies (plain_env 11 sample_obj))"
    by (simp_all add: needsLiveCoordination_def growing_state_def plain_env_def sample_obj_def with_constraints_def zero_defs)
  moreover have "\<not> over_budget (plain_env 11 sample_obj) growing_state
      (reconciles [plain_env 7 sample_obj, plain_env 9 sample_obj] bare_reconciler)"
    by (simp add: over_budget_def exceedsClusterBudget_def growing_state_def new_state_def split: sum.split)
  ultimately show ?thesis
    using coordination_idle [of "[plain_env 7 sample_obj, plain_env 9 sample_obj]" bare_reconciler 0 0]
    by (simp add: bare_reconciler_def)
qed

end
