(* ===== verification/Http_Exchange.thy ===== *)
theory Http_Exchange
  imports Float64
begin

text \<open>
  What the HTTP clients of the operator share: requests, replies, decoded JSON values, the escaping of
  URLs, \<open>strconv.Atoi\<close> and \<open>strconv.ParseFloat\<close>.  The exchange itself (a function from the request to
  the reply) and the decoders of the reply's body are parameters of the clients.
\<close>

section \<open>Requests and replies\<close>

record http_request =
  hq_Method :: string
  hq_URL :: string
  hq_Headers :: "(string \<times> string) list"
  hq_Body :: string
  hq_Timeout :: duration
  hq_SkipVerify :: bool

text \<open>A body that breaks off is the bytes that came and the error of the read after them.\<close>

datatype http_body = Body string | Broken string go_error

text \<open>\<open>NoRequest\<close>: the request cannot be built; \<open>NoReply\<close>: it is sent and no reply comes.\<close>

datatype http_reply = NoRequest go_error | NoReply go_error | Reply int http_body

type_synonym transport = "http_request \<Rightarrow> http_reply"

definition get_request :: "string \<Rightarrow> duration \<Rightarrow> http_request" where
  "get_request url timeout = \<lparr>hq_Method = ''GET'', hq_URL = url, hq_Headers = [], hq_Body = [],
     hq_Timeout = timeout, hq_SkipVerify = False\<rparr>"

definition with_header :: "string \<Rightarrow> string \<Rightarrow> http_request \<Rightarrow> http_request" where
  "with_header k v q = q \<lparr>hq_Headers := hq_Headers q @ [(k, v)]\<rparr>"

definition bearer :: "string \<Rightarrow> http_request \<Rightarrow> http_request" where
  "bearer token q = (if token = [] then q else with_header ''Authorization'' (''Bearer '' @ token) q)"

text \<open>\<open>io.ReadAll\<close> of an \<open>io.LimitReader\<close>: the limit hides an error after it.\<close>

definition read_limited :: "nat \<Rightarrow> http_body \<Rightarrow> go_error + string" where
  "read_limited n b = (case b of Body s \<Rightarrow> Inr (take n s)
     | Broken s e \<Rightarrow> (if n \<le> length s then Inr (take n s) else Inl e))"

text \<open>The bytes of the same call when its error is ignored.\<close>

definition read_prefix :: "nat \<Rightarrow> http_body \<Rightarrow> string" where
  "read_prefix n b = take n (case b of Body s \<Rightarrow> s | Broken s _ \<Rightarrow> s)"

section \<open>JSON values and numbers\<close>

text \<open>What \<open>encoding/json\<close> decodes into an \<open>interface{}\<close>.\<close>

datatype json = JNull | JBool bool | JNum float64 | JStr string | JArr "json list" | JObj "(string, json) fmap"

text \<open>\<open>strconv.ParseFloat\<close> gives a value beside its error: infinite out of range, 0 for bad syntax.\<close>

type_synonym float_parser = "string \<Rightarrow> float64 \<times> go_error option"

definition ParseFloat :: "float_parser \<Rightarrow> string \<Rightarrow> go_error + float64" where
  "ParseFloat p s = (case p s of (v, None) \<Rightarrow> Inr v | (_, Some e) \<Rightarrow> Inl e)"

section \<open>strconv.Atoi\<close>

definition digit_of :: "char \<Rightarrow> int option" where
  "digit_of c = (let n = int (of_char c) in if 48 \<le> n \<and> n \<le> 57 then Some (n - 48) else None)"

fun digits_from :: "int \<Rightarrow> string \<Rightarrow> int option" where
  "digits_from n [] = Some n"
| "digits_from n (c # cs) = (case digit_of c of None \<Rightarrow> None | Some d \<Rightarrow> digits_from (10 * n + d) cs)"

text \<open>An optional sign and at least one digit; a value outside \<open>int64\<close> is an error.\<close>

definition Atoi :: "string \<Rightarrow> int option" where
  "Atoi s = (let
     (neg, ds) = (case s of [] \<Rightarrow> (False, []) | c # cs \<Rightarrow>
       (if c = CHR ''-'' then (True, cs) else if c = CHR ''+'' then (False, cs) else (False, s)))
   in if ds = [] then None
      else (case digits_from 0 ds of
          None \<Rightarrow> None
        | Some n \<Rightarrow> (let v = (if neg then - n else n) in
            if - (2 ^ 63) \<le> v \<and> v < 2 ^ 63 then Some v else None)))"

section \<open>URL queries\<close>

definition unreserved :: "char \<Rightarrow> bool" where
  "unreserved c = (let n = (of_char c :: nat) in 48 \<le> n \<and> n \<le> 57 \<or> 65 \<le> n \<and> n \<le> 90 \<or> 97 \<le> n \<and> n \<le> 122
     \<or> c = CHR ''-'' \<or> c = CHR ''_'' \<or> c = CHR ''.'' \<or> c = CHR ''~'')"

definition hex_digit :: "nat \<Rightarrow> char" where
  "hex_digit n = (if n < 10 then char_of (48 + n) else char_of (55 + n))"

definition query_char :: "char \<Rightarrow> string" where
  "query_char c = (if unreserved c then [c] else if c = CHR '' '' then ''+''
     else (let n = of_char c in [CHR ''%'', hex_digit (n div 16), hex_digit (n mod 16)]))"

definition QueryEscape :: "string \<Rightarrow> string" where
  "QueryEscape s = concat (List.map query_char s)"

text \<open>\<open>url.Values.Encode\<close> of one value per key, the keys given in their order.\<close>

definition encode_query :: "(string \<times> string) list \<Rightarrow> string" where
  "encode_query kvs = join_with ''&'' (List.map (\<lambda>(k, v). QueryEscape k @ ''='' @ QueryEscape v) kvs)"

text \<open>
  \<open>url.PathEscape\<close> keeps some of the reserved characters in a segment of a path.
\<close>

definition path_char :: "char \<Rightarrow> string" where
  "path_char c = (if unreserved c \<or> c \<in> set ''$&+:=@'' then [c]
     else (let n = of_char c in [CHR ''%'', hex_digit (n div 16), hex_digit (n mod 16)]))"

definition PathEscape :: "string \<Rightarrow> string" where
  "PathEscape s = concat (List.map path_char s)"

section \<open>Lemmas\<close>

text \<open>Escaping loses nothing: the decoder of a query gives the text back.\<close>

definition hex_value :: "char \<Rightarrow> nat" where
  "hex_value c = (let n = of_char c in if n < 58 then n - 48 else n - 55)"

fun query_unescape :: "string \<Rightarrow> string" where
  "query_unescape [] = []"
| "query_unescape (c # cs) = (if c = CHR ''+'' then CHR '' '' # query_unescape cs
     else if c = CHR ''%'' then (case cs of
         a # b # rest \<Rightarrow> char_of (16 * hex_value a + hex_value b) # query_unescape rest | _ \<Rightarrow> c # query_unescape cs)
     else c # query_unescape cs)"

lemma hex_value_digit: "n < 16 \<Longrightarrow> hex_value (hex_digit n) = n"
  by (auto simp: hex_value_def hex_digit_def of_char_of Let_def)

lemma unescape_char: "query_unescape (query_char c @ cs) = c # query_unescape cs"
proof -
  have "c \<noteq> CHR ''+''" "c \<noteq> CHR ''%''" if "unreserved c"
    using that by (auto simp: unreserved_def)
  moreover have "(of_char c :: nat) div 16 < 16"
    using nat_of_char_less_256 [of c] by (simp add: less_mult_imp_div_less)
  moreover have "16 * ((of_char c :: nat) div 16) + of_char c mod 16 = of_char c" by simp
  ultimately show ?thesis
    by (auto simp: query_char_def Let_def hex_value_digit char_of_char)
qed

lemma unescape_escape: "query_unescape (QueryEscape s) = s"
  by (induction s) (simp_all add: QueryEscape_def unescape_char)

lemma escaped_chars: "c \<in> set (QueryEscape s) \<Longrightarrow> unreserved c \<or> c = CHR ''+'' \<or> c = CHR ''%''"
proof -
  have "unreserved (hex_digit n)" if "n < 16" for n
    using that by (auto simp: hex_digit_def unreserved_def of_char_of)
  moreover have "(of_char d :: nat) div 16 < 16" for d
    using nat_of_char_less_256 [of d] by (simp add: less_mult_imp_div_less)
  ultimately show "c \<in> set (QueryEscape s) \<Longrightarrow> ?thesis"
    by (auto simp: QueryEscape_def query_char_def Let_def split: if_splits)
qed

text \<open>
  A query parameter arrives as it was written: decoding the escaped text gives it back, and the
  escaped text has no separator of a query.
\<close>

lemma QueryEscape_roundtrip:
  "query_unescape (QueryEscape s) = s \<and> CHR ''&'' \<notin> set (QueryEscape s) \<and> CHR ''='' \<notin> set (QueryEscape s)"
  using unescape_escape escaped_chars [of "CHR ''&''" s] escaped_chars [of "CHR ''=''" s] by (auto simp: unreserved_def)

end
