(* ===== verification/Notifiers.thy ===== *)
theory Notifiers
  imports Notification Http_Exchange
begin

text \<open>
  The two notifiers of \<open>internal/notification\<close>: \<open>slack.go\<close> and \<open>pagerduty.go\<close>.  The exchange and the JSON
  encoder (which fails on no payload of strings, but whose error the code passes on) are parameters.
\<close>

definition SeverityCritical :: string where "SeverityCritical = ''critical''"

section \<open>Slack\<close>

record slackPayload =
  slk_Text :: string

definition slack_emoji :: "string \<Rightarrow> string" where
  "slack_emoji severity = (if severity = SeverityWarning then '':warning:''
     else if severity = SeverityCritical then '':rotating_light:'' else '':information_source:'')"

definition slack_text :: "Event \<Rightarrow> string" where
  "slack_text event = slack_emoji (ev_Severity event) @ '' *['' @ ev_Type event @ '']* '' @ ev_Namespace event @ ''/''
     @ ev_Workload event @ '': '' @ ev_Message event"

definition post_json :: "string \<Rightarrow> string \<Rightarrow> http_request" where
  "post_json url body = \<lparr>hq_Method = ''POST'', hq_URL = url, hq_Headers = [(''Content-Type'', ''application/json'')],
     hq_Body = body, hq_Timeout = 10 * second, hq_SkipVerify = False\<rparr>"

definition slack_Send :: "transport \<Rightarrow> (slackPayload \<Rightarrow> go_error + string) \<Rightarrow> string \<Rightarrow> Event \<Rightarrow> go_error option" where
  "slack_Send http marshal webhookURL event = (case marshal \<lparr>slk_Text = slack_text event\<rparr> of
     Inl e \<Rightarrow> Some (''marshal slack payload: '' @ e)
   | Inr body \<Rightarrow> (case http (post_json webhookURL body) of
       NoRequest e \<Rightarrow> Some (''slack webhook: '' @ e)
     | NoReply e \<Rightarrow> Some (''slack webhook: '' @ e)
     | Reply status _ \<Rightarrow> (if 300 \<le> status then Some (''slack webhook returned '' @ show_int status) else None)))"

definition NewSlackNotifier :: "transport \<Rightarrow> (slackPayload \<Rightarrow> go_error + string) \<Rightarrow> string \<Rightarrow> Notifier" where
  "NewSlackNotifier http marshal webhookURL = \<lparr>nt_Type = ''slack'', nt_Send = slack_Send http marshal webhookURL\<rparr>"

section \<open>PagerDuty\<close>

record pdContent =
  pdc_Summary :: string
  pdc_Source :: string
  pdc_Severity :: string

record pdPayload =
  pdp_RoutingKey :: string
  pdp_EventAction :: string
  pdp_Payload :: pdContent

definition pd_severity :: "string \<Rightarrow> string" where
  "pd_severity severity = (if severity = SeverityWarning then ''warning''
     else if severity = SeverityCritical then ''critical'' else ''info'')"

definition pd_payload :: "string \<Rightarrow> Event \<Rightarrow> pdPayload" where
  "pd_payload routingKey event = \<lparr>pdp_RoutingKey = routingKey, pdp_EventAction = ''trigger'',
     pdp_Payload = \<lparr>pdc_Summary = ''[AIScaler] '' @ ev_Namespace event @ ''/'' @ ev_Workload event @ '': '' @ ev_Message event,
       pdc_Source = ''aiscaler/'' @ ev_Workload event, pdc_Severity = pd_severity (ev_Severity event)\<rparr>\<rparr>"

definition pd_Send :: "transport \<Rightarrow> (pdPayload \<Rightarrow> go_error + string) \<Rightarrow> string \<Rightarrow> Event \<Rightarrow> go_error option" where
  "pd_Send http marshal routingKey event = (case marshal (pd_payload routingKey event) of
     Inl e \<Rightarrow> Some (''marshal pagerduty payload: '' @ e)
   | Inr body \<Rightarrow> (case http (post_json ''https://events.pagerduty.com/v2/enqueue'' body) of
       NoRequest e \<Rightarrow> Some (''build pagerduty request: '' @ e)
     | NoReply e \<Rightarrow> Some (''pagerduty request: '' @ e)
     | Reply status _ \<Rightarrow> (if 300 \<le> status then Some (''pagerduty returned '' @ show_int status) else None)))"

definition NewPagerDutyNotifier :: "transport \<Rightarrow> (pdPayload \<Rightarrow> go_error + string) \<Rightarrow> string \<Rightarrow> Notifier" where
  "NewPagerDutyNotifier http marshal routingKey = \<lparr>nt_Type = ''pagerduty'', nt_Send = pd_Send http marshal routingKey\<rparr>"

section \<open>Properties\<close>

text \<open>
  A notification counts as delivered exactly when its payload encodes and the service replies with a status
  below 300; both notifiers report the severities they know alike and every other as information.
\<close>

theorem notifiers_deliver_iff:
  "(nt_Send (NewSlackNotifier http enc url) event = None \<longleftrightarrow>
      (\<exists>body status reply. enc \<lparr>slk_Text = slack_text event\<rparr> = Inr body
         \<and> http (post_json url body) = Reply status reply \<and> status < 300))
   \<and> (nt_Send (NewPagerDutyNotifier http pd_enc key) event = None \<longleftrightarrow>
      (\<exists>body status reply. pd_enc (pd_payload key event) = Inr body
         \<and> http (post_json ''https://events.pagerduty.com/v2/enqueue'' body) = Reply status reply \<and> status < 300))
   \<and> (pd_severity (ev_Severity event) = ''info'' \<longleftrightarrow> slack_emoji (ev_Severity event) = '':information_source:'')"
  by (auto simp: NewSlackNotifier_def NewPagerDutyNotifier_def slack_Send_def pd_Send_def pd_severity_def slack_emoji_def
      split: sum.splits http_reply.splits if_splits)

end
