(* ===== verification/Lifetime.thy ===== *)
theory Lifetime
  imports Reconcile_Safety Notifiers
begin

text \<open>
  The life of the operator: how \<open>cmd/main.go\<close> settles its flags and builds the reconciler from the
  configuration and the environment variables, and what holds after any sequence of reconciles of any
  resources, whatever the cluster, the providers and the clocks answer.
\<close>

section \<open>Startup\<close>

text \<open>The command-line flags; the configuration file can replace the first three.\<close>

record flags =
  fl_metricsAddr :: string
  fl_probeAddr :: string
  fl_enableLeaderElection :: bool
  fl_configPath :: string
  fl_secureMetrics :: bool
  fl_enableHTTP2 :: bool
  fl_webhookCertPath :: string
  fl_webhookCertName :: string
  fl_webhookCertKey :: string
  fl_metricsCertPath :: string
  fl_metricsCertName :: string
  fl_metricsCertKey :: string

definition default_flags :: flags where
  "default_flags = \<lparr>fl_metricsAddr = ''0'', fl_probeAddr = '':8081'', fl_enableLeaderElection = False,
     fl_configPath = ''config/operator.yaml'', fl_secureMetrics = True, fl_enableHTTP2 = False,
     fl_webhookCertPath = [], fl_webhookCertName = ''tls.crt'', fl_webhookCertKey = ''tls.key'',
     fl_metricsCertPath = [], fl_metricsCertName = ''tls.crt'', fl_metricsCertKey = ''tls.key''\<rparr>"

definition settle_flags :: "Config \<Rightarrow> flags \<Rightarrow> flags" where
  "settle_flags cfg f = (let
     o' = cfg_Operator cfg;
     f1 = (if fl_metricsAddr f = ''0'' \<and> op_MetricsBindAddress o' \<noteq> []
       then f \<lparr>fl_metricsAddr := op_MetricsBindAddress o'\<rparr> else f);
     f2 = (if fl_probeAddr f1 = '':8081'' \<and> op_HealthProbeBindAddress o' \<noteq> []
       then f1 \<lparr>fl_probeAddr := op_HealthProbeBindAddress o'\<rparr> else f1)
   in if \<not> fl_enableLeaderElection f2 \<and> op_LeaderElection o' then f2 \<lparr>fl_enableLeaderElection := True\<rparr> else f2)"

text \<open>The parameter reads an environment variable, empty when it is not set.\<close>

definition start_router :: "Config \<Rightarrow> Router" where
  "start_router cfg = WithCircuitBreaker (CircuitBreakerThreshold (cfg_LLM cfg)) (CircuitBreakerTimeout (cfg_LLM cfg))
     (WithCache (NewCache (CacheTTL (cfg_LLM cfg))) (WithK8sClient (NewRouter cfg)))"

definition start_dispatcher :: "transport \<Rightarrow> (slackPayload \<Rightarrow> go_error + string) \<Rightarrow> (string \<Rightarrow> string) \<Rightarrow> Dispatcher option" where
  "start_dispatcher http marshal getenv = (if getenv ''SLACK_WEBHOOK_URL'' = [] then None
     else Some (NewDispatcher [NewSlackNotifier http marshal (getenv ''SLACK_WEBHOOK_URL'')]))"

text \<open>
  The subsystems of a reconciler; what it has sent and what the cluster stores starts empty, but for the
  ConfigMaps of the audit, which an earlier run may have left.
\<close>

definition start_reconciler :: "Config \<Rightarrow> transport \<Rightarrow> (slackPayload \<Rightarrow> go_error + string) \<Rightarrow> (string \<Rightarrow> string)
    \<Rightarrow> cluster \<Rightarrow> 'q Reconciler" where
  "start_reconciler cfg http marshal getenv maps = (let o' = cfg_Operator cfg in
     \<lparr>r_Router = start_router cfg,
      r_VerticalActuator = True,
      r_Alerting = Some (NewEvaluator (op_AlertWebhookURL o') (op_AlertWebhookToken o')),
      r_OscillationDetector = Some (NewOscillationDetector (30 * minute) 100),
      r_RollbackManager = True,
      r_Coordinator = Some (NewClusterCoordinator (CoordinationMaxConcurrentScalingLimit o') 0),
      r_CoordinationRequeue = CoordinationRequeue o',
      r_ClusterMaxHourlyCost = op_ClusterMaxHourlyCost o',
      r_CostClient = (if getenv ''OPENCOST_ENDPOINT'' = [] then None else Some (getenv ''OPENCOST_ENDPOINT'')),
      r_CostEstimator = True,
      r_BudgetEnforcer = True,
      r_AuditStore = Some (NewConfigMapStore ''aiscaler-system'' 50),
      r_ApprovalManager = True,
      r_Dispatcher = start_dispatcher http marshal getenv,
      r_NodeCollector = True,
      r_Predictor = Some NewSeasonalPredictor,
      r_FeedbackEvaluator = True,
      r_auditMaps = maps,
      r_patches = [], r_events = [], r_alerts = [], r_updates = [], r_statuses = []\<rparr>)"

section \<open>The subsystems through a reconcile\<close>

text \<open>The subsystems with an invariant of their own, and that invariant.\<close>

definition subsystems :: "'q Reconciler \<Rightarrow> Router \<times> OscillationDetector option" where
  "subsystems r = (r_Router r, r_OscillationDetector r)"

definition detector_ok :: "OscillationDetector \<Rightarrow> bool" where
  "detector_ok d \<longleftrightarrow> od_maxSize d = 100 \<and> length (od_events d) \<le> 100"

definition sound :: "'q Reconciler \<Rightarrow> bool" where
  "sound r \<longleftrightarrow> router_ok (r_Router r) \<and> (\<exists>d. r_OscillationDetector r = Some d \<and> detector_ok d)"

lemma sound_subsystems: "subsystems r = subsystems r' \<Longrightarrow> sound r = sound r'"
  by (simp add: sound_def subsystems_def)

lemma subsystems_simps [simp]:
  "subsystems (notify env s a b c r) = subsystems r"
  "subsystems (notify_applied env res s r) = subsystems r"
  "subsystems (r\<lparr>r_patches := ps\<rparr>) = subsystems r"
  "subsystems (r\<lparr>r_Predictor := pr\<rparr>) = subsystems r"
  "subsystems (r\<lparr>r_updates := us\<rparr>) = subsystems r"
  "subsystems (r\<lparr>r_statuses := us\<rparr>) = subsystems r"
  "subsystems (r\<lparr>r_auditMaps := m\<rparr>) = subsystems r"
  "subsystems (r\<lparr>r_Alerting := e, r_alerts := al\<rparr>) = subsystems r"
  "subsystems (set_coordinator co r) = subsystems r"
  "subsystems (releaseCoordination (s, r)) = subsystems r"
  by (simp_all add: subsystems_def notify_def notify_applied_def set_coordinator_def releaseCoordination_def Let_def
      split: option.split)

lemma sound_notify [simp]: "sound (notify env s a b c r) = sound r"
  by (rule sound_subsystems) simp

lemma sound_notify_applied [simp]: "sound (notify_applied env res s r) = sound r"
  by (rule sound_subsystems) simp

lemma sound_release [simp]: "sound (releaseCoordination (s, r)) = sound r"
  by (rule sound_subsystems) simp

lemma write_subsystems:
  "subsystems (snd (snd (update_obj env s r))) = subsystems r"
  "subsystems (snd (snd (update_status env s r))) = subsystems r"
  by (simp_all add: update_obj_def update_status_def Let_def split: sum.split)

lemma persist_subsystems: "subsystems (snd (snd (persistStatus m env (s, r)))) = subsystems r"
  by (simp add: persistStatus_snd write_subsystems)

lemma finalizer_subsystems: "subsystems (snd (snd (ensureFinalizer env (s, r)))) = subsystems r"
  by (simp add: ensureFinalizer_def write_subsystems split: option.split)

lemma step_subsystems:
  "subsystems (snd (snd (checkCooldown env (s, r)))) = subsystems r"
  "subsystems (snd (snd (collectSignals env (s, r)))) = subsystems r"
  "subsystems (snd (snd (enrichContext env (s, r)))) = subsystems r"
  "subsystems (snd (snd (checkOscillation env (s, r)))) = subsystems r"
  "subsystems (snd (snd (checkRollback env (s, r)))) = subsystems r"
  "subsystems (snd (snd (resolveTentativeDecision env (s, r)))) = subsystems r"
  "subsystems (snd (snd (resolveFinalDecision env (s, r)))) = subsystems r"
  "subsystems (snd (snd (estimateCost env (s, r)))) = subsystems r"
  "subsystems (snd (snd (checkApproval env (s, r)))) = subsystems r"
  "subsystems (snd (snd (validateDecision env (s, r)))) = subsystems r"
  "subsystems (snd (snd (evaluateAlerts env (s, r)))) = subsystems r"
  "subsystems (snd (snd (recordAudit env (s, r)))) = subsystems r"
  by (simp_all add: checkCooldown_def collectSignals_def enrichContext_total checkOscillation_def checkRollback_def resolveTentativeDecision_def
      resolveFinalDecision_def estimateCost_def checkApproval_def validateDecision_def evaluateAlerts_def recordAudit_def
      Let_def split: option.split prod.split sum.split)

lemma coordination_subsystems: "subsystems (snd (snd (checkCoordination env (s, r)))) = subsystems r"
  by (simp add: checkCoordination_def acquire_slot_def defer_change_def Let_def split: option.split sum.split prod.split)

lemma apply_subsystems:
  "subsystems (snd (apply_replicas env s r)) = subsystems r"
  "subsystems (snd (snd (apply_vertical env s r))) = subsystems r"
  by (simp_all add: apply_replicas_def apply_vertical_def split: option.split prod.split sum.split)

lemma detector_ok_record: "detector_ok d \<Longrightarrow> \<exists>d'. Record e d = Some d' \<and> detector_ok d'"
  using Record_Some [of d e] detector.record_bounded [of d e] detector.record_cap [of d e] by (simp add: detector_ok_def)

text \<open>A sound reconciler records its scaling events without a panic, and stays sound.\<close>

lemma record_sound:
  assumes "sound r"
  shows "\<exists>r'. record_applied env a r = Some r' \<and> sound r'"
proof -
  obtain d where d: "r_OscillationDetector r = Some d" "detector_ok d" using assms by (auto simp: sound_def)
  show ?thesis
  proof (cases "a = None \<or> apply_direction a = ''none''")
    case True
    then show ?thesis using assms d(1) by (auto simp: record_applied_def split: option.split)
  next
    case False
    then obtain x where x: "a = Some x" by auto
    obtain d' where "Record (applied_event env x) d = Some d'" "detector_ok d'" using detector_ok_record [OF d(2)] by blast
    then show ?thesis using False x d(1) assms by (simp add: record_applied_def sound_def)
  qed
qed

lemma actuate_sound: "sound r \<Longrightarrow> sound (snd (snd (actuate env (s, r))))"
proof -
  assume r: "sound r"
  obtain x r1 where a: "apply_replicas env s r = (x, r1)" by force
  obtain e s2 r2 where v: "apply_vertical env s r1 = (e, s2, r2)" by (metis prod_cases3)
  have "subsystems r1 = subsystems r" "subsystems r2 = subsystems r1"
    using apply_subsystems(1) [of env s r] apply_subsystems(2) [of env s r1] a v by simp_all
  then have "sound r1" "sound r2" using r sound_subsystems by blast+
  moreover from this have "sound q" if "record_applied env b r2 = Some q" for b q
    using record_sound [of r2 env b] that by auto
  ultimately show ?thesis using r a v by (auto simp: actuate_def split: sum.split option.split)
qed

lemma ask_provider_sound: "sound r \<Longrightarrow> sound (snd (snd (ask_provider env b c s r)))"
proof -
  assume r: "sound r"
  obtain x router where d: "Decide (e_router env) (x_obj s) (scaling_request s b c) (r_Router r) = (x, router)" by force
  have "router_ok router" using r router_ok_Decide d by (metis sound_def snd_conv)
  then have "sound (r\<lparr>r_Router := router\<rparr>)" using r by (simp add: sound_def)
  then show ?thesis
    using d by (auto simp: ask_provider_def Let_def split: sum.split)
qed

lemma fetch_sound: "sound r \<Longrightarrow> sound (snd (snd (fetchDecision env (s, r))))"
  using ask_provider_sound by (auto simp: fetchDecision_def Let_def split: option.split prod.split)

interpretation sound: step_invariant "\<lambda>env w. sound (snd w)" steps
proof (unfold_locales, goal_cases)
  case (1 n f env w)
  obtain s r where w: "w = (s, r)" by force
  have keeps: "sound r'" if "subsystems r' = subsystems r" for r' :: "'a Reconciler"
    using sound_subsystems [OF that] 1(2) w by simp
  show ?case
    using 1(1) fetch_sound [of r] actuate_sound [of r] 1(2)
      keeps [OF finalizer_subsystems] keeps [OF step_subsystems(1)] keeps [OF step_subsystems(2)] keeps [OF step_subsystems(3)]
      keeps [OF step_subsystems(4)] keeps [OF step_subsystems(5)] keeps [OF step_subsystems(6)] keeps [OF step_subsystems(7)]
      keeps [OF step_subsystems(8)] keeps [OF step_subsystems(9)] keeps [OF step_subsystems(10)] keeps [OF step_subsystems(11)]
      keeps [OF step_subsystems(12)]
      keeps [OF coordination_subsystems] keeps [OF persist_subsystems]
    by (auto simp: steps_def updateStatus_def w)
next
  case (2 env w)
  then show ?case using sound_subsystems [OF persist_subsystems] by (cases w) auto
next
  case (3 env s r a b c d p)
  then show ?case by simp
qed

lemma Reconcile_sound: "sound r \<Longrightarrow> sound (snd (Reconcile env r))"
proof (cases "e_get env")
  case (Inr obj)
  assume r: "sound r"
  obtain res s1 r1 where run: "run_steps steps env (new_state obj (e_uuid env), r) = (res, s1, r1)" by (metis prod_cases3)
  then have "sound r1"
    using sound.run_keeps [where fs = steps and env = env and w = "(new_state obj (e_uuid env), r)"] r by simp
  then show ?thesis using Inr run by (simp add: Reconcile_def)
qed (simp add: Reconcile_def)

lemma reconciles_sound: "sound r \<Longrightarrow> sound (reconciles envs r)"
  by (induction envs arbitrary: r) (simp_all add: Reconcile_sound)

lemma start_sound: "sound (start_reconciler cfg http marshal getenv maps)"
proof -
  have "0 < CircuitBreakerThreshold (cfg_LLM cfg)" by (simp add: CircuitBreakerThreshold_def)
  then have "router_ok (start_router cfg)"
    using router_ok_new [of "CircuitBreakerThreshold (cfg_LLM cfg)" "CircuitBreakerTimeout (cfg_LLM cfg)" cfg]
    by (simp add: start_router_def WithCache_def WithK8sClient_def router_ok_def WithCircuitBreaker_def NewRouter_def)
  then show ?thesis
    by (simp add: sound_def start_reconciler_def Let_def detector_ok_def NewOscillationDetector_def)
qed

section \<open>Patches of a life\<close>

text \<open>A patch one of the reconciles may send.\<close>

definition patch_of :: "'q Env \<Rightarrow> 'q Patch \<Rightarrow> bool" where
  "patch_of env p \<longleftrightarrow> (\<exists>obj. e_get env = Inr obj \<and> pt_Namespace p = target_ns obj \<and> pt_Name p = target_name obj
     \<and> pt_DryRunAll p = spec_DryRun (ai_Spec obj)
     \<and> (\<forall>n. pt_Replicas p = Some n \<longrightarrow> within_bounds (ai_Constraints obj) n))"

lemma reconciles_patches:
  "list_all server_ok envs \<Longrightarrow>
     \<exists>ps. r_patches (reconciles envs r) = r_patches r @ ps \<and> (\<forall>p\<in>set ps. \<exists>env\<in>set envs. patch_of env p)"
proof (induction envs arbitrary: r)
  case (Cons env envs)
  obtain res r' where run: "Reconcile env r = (res, r')" by force
  have first: "\<exists>ps. r_patches r' = r_patches r @ ps \<and> (\<forall>p\<in>set ps. patch_of env p)"
  proof (cases "e_get env")
    case (Inl e)
    then show ?thesis using run by (auto simp: Reconcile_def)
  next
    case (Inr obj)
    then show ?thesis
      using Reconcile_sends [OF _ Inr run] Cons.prems unfolding patch_of_def by fastforce
  qed
  then obtain ps where "r_patches r' = r_patches r @ ps" "\<forall>p\<in>set ps. patch_of env p" by blast
  moreover obtain qs where "r_patches (reconciles envs r') = r_patches r' @ qs" "\<forall>p\<in>set qs. \<exists>env\<in>set envs. patch_of env p"
    using Cons.IH [of r'] Cons.prems by auto
  ultimately show ?case using run by (intro exI [of _ "ps @ qs"]) auto
qed simp

section \<open>Properties\<close>

text \<open>
  C2. Every patch the operator sends in its life is for the target of a resource it reconciled, dry exactly when
  that resource is in dry-run mode, and asks for a count within the bounds of that resource, if for any.
\<close>

theorem lifetime_patches:
  assumes "list_all server_ok envs"
  shows "list_all (\<lambda>p. list_ex (\<lambda>env. patch_of env p) envs)
    (r_patches (reconciles envs (start_reconciler cfg http marshal getenv maps)))"
  using reconciles_patches [OF assms, of "start_reconciler cfg http marshal getenv maps"]
  by (auto simp: list_all_iff list_ex_iff start_reconciler_def Let_def)

lemma lifetime_patches_witness:
  "list_all (\<lambda>p. pt_Name p = [] \<and> \<not> pt_DryRunAll p)
    (r_patches (reconciles [plain_env 7 sample_obj, plain_env 9 sample_obj]
      (start_reconciler sample_config (\<lambda>_. NoReply ''down'') (\<lambda>_. Inl ''none'') (\<lambda>_. []) fmempty)))"
proof -
  have "list_all server_ok [plain_env 7 sample_obj, plain_env 9 sample_obj]" by (simp add: plain_server)
  from lifetime_patches [OF this, of sample_config "\<lambda>_. NoReply ''down''" "\<lambda>_. Inl ''none''" "\<lambda>_. []" fmempty]
  show ?thesis
    by (rule list.pred_mono_strong)
      (auto simp: patch_of_def plain_get sample_obj_def with_constraints_def zero_defs)
qed

text \<open>
  The configuration file replaces a flag only where the flag is left at its default: an address given on the
  command line stays, and leader election, once asked for by either, is on.
\<close>

theorem settle_flags_priority:
  "(fl_metricsAddr f \<noteq> ''0'' \<longrightarrow> fl_metricsAddr (settle_flags cfg f) = fl_metricsAddr f)
   \<and> (fl_probeAddr f \<noteq> '':8081'' \<longrightarrow> fl_probeAddr (settle_flags cfg f) = fl_probeAddr f)
   \<and> (fl_enableLeaderElection (settle_flags cfg f) \<longleftrightarrow>
        fl_enableLeaderElection f \<or> op_LeaderElection (cfg_Operator cfg))"
  by (simp add: settle_flags_def Let_def)

end
