(* ===== verification/Other_Resources.thy ===== *)
theory Other_Resources
  imports Api
begin

text \<open>
  The custom resources of \<open>api/v1\<close> that no controller reads yet, struct by struct, and the kinds the package
  registers with its scheme builder.  As in theory \<open>Api\<close>, \<open>'q\<close> stands for \<open>resource.Quantity\<close>; \<open>'l\<close> stands for
  \<open>metav1.LabelSelector\<close> and \<open>'m\<close> for the type and object metadata of apimachinery.
\<close>

section \<open>Scaling approvals\<close>

record ProposedAction =
  pa_Type :: string
  pa_CurrentReplicas :: int32
  pa_TargetReplicas :: int32
  pa_Reasoning :: string
  pa_Confidence :: float64
  pa_EstimatedCostDelta :: float64
  pa_TriggerReason :: string

record ScalingApprovalSpec =
  sas_AIScalerRef :: TargetRef
  sas_ProposedAction :: ProposedAction
  sas_ExpiresAt :: "time option"

record ScalingApprovalStatus =
  sat_Phase :: string
  sat_ApprovedBy :: string
  sat_ApprovedAt :: "time option"
  sat_Message :: string

record 'm ScalingApproval =
  sa_Meta :: 'm
  sa_Spec :: ScalingApprovalSpec
  sa_Status :: ScalingApprovalStatus

record ('m, 'n) ScalingApprovalList =
  sal_Meta :: 'n
  sal_Items :: "'m ScalingApproval list"

section \<open>Scaling policies\<close>

record ScalingPolicyDefaults =
  spd_Safety :: "SafetyConfig option"
  spd_CostConstraints :: "CostConstraints option"
  spd_SLOs :: "SLO list"
  spd_LLMRateLimit :: "LLMRateLimit option"

record 'l ScalingPolicySpec =
  sps_Defaults :: ScalingPolicyDefaults
  sps_NamespaceSelector :: "'l option"

record ScalingPolicyStatus =
  spt_AppliedTo :: int32
  spt_Phase :: string

record ('m, 'l) ScalingPolicy =
  sp_Meta :: 'm
  sp_Spec :: "'l ScalingPolicySpec"
  sp_Status :: ScalingPolicyStatus

record ('m, 'n, 'l) ScalingPolicyList =
  spl_Meta :: 'n
  spl_Items :: "('m, 'l) ScalingPolicy list"

section \<open>Scheduled scaling\<close>

type_synonym ScheduleType = string

definition ScheduleRecurrence :: ScheduleType where "ScheduleRecurrence = ''Recurrence''"
definition ScheduleOneShot :: ScheduleType where "ScheduleOneShot = ''OneShot''"
definition ScheduleNaturalLang :: ScheduleType where "ScheduleNaturalLang = ''NaturalLanguage''"

record ScheduleSpec =
  sch_Type :: ScheduleType
  sch_Timezone :: string
  sch_Recurrence :: string
  sch_StartTime :: "time option"
  sch_EndTime :: "time option"
  sch_Expression :: string

record SchedulePolicy =
  schp_MinReplicas :: "int32 option"
  schp_MaxReplicas :: "int32 option"
  schp_TargetReplicas :: "int32 option"

record ScheduledScalingSpec =
  sss_TargetRef :: TargetRef
  sss_Schedule :: ScheduleSpec
  sss_Policy :: SchedulePolicy
  sss_TTLAfterCompletion :: "duration option"

record ScheduledScalingStatus =
  sst_Active :: bool
  sst_Phase :: string
  sst_NextActivation :: "time option"
  sst_LastActivation :: "time option"
  sst_CompiledFrom :: string
  sst_CompilationConf :: float64

record 'm ScheduledScaling =
  ss_Meta :: 'm
  ss_Spec :: ScheduledScalingSpec
  ss_Status :: ScheduledScalingStatus

record ('m, 'n) ScheduledScalingList =
  ssl_Meta :: 'n
  ssl_Items :: "'m ScheduledScaling list"

section \<open>Resource recommendations\<close>

record AnalysisConfig =
  an_Window :: duration
  an_Schedule :: string
  an_MinSamplePercent :: float64
  an_BufferStrategy :: string
  an_BufferPercent :: float64

record ResourceRecommendationSpec =
  rrs_TargetRef :: TargetRef
  rrs_Analysis :: AnalysisConfig
  rrs_AutoApply :: bool

record UsagePercentiles =
  up_CPUP50 :: float64
  up_CPUP95 :: float64
  up_CPUP99 :: float64
  up_CPUMax :: float64
  up_MemoryP50 :: float64
  up_MemoryP95 :: float64
  up_MemoryP99 :: float64
  up_MemoryMax :: float64

record 'q RecommendedResources =
  rec_CPURequest :: 'q
  rec_MemoryRequest :: 'q
  rec_CPULimit :: 'q
  rec_MemoryLimit :: 'q

record 'q ResourceRecommendationStatus =
  rrt_Phase :: string
  rrt_RecommendedResources :: "'q RecommendedResources option"
  rrt_Usage :: "UsagePercentiles option"
  rrt_EstimatedMonthlySavings :: float64
  rrt_Risk :: string
  rrt_LastAnalyzedAt :: "time option"
  rrt_Message :: string

record ('m, 'q) ResourceRecommendation =
  rr_Meta :: 'm
  rr_Spec :: ResourceRecommendationSpec
  rr_Status :: "'q ResourceRecommendationStatus"

record ('m, 'n, 'q) ResourceRecommendationList =
  rrl_Meta :: 'n
  rrl_Items :: "('m, 'q) ResourceRecommendation list"

section \<open>The kinds of the group\<close>

record GroupVersion =
  gv_Group :: string
  gv_Version :: string

definition group_version :: GroupVersion where
  "group_version = \<lparr>gv_Group = ''aiscaler.io'', gv_Version = ''v1''\<rparr>"

text \<open>
  \<open>SchemeBuilder.Register\<close> adds the Go types of the objects it is given; their names are the kinds.  Go
  runs the \<open>init\<close> functions of a package in the order of its file names.
\<close>

definition scheme_builder_register :: "string list \<Rightarrow> string list \<Rightarrow> string list" where
  "scheme_builder_register objects builder = builder @ objects"

definition aiscaler_init :: "string list \<Rightarrow> string list" where
  "aiscaler_init = scheme_builder_register [''AIScaler'', ''AIScalerList'']"

definition recommendation_init :: "string list \<Rightarrow> string list" where
  "recommendation_init = scheme_builder_register [''ResourceRecommendation'', ''ResourceRecommendationList'']"

definition approval_init :: "string list \<Rightarrow> string list" where
  "approval_init = scheme_builder_register [''ScalingApproval'', ''ScalingApprovalList'']"

definition policy_init :: "string list \<Rightarrow> string list" where
  "policy_init = scheme_builder_register [''ScalingPolicy'', ''ScalingPolicyList'']"

definition scheduled_init :: "string list \<Rightarrow> string list" where
  "scheduled_init = scheme_builder_register [''ScheduledScaling'', ''ScheduledScalingList'']"

definition scheme_builder :: "string list" where
  "scheme_builder = scheduled_init (policy_init (approval_init (recommendation_init (aiscaler_init []))))"

lemmas builder_defs = scheme_builder_def scheme_builder_register_def aiscaler_init_def recommendation_init_def
  approval_init_def policy_init_def scheduled_init_def

text \<open>Every kind has its list kind, and no kind is registered twice.\<close>

definition is_list_kind :: "string \<Rightarrow> bool" where
  "is_list_kind k \<longleftrightarrow> drop (length k - 4) k = ''List''"

lemma scheme_builder_kinds:
  "distinct scheme_builder" "list_all (\<lambda>k. is_list_kind k \<or> List.member scheme_builder (k @ ''List'')) scheme_builder"
  by code_simp+

end
