(* ===== verification/Startup.thy ===== *)
theory Startup
  imports Lifetime Other_Resources
begin

text \<open>
  The rest of \<open>cmd/main.go\<close>: the command line, the options of the manager and its servers, and the order in
  which the program sets itself up, each failure with its exit code.  The operator stands for one run of the
  process; what the controller runtime does with the options, and the reconciles it runs after \<open>Start\<close>, are
  parameters.
\<close>

section \<open>The command line\<close>

text \<open>The texts \<open>strconv.ParseBool\<close> takes.\<close>

definition ParseBool :: "string \<Rightarrow> bool option" where
  "ParseBool s = (if s \<in> set [''1'', ''t'', ''T'', ''TRUE'', ''true'', ''True''] then Some True
     else if s \<in> set [''0'', ''f'', ''F'', ''FALSE'', ''false'', ''False''] then Some False else None)"

text \<open>A flag is boolean, with an effect that refuses some texts, or takes any text.\<close>

datatype flag_kind = BoolFlag "bool \<Rightarrow> flags \<Rightarrow> flags" | StringFlag "string \<Rightarrow> flags \<Rightarrow> flags"

definition flag_table :: "(string \<times> flag_kind) list" where
  "flag_table =
    [(''config'', StringFlag (\<lambda>v f. f \<lparr>fl_configPath := v\<rparr>)),
     (''metrics-bind-address'', StringFlag (\<lambda>v f. f \<lparr>fl_metricsAddr := v\<rparr>)),
     (''health-probe-bind-address'', StringFlag (\<lambda>v f. f \<lparr>fl_probeAddr := v\<rparr>)),
     (''leader-elect'', BoolFlag (\<lambda>v f. f \<lparr>fl_enableLeaderElection := v\<rparr>)),
     (''metrics-secure'', BoolFlag (\<lambda>v f. f \<lparr>fl_secureMetrics := v\<rparr>)),
     (''webhook-cert-path'', StringFlag (\<lambda>v f. f \<lparr>fl_webhookCertPath := v\<rparr>)),
     (''webhook-cert-name'', StringFlag (\<lambda>v f. f \<lparr>fl_webhookCertName := v\<rparr>)),
     (''webhook-cert-key'', StringFlag (\<lambda>v f. f \<lparr>fl_webhookCertKey := v\<rparr>)),
     (''metrics-cert-path'', StringFlag (\<lambda>v f. f \<lparr>fl_metricsCertPath := v\<rparr>)),
     (''metrics-cert-name'', StringFlag (\<lambda>v f. f \<lparr>fl_metricsCertName := v\<rparr>)),
     (''metrics-cert-key'', StringFlag (\<lambda>v f. f \<lparr>fl_metricsCertKey := v\<rparr>)),
     (''enable-http2'', BoolFlag (\<lambda>v f. f \<lparr>fl_enableHTTP2 := v\<rparr>))]"

text \<open>
  The flags other packages define (those of the logger and \<open>kubeconfig\<close>) are a parameter: of a name, whether the
  flag is boolean and which texts it refuses.
\<close>

type_synonym other_flags = "string \<Rightarrow> (bool \<times> (string \<Rightarrow> bool)) option"

definition split_flag :: "string \<Rightarrow> string \<times> string option" where
  "split_flag name = (case name of [] \<Rightarrow> ([], None)
     | c # cs \<Rightarrow> (c # takeWhile (\<lambda>x. x \<noteq> CHR ''='') cs,
         case dropWhile (\<lambda>x. x \<noteq> CHR ''='') cs of [] \<Rightarrow> None | _ # v \<Rightarrow> Some v))"

text \<open>What one argument is: the end of the flags, a mistake, or a name with its value.\<close>

datatype arg_kind = EndOfFlags | BadSyntax | Named string "string option"

definition arg_kind_of :: "string \<Rightarrow> arg_kind" where
  "arg_kind_of s = (case s of
     CHR ''-'' # CHR ''-'' # [] \<Rightarrow> EndOfFlags
   | CHR ''-'' # x # xs \<Rightarrow> (let name = (if x = CHR ''-'' then xs else x # xs) in
       if hd name = CHR ''-'' \<or> hd name = CHR ''='' then BadSyntax
       else (case split_flag name of (n, v) \<Rightarrow> Named n v))
   | _ \<Rightarrow> EndOfFlags)"

definition bool_text :: "string option \<Rightarrow> string" where
  "bool_text v = (case v of None \<Rightarrow> ''true'' | Some x \<Rightarrow> x)"

text \<open>A text flag without a value takes the next argument.\<close>

definition flag_text :: "string option \<Rightarrow> string list \<Rightarrow> (string \<times> string list) option" where
  "flag_text v args = (case v of Some x \<Rightarrow> Some (x, args)
     | None \<Rightarrow> (case args of [] \<Rightarrow> None | x # rest \<Rightarrow> Some (x, rest)))"

text \<open>The left is the exit code of a command line that does not parse.\<close>

definition set_flag :: "other_flags \<Rightarrow> string \<Rightarrow> string option \<Rightarrow> string list \<Rightarrow> flags \<Rightarrow> int + flags \<times> string list" where
  "set_flag other n v args f = (case map_of flag_table n of
     Some (BoolFlag upd) \<Rightarrow> (case ParseBool (bool_text v) of None \<Rightarrow> Inl 2 | Some b \<Rightarrow> Inr (upd b f, args))
   | Some (StringFlag upd) \<Rightarrow> (case flag_text v args of None \<Rightarrow> Inl 2 | Some (x, rest) \<Rightarrow> Inr (upd x f, rest))
   | None \<Rightarrow> (case other n of
       None \<Rightarrow> Inl (if n = ''help'' \<or> n = ''h'' then 0 else 2)
     | Some (is_bool, refused) \<Rightarrow>
         (if is_bool then (if refused (bool_text v) then Inl 2 else Inr (f, args))
          else (case flag_text v args of None \<Rightarrow> Inl 2
            | Some (x, rest) \<Rightarrow> (if refused x then Inl 2 else Inr (f, rest))))))"

definition parseOne :: "other_flags \<Rightarrow> string \<Rightarrow> string list \<Rightarrow> flags \<Rightarrow> int + (flags \<times> string list) option" where
  "parseOne other s args f = (case arg_kind_of s of
     EndOfFlags \<Rightarrow> Inr None
   | BadSyntax \<Rightarrow> Inl 2
   | Named n v \<Rightarrow> (case set_flag other n v args f of Inl code \<Rightarrow> Inl code | Inr r \<Rightarrow> Inr (Some r)))"

lemma flag_text_rest: "flag_text v args = Some (x, rest) \<Longrightarrow> rest = args \<or> rest = tl args"
  by (auto simp: flag_text_def split: option.splits list.splits)

lemma set_flag_rest: "set_flag other n v args f = Inr (f', rest) \<Longrightarrow> rest = args \<or> rest = tl args"
  by (auto simp: set_flag_def dest!: flag_text_rest split: option.splits flag_kind.splits if_splits)

lemma parseOne_rest: "parseOne other s args f = Inr (Some (f', rest)) \<Longrightarrow> rest = args \<or> rest = tl args"
  by (auto simp: parseOne_def dest!: set_flag_rest split: arg_kind.splits sum.splits)

function flag_Parse :: "other_flags \<Rightarrow> string list \<Rightarrow> flags \<Rightarrow> int + flags" where
  "flag_Parse other [] f = Inr f"
| "flag_Parse other (s # args) f = (case parseOne other s args f of
     Inl code \<Rightarrow> Inl code
   | Inr None \<Rightarrow> Inr f
   | Inr (Some (f', rest)) \<Rightarrow> flag_Parse other rest f')"
  by pat_completeness auto
termination
  by (relation "measure (\<lambda>(other, args, f). length args)") (auto dest!: parseOne_rest)

section \<open>The servers and the manager\<close>

record tls_config =
  tc_NextProtos :: "string list"

definition disableHTTP2 :: "tls_config \<Rightarrow> tls_config" where
  "disableHTTP2 c = c \<lparr>tc_NextProtos := [''http/1.1'']\<rparr>"

definition tlsOpts :: "flags \<Rightarrow> (tls_config \<Rightarrow> tls_config) list" where
  "tlsOpts f = (if \<not> fl_enableHTTP2 f then [disableHTTP2] else [])"

record server_options =
  so_TLSOpts :: "(tls_config \<Rightarrow> tls_config) list"
  so_CertDir :: string
  so_CertName :: string
  so_KeyName :: string

definition webhookServerOptions :: "flags \<Rightarrow> server_options" where
  "webhookServerOptions f = (let o' = \<lparr>so_TLSOpts = tlsOpts f, so_CertDir = [], so_CertName = [], so_KeyName = []\<rparr> in
     if 0 < length (fl_webhookCertPath f)
     then o' \<lparr>so_CertDir := fl_webhookCertPath f, so_CertName := fl_webhookCertName f, so_KeyName := fl_webhookCertKey f\<rparr>
     else o')"

text \<open>The filter is set to \<open>WithAuthenticationAndAuthorization\<close>, or not at all.\<close>

record metrics_options = server_options +
  mo_BindAddress :: string
  mo_SecureServing :: bool
  mo_FilterProvider :: bool

definition metricsServerOptions :: "flags \<Rightarrow> metrics_options" where
  "metricsServerOptions f = (let
     o1 = \<lparr>so_TLSOpts = tlsOpts f, so_CertDir = [], so_CertName = [], so_KeyName = [],
       mo_BindAddress = fl_metricsAddr f, mo_SecureServing = fl_secureMetrics f, mo_FilterProvider = False\<rparr>;
     o2 = (if fl_secureMetrics f then o1 \<lparr>mo_FilterProvider := True\<rparr> else o1)
   in if 0 < length (fl_metricsCertPath f)
      then o2 \<lparr>so_CertDir := fl_metricsCertPath f, so_CertName := fl_metricsCertName f, so_KeyName := fl_metricsCertKey f\<rparr>
      else o2)"

text \<open>A scheme is the kinds it knows, by group and version.\<close>

type_synonym known_kinds = "(GroupVersion \<times> string) list"

record manager_options =
  mg_Scheme :: known_kinds
  mg_Metrics :: metrics_options
  mg_WebhookServer :: server_options
  mg_HealthProbeBindAddress :: string
  mg_LeaderElection :: bool
  mg_LeaderElectionID :: string

definition manager_options_of :: "known_kinds \<Rightarrow> flags \<Rightarrow> manager_options" where
  "manager_options_of scheme f = \<lparr>mg_Scheme = scheme, mg_Metrics = metricsServerOptions f,
     mg_WebhookServer = webhookServerOptions f, mg_HealthProbeBindAddress = fl_probeAddr f,
     mg_LeaderElection = fl_enableLeaderElection f, mg_LeaderElectionID = ''bb7278d0.aiscaler.io''\<rparr>"

text \<open>What \<open>SetupWithManager\<close> asks the controller builder for.\<close>

record controller_builder =
  bd_For :: string
  bd_Owns :: "string list"
  bd_Named :: string

definition SetupWithManager :: "(controller_builder \<Rightarrow> 'q Reconciler \<Rightarrow> go_error option) \<Rightarrow> 'q Reconciler \<Rightarrow> go_error option" where
  "SetupWithManager build r = build \<lparr>bd_For = ''AIScaler'', bd_Owns = [''Deployment''], bd_Named = ''aiscaler''\<rparr> r"

section \<open>The process\<close>

text \<open>
  The outside of one run: the other packages' flags, files, environment variables, the schemes, and the answers
  of client-go and the controller runtime.  \<open>GetConfigOrDie\<close> is asked twice.
\<close>

record 'q MainEnv =
  mn_other_flags :: other_flags
  mn_read_file :: "string \<Rightarrow> go_error + string"
  mn_expand_env :: "string \<Rightarrow> string"
  mn_unmarshal :: "string \<Rightarrow> go_error + Config"
  mn_getenv :: "string \<Rightarrow> string"
  mn_http :: transport
  mn_marshal :: "slackPayload \<Rightarrow> go_error + string"
  mn_audit_maps :: cluster
  mn_core_scheme :: "go_error + known_kinds"
  mn_add_to_scheme :: "GroupVersion \<Rightarrow> string list \<Rightarrow> known_kinds \<Rightarrow> go_error + known_kinds"
  mn_rest_config :: "nat \<Rightarrow> go_error option"
  mn_NewManager :: "manager_options \<Rightarrow> go_error option"
  mn_metrics_client :: "go_error option"
  mn_complete :: "controller_builder \<Rightarrow> 'q Reconciler \<Rightarrow> go_error option"
  mn_AddHealthzCheck :: "string \<Rightarrow> go_error option"
  mn_AddReadyzCheck :: "string \<Rightarrow> go_error option"
  mn_Start :: "go_error option"

definition init_scheme :: "'q MainEnv \<Rightarrow> go_error + known_kinds" where
  "init_scheme env = (case mn_core_scheme env of Inl e \<Rightarrow> Inl e
     | Inr ks \<Rightarrow> mn_add_to_scheme env group_version scheme_builder ks)"

text \<open>The calls of \<open>main\<close> to the controller runtime and client-go, in the order it makes them.\<close>

datatype 'q main_call = GetConfigOrDie | CallNewManager manager_options | NewForConfig
  | CallSetup "'q Reconciler" | CallHealthz string | CallReadyz string | CallStart

definition main_calls :: "'q MainEnv \<Rightarrow> known_kinds \<Rightarrow> Config \<Rightarrow> flags \<Rightarrow> ('q main_call \<times> go_error option) list" where
  "main_calls env scheme cfg f = (let
     opts = manager_options_of scheme f;
     r = start_reconciler cfg (mn_http env) (mn_marshal env) (mn_getenv env) (mn_audit_maps env)
   in [(GetConfigOrDie, mn_rest_config env 0),
       (CallNewManager opts, mn_NewManager env opts),
       (GetConfigOrDie, mn_rest_config env 1),
       (NewForConfig, mn_metrics_client env),
       (CallSetup r, SetupWithManager (mn_complete env) r),
       (CallHealthz ''healthz'', mn_AddHealthzCheck env ''healthz''),
       (CallReadyz ''readyz'', mn_AddReadyzCheck env ''readyz''),
       (CallStart, mn_Start env)])"

text \<open>The first call that fails ends the process with exit code 1; the calls made are the trace.\<close>

fun run_calls :: "('q main_call \<times> go_error option) list \<Rightarrow> int \<times> 'q main_call list" where
  "run_calls [] = (0, [])"
| "run_calls ((c, Some err) # cs) = (1, [c])"
| "run_calls ((c, None) # cs) = (case run_calls cs of (code, tr) \<Rightarrow> (code, c # tr))"

definition main :: "'q MainEnv \<Rightarrow> known_kinds \<Rightarrow> string list \<Rightarrow> int \<times> 'q main_call list" where
  "main env scheme args = (case flag_Parse (mn_other_flags env) args default_flags of
     Inl code \<Rightarrow> (code, [])
   | Inr f \<Rightarrow> (case Load (mn_read_file env) (mn_expand_env env) (mn_unmarshal env) (fl_configPath f) of
       Inl err \<Rightarrow> (1, [])
     | Inr cfg \<Rightarrow> run_calls (main_calls env scheme cfg (settle_flags cfg f))))"

text \<open>The \<open>init\<close> function panics, with exit code 2, when a scheme cannot be built.\<close>

definition process :: "'q MainEnv \<Rightarrow> string list \<Rightarrow> int \<times> 'q main_call list" where
  "process env args = (case init_scheme env of Inl e \<Rightarrow> (2, []) | Inr scheme \<Rightarrow> main env scheme args)"

section \<open>Lemmas\<close>

lemma split_flag_sublist: "split_flag name = (n, v) \<Longrightarrow> sublist n name"
proof (cases name)
  case (Cons c cs)
  assume "split_flag name = (n, v)"
  then have "n = c # takeWhile (\<lambda>x. x \<noteq> CHR ''='') cs" using Cons by (auto simp: split_flag_def)
  then have "prefix n name" using Cons takeWhile_is_prefix [of "\<lambda>x. x \<noteq> CHR ''=''" cs] by simp
  then show ?thesis by (rule prefix_imp_sublist)
qed (simp add: split_flag_def)

text \<open>The name of a flag occurs in the argument that sets it.\<close>

lemma arg_names_flag: "arg_kind_of s = Named n v \<Longrightarrow> sublist n s"
proof -
  assume a: "arg_kind_of s = Named n v"
  then obtain x xs where s: "s = CHR ''-'' # x # xs"
    by (auto simp: arg_kind_of_def split: list.splits char.splits bool.splits)
  obtain name where name: "split_flag name = (n, v)" "name = x # xs \<or> name = xs"
    using a by (auto simp: s arg_kind_of_def Let_def split: list.splits char.splits bool.splits if_splits prod.splits)
  have "sublist name s"
    using name(2) by (auto simp: s sublist_Cons_right)
  then show ?thesis using split_flag_sublist [OF name(1)] sublist_order.order_trans by blast
qed

text \<open>What an argument does not name keeps its value: the two flags the safety of the servers depends on.\<close>

definition silent :: "string \<Rightarrow> bool" where
  "silent a \<longleftrightarrow> \<not> sublist ''metrics-secure'' a \<and> \<not> sublist ''enable-http2'' a"

definition safety_flags :: "flags \<Rightarrow> bool \<times> bool" where
  "safety_flags f = (fl_secureMetrics f, fl_enableHTTP2 f)"

lemma flag_table_keeps:
  assumes "map_of flag_table n = Some k" and "n \<noteq> ''metrics-secure''" and "n \<noteq> ''enable-http2''"
  shows "case k of BoolFlag upd \<Rightarrow> safety_flags (upd b f) = safety_flags f | StringFlag upd \<Rightarrow> safety_flags (upd x f) = safety_flags f"
  using assms by (auto simp: flag_table_def safety_flags_def split: if_splits)

lemma set_flag_silent:
  assumes "n \<noteq> ''metrics-secure''" and "n \<noteq> ''enable-http2''" and "set_flag other n v args f = Inr (f', rest)"
  shows "safety_flags f' = safety_flags f"
proof (cases "map_of flag_table n")
  case None
  then show ?thesis using assms(3) by (auto simp: set_flag_def split: option.splits if_splits)
next
  case (Some k)
  then show ?thesis
    using assms(3) flag_table_keeps [OF Some assms(1,2)] by (cases k) (auto simp: set_flag_def split: option.splits)
qed

lemma parseOne_silent: "parseOne other s args f = Inr (Some (f', rest)) \<Longrightarrow> silent s \<Longrightarrow> safety_flags f' = safety_flags f"
proof -
  assume p: "parseOne other s args f = Inr (Some (f', rest))" and s: "silent s"
  obtain n v where n: "arg_kind_of s = Named n v" "set_flag other n v args f = Inr (f', rest)"
    using p by (simp add: parseOne_def split: arg_kind.splits sum.splits)
  have "n \<noteq> ''metrics-secure''" "n \<noteq> ''enable-http2''"
    using arg_names_flag [OF n(1)] s unfolding silent_def by blast+
  then show ?thesis using n(2) by (rule set_flag_silent)
qed

lemma parse_silent:
  "flag_Parse other args f = Inr f' \<Longrightarrow> list_all silent args \<Longrightarrow> safety_flags f' = safety_flags f"
proof (induction other args f rule: flag_Parse.induct)
  case (2 other s args f)
  show ?case
  proof (cases "\<exists>g rest. parseOne other s args f = Inr (Some (g, rest))")
    case True
    then obtain g rest where p: "parseOne other s args f = Inr (Some (g, rest))" by blast
    have "list_all silent rest" using parseOne_rest [OF p] "2.prems"(2) by (cases args) auto
    then show ?thesis
      using "2.IH" [OF p refl, of g rest] "2.prems" parseOne_silent [OF p] p by simp
  next
    case False
    then show ?thesis using "2.prems"(1) by (auto split: sum.splits option.splits)
  qed
qed simp

lemma settle_safety: "safety_flags (settle_flags cfg f) = safety_flags f"
  by (simp add: settle_flags_def safety_flags_def Let_def)

lemma http1_only:
  "fl_enableHTTP2 f = False \<Longrightarrow> tc_NextProtos (fold (\<lambda>g. g) (tlsOpts f) c) = [''http/1.1'']"
  by (simp add: tlsOpts_def disableHTTP2_def)

lemma server_options_tls:
  "so_TLSOpts (webhookServerOptions f) = tlsOpts f"
  "so_TLSOpts (metricsServerOptions f) = tlsOpts f"
  "mo_SecureServing (metricsServerOptions f) = fl_secureMetrics f"
  "mo_FilterProvider (metricsServerOptions f) = fl_secureMetrics f"
  "mo_BindAddress (metricsServerOptions f) = fl_metricsAddr f"
  by (simp_all add: webhookServerOptions_def metricsServerOptions_def Let_def)

text \<open>The trace of a run is a prefix of the calls; with the last call in it, all before it succeeded.\<close>

lemma run_calls_prefix: "run_calls cs = (code, tr) \<Longrightarrow> prefix tr (List.map fst cs)"
  by (induction cs arbitrary: code tr rule: run_calls.induct) (auto split: prod.splits)

lemma run_calls_last:
  "run_calls (cs @ [(c, e)]) = (code, tr) \<Longrightarrow> c \<in> set tr \<Longrightarrow> c \<notin> set (List.map fst cs) \<Longrightarrow>
     tr = List.map fst cs @ [c] \<and> list_all (\<lambda>p. snd p = None) cs \<and> code = (if e = None then 0 else 1)"
proof (induction cs arbitrary: code tr)
  case Nil
  then show ?case by (cases e) auto
next
  case (Cons p cs)
  obtain d x where p: "p = (d, x)" by force
  show ?case
  proof (cases x)
    case None
    then show ?thesis using Cons p by (auto split: prod.splits)
  qed (use Cons.prems p in auto)
qed

lemma process_runs:
  assumes "process env args = (code, calls)" and "calls \<noteq> []"
  obtains scheme f cfg where "init_scheme env = Inr scheme" and "flag_Parse (mn_other_flags env) args default_flags = Inr f"
    and "Load (mn_read_file env) (mn_expand_env env) (mn_unmarshal env) (fl_configPath f) = Inr cfg"
    and "run_calls (main_calls env scheme cfg (settle_flags cfg f)) = (code, calls)"
  using assms by (auto simp: process_def main_def split: sum.splits)

lemma manager_gets:
  assumes "process env args = (code, calls)" and "CallNewManager opts \<in> set calls"
  obtains scheme f cfg where "flag_Parse (mn_other_flags env) args default_flags = Inr f"
    and "opts = manager_options_of scheme (settle_flags cfg f)"
proof -
  obtain scheme f cfg where f: "flag_Parse (mn_other_flags env) args default_flags = Inr f"
      and r: "run_calls (main_calls env scheme cfg (settle_flags cfg f)) = (code, calls)"
    using process_runs [OF assms(1)] assms(2) by (metis empty_iff list.set(1))
  then have "CallNewManager opts \<in> set (List.map fst (main_calls env scheme cfg (settle_flags cfg f)))"
    using assms(2) set_mono_prefix [OF run_calls_prefix [OF r]] by blast
  then have "opts = manager_options_of scheme (settle_flags cfg f)" by (simp add: main_calls_def Let_def)
  then show ?thesis using that f by blast
qed

section \<open>Properties\<close>

text \<open>
  C19. The manager is started last: once it is, the schemes, the command line and the configuration were read
  without error, and every call before it succeeded, in this order: the REST configuration, the manager, the REST
  configuration again, the metrics client, the controller for \<open>AIScaler\<close>s and their Deployments with the
  reconciler built from that configuration, and both checks; and the process ends with code 0 exactly when the
  manager stops without error.
\<close>

theorem started_operator:
  assumes "process env args = (code, calls)" and "CallStart \<in> set calls"
  shows "\<exists>scheme f cfg. init_scheme env = Inr scheme \<and> flag_Parse (mn_other_flags env) args default_flags = Inr f
    \<and> Load (mn_read_file env) (mn_expand_env env) (mn_unmarshal env) (fl_configPath f) = Inr cfg
    \<and> calls = [GetConfigOrDie, CallNewManager (manager_options_of scheme (settle_flags cfg f)), GetConfigOrDie, NewForConfig,
        CallSetup (start_reconciler cfg (mn_http env) (mn_marshal env) (mn_getenv env) (mn_audit_maps env)),
        CallHealthz ''healthz'', CallReadyz ''readyz'', CallStart]
    \<and> mn_rest_config env 0 = None \<and> mn_NewManager env (manager_options_of scheme (settle_flags cfg f)) = None
    \<and> mn_rest_config env 1 = None \<and> mn_metrics_client env = None
    \<and> mn_complete env \<lparr>bd_For = ''AIScaler'', bd_Owns = [''Deployment''], bd_Named = ''aiscaler''\<rparr>
        (start_reconciler cfg (mn_http env) (mn_marshal env) (mn_getenv env) (mn_audit_maps env)) = None
    \<and> mn_AddHealthzCheck env ''healthz'' = None \<and> mn_AddReadyzCheck env ''readyz'' = None
    \<and> code = (if mn_Start env = None then 0 else 1)"
proof -
  obtain scheme f cfg where p: "init_scheme env = Inr scheme" "flag_Parse (mn_other_flags env) args default_flags = Inr f"
      "Load (mn_read_file env) (mn_expand_env env) (mn_unmarshal env) (fl_configPath f) = Inr cfg"
      and r: "run_calls (main_calls env scheme cfg (settle_flags cfg f)) = (code, calls)"
    using process_runs [OF assms(1)] assms(2) by (metis empty_iff list.set(1))
  let ?cs = "main_calls env scheme cfg (settle_flags cfg f)"
  have cs: "?cs = butlast ?cs @ [(CallStart, mn_Start env)]" and nc: "CallStart \<notin> set (List.map fst (butlast ?cs))"
    by (simp_all add: main_calls_def Let_def)
  have "calls = List.map fst (butlast ?cs) @ [CallStart] \<and> list_all (\<lambda>p. snd p = None) (butlast ?cs)
      \<and> code = (if mn_Start env = None then 0 else 1)"
    by (rule run_calls_last [OF _ assms(2) nc]) (use r cs in simp)
  then show ?thesis using p by (intro exI [of _ scheme] exI [of _ f] exI [of _ cfg])
    (simp add: main_calls_def SetupWithManager_def Let_def)
qed

text \<open>An environment in which everything succeeds.\<close>

definition good_main :: "nat MainEnv" where
  "good_main = \<lparr>mn_other_flags = (\<lambda>n. if n = ''zap-devel'' then Some (True, \<lambda>_. False) else None),
     mn_read_file = (\<lambda>_. Inr ''file''), mn_expand_env = id, mn_unmarshal = (\<lambda>_. Inr sample_config),
     mn_getenv = (\<lambda>_. []), mn_http = (\<lambda>_. NoReply ''down''), mn_marshal = (\<lambda>_. Inl ''none''), mn_audit_maps = fmempty,
     mn_core_scheme = Inr [], mn_add_to_scheme = (\<lambda>gv ks s. Inr (s @ List.map (Pair gv) ks)),
     mn_rest_config = (\<lambda>_. None), mn_NewManager = (\<lambda>_. None), mn_metrics_client = None, mn_complete = (\<lambda>_ _. None),
     mn_AddHealthzCheck = (\<lambda>_. None), mn_AddReadyzCheck = (\<lambda>_. None), mn_Start = Some ''lost the lease''\<rparr>"

definition good_args :: "string list" where
  "good_args = [''--leader-elect'', ''-metrics-bind-address'', '':8443'', ''--zap-devel'', ''--config=op.yaml'']"

lemma good_simps:
  "mn_read_file good_main = (\<lambda>_. Inr ''file'')" "mn_unmarshal good_main = (\<lambda>_. Inr sample_config)"
  "mn_core_scheme good_main = Inr []" "mn_add_to_scheme good_main = (\<lambda>gv ks s. Inr (s @ List.map (Pair gv) ks))"
  "mn_rest_config good_main = (\<lambda>_. None)" "mn_NewManager good_main = (\<lambda>_. None)" "mn_metrics_client good_main = None"
  "mn_complete good_main = (\<lambda>_ _. None)" "mn_AddHealthzCheck good_main = (\<lambda>_. None)"
  "mn_AddReadyzCheck good_main = (\<lambda>_. None)" "mn_Start good_main = Some ''lost the lease''"
  by (simp_all add: good_main_def)

lemma good_parse: "flag_Parse (mn_other_flags good_main) good_args default_flags =
    Inr (default_flags \<lparr>fl_metricsAddr := '':8443'', fl_enableLeaderElection := True, fl_configPath := ''op.yaml''\<rparr>)"
  by code_simp

lemma good_load: "Load (\<lambda>_. Inr file) x (\<lambda>_. Inr sample_config) path = Inr sample_config"
  by (simp add: Load_def validate_config_def sample_config_def)

lemma good_process: "\<exists>scheme f cfg. process good_main good_args =
    (1, List.map fst (main_calls good_main scheme cfg (settle_flags cfg f)))"
proof -
  have "process good_main good_args = (1, List.map fst (main_calls good_main (List.map (Pair group_version) scheme_builder)
      sample_config (settle_flags sample_config
        (default_flags \<lparr>fl_metricsAddr := '':8443'', fl_enableLeaderElection := True, fl_configPath := ''op.yaml''\<rparr>))))"
    by (simp add: process_def main_def init_scheme_def good_parse good_load good_simps SetupWithManager_def main_calls_def Let_def)
  then show ?thesis by blast
qed

lemma started_operator_witness:
  "\<exists>cfg r. Load (mn_read_file good_main) (mn_expand_env good_main) (mn_unmarshal good_main) ''op.yaml'' = Inr cfg
    \<and> (CallSetup r) \<in> set (snd (process good_main good_args)) \<and> fst (process good_main good_args) = 1"
proof -
  obtain scheme f cfg where g: "process good_main good_args =
      (1, List.map fst (main_calls good_main scheme cfg (settle_flags cfg f)))"
    using good_process by blast
  have "CallStart \<in> set (List.map fst (main_calls good_main scheme cfg (settle_flags cfg f)))"
    by (simp add: main_calls_def Let_def)
  from started_operator [OF g this] obtain cfg' r where "CallSetup r \<in> set (snd (process good_main good_args))"
      and "Load (mn_read_file good_main) (mn_expand_env good_main) (mn_unmarshal good_main) ''op.yaml'' = Inr cfg'"
    by (auto simp: g good_parse)
  then show ?thesis by (auto simp: g)
qed

text \<open>
  C20. Unless the command line names one of the two flags that say otherwise, every manager the process builds
  serves its metrics over HTTPS behind the authorization filter, and neither of its servers speaks HTTP/2;
  whatever the configuration file, the environment and the other flags say.
\<close>

theorem servers_secure:
  assumes "process env args = (code, calls)" and "CallNewManager opts \<in> set calls" and "list_all silent args"
  shows "mo_SecureServing (mg_Metrics opts) \<and> mo_FilterProvider (mg_Metrics opts)
    \<and> tc_NextProtos (fold (\<lambda>g. g) (so_TLSOpts (mg_Metrics opts)) c) = [''http/1.1'']
    \<and> tc_NextProtos (fold (\<lambda>g. g) (so_TLSOpts (mg_WebhookServer opts)) c) = [''http/1.1'']"
proof -
  obtain scheme f cfg where f: "flag_Parse (mn_other_flags env) args default_flags = Inr f"
      and opts: "opts = manager_options_of scheme (settle_flags cfg f)"
    using manager_gets [OF assms(1,2)] by blast
  have "safety_flags (settle_flags cfg f) = (True, False)"
    unfolding settle_safety parse_silent [OF f assms(3)] by (simp add: default_flags_def safety_flags_def)
  then have "fl_secureMetrics (settle_flags cfg f)" and "\<not> fl_enableHTTP2 (settle_flags cfg f)"
    unfolding safety_flags_def by simp_all
  then show ?thesis
    by (simp add: opts manager_options_of_def server_options_tls http1_only)
qed

lemma servers_secure_witness:
  "\<exists>opts. (CallNewManager opts) \<in> set (snd (process good_main good_args)) \<and> mo_FilterProvider (mg_Metrics opts)
    \<and> tc_NextProtos (fold (\<lambda>g. g) (so_TLSOpts (mg_WebhookServer opts)) \<lparr>tc_NextProtos = [''h2'']\<rparr>) = [''http/1.1'']"
proof -
  obtain scheme f cfg where g: "process good_main good_args =
      (1, List.map fst (main_calls good_main scheme cfg (settle_flags cfg f)))"
    using good_process by blast
  define opts where "opts = manager_options_of scheme (settle_flags cfg f)"
  have m: "CallNewManager opts \<in> set (List.map fst (main_calls good_main scheme cfg (settle_flags cfg f)))"
    by (simp add: main_calls_def opts_def Let_def)
  have "list_all silent good_args" by code_simp
  from servers_secure [OF g m this, of "\<lparr>tc_NextProtos = [''h2'']\<rparr>"] m show ?thesis
    by (auto simp: g)
qed

end
