(* ===== verification/Decision_Flow.thy ===== *)
theory Decision_Flow
  imports Reconcile_Safety
begin

text \<open>
  How a decision travels through the steps: which input wins the resolution, what a hold for
  approval, an oscillation or a breached objective does to the count that is validated, and what the
  bounds and the cost ceiling make of the final decision.
\<close>

section \<open>Lemmas\<close>

lemma materialize_target:
  "sd_TargetReplicas (fst (materializeResolvedDecision s b rd)) = rd_TargetReplicas rd"
  by (simp add: materializeResolvedDecision_def Let_def split: prod.split)

definition resolution :: "bool \<Rightarrow> bool \<Rightarrow> 'q reconcileState \<Rightarrow> ResolvedDecision" where
  "resolution h c s = Resolve (buildPrecedenceInputs (s \<lparr>x_sloDecision := buildSLODecision s\<rparr>) h c)"

definition resolved_target :: "bool \<Rightarrow> bool \<Rightarrow> Bundle \<Rightarrow> 'q reconcileState \<Rightarrow> int32" where
  "resolved_target h c b s = (if no_inputs_present (s \<lparr>x_sloDecision := buildSLODecision s\<rparr>)
     then b_CurrentReplicas b else rd_TargetReplicas (resolution h c s))"

lemma resolveDecisionState_target:
  assumes "x_bundle s = Some b" and "resolveDecisionState h c (s, r) = (e, s')"
  shows "map_option sd_TargetReplicas (x_decision s') = Some (resolved_target h c b s)
    \<and> x_bundle s' = Some b \<and> x_obj s' = x_obj s"
proof -
  define s1 where "s1 = s \<lparr>x_sloDecision := buildSLODecision s\<rparr>"
  have s1: "x_bundle s1 = x_bundle s" "x_obj s1 = x_obj s" by (simp_all add: s1_def)
  obtain d p where m: "materializeResolvedDecision s1 b (resolution h c s) = (d, p)" by force
  have t: "sd_TargetReplicas d = rd_TargetReplicas (resolution h c s)"
    using materialize_target [of s1 b "resolution h c s"] m by simp
  have rc: "map_option sd_TargetReplicas (x_decision z) = Some (sd_TargetReplicas d) \<and> x_bundle z = Some b \<and> x_obj z = x_obj s"
    if "recalculate_cost c b (s1 \<lparr>x_precedence := Some (resolution h c s), x_decision := Some d, x_provider := p\<rparr>) r = (e', z)"
    for e' z
    using that assms(1) by (auto simp: recalculate_cost_def s1_def split: option.splits if_splits sum.splits)
  show ?thesis
    using assms m t rc s1 by (auto simp: resolveDecisionState_def resolved_target_def Let_def mk_decision_def
        s1_def [symmetric] resolution_def split: if_splits prod.splits)
qed

text \<open>The decision that goes into the validation, and what the validation makes of it.\<close>

definition validated_count :: "'q AIScaler \<Rightarrow> int32 \<Rightarrow> ScalingDecision \<Rightarrow> int32" where
  "validated_count obj cur d = (if has_direction_policy (ai_Spec obj) then asymmetric_guard d cur obj
     else validate_guard d cur obj)"

definition decide_steps :: "(string \<times> 'q step) list" where
  "decide_steps = [(''resolveFinalDecision'', resolveFinalDecision), (''validateDecision'', validateDecision)]"

lemma decide_steps_validated:
  assumes "x_bundle s = Some b" and "passes decide_steps env (s, r) = Some (s', r')"
  shows "\<exists>d v. x_decision s' = Some d \<and> x_validation s' = Some v \<and> sd_TargetReplicas d = resolved_target True True b s
    \<and> vr_ValidatedReplicas v = validated_count (x_obj s) (b_CurrentReplicas b) d"
proof -
  obtain e s1 where f: "resolveDecisionState True True (s, r) = (e, s1)" by force
  have k: "map_option sd_TargetReplicas (x_decision s1) = Some (resolved_target True True b s)"
      "x_bundle s1 = Some b" "x_obj s1 = x_obj s"
    using resolveDecisionState_target [OF assms(1) f] by auto
  then obtain d where d: "x_decision s1 = Some d" "sd_TargetReplicas d = resolved_target True True b s" by auto
  then show ?thesis
    using assms(2) f k by (auto simp: decide_steps_def resolveFinalDecision_def validateDecision_def validated_count_def
        validate_guard_def asymmetric_guard_def split: option.splits)
qed

lemma step_in_range_same: "0 \<le> sint n \<Longrightarrow> step_in_range n t t = t"
proof -
  assume "0 \<le> sint n"
  then have "sint (- n) = - sint n" by (intro sint32_neg) simp
  then show ?thesis using \<open>0 \<le> sint n\<close> by (simp add: step_in_range_def sless_sint)
qed

lemma step_in_range_floor:
  assumes "0 \<le> sint n" and "0 \<le> sint c" and "0 \<le> sint t" and "l \<le> sint c" and "l \<le> sint t"
  shows "l \<le> sint (step_in_range n t c)"
proof (cases "sint n = 0")
  case True
  then have "n = 0" by (metis sint32_0 sint32_inject)
  then show ?thesis using assms(4,5) by (auto simp: step_in_range_def Let_def)
next
  case False
  then show ?thesis using step_in_range_sint [of n c t] assms by linarith
qed

lemma clamp32_id: "within_bounds c n \<Longrightarrow> clamp32 c n = n"
  by (simp add: clamp32_def within_bounds_def sless_sint)

lemma clamp32_floor: "within_bounds c n \<Longrightarrow> l \<le> sint n \<Longrightarrow> l \<le> sint m \<Longrightarrow> l \<le> sint (clamp32 c m)"
  by (auto simp: clamp32_def within_bounds_def sless_sint)

lemma validated_same:
  assumes "0 \<le> sint (sc_MaxScaleStep (ai_Constraints p))" and "within_bounds (ai_Constraints p) cur"
    and "sd_TargetReplicas d = cur"
  shows "validated_count p cur d = cur"
  using assms by (auto simp: validated_count_def has_direction_policy_def validate_guard_def Validate_replicas
      step_in_range_same clamp32_id asymmetric_guard_Some directionOf_def direction_policy_def split: option.splits)

lemma directional_target_floor:
  assumes "0 \<le> sint cur" and "0 \<le> sint (sd_TargetReplicas d)" and "l \<le> sint cur" and "l \<le> sint (sd_TargetReplicas d)"
  shows "l \<le> sint (directional_target d cur dp)"
proof -
  have "directional_target d cur dp \<in> {cur, sd_TargetReplicas d} \<or> 0 <s dp_MaxStep dp
      \<and> directional_target d cur dp = step_in_range (dp_MaxStep dp) (sd_TargetReplicas d) cur"
    by (auto simp: directional_target_def step_in_range_def Let_def)
  then show ?thesis
    using step_in_range_floor [of "dp_MaxStep dp" cur "sd_TargetReplicas d" l] assms by (auto simp: sless_sint)
qed

text \<open>The validation moves a target towards the current count, so it keeps every floor below both.\<close>

lemma validated_floor:
  assumes "0 \<le> sint (sc_MaxScaleStep (ai_Constraints p))" and "0 \<le> sint (sc_MinReplicas (ai_Constraints p))"
    and "within_bounds (ai_Constraints p) cur" and "0 \<le> sint (sd_TargetReplicas d)"
    and "l \<le> sint cur" and "l \<le> sint (sd_TargetReplicas d)"
  shows "l \<le> sint (validated_count p cur d)"
proof -
  have cur: "0 \<le> sint cur" using assms(2,3) by (simp add: within_bounds_def)
  have "l \<le> sint (validate_guard d cur p)"
    using step_in_range_floor [OF assms(1) cur assms(4-6)] clamp32_floor [OF assms(3,5)]
    by (simp add: validate_guard_def Validate_replicas)
  moreover have "l \<le> sint (asymmetric_guard d cur p)" if "spec_Safety (ai_Spec p) = Some sf" for sf
    using directional_target_floor [OF cur assms(4-6)] assms(6) clamp32_floor [OF assms(3,5)]
    by (simp add: asymmetric_guard_Some [OF that] split: option.split)
  ultimately show ?thesis by (auto simp: validated_count_def has_direction_policy_def split: option.splits)
qed

lemma inputs_simps:
  "pi_MinReplicas (buildPrecedenceInputs s h c) = sc_MinReplicas (spec_Constraints (x_spec s))"
  "pi_MaxReplicas (buildPrecedenceInputs s h c) = sc_MaxReplicas (spec_Constraints (x_spec s))"
  "pi_SafetyOverride (buildPrecedenceInputs s h c) = target_of (x_safetyDecision s)"
  "pi_HumanOverride (buildPrecedenceInputs s h c) = (if h then target_of (x_humanDecision s) else None)"
  "pi_ScheduleTarget (buildPrecedenceInputs s h c) = None"
  "pi_SLOTarget (buildPrecedenceInputs s h c) = target_of (x_sloDecision s)"
  "pi_CostConstrainedMax (buildPrecedenceInputs s h c) = (if c then x_costCeiling s else None)"
  "pi_SLOAlwaysWins (buildPrecedenceInputs s h c) = map_option pc_SLOAlwaysWins (spec_Precedence (x_spec s))"
  by (simp_all add: buildPrecedenceInputs_def Let_def target_of_def)

lemma raise_target_ge: "sint t \<le> sint (raise_target t d)"
  by (simp add: raise_target_def sless_sint split: option.split)

lemma buildSLODecision_target:
  assumes "x_bundle s = Some b" and "AnyBreached (x_currentSLOs s)"
  shows "\<exists>d. buildSLODecision s = Some d \<and> sint (b_CurrentReplicas b) \<le> sint (sd_TargetReplicas d)"
proof -
  have "x_currentSLOs s \<noteq> []" using assms(2) by auto
  moreover have "sint n \<le> sint (raise_target (raise_target (raise_target n x) y) z)" for n x y z
    using raise_target_ge order_trans by metis
  ultimately show ?thesis using assms by (auto simp: buildSLODecision_def mk_decision_def Let_def)
qed

lemma forced_target:
  assumes "d = (case x_safetyDecision s of Some d \<Rightarrow> Some d | None \<Rightarrow> x_humanDecision s)" and "d \<noteq> None"
    and "within_bounds (spec_Constraints (x_spec s)) (sd_TargetReplicas (the d))"
    and "\<forall>m. x_costCeiling s = Some m \<longrightarrow> sint (sd_TargetReplicas (the d)) \<le> sint m"
  shows "resolved_target True True b s = sd_TargetReplicas (the d)"
  using assms by (auto simp: resolved_target_def no_inputs_present_def resolution_def within_bounds_def inputs_simps
      target_of_def intro!: Resolve_override split: option.splits)

section \<open>The scenario of the witnesses\<close>

text \<open>Three replicas observed, no model decision yet.\<close>

definition observed :: "nat AIScaler \<Rightarrow> nat reconcileState" where
  "observed obj = (new_state obj []) \<lparr>x_bundle := Some (zero_Bundle \<lparr>b_CurrentReplicas := 3\<rparr>)\<rparr>"

lemma resolve_pass:
  assumes "x_bundle s = Some b" and "x_currentWorkloadCost s = None"
  shows "\<exists>s'. resolveDecisionState h c (s, r) = (None, s') \<and> x_currentWorkloadCost s' = None"
proof (cases "no_inputs_present (s \<lparr>x_sloDecision := buildSLODecision s\<rparr>)")
  case True
  then show ?thesis using assms by (simp add: resolveDecisionState_def Let_def)
next
  case False
  then show ?thesis using assms by (simp add: resolveDecisionState_def recalculate_cost_def Let_def split: prod.split)
qed

lemma decide_steps_pass:
  assumes "x_bundle s = Some b" and "x_currentWorkloadCost s = None"
  shows "\<exists>s' r'. passes decide_steps env (s, r) = Some (s', r')"
  using assms by (auto simp: decide_steps_def resolveFinalDecision_def validateDecision_def resolveDecisionState_def
      recalculate_cost_def Let_def split: prod.split option.split sum.split)

section \<open>Properties of the resolution\<close>

text \<open>
  C5. A hold for approval keeps the workload where it is: when the approval manager asks for
  approval of the tentative decision and no safety decision stands, the count that leaves the validator
  is the current one, whatever the provider, the rules and the objectives want, as long as the current
  count is within the bounds and not above the cost ceiling.
\<close>

theorem approval_holds:
  assumes "r_ApprovalManager r" and "x_bundle s = Some b" and "x_decision s = Some d" and "x_safetyDecision s = None"
    and "NeedsApproval (x_obj s) d (b_CurrentReplicas b)
      (case x_costEstimate s of None \<Rightarrow> 0 | Some est \<Rightarrow> est_DeltaHourlyCost est)"
    and "within_bounds (ai_Constraints (x_obj s)) (b_CurrentReplicas b)"
    and "0 \<le> sint (sc_MaxScaleStep (ai_Constraints (x_obj s)))"
    and "\<forall>m. x_costCeiling s = Some m \<longrightarrow> sint (b_CurrentReplicas b) \<le> sint m"
    and "passes ((''checkApproval'', checkApproval) # decide_steps) env (s, r) = Some (s', r')"
  shows "\<exists>v. x_validation s' = Some v \<and> vr_ValidatedReplicas v = b_CurrentReplicas b"
proof -
  define s1 where "s1 = s \<lparr>x_humanDecision := Some (mk_decision (b_CurrentReplicas b) ''awaiting human approval''
    (sd_Confidence d) ''no_change'')\<rparr>"
  obtain r1 where p: "passes decide_steps env (s1, r1) = Some (s', r')"
    using assms(1-3,5,9) by (auto simp: checkApproval_def s1_def Let_def split: option.splits)
  have s1: "x_bundle s1 = Some b" "x_obj s1 = x_obj s" using assms(2) by (simp_all add: s1_def)
  have "resolved_target True True b s1 = b_CurrentReplicas b"
    using forced_target [of "x_humanDecision s1" s1 b] assms(4,6,8) by (simp add: s1_def mk_decision_def)
  then show ?thesis
    using decide_steps_validated [OF s1(1) p] validated_same [of "x_obj s" "b_CurrentReplicas b"] assms(6,7) s1(2) by auto
qed

definition guarded_obj :: "nat AIScaler" where
  "guarded_obj = sample_obj \<lparr>ai_Spec := (ai_Spec sample_obj) \<lparr>spec_RequireApproval := True\<rparr>\<rparr>"

lemma approval_holds_witness:
  "\<exists>s' r' v. passes ((''checkApproval'', checkApproval) # decide_steps) (plain_env 7 guarded_obj)
      ((observed guarded_obj) \<lparr>x_llmDecision := Some (mk_decision 9 [] 1 []), x_decision := Some (mk_decision 9 [] 1 [])\<rparr>,
       bare_reconciler \<lparr>r_ApprovalManager := True\<rparr>) = Some (s', r')
    \<and> x_validation s' = Some v \<and> vr_ValidatedReplicas v = 3"
proof -
  define s :: "nat reconcileState" where "s = (observed guarded_obj)
    \<lparr>x_llmDecision := Some (mk_decision 9 [] 1 []), x_decision := Some (mk_decision 9 [] 1 [])\<rparr>"
  define r where "r = bare_reconciler \<lparr>r_ApprovalManager := True\<rparr>"
  define b where "b = zero_Bundle \<lparr>b_CurrentReplicas := 3\<rparr>"
  note defs = s_def r_def b_def observed_def new_state_def guarded_obj_def sample_obj_def with_constraints_def
    zero_defs zero_signal_defs bare_reconciler_def within_bounds_def NeedsApproval_def
  obtain s1 r1 where c: "checkApproval (plain_env 7 guarded_obj) (s, r) = (Inr None, s1, r1)"
      "x_bundle s1 = Some b" "x_currentWorkloadCost s1 = None"
    by (auto simp: checkApproval_def Let_def defs)
  obtain s' r' where p: "passes decide_steps (plain_env 7 guarded_obj) (s1, r1) = Some (s', r')"
    using decide_steps_pass [OF c(2,3)] by blast
  have "\<exists>v. x_validation s' = Some v \<and> vr_ValidatedReplicas v = b_CurrentReplicas b"
    by (rule approval_holds [where s = s and r = r and d = "mk_decision 9 [] 1 []" and env = "plain_env 7 guarded_obj"])
      (use c(1) p in \<open>simp_all add: defs\<close>)
  then show ?thesis using c(1) p by (auto simp: s_def [symmetric] r_def [symmetric]) (simp add: b_def)
qed

text \<open>The steps between the oscillation check and the validation, on the fields a safety decision rests on.\<close>

definition held :: "Bundle \<Rightarrow> ScalingDecision \<Rightarrow> 'q AIScaler \<Rightarrow> 'q reconcileState \<Rightarrow> bool" where
  "held b d obj s \<longleftrightarrow> x_bundle s = Some b \<and> x_safetyDecision s = Some d \<and> x_obj s = obj"

lemma held_rollback:
  "held b d obj s \<Longrightarrow> checkRollback env (s, r) = (Inr None, s', r') \<Longrightarrow> x_rollbackAction s' = None \<Longrightarrow> held b d obj s'"
  by (auto simp: held_def checkRollback_def apply_rollback_def Let_def split: option.splits sum.splits if_splits)

lemma held_resolve:
  assumes "held b d obj s" and "resolveDecisionState h c (s, r) = (e, s')"
  shows "held b d obj s' \<and> x_rollbackAction s' = x_rollbackAction s \<and> x_costCeiling s' = x_costCeiling s"
  using assms by (auto simp: held_def resolveDecisionState_def recalculate_cost_def Let_def mk_decision_def
      split: prod.splits option.splits if_splits sum.splits)

lemma held_tentative:
  "held b d obj s \<Longrightarrow> resolveTentativeDecision env (s, r) = (Inr None, s', r') \<Longrightarrow>
     held b d obj s' \<and> x_rollbackAction s' = x_rollbackAction s"
  by (auto simp: resolveTentativeDecision_def split: prod.splits option.splits dest: held_resolve)

lemma held_cost:
  "held b d obj s \<Longrightarrow> estimateCost env (s, r) = (Inr None, s', r') \<Longrightarrow>
     held b d obj s' \<and> x_rollbackAction s' = x_rollbackAction s"
  by (auto simp: held_def estimateCost_def cost_ceiling_def Let_def split: option.splits sum.splits if_splits prod.splits)

lemma held_approval:
  "held b d obj s \<Longrightarrow> checkApproval env (s, r) = (Inr None, s', r') \<Longrightarrow>
     held b d obj s' \<and> x_rollbackAction s' = x_rollbackAction s \<and> x_costCeiling s' = x_costCeiling s"
  by (auto simp: held_def checkApproval_def Let_def split: option.splits if_splits)

lemma decide_steps_keep:
  assumes "held b d obj s" and "passes decide_steps env (s, r) = Some (s', r')"
  shows "x_rollbackAction s' = x_rollbackAction s \<and> x_costCeiling s' = x_costCeiling s"
proof -
  obtain e s1 where f: "resolveDecisionState True True (s, r) = (e, s1)" by force
  show ?thesis
    using held_resolve [OF assms(1) f] assms(2) f
    by (auto simp: decide_steps_def resolveFinalDecision_def validateDecision_def split: option.splits)
qed

lemma decision_steps_split:
  "take 7 (drop 5 steps) = (''checkOscillation'', checkOscillation) # (''checkRollback'', checkRollback)
     # (''resolveTentativeDecision'', resolveTentativeDecision) # (''estimateCost'', estimateCost)
     # (''checkApproval'', checkApproval) # decide_steps"
  by (simp add: steps_def decide_steps_def numeral_eq_Suc)

lemma passes_Cons:
  "passes ((n, f) # fs) env (s, r) = Some w \<Longrightarrow> \<exists>s1 r1. f env (s, r) = (Inr None, s1, r1) \<and> passes fs env (s1, r1) = Some w"
  by (auto split: prod.splits sum.splits option.splits)

text \<open>
  C6. While the workload oscillates, the decision steps of the reconcile, from the oscillation check
  to the validation, come out at the current count whatever the rules, the provider, the objectives
  and a hold want, unless a rollback takes over or a hard budget caps below it.
\<close>

theorem oscillation_holds:
  assumes "r_OscillationDetector r = Some det" and "IsOscillating (e_now env ''IsOscillating'') det"
    and "x_bundle s = Some b" and "within_bounds (ai_Constraints (x_obj s)) (b_CurrentReplicas b)"
    and "0 \<le> sint (sc_MaxScaleStep (ai_Constraints (x_obj s)))"
    and "passes (take 7 (drop 5 steps)) env (s, r) = Some (s', r')" and "x_rollbackAction s' = None"
    and "\<forall>m. x_costCeiling s' = Some m \<longrightarrow> sint (b_CurrentReplicas b) \<le> sint m"
  shows "\<exists>v. x_validation s' = Some v \<and> vr_ValidatedReplicas v = b_CurrentReplicas b"
proof -
  define d where "d = mk_decision (b_CurrentReplicas b) ''oscillation detected, maintaining current replicas'' 1 ''no_change''"
  obtain s1 r1 s2 r2 s3 r3 s4 r4 s5 r5 where st:
      "checkOscillation env (s, r) = (Inr None, s1, r1)" "checkRollback env (s1, r1) = (Inr None, s2, r2)"
      "resolveTentativeDecision env (s2, r2) = (Inr None, s3, r3)" "estimateCost env (s3, r3) = (Inr None, s4, r4)"
      "checkApproval env (s4, r4) = (Inr None, s5, r5)" "passes decide_steps env (s5, r5) = Some (s', r')"
    using assms(6) unfolding decision_steps_split by (auto dest!: passes_Cons simp del: passes.simps)
  have h1: "held b d (x_obj s) s1"
    using st(1) assms(1-3) by (auto simp: held_def d_def checkOscillation_def)
  have "x_rollbackAction s2 = None \<and> held b d (x_obj s) s5 \<and> x_costCeiling s' = x_costCeiling s5"
    if "held b d (x_obj s) s2"
    using held_tentative [OF that st(3)] held_cost [OF _ st(4)] held_approval [OF _ st(5)]
      decide_steps_keep [OF _ st(6)] assms(7) by metis
  moreover have "held b d (x_obj s) s2 \<or> x_rollbackAction s2 \<noteq> None"
    using held_rollback [OF h1 st(2)] by blast
  moreover have "x_rollbackAction s2 = None"
  proof (rule ccontr)
    assume "x_rollbackAction s2 \<noteq> None"
    then obtain d' where "held b d' (x_obj s) s2"
      using st(2) h1 by (auto simp: held_def checkRollback_def apply_rollback_def Let_def split: option.splits sum.splits if_splits)
    then show False
      using \<open>x_rollbackAction s2 \<noteq> None\<close> held_tentative [OF _ st(3)] held_cost [OF _ st(4)] held_approval [OF _ st(5)]
        decide_steps_keep [OF _ st(6)] assms(7) by metis
  qed
  ultimately have h5: "held b d (x_obj s) s5" and c: "x_costCeiling s5 = x_costCeiling s'" by auto
  have "resolved_target True True b s5 = b_CurrentReplicas b"
    using forced_target [of "x_safetyDecision s5" s5 b] h5 c assms(4,8) by (simp add: held_def d_def mk_decision_def)
  then show ?thesis
    using decide_steps_validated [OF _ st(6)] validated_same [of "x_obj s" "b_CurrentReplicas b"] assms(4,5) h5
    by (auto simp: held_def)
qed

definition shaky :: OscillationDetector where
  "shaky = \<lparr>od_events = [event_at 4 ''up'', event_at 5 ''down'', event_at 6 ''up''], od_maxSize = 10, od_window = 100\<rparr>"

lemma oscillation_holds_witness:
  "\<exists>s' r' v. passes (take 7 (drop 5 steps)) (plain_env 7 sample_obj)
      ((observed sample_obj) \<lparr>x_llmDecision := Some (mk_decision 9 [] 1 [])\<rparr>,
       bare_reconciler \<lparr>r_OscillationDetector := Some shaky\<rparr>) = Some (s', r')
    \<and> x_validation s' = Some v \<and> vr_ValidatedReplicas v = 3"
proof -
  define s where "s = (observed sample_obj) \<lparr>x_llmDecision := Some (mk_decision 9 [] 1 [])\<rparr>"
  define r where "r = bare_reconciler \<lparr>r_OscillationDetector := Some shaky\<rparr>"
  define b where "b = zero_Bundle \<lparr>b_CurrentReplicas := 3\<rparr>"
  define d where "d = mk_decision 3 ''oscillation detected, maintaining current replicas'' 1 ''no_change''"
  note defs = s_def r_def b_def observed_def new_state_def sample_obj_def with_constraints_def
    zero_defs zero_signal_defs bare_reconciler_def within_bounds_def
  have osc: "IsOscillating 7 shaky" by (simp add: IsOscillating_def shaky_def event_at_def)
  obtain s1 where c1: "checkOscillation (plain_env 7 sample_obj) (s, r) = (Inr None, s1, r)" and
      h1: "held b d sample_obj s1" "x_rollbackAction s1 = None" "x_costCeiling s1 = None" "x_currentWorkloadCost s1 = None"
    using osc by (auto simp: checkOscillation_def held_def d_def notify_def plain_env_def defs)
  have c2: "checkRollback (plain_env 7 sample_obj) (s1, r) = (Inr None, s1, r)"
    by (simp add: checkRollback_def r_def bare_reconciler_def)
  obtain s2 where c3: "resolveTentativeDecision (plain_env 7 sample_obj) (s1, r) = (Inr None, s2, r)"
      and w2: "x_currentWorkloadCost s2 = None"
    using resolve_pass [of s1 b False False r] h1(1,4) by (force simp: resolveTentativeDecision_def held_def)
  have h2: "held b d sample_obj s2" "x_rollbackAction s2 = None" "x_costCeiling s2 = None"
    using c3 h1 held_tentative held_resolve [OF h1(1)]
    by (auto simp: resolveTentativeDecision_def split: prod.splits option.splits)
  have c4: "estimateCost (plain_env 7 sample_obj) (s2, r) = (Inr None, s2, r)"
    "checkApproval (plain_env 7 sample_obj) (s2, r) = (Inr None, s2, r)"
    by (simp_all add: estimateCost_def checkApproval_def r_def bare_reconciler_def split: option.split)
  obtain s' r' where p: "passes decide_steps (plain_env 7 sample_obj) (s2, r) = Some (s', r')"
    using decide_steps_pass [OF _ w2] h2(1) unfolding held_def by blast
  have all: "passes (take 7 (drop 5 steps)) (plain_env 7 sample_obj) (s, r) = Some (s', r')"
    unfolding decision_steps_split by (simp add: c1 c2 c3 c4 p)
  have "\<exists>v. x_validation s' = Some v \<and> vr_ValidatedReplicas v = b_CurrentReplicas b"
    by (rule oscillation_holds [where s = s and r = r and det = shaky and env = "plain_env 7 sample_obj", OF _ _ _ _ _ all])
      (use osc decide_steps_keep [OF h2(1) p] h2 in \<open>simp_all add: plain_env_def defs\<close>)
  then show ?thesis using all by (auto simp: s_def r_def) (simp add: b_def)
qed

text \<open>The steps from the decision to the validation, on the fields a breached objective rests on.\<close>

definition seen :: "'q reconcileState \<Rightarrow> Bundle option \<times> SLOStatus list \<times> 'q AIScalerSpec" where
  "seen s = (x_bundle s, x_currentSLOs s, x_spec s)"

lemma seen_set_cond [simp]: "seen (set_cond env a b c d s) = seen s"
  by (simp add: seen_def set_cond_def setCondition_def)

lemma seen_accept: "seen (accept_decision env b d p s) = seen s"
proof -
  have "seen (s\<lparr>x_llmProvider := p\<rparr>) = seen s" "seen (s\<lparr>x_llmProvider := p, x_llmDecision := e\<rparr>) = seen s"
      "seen (s\<lparr>x_llmProvider := p, x_verticalDecision := v\<rparr>) = seen s"
      "seen (s\<lparr>x_llmProvider := p, x_verticalDecision := v, x_llmDecision := e\<rparr>) = seen s" for e v
    by (simp_all add: seen_def)
  then show ?thesis by (simp add: accept_decision_def Let_def split: option.split sum.split)
qed

definition apart :: "'q reconcileState \<Rightarrow> ScalingDecision option \<times> ScalingDecision option \<times> int32 option \<times> WorkloadCost option" where
  "apart s = (x_safetyDecision s, x_humanDecision s, x_costCeiling s, x_currentWorkloadCost s)"

lemma apart_set_cond [simp]: "apart (set_cond env a b c d s) = apart s"
  by (simp add: apart_def set_cond_def setCondition_def)

lemma apart_accept: "apart (accept_decision env b d p s) = apart s"
proof -
  have "apart (s\<lparr>x_llmProvider := p\<rparr>) = apart s" "apart (s\<lparr>x_llmProvider := p, x_llmDecision := e\<rparr>) = apart s"
      "apart (s\<lparr>x_llmProvider := p, x_verticalDecision := v\<rparr>) = apart s"
      "apart (s\<lparr>x_llmProvider := p, x_verticalDecision := v, x_llmDecision := e\<rparr>) = apart s" for e v
    by (simp_all add: apart_def)
  then show ?thesis by (simp add: accept_decision_def Let_def split: option.split sum.split)
qed

text \<open>With a recommendation of KEDA the provider may fail.\<close>

lemma ask_pass:
  assumes "x_deterministicDecision s \<noteq> None" and "r_Dispatcher r = None"
  shows "\<exists>s' ro. ask_provider env b c s r = (Inr None, s', r\<lparr>r_Router := ro\<rparr>) \<and> apart s' = apart s"
proof -
  obtain x ro where d: "Decide (e_router env) (x_obj s) (scaling_request s b c) (r_Router r) = (x, ro)" by force
  show ?thesis
    using assms d by (cases x) (auto simp: ask_provider_def notify_def apart_accept Let_def)
qed

lemma seen_ask: "seen (fst (snd (ask_provider env b c s r))) = seen s"
  by (cases "Decide (e_router env) (x_obj s) (scaling_request s b c) (r_Router r)")
    (simp add: ask_provider_def seen_accept Let_def split: sum.split prod.split)

lemma seen_fetch:
  assumes "x_bundle s = Some b" and "fetchDecision env (s, r) = (Inr None, s', r')"
    and "reactive_decision b = None \<or> \<not> shouldSkipLLMForReactiveRules (spec_Precedence (x_spec s))"
    and "AnyBreached (EvaluateSLOs (spec_SLOs (x_spec s)) b)"
  shows "seen s' = (Some b, EvaluateSLOs (spec_SLOs (x_spec s)) b, x_spec s)"
proof -
  have "spec_SLOs (x_spec s) \<noteq> []" using assms(4) by auto
  then have e: "\<exists>z c. evaluate_objectives b (keda_decision b s \<lparr>x_reactiveDecision := d\<rparr>) = (z, c)
      \<and> seen z = (Some b, EvaluateSLOs (spec_SLOs (x_spec s)) b, x_spec s)"
      "\<exists>z c. evaluate_objectives b (keda_decision b s) = (z, c)
      \<and> seen z = (Some b, EvaluateSLOs (spec_SLOs (x_spec s)) b, x_spec s)" for d
    using assms(1) by (simp_all add: evaluate_objectives_def seen_def Let_def keda_decision_def split: option.split)
  show ?thesis
  proof (cases "reactive_decision b")
    case None
    obtain z c where z: "evaluate_objectives b (keda_decision b s) = (z, c)"
        "seen z = (Some b, EvaluateSLOs (spec_SLOs (x_spec s)) b, x_spec s)" using e(2) by blast
    then have "ask_provider env b c z r = (Inr None, s', r')"
      using assms(1,2) None by (simp add: fetchDecision_def Let_def)
    then show ?thesis using seen_ask [of env b c z r] z(2) by simp
  next
    case (Some d)
    obtain z c where z: "evaluate_objectives b (keda_decision b s \<lparr>x_reactiveDecision := Some d\<rparr>) = (z, c)"
        "seen z = (Some b, EvaluateSLOs (spec_SLOs (x_spec s)) b, x_spec s)" using e(1) by blast
    then have "ask_provider env b c z r = (Inr None, s', r')"
      using assms(1-3) Some by (simp add: fetchDecision_def Let_def)
    then show ?thesis using seen_ask [of env b c z r] z(2) by simp
  qed
qed

lemma seen_resolve: "resolveDecisionState h c (s, r) = (e, s') \<Longrightarrow> seen s' = seen s
    \<and> x_safetyDecision s' = x_safetyDecision s \<and> x_humanDecision s' = x_humanDecision s \<and> x_costCeiling s' = x_costCeiling s"
  by (auto simp: seen_def resolveDecisionState_def recalculate_cost_def Let_def
      split: prod.splits option.splits if_splits sum.splits)

lemma seen_steps:
  "checkOscillation env (s, r) = (x, s', r') \<Longrightarrow> seen s' = seen s"
  "checkRollback env (s, r) = (x, s', r') \<Longrightarrow> seen s' = seen s"
  "resolveTentativeDecision env (s, r) = (x, s', r') \<Longrightarrow> seen s' = seen s"
  "estimateCost env (s, r) = (x, s', r') \<Longrightarrow> seen s' = seen s"
  "checkApproval env (s, r) = (x, s', r') \<Longrightarrow> seen s' = seen s"
proof -
  show "resolveTentativeDecision env (s, r) = (x, s', r') \<Longrightarrow> seen s' = seen s"
    by (auto simp: resolveTentativeDecision_def split: prod.splits option.splits dest: seen_resolve)
qed (auto simp: seen_def checkOscillation_def checkRollback_def apply_rollback_def estimateCost_def cost_ceiling_def
    checkApproval_def Let_def split: option.splits sum.splits if_splits prod.splits)

lemma decide_steps_fields:
  assumes "passes decide_steps env (s, r) = Some (s', r')"
  shows "x_safetyDecision s' = x_safetyDecision s \<and> x_humanDecision s' = x_humanDecision s
    \<and> x_costCeiling s' = x_costCeiling s"
proof -
  obtain e s1 where f: "resolveDecisionState True True (s, r) = (e, s1)" by force
  show ?thesis
    using seen_resolve [OF f] assms f
    by (auto simp: decide_steps_def resolveFinalDecision_def validateDecision_def split: option.splits)
qed

text \<open>With objectives ranked first a breach keeps the validated count from falling, but for the cost ceiling.\<close>

definition kept_floor :: "int32 option \<Rightarrow> int32 \<Rightarrow> int" where
  "kept_floor cap cur = (case cap of None \<Rightarrow> sint cur | Some m \<Rightarrow> min (sint m) (sint cur))"

lemma breach_keeps:
  assumes "x_bundle s = Some b" and "AnyBreached (x_currentSLOs s)"
    and "x_safetyDecision s = None" and "x_humanDecision s = None"
    and "\<forall>pc. spec_Precedence (x_spec s) = Some pc \<longrightarrow> pc_SLOAlwaysWins pc"
    and "within_bounds (ai_Constraints (x_obj s)) (b_CurrentReplicas b)"
    and "0 \<le> sint (sc_MaxScaleStep (ai_Constraints (x_obj s)))" and "0 \<le> sint (sc_MinReplicas (ai_Constraints (x_obj s)))"
    and "passes decide_steps env (s, r) = Some (s', r')"
  shows "\<exists>v. x_validation s' = Some v \<and> kept_floor (x_costCeiling s) (b_CurrentReplicas b) \<le> sint (vr_ValidatedReplicas v)"
proof -
  let ?l = "kept_floor (x_costCeiling s) (b_CurrentReplicas b)"
  obtain t where t: "buildSLODecision s = Some t" "sint (b_CurrentReplicas b) \<le> sint (sd_TargetReplicas t)"
    using buildSLODecision_target [OF assms(1,2)] by blast
  define i where "i = buildPrecedenceInputs (s \<lparr>x_sloDecision := buildSLODecision s\<rparr>) True True"
  have i: "pi_SafetyOverride i = None" "pi_HumanOverride i = None" "pi_ScheduleTarget i = None"
      "pi_SLOTarget i = Some (sd_TargetReplicas t)" "boolFlagOrDefault (pi_SLOAlwaysWins i) True"
      "pi_MinReplicas i = sc_MinReplicas (ai_Constraints (x_obj s))" "pi_MaxReplicas i = sc_MaxReplicas (ai_Constraints (x_obj s))"
      "pi_CostConstrainedMax i = x_costCeiling s"
    using assms(3-5) t(1) by (auto simp: i_def inputs_simps target_of_def boolFlagOrDefault_def split: option.split)
  have "raw_target i = sd_TargetReplicas t"
    using i by (auto simp: raw_target_def precedence_layers_def mk_layer_def Let_def)
  then have "?l \<le> sint (rd_TargetReplicas (Resolve i)) \<and> 0 \<le> sint (rd_TargetReplicas (Resolve i))"
    using i t(2) assms(6,8)
    by (auto simp: Resolve_target Let_def capped_target_def within_bounds_def kept_floor_def split: option.split)
  then have "?l \<le> sint (resolved_target True True b s)" "0 \<le> sint (resolved_target True True b s)"
    using t(1) by (simp_all add: resolved_target_def resolution_def i_def no_inputs_present_def)
  moreover have "?l \<le> sint (b_CurrentReplicas b)" by (simp add: kept_floor_def split: option.split)
  ultimately show ?thesis
    using decide_steps_validated [OF assms(1,9)] validated_floor [OF assms(7,8,6)] by force
qed

lemma objective_steps_split:
  "take 8 (drop 4 steps) = (''fetchDecision'', fetchDecision) # (''checkOscillation'', checkOscillation)
     # (''checkRollback'', checkRollback) # (''resolveTentativeDecision'', resolveTentativeDecision)
     # (''estimateCost'', estimateCost) # (''checkApproval'', checkApproval) # decide_steps"
  by (simp add: steps_def decide_steps_def numeral_eq_Suc)

text \<open>
  C4. A breached objective blocks scaling down.  Over the steps of the reconcile from the decision to
  the validation: when the observed signals breach an objective, no reactive rule fires that ends the
  decision step before the objectives are looked at (with the default precedence a firing rule does), the
  objectives are ranked first (the default), and neither a safety decision (an oscillation or a
  rollback) nor a hold for approval is made, then the count that leaves the validator is at least the
  current one whatever the rules, the provider and KEDA want; only a cost ceiling below the current
  count lowers it, and not below that ceiling.  The current count is within the bounds, and the minimum
  and the step are not negative.
\<close>

theorem breach_blocks_scale_down:
  assumes "x_bundle s = Some b" and "AnyBreached (EvaluateSLOs (spec_SLOs (x_spec s)) b)"
    and "reactive_decision b = None \<or> \<not> shouldSkipLLMForReactiveRules (spec_Precedence (x_spec s))"
    and "\<forall>pc. spec_Precedence (x_spec s) = Some pc \<longrightarrow> pc_SLOAlwaysWins pc"
    and "within_bounds (ai_Constraints (x_obj s)) (b_CurrentReplicas b)"
    and "0 \<le> sint (sc_MaxScaleStep (ai_Constraints (x_obj s)))" and "0 \<le> sint (sc_MinReplicas (ai_Constraints (x_obj s)))"
    and "passes (take 8 (drop 4 steps)) env (s, r) = Some (s', r')"
    and "x_safetyDecision s' = None" and "x_humanDecision s' = None"
  shows "\<exists>v. x_validation s' = Some v
    \<and> (case x_costCeiling s' of None \<Rightarrow> sint (b_CurrentReplicas b)
         | Some m \<Rightarrow> min (sint m) (sint (b_CurrentReplicas b))) \<le> sint (vr_ValidatedReplicas v)"
proof -
  obtain s0 r0 s1 r1 s2 r2 s3 r3 s4 r4 s5 r5 where st: "fetchDecision env (s, r) = (Inr None, s0, r0)"
      "checkOscillation env (s0, r0) = (Inr None, s1, r1)" "checkRollback env (s1, r1) = (Inr None, s2, r2)"
      "resolveTentativeDecision env (s2, r2) = (Inr None, s3, r3)" "estimateCost env (s3, r3) = (Inr None, s4, r4)"
      "checkApproval env (s4, r4) = (Inr None, s5, r5)" and p: "passes decide_steps env (s5, r5) = Some (s', r')"
    using assms(8) unfolding objective_steps_split by (auto dest!: passes_Cons simp del: passes.simps)
  have "seen s5 = (Some b, EvaluateSLOs (spec_SLOs (x_spec s)) b, x_spec s)"
    using seen_fetch [OF assms(1) st(1) assms(3,2)] seen_steps(1) [OF st(2)] seen_steps(2) [OF st(3)]
      seen_steps(3) [OF st(4)] seen_steps(4) [OF st(5)] seen_steps(5) [OF st(6)] by simp
  then have s5: "x_bundle s5 = Some b" "x_currentSLOs s5 = EvaluateSLOs (spec_SLOs (x_spec s)) b" "x_spec s5 = x_spec s"
    by (simp_all add: seen_def)
  have f: "x_safetyDecision s5 = None" "x_humanDecision s5 = None" "x_costCeiling s' = x_costCeiling s5"
    using decide_steps_fields [OF p] assms(9,10) by simp_all
  show ?thesis
    using breach_keeps [OF s5(1) _ f(1,2) _ _ _ _ p] s5 f(3) assms(2,4-7) by (simp add: kept_floor_def)
qed

lemma latency_breached: "ss_slo_Breached (slo_status b (latency_slo 200)) \<longleftrightarrow> f_of_int 200 < b_P95LatencyMs b"
  using breached_lower_is_better [of "latency_slo 200" b]
  by (simp add: latency_slo_def resolveMetric_def f_of_int_val f_of_int_less float_zero_of_int)

text \<open>
  Three replicas with a latency of 201 ms against an objective of 200 ms, and KEDA wants one; the provider
  does not answer.
\<close>

definition late_obj :: "nat AIScaler" where
  "late_obj = sample_obj \<lparr>ai_Spec := (ai_Spec sample_obj) \<lparr>spec_SLOs := [latency_slo 200],
     spec_KEDAIntegration := Some
     \<lparr>ki_Enabled = True, ki_ScaledObjectRef = spec_TargetRef (ai_Spec sample_obj), ki_Mode = []\<rparr>\<rparr>\<rparr>"

definition late_bundle :: Bundle where
  "late_bundle = zero_Bundle \<lparr>b_CurrentReplicas := 3, b_P95LatencyMs := f_of_int 201, b_KEDADesiredReplicas := 1\<rparr>"

lemma breach_blocks_scale_down_witness:
  "\<exists>s' r' v. passes (take 8 (drop 4 steps)) (plain_env 7 late_obj)
      ((new_state late_obj []) \<lparr>x_bundle := Some late_bundle\<rparr>, bare_reconciler) = Some (s', r')
    \<and> x_validation s' = Some v \<and> 3 \<le> sint (vr_ValidatedReplicas v)"
proof -
  let ?env = "plain_env 7 late_obj"
  define s where "s = (new_state late_obj []) \<lparr>x_bundle := Some late_bundle\<rparr>"
  note defs = s_def late_bundle_def new_state_def late_obj_def sample_obj_def with_constraints_def zero_defs zero_signal_defs
    within_bounds_def
  have br: "AnyBreached (EvaluateSLOs (spec_SLOs (x_spec s)) late_bundle)"
    by (simp add: s_def late_obj_def late_bundle_def latency_breached f_less_iff f_of_int_val f_of_int_not_nan)
  have no_rule: "reactive_decision late_bundle = None"
    by (simp add: reactive_decision_def late_bundle_def zero_signal_defs)
  have s: "x_bundle s = Some late_bundle" by (simp add: s_def)
  obtain z c where z: "evaluate_objectives late_bundle (keda_decision late_bundle s) = (z, c)"
      "x_deterministicDecision z \<noteq> None" "apart z = (None, None, None, None)"
    by (simp add: evaluate_objectives_def keda_decision_def apart_def Let_def defs sless_sint)
  obtain s0 ro where a: "ask_provider ?env late_bundle c z bare_reconciler = (Inr None, s0, bare_reconciler\<lparr>r_Router := ro\<rparr>)"
      "apart s0 = (None, None, None, None)"
    using ask_pass [OF z(2), of bare_reconciler ?env late_bundle c] z(3) by (auto simp: bare_reconciler_def)
  define r where "r = bare_reconciler\<lparr>r_Router := ro\<rparr>"
  have f: "fetchDecision ?env (s, bare_reconciler) = (Inr None, s0, r)"
    by (simp add: fetchDecision_def s no_rule z(1) a(1) r_def Let_def)
  have b0: "x_bundle s0 = Some late_bundle"
    using seen_fetch [OF s f _ br] no_rule by (simp add: seen_def)
  have c12: "checkOscillation ?env (s0, r) = (Inr None, s0, r)" "checkRollback ?env (s0, r) = (Inr None, s0, r)"
    by (simp_all add: checkOscillation_def checkRollback_def r_def bare_reconciler_def)
  have w0: "x_currentWorkloadCost s0 = None" using a(2) by (simp add: apart_def)
  obtain s1 where d1: "resolveDecisionState False False (s0, r) = (None, s1)" "x_currentWorkloadCost s1 = None"
    using resolve_pass [OF b0 w0] by blast
  have c3: "resolveTentativeDecision ?env (s0, r) = (Inr None, s1, r)" by (simp add: resolveTentativeDecision_def d1(1))
  have s1: "x_bundle s1 = Some late_bundle" "x_safetyDecision s1 = None" "x_humanDecision s1 = None" "x_costCeiling s1 = None"
    using seen_resolve [OF d1(1)] a(2) b0 by (simp_all add: seen_def apart_def)
  have c45: "estimateCost ?env (s1, r) = (Inr None, s1, r)" "checkApproval ?env (s1, r) = (Inr None, s1, r)"
    by (simp_all add: estimateCost_def checkApproval_def r_def bare_reconciler_def split: option.split)
  obtain s' r' where p: "passes decide_steps ?env (s1, r) = Some (s', r')"
    using decide_steps_pass [OF s1(1) d1(2)] by blast
  have all: "passes (take 8 (drop 4 steps)) ?env (s, bare_reconciler) = Some (s', r')"
    unfolding objective_steps_split by (simp add: f c12 c3 c45 p)
  have "\<exists>v. x_validation s' = Some v
      \<and> (case x_costCeiling s' of None \<Rightarrow> sint (b_CurrentReplicas late_bundle)
           | Some m \<Rightarrow> min (sint m) (sint (b_CurrentReplicas late_bundle))) \<le> sint (vr_ValidatedReplicas v)"
    by (rule breach_blocks_scale_down [OF s br _ _ _ _ _ all]) (use decide_steps_fields [OF p] s1 no_rule in \<open>simp_all add: defs\<close>)
  then show ?thesis using all decide_steps_fields [OF p] s1(4) by (auto simp: s_def) (simp add: late_bundle_def)
qed

text \<open>
  C7. With any input at all the final decision is within the bounds, and a cost ceiling at or above
  the minimum is respected by it.
\<close>

theorem final_decision_within:
  assumes "x_bundle s = Some b" and "resolveFinalDecision env (s, r) = (Inr None, s', r')"
    and "bounds_ok (ai_Constraints (x_obj s))" and "0 < sint (sc_MaxReplicas (ai_Constraints (x_obj s)))"
    and "x_llmDecision s \<noteq> None \<or> x_reactiveDecision s \<noteq> None \<or> x_safetyDecision s \<noteq> None
      \<or> x_humanDecision s \<noteq> None \<or> x_deterministicDecision s \<noteq> None"
  shows "\<exists>d. x_decision s' = Some d \<and> within_bounds (ai_Constraints (x_obj s)) (sd_TargetReplicas d)
    \<and> (\<forall>m. x_costCeiling s = Some m \<and> sint (sc_MinReplicas (ai_Constraints (x_obj s))) \<le> sint m \<longrightarrow>
         sint (sd_TargetReplicas d) \<le> sint m)"
proof -
  obtain e s1 where f: "resolveDecisionState True True (s, r) = (e, s1)" by force
  then have "s1 = s'" using assms(2) by (auto simp: resolveFinalDecision_def split: option.splits)
  then obtain d where d: "x_decision s' = Some d" "sd_TargetReplicas d = resolved_target True True b s"
    using resolveDecisionState_target [OF assms(1) f] by auto
  define i where "i = buildPrecedenceInputs (s \<lparr>x_sloDecision := buildSLODecision s\<rparr>) True True"
  have "resolved_target True True b s = rd_TargetReplicas (Resolve i)"
    using assms(5) by (auto simp: resolved_target_def no_inputs_present_def resolution_def i_def)
  moreover have "pi_MinReplicas i = sc_MinReplicas (ai_Constraints (x_obj s))"
      "pi_MaxReplicas i = sc_MaxReplicas (ai_Constraints (x_obj s))" "pi_CostConstrainedMax i = x_costCeiling s"
    by (simp_all add: i_def inputs_simps)
  ultimately show ?thesis
    using d assms(3,4) by (auto simp: Resolve_target Let_def capped_target_def bounds_defs split: option.split)
qed

lemma final_decision_within_witness:
  "\<exists>s' d. resolveFinalDecision (plain_env 7 sample_obj)
      ((observed sample_obj) \<lparr>x_llmDecision := Some (mk_decision 90 [] 1 [])\<rparr>, bare_reconciler) = (Inr None, s', bare_reconciler)
    \<and> x_decision s' = Some d \<and> within_bounds (ai_Constraints sample_obj) (sd_TargetReplicas d)"
proof -
  define s where "s = (observed sample_obj) \<lparr>x_llmDecision := Some (mk_decision 90 [] 1 [])\<rparr>"
  note defs = s_def observed_def new_state_def sample_obj_def with_constraints_def zero_defs zero_signal_defs bounds_defs
  obtain s' where f: "resolveFinalDecision (plain_env 7 sample_obj) (s, bare_reconciler) = (Inr None, s', bare_reconciler)"
    using resolve_pass [of s _ True True bare_reconciler] by (force simp: resolveFinalDecision_def defs)
  show ?thesis
    using final_decision_within [OF _ f] f by (auto simp: s_def [symmetric]) (simp add: defs)
qed

end
