(* ===== verification/Reconcile_Outcome.thy ===== *)
theory Reconcile_Outcome
  imports Decision_Flow
begin

text \<open>
  How a reconcile ends: what a failed step leaves in the status, what a deletion writes, which
  record a rollback returns to, and the change that a firing reactive rule brings about.
\<close>

section \<open>A failed step\<close>

text \<open>The validated count differs from the observed one and the resource is not in dry-run mode.\<close>

definition pending_change :: "'q reconcileState \<Rightarrow> bool" where
  "pending_change s \<longleftrightarrow> (case (x_bundle s, x_validation s) of
     (Some b, Some v) \<Rightarrow> vr_ValidatedReplicas v \<noteq> b_CurrentReplicas b \<and> \<not> spec_DryRun (x_spec s)
   | _ \<Rightarrow> False)"

definition resized :: "'q reconcileState \<Rightarrow> bool" where
  "resized s \<longleftrightarrow> (case x_verticalApplyResult s of None \<Rightarrow> False | Some a \<Rightarrow> var_Applied a \<and> \<not> var_DryRun a)"

lemma new_status_phase:
  assumes "x_phase s \<noteq> []"
  shows "st_Phase (ai_Status (x_obj (new_status env m s))) =
      (if pending_change s \<or> resized s then PhaseScaling else x_phase s)
    \<and> st_LastScaleTime (ai_Status (x_obj (new_status env m s))) =
      (if pending_change s then Some (e_now env ''persistStatus'') else st_LastScaleTime (ai_Status (x_obj s)))"
proof -
  have p: "st_Phase (status_basics s st) = x_phase s" for st
    using assms by (simp add: status_basics_def Let_def split: option.split)
  have q: "st_Phase (status_resources q now s st) = st_Phase st" "st_Phase (status_context s st) = st_Phase st" for q now st
    by (simp_all add: status_resources_def status_context_def Let_def split: option.split)
  show ?thesis
    using assms by (simp add: new_status_def set_status_def status_phase_def pending_change_def resized_def Let_def p q
        status_LastScaleTime PhaseScaling_def split: option.split)
qed

lemma new_status_counts:
  "pending_change s \<Longrightarrow> st_LastScaleTime (ai_Status (x_obj (new_status env m s))) = Some (e_now env ''persistStatus'')"
  by (simp add: new_status_def set_status_def status_phase_def pending_change_def Let_def split: option.splits)

lemma run_steps_fails:
  assumes "passes fs env w0 = Some w" and "f env w = (Inl fl, s1, r1)"
  shows "run_steps (fs @ (n, f) # gs) env w0 = (Inl fl, handle_failure env n fl (s1, r1))"
  using assms by (simp add: run_steps_split)

lemma step_failed_writes:
  "\<exists>ob. r_statuses (snd (step_failed env n err (s, r))) = r_statuses r @ [ob]
    \<and> st_Phase (ai_Status ob) = (if pending_change s \<or> resized s then PhaseScaling else PhaseFailed)
    \<and> st_LastScaleTime (ai_Status ob) =
        (if pending_change s then Some (e_now env ''persistStatus'') else st_LastScaleTime (ai_Status (x_obj s)))"
proof -
  define z where "z = (set_cond env ConditionReady ''False'' ''ReconcileFailed'' (n @ '' failed: '' @ err) s) \<lparr>x_phase := PhaseFailed\<rparr>"
  have z: "pending_change z = pending_change s" "resized z = resized s" "x_phase z = PhaseFailed"
      "st_LastScaleTime (ai_Status (x_obj z)) = st_LastScaleTime (ai_Status (x_obj s))"
    by (simp_all add: z_def pending_change_def resized_def set_cond_def setCondition_def cong: option.case_cong)
  have "r_statuses (snd (step_failed env n err (s, r))) = r_statuses r @ [x_obj (new_status env False z)]"
    by (simp add: step_failed_def z_def persistStatus_snd write_statuses)
  then show ?thesis
    using new_status_phase [of z env False] z by (simp add: PhaseFailed_def)
qed

section \<open>Properties\<close>

text \<open>
  C10. A step that fails with an error ends the reconcile with it and one status write, in phase Failed,
  except that a change already validated (or a resize already applied) is reported as Scaling, and a
  validated change starts the cooldown even when the failure is that it could not be applied.
\<close>

theorem failed_step_status:
  assumes "e_get env = Inr obj" and "steps = fs @ (n, f) # gs"
    and "passes fs env (new_state obj (e_uuid env), r) = Some w" and "f env w = (Inl (Failed err), s1, r1)"
  shows "fst (Reconcile env r) = Inl (Failed err)
    \<and> (\<exists>ob. r_statuses (snd (Reconcile env r)) = r_statuses r1 @ [ob]
         \<and> st_Phase (ai_Status ob) = (if pending_change s1 \<or> resized s1 then PhaseScaling else PhaseFailed)
         \<and> st_LastScaleTime (ai_Status ob) =
             (if pending_change s1 then Some (e_now env ''persistStatus'') else st_LastScaleTime (ai_Status (x_obj s1))))"
proof -
  have run: "run_steps steps env (new_state obj (e_uuid env), r) = (Inl (Failed err), step_failed env n err (s1, r1))"
    using run_steps_fails [where f = f and env = env and n = n and gs = gs, OF assms(3,4)] assms(2)
    by (simp add: handle_failure_def)
  then have "fst (Reconcile env r) = Inl (Failed err)"
    "r_statuses (snd (Reconcile env r)) = r_statuses (snd (step_failed env n err (s1, r1)))"
    using assms(1) by (cases "step_failed env n err (s1, r1)"; simp add: Reconcile_def)+
  then show ?thesis using step_failed_writes [of env n err s1 r1] by simp
qed

definition refusing_env :: "nat Env" where
  "refusing_env = (plain_env 7 sample_obj) \<lparr>e_update := (\<lambda>_. Inl (ApiNotFound ''web''))\<rparr>"

lemma failed_step_status_witness:
  "\<exists>err ob. fst (Reconcile refusing_env bare_reconciler) = Inl (Failed err)
    \<and> r_statuses (snd (Reconcile refusing_env bare_reconciler)) = [ob] \<and> st_Phase (ai_Status ob) = PhaseFailed"
proof -
  define s where "s = add_finalizer (new_state sample_obj ''id'')"
  have obj: "ValidateSpec (ai_Spec sample_obj) = None" "ai_DeletionTimestamp sample_obj = None" "ai_Finalizers sample_obj = []"
    by (simp_all add: ValidateSpec_None_iff sample_obj_def with_constraints_def zero_defs)
  have f: "ensureFinalizer refusing_env (new_state sample_obj (e_uuid refusing_env), bare_reconciler) =
      (Inl (Failed (api_error_text (ApiNotFound ''web''))), s, bare_reconciler \<lparr>r_updates := [x_obj s]\<rparr>)"
    by (simp add: ensureFinalizer_def update_obj_def being_deleted_def refusing_env_def plain_env_def s_def obj bare_reconciler_def)
  have s: "\<not> pending_change s" "\<not> resized s"
    by (simp_all add: s_def add_finalizer_def pending_change_def resized_def new_state_def)
  have "steps = [] @ (''ensureFinalizer'', ensureFinalizer) # drop 1 steps" by (simp add: steps_def)
  moreover have "e_get refusing_env = Inr sample_obj" "r_statuses bare_reconciler = []"
    by (simp_all add: refusing_env_def plain_env_def bare_reconciler_def)
  ultimately show ?thesis using failed_step_status [where f = ensureFinalizer and env = refusing_env and fs = "[]" and r = bare_reconciler
        and gs = "drop 1 steps" and obj = sample_obj and n = "''ensureFinalizer''", OF _ _ _ f] s by fastforce
qed

definition undoable :: "int32 \<Rightarrow> DecisionRecord \<Rightarrow> bool" where
  "undoable cur rec \<longleftrightarrow> dr_Applied rec \<and> \<not> dr_DryRun rec \<and> dr_NewReplicas rec \<noteq> dr_PreviousReplicas rec
     \<and> dr_NewReplicas rec = cur"

lemma selectRollbackRecord_find: "selectRollbackRecord rs cur = List.find (undoable cur) rs"
proof -
  have "(\<lambda>rec. \<not> (\<not> dr_Applied rec \<or> dr_DryRun rec \<or> dr_NewReplicas rec = dr_PreviousReplicas rec)
      \<and> \<not> dr_NewReplicas rec \<noteq> cur) = undoable cur"
    by (auto simp: undoable_def)
  then show ?thesis by (simp add: selectRollbackRecord_def)
qed

lemma rollback_action:
  assumes "checkRollback env (s, r) = (x, s', r')" and "x_rollbackAction s = None" and "x_rollbackAction s' = Some act"
    and "x_bundle s = Some b"
  obtains rs rec before where "List_records (e_store env) (target_name (x_obj s)) 5 (r_auditMaps r) = Inr rs"
    and "List.find (undoable (b_CurrentReplicas b)) rs = Some rec" and "dr_Signals rec = Some before"
    and "act = CheckForRollback (rollback_input s b (rollback_conditions (x_spec s)) rec before)" and "ra_Recommended act"
    and "x_safetyDecision s' = Some (mk_decision (ra_TargetReplicas act) (ra_Reason act) 1
       (actionTypeForTarget (ra_TargetReplicas act) (b_CurrentReplicas b)))"
  using assms by (auto simp: checkRollback_def apply_rollback_def selectRollbackRecord_find Let_def
      split: option.splits sum.splits if_splits)

text \<open>
  C12. A rollback goes back to the count before the newest of the five latest records that was
  applied for real, changed the count and led to the current one, under a condition of the policy that
  holds, and becomes the safety decision.
\<close>

theorem rollback_returns:
  assumes "checkRollback env (s, r) = (x, s', r')" and "x_rollbackAction s = None" and "x_rollbackAction s' = Some act"
    and "x_bundle s = Some b"
  shows "\<exists>rs rec. List_records (e_store env) (target_name (x_obj s)) 5 (r_auditMaps r) = Inr rs \<and> rec \<in> set rs
    \<and> undoable (b_CurrentReplicas b) rec
    \<and> (\<forall>rec'\<in>set rs. undoable (b_CurrentReplicas b) rec' \<longrightarrow> dr_Timestamp rec' \<le> dr_Timestamp rec)
    \<and> map_option sd_TargetReplicas (x_safetyDecision s') = Some (dr_PreviousReplicas rec)
    \<and> (\<exists>before. dr_Signals rec = Some before \<and> (\<exists>c\<in>set (rollback_conditions (x_spec s)).
         check_condition (rollback_input s b (rollback_conditions (x_spec s)) rec before) c \<noteq> None))"
proof -
  obtain rs rec before where l: "List_records (e_store env) (target_name (x_obj s)) 5 (r_auditMaps r) = Inr rs"
      and f: "List.find (undoable (b_CurrentReplicas b)) rs = Some rec" and before: "dr_Signals rec = Some before"
      and act: "act = CheckForRollback (rollback_input s b (rollback_conditions (x_spec s)) rec before)" "ra_Recommended act"
      and sd: "x_safetyDecision s' = Some (mk_decision (ra_TargetReplicas act) (ra_Reason act) 1
         (actionTypeForTarget (ra_TargetReplicas act) (b_CurrentReplicas b)))"
    by (rule rollback_action [OF assms])
  have u: "undoable (b_CurrentReplicas b) rec" "rec \<in> set rs"
    using f by (auto simp: find_Some_iff)
  define i where "i = rollback_input s b (rollback_conditions (x_spec s)) rec before"
  have i: "ri_PreviousReplicas i = dr_PreviousReplicas rec" "ri_AutoRollbackEnabled i"
      "ri_RollbackConditions i = rollback_conditions (x_spec s)"
    by (simp_all add: i_def rollback_input_def Let_def)
  have "ra_TargetReplicas act = dr_PreviousReplicas rec"
      "\<exists>c\<in>set (rollback_conditions (x_spec s)). check_condition i c \<noteq> None"
    using act CheckForRollback_target [of i] i
    by (simp_all add: i_def [symmetric] CheckForRollback_def check_conditions_recommended)
  then show ?thesis
    using l u before sd cm_store.first_match_newest [OF l f] by (auto simp: mk_decision_def i_def)
qed

definition slow_obj :: "nat AIScaler" where
  "slow_obj = sample_obj \<lparr>ai_Spec := (ai_Spec sample_obj) \<lparr>spec_SLOs := [latency_slo 200], spec_Safety := Some
     \<lparr>sf_ScaleUp = None, sf_ScaleDown = None, sf_CircuitBreaker = None,
      sf_AutoRollback = Some \<lparr>arc_Enabled = True, arc_Conditions = [''sloViolationWithin'']\<rparr>,
      sf_MaxReplicaChangePerMinute = 0, sf_MaxWorkloadsChangedPerMinute = 0\<rparr>\<rparr>\<rparr>"

definition down_record :: DecisionRecord where
  "down_record = sample_record \<lparr>dr_Signals := Some zero_Bundle, dr_PreviousReplicas := 5, dr_NewReplicas := 3,
     dr_Applied := True, dr_DryRun := False\<rparr>"

definition recorded_env :: "nat Env" where
  "recorded_env = (plain_env 7 slow_obj) \<lparr>e_store := ident_env (\<lambda>_. ''x'') (\<lambda>_. down_record) key_order\<rparr>"

definition recording :: "nat Reconciler" where
  "recording = bare_reconciler \<lparr>r_RollbackManager := True, r_AuditStore := Some (NewConfigMapStore [] 5),
     r_auditMaps := fmupd (cmName []) (fmupd ''id'' ''x'' fmempty) fmempty\<rparr>"

definition slow_state :: "nat reconcileState" where
  "slow_state = (new_state slow_obj []) \<lparr>x_bundle := Some (zero_Bundle
     \<lparr>b_CurrentReplicas := 3, b_P95LatencyMs := f_of_int 201\<rparr>)\<rparr>"

lemma one_record: "List_records (ident_env (\<lambda>_. ''x'') (\<lambda>_. rec) key_order) wl 5
    (fmupd (cmName wl) (fmupd ''id'' ''x'' fmempty) fmempty) = Inr [rec]"
proof -
  have "sorted_list_of_fset {|''id''|} = [''id'']" by (simp add: sorted_list_of_fset.rep_eq)
  then show ?thesis by (simp add: List_records_def get_cm_def ident_env_def key_order_def)
qed

lemma rollback_returns_witness:
  "map_option sd_TargetReplicas (x_safetyDecision (fst (snd (checkRollback recorded_env (slow_state, recording))))) = Some 5"
proof -
  define b where "b = zero_Bundle \<lparr>b_CurrentReplicas := 3, b_P95LatencyMs := f_of_int 201\<rparr>"
  have conds: "rollback_conditions (x_spec slow_state) = [''sloViolationWithin'']"
    by (simp add: slow_state_def slow_obj_def rollback_conditions_def)
  have rs: "List_records (e_store recorded_env) (target_name (x_obj slow_state)) 5 (r_auditMaps recording) = Inr [down_record]"
    using one_record [of down_record "[]"] by (simp add: recorded_env_def recording_def slow_state_def slow_obj_def
        sample_obj_def with_constraints_def zero_defs)
  have "check_condition (rollback_input slow_state b [''sloViolationWithin''] down_record zero_Bundle) ''sloViolationWithin'' \<noteq> None"
    by (simp add: check_condition_def rollback_input_def Let_def slow_state_def slow_obj_def latency_breached b_def
        zero_Bundle_def f_less_iff f_of_int_val f_of_int_not_nan new_state_def)
  then have "ra_Recommended (CheckForRollback (rollback_input slow_state b [''sloViolationWithin''] down_record zero_Bundle))"
    by (auto simp: CheckForRollback_def rollback_input_def Let_def dest: check_condition_action split: option.split)
  then have act: "x_rollbackAction (fst (snd (checkRollback recorded_env (slow_state, recording)))) \<noteq> None"
    using rs conds by (simp add: checkRollback_def recording_def slow_state_def Let_def selectRollbackRecord_def
        down_record_def apply_rollback_def b_def)
  obtain x s' r' where c: "checkRollback recorded_env (slow_state, recording) = (x, s', r')" by (metis prod_cases3)
  have "x_rollbackAction slow_state = None" "x_bundle slow_state = Some b"
    by (simp_all add: slow_state_def new_state_def b_def)
  with rollback_returns [OF c] act c rs show ?thesis by (force simp: down_record_def)
qed

section \<open>A firing rule takes effect\<close>

text \<open>
  The subsystems raise nothing: the workload does not oscillate, its detector can take an event (one without
  events and without capacity panics), no rollback and no approval is configured, there is
  no cost client, and coordination has a free slot and no budget.  Between the reconciles of one worker no
  slot is held (\<open>coordination_idle\<close>).
\<close>

definition calm :: "'q Env \<Rightarrow> 'q AIScalerSpec \<Rightarrow> 'q Reconciler \<Rightarrow> bool" where
  "calm env spec r \<longleftrightarrow>
     (case r_OscillationDetector r of None \<Rightarrow> True
      | Some d \<Rightarrow> \<not> IsOscillating (e_now env ''IsOscillating'') d \<and> (od_events d = [] \<longrightarrow> 0 < od_maxSize d))
     \<and> (r_RollbackManager r \<longrightarrow> rollback_conditions spec = []) \<and> r_CostClient r = None
     \<and> (r_ApprovalManager r \<longrightarrow> \<not> spec_RequireApproval spec
          \<and> (case spec_Approval spec of None \<Rightarrow> True | Some a \<Rightarrow> \<not> apc_Enabled a))
     \<and> (case r_Coordinator r of None \<Rightarrow> True
        | Some c \<Rightarrow> co_activeOps c = fmempty \<and> \<not> 0 < r_ClusterMaxHourlyCost r \<and> \<not> isl (e_policies env))"

lemma calm_simps [simp]:
  "calm env spec (r \<lparr>r_Predictor := q\<rparr>) = calm env spec r"
  "calm env spec (r \<lparr>r_Router := ro\<rparr>) = calm env spec r"
  "calm env spec (notify env s x y z r) = calm env spec r"
  by (simp_all add: calm_def notify_def Let_def split: option.split)

text \<open>
  Between the collection and the actuation nothing but a rule, the provider, or KEDA is to decide; before
  any of them did; and once a rule did.
\<close>

definition undisturbed :: "'q AIScalerSpec \<Rightarrow> Bundle \<Rightarrow> 'q VerticalDecision option \<Rightarrow> 'q reconcileState \<Rightarrow> bool" where
  "undisturbed spec b vd s \<longleftrightarrow> x_spec s = spec \<and> x_bundle s = Some b
     \<and> x_safetyDecision s = None \<and> x_humanDecision s = None \<and> \<not> AnyBreached (x_currentSLOs s) \<and> x_costCeiling s = None
     \<and> x_verticalDecision s = vd \<and> x_currentWorkloadCost s = None"

definition undecided :: "'q AIScalerSpec \<Rightarrow> Bundle \<Rightarrow> 'q reconcileState \<Rightarrow> bool" where
  "undecided spec b s \<longleftrightarrow> undisturbed spec b None s \<and> x_reactiveDecision s = None \<and> x_llmDecision s = None
     \<and> x_deterministicDecision s = None"

definition ruled :: "'q AIScalerSpec \<Rightarrow> Bundle \<Rightarrow> ScalingDecision \<Rightarrow> 'q reconcileState \<Rightarrow> bool" where
  "ruled spec b d s \<longleftrightarrow> undisturbed spec b None s \<and> x_reactiveDecision s = Some d
     \<and> spec_Precedence spec = None \<and> within_bounds (spec_Constraints spec) (sd_TargetReplicas d)"

lemma collect_runs:
  assumes "NewManager (e_plugins env) (spec_Signals (ai_Spec obj)) = Inr mgr"
    and "fst (manager_Collect (e_plugins env) obj mgr) = Inr b" and "frozen env b = None"
  shows "\<exists>s' p. collectSignals env (new_state obj u, r) = (Inr None, s', r \<lparr>r_Predictor := p\<rparr>) \<and> undecided (ai_Spec obj) b s'"
proof -
  define s where "s = set_cond env ConditionSignalsReady ''True'' ''Collected'' ''all signals collected successfully''
    ((new_state obj u)\<lparr>x_bundle := Some b\<rparr>)"
  have u: "undecided (ai_Spec obj) b s"
    by (simp add: s_def undecided_def undisturbed_def set_cond_def setCondition_def new_state_def)
  show ?thesis
  proof (cases "r_Predictor r")
    case None
    then have "r\<lparr>r_Predictor := None\<rparr> = r" by simp
    then have "collectSignals env (new_state obj u, r) = (Inr None, s, r\<lparr>r_Predictor := None\<rparr>)"
      using assms None by (simp add: collectSignals_def s_def Let_def)
    then show ?thesis using u by blast
  next
    case (Some p)
    obtain p1 where "observe_baselines env b p = (True, p1)"
      using observe_baselines_ok [of env b p] by (cases "observe_baselines env b p") simp
    then have "collectSignals env (new_state obj u, r) = (Inr None, s, r\<lparr>r_Predictor := Some p1\<rparr>)"
      using assms Some by (simp add: collectSignals_def s_def Let_def)
    then show ?thesis using u by blast
  qed
qed

lemma enrich_runs: "undecided spec b s \<Longrightarrow> \<exists>s'. enrichContext env (s, r) = (Inr None, s', r) \<and> undecided spec b s'"
proof -
  assume s: "undecided spec b s"
  have "undecided spec b (enrich_nodes env r s)"
    using s by (simp add: enrich_nodes_def undecided_def undisturbed_def split: sum.split)
  then have "undecided spec b (predicted env r (enrich_nodes env r s))"
    using predicted_fields [of env r "enrich_nodes env r s"] by (auto simp: undecided_def undisturbed_def)
  then have "undecided spec b (enrich_resources env (predicted env r (enrich_nodes env r s)))"
    by (simp add: enrich_resources_def undecided_def undisturbed_def split: option.split sum.split)
  then have "undecided spec b (enrich_feedback env r (enrich_resources env (predicted env r (enrich_nodes env r s))))"
    by (simp add: enrich_feedback_def undecided_def undisturbed_def Let_def split: option.split sum.split)
  then show ?thesis by (simp add: enrichContext_total)
qed

text \<open>The conditions under which nothing stops a reconcile before its decision.\<close>

definition ready :: "'q Env \<Rightarrow> 'q AIScaler \<Rightarrow> bool" where
  "ready env obj \<longleftrightarrow> \<not> being_deleted obj \<and> ValidateSpec (ai_Spec obj) = None
     \<and> finalizerName \<in> set (ai_Finalizers obj) \<and> \<not> cooling env obj"

lemma front_runs:
  assumes "ready env obj"
    and "NewManager (e_plugins env) (spec_Signals (ai_Spec obj)) = Inr mgr"
    and "fst (manager_Collect (e_plugins env) obj mgr) = Inr b" and "frozen env b = None"
  shows "\<exists>s' q. passes (take 4 steps) env (new_state obj (e_uuid env), r) = Some (s', r \<lparr>r_Predictor := q\<rparr>)
    \<and> undecided (ai_Spec obj) b s'"
proof -
  let ?s0 = "new_state obj (e_uuid env)"
  have c0: "ensureFinalizer env (?s0, r) = (Inr None, ?s0, r)" "checkCooldown env (?s0, r) = (Inr None, ?s0, r)"
    using assms(1) by (auto simp: ready_def ensureFinalizer_def checkCooldown_def cooling_def new_state_def Let_def
        split: option.splits)
  obtain s1 q where c1: "collectSignals env (?s0, r) = (Inr None, s1, r \<lparr>r_Predictor := q\<rparr>)" "undecided (ai_Spec obj) b s1"
    using collect_runs [OF assms(2-4)] by blast
  then obtain s2 where "enrichContext env (s1, r \<lparr>r_Predictor := q\<rparr>) = (Inr None, s2, r \<lparr>r_Predictor := q\<rparr>)"
      "undecided (ai_Spec obj) b s2"
    using enrich_runs by blast
  then show ?thesis using c0 c1
    by (intro exI [of _ s2] exI [of _ q] conjI) (simp_all add: steps_def numeral_eq_Suc)
qed

lemma fetch_runs:
  assumes "undecided spec b s" and "reactive_decision b = Some d" and "spec_Precedence spec = None"
    and "within_bounds (spec_Constraints spec) (sd_TargetReplicas d)"
  shows "\<exists>s'. fetchDecision env (s, r) = (Inr None, s', r) \<and> ruled spec b d s'"
proof -
  have "undisturbed spec b None (keda_decision b s)"
    using assms(1) by (simp add: undecided_def undisturbed_def keda_decision_def split: option.split)
  moreover have "x_bundle s = Some b" using assms(1) by (simp add: undecided_def undisturbed_def)
  ultimately show ?thesis
    using assms by (simp add: fetchDecision_def ruled_def undisturbed_def shouldSkipLLMForReactiveRules_def set_cond_def
        setCondition_def Let_def)
qed

lemma undisturbed_resolve:
  assumes "undisturbed spec b vd s" and "resolveDecisionState h c (s, r) = (e, s')"
  shows "undisturbed spec b vd s'" and "x_reactiveDecision s' = x_reactiveDecision s" and "x_llmDecision s' = x_llmDecision s"
    and "x_deterministicDecision s' = x_deterministicDecision s"
  using assms by (auto simp: undisturbed_def resolveDecisionState_def recalculate_cost_def Let_def
      split: prod.splits option.splits if_splits)

lemma applied_layers_unapplied:
  "applied_layers (List.map (entry False) ls) acc = acc"
  by (induction ls; cases acc) (auto simp: entry_def)

text \<open>The final resolution takes over the count and the confidence of the one decision that is left.\<close>

lemma undisturbed_decision:
  assumes "undisturbed spec b vd s" and "spec_Precedence spec = None"
    and "first_some id [x_reactiveDecision s, x_llmDecision s, x_deterministicDecision s] = Some d"
    and "within_bounds (spec_Constraints spec) (sd_TargetReplicas d)"
    and "resolveDecisionState True True (s, r) = (e, s')"
  shows "\<exists>d'. x_decision s' = Some d' \<and> sd_TargetReplicas d' = sd_TargetReplicas d \<and> sd_Confidence d' = sd_Confidence d"
proof -
  define s1 i where "s1 = s \<lparr>x_sloDecision := buildSLODecision s\<rparr>" and "i = buildPrecedenceInputs s1 True True"
  have s1: "x_safetyDecision s1 = None" "x_humanDecision s1 = None" "x_sloDecision s1 = None" "x_costCeiling s1 = None"
      "x_reactiveDecision s1 = x_reactiveDecision s" "x_llmDecision s1 = x_llmDecision s"
      "x_deterministicDecision s1 = x_deterministicDecision s" "x_currentWorkloadCost s1 = None" "x_bundle s = Some b"
      "x_spec s1 = spec"
    using assms(1) by (simp_all add: s1_def undisturbed_def buildSLODecision_def)
  have i: "pi_SafetyOverride i = None" "pi_HumanOverride i = None" "pi_ScheduleTarget i = None" "pi_SLOTarget i = None"
      "pi_ReactiveRulesOverrideLLM i = None" "pi_SLOAlwaysWins i = None" "pi_ScheduleOverridesLLM i = None"
      "pi_CostConstrainedMax i = None" "pi_ReactiveTarget i = target_of (x_reactiveDecision s)"
      "pi_LLMTarget i = target_of (x_llmDecision s)" "pi_DeterministicTarget i = target_of (x_deterministicDecision s)"
      "pi_MinReplicas i = sc_MinReplicas (spec_Constraints spec)" "pi_MaxReplicas i = sc_MaxReplicas (spec_Constraints spec)"
    using s1 assms(2) by (simp_all add: i_def buildPrecedenceInputs_def target_of_def Let_def)
  have "raw_target i = sd_TargetReplicas d"
    using assms(3) i by (auto simp: raw_target_first precedence_layers_def mk_layer_def boolFlagOrDefault_def target_of_def Let_def
        split: option.splits)
  then have t: "rd_TargetReplicas (Resolve i) = sd_TargetReplicas d"
    using assms(4) i(8,12,13)
    by (intro sint32_inject [THEN iffD1]) (auto simp: Resolve_target capped_target_def Let_def within_bounds_def)
  obtain l n rest where pr: "present (precedence_layers i) = (l, n) # rest" "fst (decisionForLayer s1 (ly_name l)) = Some d"
      "ly_name l \<noteq> ''cost''" "ly_name l \<noteq> []"
    using assms(3) i s1 by (auto simp: precedence_layers_def mk_layer_def boolFlagOrDefault_def target_of_def Let_def
        decisionForLayer_def split: option.splits)
  have "rd_Layers (Resolve i) = entry True (l, n) # List.map (entry False) rest"
    using pr(1) i(8) by (simp add: Resolve_def fold_layers global_bounds_def cost_cap_def Let_def)
  then have "applied_layers (rd_Layers (Resolve i)) ([], False, []) = (ly_name l, False, [])"
    using pr(3) by (simp add: applied_layers_unapplied) (simp add: entry_def applied_layers_unapplied)
  then have m: "sd_TargetReplicas (fst (materializeResolvedDecision s1 b (Resolve i))) = sd_TargetReplicas d"
      "sd_Confidence (fst (materializeResolvedDecision s1 b (Resolve i))) = sd_Confidence d"
    using pr(2) t by (auto simp: materializeResolvedDecision_def cloneScalingDecision_def Let_def split: prod.split)
  have "\<not> no_inputs_present s1"
    using assms(3) s1 by (auto simp: no_inputs_present_def split: option.splits)
  then show ?thesis
    using assms(5) m s1 by (auto simp: resolveDecisionState_def recalculate_cost_def s1_def [symmetric] i_def [symmetric] Let_def
        split: prod.splits option.splits)
qed

lemma step_in_range_near:
  assumes "0 \<le> sint c" and "0 \<le> sint t" and "\<bar>sint t - sint c\<bar> \<le> sint n"
  shows "step_in_range n t c = t"
proof (cases "0 < sint n")
  case True
  show ?thesis
    using step_in_range_sint [OF True assms(1,2)] assms(3) by (intro sint32_inject [THEN iffD1]) linarith
next
  case False
  then have "t = c" using assms by (intro sint32_inject [THEN iffD1]) linarith
  then show ?thesis using step_in_range_same assms(3) by simp
qed

lemma asymmetric_guard_cong:
  assumes "ai_Spec p = ai_Spec q" and "sd_TargetReplicas d = sd_TargetReplicas e" and "sd_Confidence d = sd_Confidence e"
  shows "asymmetric_guard d cur p = asymmetric_guard e cur q"
  using assms by (cases "spec_Safety (ai_Spec q)")
    (simp_all add: asymmetric_guard_None asymmetric_guard_Some validate_guard_def Validate_replicas directional_target_def
      cong: option.case_cong)

lemma validated_count_cong:
  assumes "ai_Spec p = ai_Spec q" and "sd_TargetReplicas d = sd_TargetReplicas e" and "sd_Confidence d = sd_Confidence e"
  shows "validated_count p cur d = validated_count q cur e"
  using asymmetric_guard_cong [OF assms] assms by (simp add: validated_count_def validate_guard_def Validate_replicas)

text \<open>Without directional policies, a count at most one step away: the guard lets it through.\<close>

definition legal_step :: "'q AIScaler \<Rightarrow> int32 \<Rightarrow> ScalingDecision \<Rightarrow> bool" where
  "legal_step obj cur d \<longleftrightarrow> \<not> has_direction_policy (ai_Spec obj) \<and> 0 \<le> sint cur \<and> 0 \<le> sint (sd_TargetReplicas d)
     \<and> \<bar>sint (sd_TargetReplicas d) - sint cur\<bar> \<le> sint (sc_MaxScaleStep (ai_Constraints obj))"

lemma validated_legal:
  assumes "within_bounds (ai_Constraints obj) (sd_TargetReplicas d)" and "legal_step obj cur d"
  shows "validated_count obj cur d = sd_TargetReplicas d"
  using assms by (simp add: legal_step_def validated_count_def validate_guard_def Validate_replicas step_in_range_near
      clamp32_id within_bounds_def)

lemma release_router [simp]: "r_Router (releaseCoordination (s, r)) = r_Router r"
  by (simp add: releaseCoordination_def set_coordinator_def Let_def split: option.split)

lemma notify_applied_router [simp]: "r_Router (notify_applied env a s r) = r_Router r"
  by (simp add: notify_applied_def notify_def Let_def split: option.split)

text \<open>The detector takes the event.\<close>

lemma record_runs:
  assumes "\<And>d. r_OscillationDetector r = Some d \<Longrightarrow> od_events d = [] \<Longrightarrow> 0 < od_maxSize d"
  shows "\<exists>d. record_applied env a r = Some (r\<lparr>r_OscillationDetector := d\<rparr>)"
proof -
  have same: "r = r\<lparr>r_OscillationDetector := r_OscillationDetector r\<rparr>" by simp
  have "\<exists>d'. Record e d = Some d'" if "r_OscillationDetector r = Some d" for e d
    using assms [OF that] by (auto simp: Record_def Let_def split: list.split)
  then have "record_applied env a r \<noteq> None"
    by (auto simp: record_applied_def split: option.splits) (metis option.distinct(1))
  then show ?thesis using record_applied_fields by blast
qed

text \<open>What the vertical actuator sends for a decision on resources, if there is one and the actuator.\<close>

definition resize_patches :: "'q Env \<Rightarrow> 'q AIScaler \<Rightarrow> 'q VerticalDecision option \<Rightarrow> bool \<Rightarrow> 'q Patch list" where
  "resize_patches env obj vd actuator = (case vd of None \<Rightarrow> []
     | Some a \<Rightarrow> if actuator then snd (vertical_Apply (e_quantities env) (e_client env) obj a) else [])"

definition resizable :: "'q Env \<Rightarrow> 'q AIScaler \<Rightarrow> 'q VerticalDecision option \<Rightarrow> bool" where
  "resizable env obj vd \<longleftrightarrow> (case vd of None \<Rightarrow> True
     | Some a \<Rightarrow> \<not> isl (fst (vertical_Apply (e_quantities env) (e_client env) obj a)))"

lemma resize_spec:
  assumes "ai_Spec p = ai_Spec q"
  shows "resize_patches env p vd k = resize_patches env q vd k" and "resizable env p vd = resizable env q vd"
proof -
  have "vertical_Apply x y p a = vertical_Apply x y q a" for x y a
    using assms by (simp add: vertical_Apply_def)
  then show "resize_patches env p vd k = resize_patches env q vd k" and "resizable env p vd = resizable env q vd"
    by (simp_all add: resize_patches_def resizable_def split: option.split)
qed

lemma apply_vertical_runs:
  assumes "x_verticalDecision s = vd" and "resizable env (x_obj s) vd"
  shows "\<exists>a. apply_vertical env s r = (None, s \<lparr>x_verticalApplyResult := a\<rparr>,
    r \<lparr>r_patches := r_patches r @ resize_patches env (x_obj s) vd (r_VerticalActuator r)\<rparr>)"
proof -
  have same: "s = s \<lparr>x_verticalApplyResult := x_verticalApplyResult s\<rparr>" "r = r \<lparr>r_patches := r_patches r\<rparr>" by simp_all
  show ?thesis
  proof (cases "vd = None \<or> \<not> r_VerticalActuator r")
    case True
    then show ?thesis using assms(1) same
      by (intro exI [of _ "x_verticalApplyResult s"]) (auto simp: apply_vertical_def resize_patches_def split: option.split)
  next
    case False
    then obtain v where v: "vd = Some v" "r_VerticalActuator r" by (cases vd) auto
    obtain y ps where y: "vertical_Apply (e_quantities env) (e_client env) (x_obj s) v = (y, ps)" by force
    then obtain x where x: "vertical_Apply (e_quantities env) (e_client env) (x_obj s) v = (Inr x, ps)"
      using assms(2) v(1) by (cases y) (simp_all add: resizable_def)
    then show ?thesis using v assms(1)
      by (intro exI [of _ "Some x"]) (simp add: apply_vertical_def resize_patches_def)
  qed
qed

lemma actuate_runs:
  assumes "undisturbed spec b vd s" and "x_validation s = Some v"
    and "cl_get (e_client env) ''actuator.Apply'' ''Deployment'' (target_ns (x_obj s)) (target_name (x_obj s)) = Inr w"
    and "replicas_or_1 w \<noteq> vr_ValidatedReplicas v" and "\<And>p. cl_patch (e_client env) p = None"
    and "resizable env (x_obj s) vd"
    and "\<And>d. r_OscillationDetector r = Some d \<Longrightarrow> od_events d = [] \<Longrightarrow> 0 < od_maxSize d"
  shows "\<exists>s' r' p. actuate env (s, r) = (Inr None, s', r')
    \<and> r_patches r' = r_patches r @ p # resize_patches env (x_obj s) vd (r_VerticalActuator r)
    \<and> pt_Replicas p = Some (vr_ValidatedReplicas v) \<and> r_statuses r' = r_statuses r \<and> r_Router r' = r_Router r
    \<and> x_spec s' = spec \<and> x_bundle s' = Some b \<and> x_validation s' = Some v"
proof -
  obtain a p where a: "apply_replicas env s r = (Inr (Some a), r \<lparr>r_patches := r_patches r @ [p]\<rparr>)"
      "pt_Replicas p = Some (vr_ValidatedReplicas v)"
    using assms(2-5) by (simp add: apply_replicas_def Apply_def Let_def replicas_patch_def)
  obtain x where x: "apply_vertical env s (r \<lparr>r_patches := r_patches r @ [p]\<rparr>) = (None, s \<lparr>x_verticalApplyResult := x\<rparr>,
      r \<lparr>r_patches := r_patches r @ p # resize_patches env (x_obj s) vd (r_VerticalActuator r)\<rparr>)"
    using apply_vertical_runs [of s vd env "r \<lparr>r_patches := r_patches r @ [p]\<rparr>"] assms(1,6) by (auto simp: undisturbed_def)
  obtain d where "record_applied env (Some a) (r \<lparr>r_patches := r_patches r @ p # resize_patches env (x_obj s) vd (r_VerticalActuator r)\<rparr>)
      = Some (r \<lparr>r_patches := r_patches r @ p # resize_patches env (x_obj s) vd (r_VerticalActuator r), r_OscillationDetector := d\<rparr>)"
    using record_runs [of "r \<lparr>r_patches := r_patches r @ p # resize_patches env (x_obj s) vd (r_VerticalActuator r)\<rparr>" env "Some a"]
      assms(7) by auto
  then show ?thesis
    using assms(1,2) a x by (simp add: actuate_def undisturbed_def scaling_condition_def Let_def)
qed

definition same :: "'q Reconciler \<Rightarrow> 'q Reconciler \<Rightarrow> bool" where
  "same q q' \<longleftrightarrow> r_patches q' = r_patches q \<and> r_statuses q' = r_statuses q
    \<and> r_Router q' = r_Router q \<and> r_VerticalActuator q' = r_VerticalActuator q
    \<and> r_OscillationDetector q' = r_OscillationDetector q"

lemma human_unset: "x_humanDecision s = None \<Longrightarrow> s \<lparr>x_humanDecision := None\<rparr> = s"
  by (cases s) simp

lemma coordination_runs:
  assumes "undisturbed spec b vd s" and "calm env spec r"
  shows "\<exists>s' r'. checkCoordination env (s, r) = (Inr None, s', r') \<and> undisturbed spec b vd s'
    \<and> x_validation s' = x_validation s \<and> same r r'"
proof (cases "r_Coordinator r")
  case None
  then show ?thesis using assms(1) by (simp add: checkCoordination_def same_def)
next
  case (Some c)
  have c: "co_activeOps c = fmempty" "\<not> 0 < r_ClusterMaxHourlyCost r"
    using assms(2) Some by (simp_all add: calm_def)
  obtain ps where ps: "e_policies env = Inr ps"
    using assms(2) Some by (cases "e_policies env") (simp_all add: calm_def)
  have clean: "cleanupLocked t c = c" for t by (simp add: cleanupLocked_def c)
  have "\<not> ShouldDefer wl (\<lambda>v. False) g" for wl g
    by (auto simp: ShouldDefer_def list_ex_iff split: option.split)
  moreover have "AcquireScalingSlot t u wl c = (None, c \<lparr>co_activeOps := fmupd wl u fmempty\<rparr>)" for t u wl
    by (simp add: AcquireScalingSlot_def clean Let_def c)
  ultimately show ?thesis
    using assms(1) by (simp add: checkCoordination_def Some ps ActiveWorkloads_def clean acquire_slot_def Let_def
        set_coordinator_def c undisturbed_def same_def)
qed

lemma tail_runs:
  assumes "server_ok env" and "\<And>ob. \<exists>ob'. e_status_update env ob = Inr ob'" and "x_bundle s = Some b"
  shows "\<exists>s' r'. run_steps (drop 14 steps) env (s, r) = (Inr (requeue_after (spec_EvaluationInterval (x_spec s))), s', r')
    \<and> r_patches r' = r_patches r \<and> r_Router r' = r_Router r
    \<and> r_statuses r' = r_statuses r @ [x_obj (new_status env True s)]"
proof -
  have "\<exists>r1. evaluateAlerts env (s, r) = (Inr None, s, r1) \<and> same r r1"
    using assms(3) by (auto simp: evaluateAlerts_def same_def split: option.split prod.split)
  then obtain r1 where a: "evaluateAlerts env (s, r) = (Inr None, s, r1)" "same r r1" by blast
  have "\<exists>r2. recordAudit env (s, r1) = (Inr None, s, r2) \<and> same r1 r2"
    by (auto simp: recordAudit_def same_def split: option.split)
  then obtain r2 where b: "recordAudit env (s, r1) = (Inr None, s, r2)" "same r1 r2" by blast
  obtain ob where ob: "e_status_update env (x_obj (new_status env True s)) = Inr ob" using assms(2) by blast
  then have "ai_Spec ob = x_spec s" using assms(1) by (simp add: server_ok_def)
  then show ?thesis
    using a b ob by (simp add: steps_def updateStatus_def persistStatus_def update_status_def same_def Let_def)
qed

lemma steps_phases:
  "drop 5 steps = take 5 (drop 5 steps) @ decide_steps @ (''checkCoordination'', checkCoordination)
     # (''actuate'', actuate) # drop 14 steps"
  by (simp add: steps_def decide_steps_def numeral_eq_Suc)

lemma steps_fetch: "steps = take 4 steps @ (''fetchDecision'', fetchDecision) # drop 5 steps"
  by (simp add: steps_def)

subsection \<open>A settled decision is carried out\<close>

text \<open>
  What the steps after \<open>fetchDecision\<close> need of the one decision that is left: a property of the state that the
  resolution keeps, under which the final resolution takes over the decision's count and confidence.
\<close>

locale settled_decision =
  fixes P :: "'q AIScalerSpec \<Rightarrow> Bundle \<Rightarrow> 'q VerticalDecision option \<Rightarrow> ScalingDecision \<Rightarrow> 'q reconcileState \<Rightarrow> bool"
  assumes settled_undisturbed: "P spec b vd d s \<Longrightarrow> undisturbed spec b vd s"
    and settled_resolve: "P spec b vd d s \<Longrightarrow> resolveDecisionState h c (s, r) = (e, s') \<Longrightarrow> P spec b vd d s'"
    and settled_taken: "P spec b vd d s \<Longrightarrow> resolveDecisionState True True (s, r) = (e, s')
      \<Longrightarrow> \<exists>d'. x_decision s' = Some d' \<and> sd_TargetReplicas d' = sd_TargetReplicas d \<and> sd_Confidence d' = sd_Confidence d"
begin

lemma middle_runs:
  assumes "P spec b vd d s" and "calm env spec r"
  shows "\<exists>s'. passes (take 5 (drop 5 steps)) env (s, r) = Some (s', r) \<and> P spec b vd d s'"
proof -
  have s: "x_bundle s = Some b" "x_currentWorkloadCost s = None" "x_spec s = spec"
    using settled_undisturbed [OF assms(1)] by (simp_all add: undisturbed_def)
  obtain s' where t: "resolveDecisionState False False (s, r) = (None, s')" using resolve_pass [OF s(1,2)] by blast
  have s': "P spec b vd d s'" by (rule settled_resolve [OF assms(1) t])
  have u: "x_spec s' = spec" "x_humanDecision s' = None"
    using settled_undisturbed [OF s'] by (simp_all add: undisturbed_def)
  have "\<not> NeedsApproval (x_obj s') e n delta" if "r_ApprovalManager r" for e n delta
    using assms(2) u(1) that by (auto simp: calm_def NeedsApproval_def split: option.split)
  then have "checkApproval env (s', r) = (Inr None, s', r)"
    using u(2) by (simp add: checkApproval_def human_unset Let_def split: option.split)
  moreover have "estimateCost env (s', r) = (Inr None, s', r)"
    using assms(2) by (simp add: calm_def estimateCost_def split: option.split)
  moreover have "checkOscillation env (s, r) = (Inr None, s, r)" "checkRollback env (s, r) = (Inr None, s, r)"
    using assms(2) s by (auto simp: calm_def checkOscillation_def checkRollback_def split: option.split)
  ultimately show ?thesis
    using t s' by (simp add: steps_def resolveTentativeDecision_def numeral_eq_Suc)
qed

lemma decide_runs:
  assumes "P spec b vd d s" and "ai_Spec obj = spec"
  shows "\<exists>s' v. passes decide_steps env (s, r) = Some (s', r) \<and> undisturbed spec b vd s'
    \<and> x_validation s' = Some v \<and> vr_ValidatedReplicas v = validated_count obj (b_CurrentReplicas b) d"
proof -
  have s: "x_bundle s = Some b" "x_currentWorkloadCost s = None"
    using settled_undisturbed [OF assms(1)] by (simp_all add: undisturbed_def)
  obtain s1 where f: "resolveDecisionState True True (s, r) = (None, s1)" using resolve_pass [OF s] by blast
  have s1: "undisturbed spec b vd s1" by (rule settled_undisturbed [OF settled_resolve [OF assms(1) f]])
  obtain e where e: "x_decision s1 = Some e" "sd_TargetReplicas e = sd_TargetReplicas d" "sd_Confidence e = sd_Confidence d"
    using settled_taken [OF assms(1) f] by blast
  have "validated_count (x_obj s1) (b_CurrentReplicas b) e = validated_count obj (b_CurrentReplicas b) d"
    using s1 assms(2) e(2,3) by (intro validated_count_cong) (simp_all add: undisturbed_def)
  then show ?thesis
    using f e s1 by (auto simp: decide_steps_def resolveFinalDecision_def validateDecision_def undisturbed_def
        validated_count_def validate_guard_def asymmetric_guard_def)
qed

lemma carried_out:
  assumes "server_ok env" and "P spec b vd d s" and "calm env spec r"
    and "\<not> spec_DryRun spec"
    and "validated_count obj (b_CurrentReplicas b) d \<noteq> b_CurrentReplicas b"
    and "\<And>ob. ai_Spec ob = spec \<Longrightarrow>
      cl_get (e_client env) ''actuator.Apply'' ''Deployment'' (target_ns ob) (target_name ob) = Inr w"
    and "replicas_or_1 w \<noteq> validated_count obj (b_CurrentReplicas b) d" and "\<And>p. cl_patch (e_client env) p = None"
    and "\<And>ob. \<exists>ob'. e_status_update env ob = Inr ob'" and "ai_Spec obj = spec" and "resizable env obj vd"
  shows "\<exists>s' r' p ob. run_steps (drop 5 steps) env (s, r) = (Inr (requeue_after (spec_EvaluationInterval spec)), s', r')
    \<and> r_patches r' = r_patches r @ p # resize_patches env obj vd (r_VerticalActuator r)
    \<and> pt_Replicas p = Some (validated_count obj (b_CurrentReplicas b) d) \<and> r_Router r' = r_Router r
    \<and> r_statuses r' = r_statuses r @ [ob] \<and> st_LastScaleTime (ai_Status ob) = Some (e_now env ''persistStatus'')"
proof -
  obtain s4 where c4: "passes (take 5 (drop 5 steps)) env (s, r) = Some (s4, r)" "P spec b vd d s4"
    using middle_runs [OF assms(2,3)] by blast
  obtain s5 v where c5: "passes decide_steps env (s4, r) = Some (s5, r)" "undisturbed spec b vd s5"
      "x_validation s5 = Some v" "vr_ValidatedReplicas v = validated_count obj (b_CurrentReplicas b) d"
    using decide_runs [OF c4(2) assms(10)] by blast
  obtain s5' r5 where c6: "checkCoordination env (s5, r) = (Inr None, s5', r5)" "undisturbed spec b vd s5'"
      "x_validation s5' = Some v" and same: "same r r5"
    using coordination_runs [OF c5(2) assms(3)] c5(3) by metis
  have t: "x_spec s5' = spec" using c6(2) by (simp add: undisturbed_def)
  have res: "resizable env (x_obj s5') vd" and patches:
      "resize_patches env (x_obj s5') vd (r_VerticalActuator r5) = resize_patches env obj vd (r_VerticalActuator r)"
    using resize_spec [of "x_obj s5'" obj env vd] t assms(10,11) same by (simp_all add: same_def)
  have changed: "replicas_or_1 w \<noteq> vr_ValidatedReplicas v" using assms(7) c5(4) by simp
  have detector: "0 < od_maxSize d" if "r_OscillationDetector r5 = Some d" "od_events d = []" for d
  proof -
    have "r_OscillationDetector r = Some d" using same that(1) by (simp add: same_def)
    then show ?thesis using assms(3) that(2) by (simp add: calm_def)
  qed
  obtain s6 r6 p where c7: "actuate env (s5', r5) = (Inr None, s6, r6)" "r_patches r6 = r_patches r5 @ p # resize_patches env (x_obj s5') vd (r_VerticalActuator r5)"
      "pt_Replicas p = Some (vr_ValidatedReplicas v)" "r_statuses r6 = r_statuses r5" "r_Router r6 = r_Router r5"
      "x_spec s6 = spec" "x_bundle s6 = Some b" "x_validation s6 = Some v"
    using actuate_runs [OF c6(2,3) assms(6) [OF t] changed assms(8) res detector] by blast
  obtain s7 r7 where c8: "run_steps (drop 14 steps) env (s6, r6) = (Inr (requeue_after (spec_EvaluationInterval spec)), s7, r7)"
      "r_patches r7 = r_patches r6" "r_Router r7 = r_Router r6" "r_statuses r7 = r_statuses r6 @ [x_obj (new_status env True s6)]"
    using tail_runs [OF assms(1,9) c7(7), of r6] c7(6) by auto
  have "run_steps (drop 5 steps) env (s, r) = (Inr (requeue_after (spec_EvaluationInterval spec)), s7, r7)"
    by (subst steps_phases) (simp add: run_steps_split c4 c5 c6(1) c7 c8)
  moreover have "st_LastScaleTime (ai_Status (x_obj (new_status env True s6))) = Some (e_now env ''persistStatus'')"
    using new_status_counts [of s6 env True] c7(6-8) c5(4) assms(4,5) by (simp add: pending_change_def)
  ultimately show ?thesis using c5(4) c7(2-5) c8(2-4) same patches by (auto simp: same_def)
qed

lemma reconciled:
  assumes "server_ok env" and "e_get env = Inr obj" and "ready env obj" and "calm env (ai_Spec obj) r"
    and "NewManager (e_plugins env) (spec_Signals (ai_Spec obj)) = Inr mgr"
    and "fst (manager_Collect (e_plugins env) obj mgr) = Inr b" and "frozen env b = None"
    and fetch: "\<And>s q. undecided (ai_Spec obj) b s \<Longrightarrow> \<exists>s' r'. fetchDecision env (s, r \<lparr>r_Predictor := q\<rparr>) = (Inr None, s', r')
      \<and> P (ai_Spec obj) b vd d s' \<and> calm env (ai_Spec obj) r' \<and> r_patches r' = r_patches r \<and> r_statuses r' = r_statuses r
      \<and> r_VerticalActuator r' = r_VerticalActuator r \<and> Q (r_Router r')"
    and "\<not> spec_DryRun (ai_Spec obj)"
    and "validated_count obj (b_CurrentReplicas b) d \<noteq> b_CurrentReplicas b"
    and get: "cl_get (e_client env) ''actuator.Apply'' ''Deployment'' (target_ns obj) (target_name obj) = Inr w"
    and "replicas_or_1 w \<noteq> validated_count obj (b_CurrentReplicas b) d" and "\<And>p. cl_patch (e_client env) p = None"
    and "\<And>ob. \<exists>ob'. e_status_update env ob = Inr ob'" and "resizable env obj vd"
  shows "\<exists>p ob. fst (Reconcile env r) = Inr (requeue_after (spec_EvaluationInterval (ai_Spec obj)))
    \<and> r_patches (snd (Reconcile env r)) = r_patches r @ p # resize_patches env obj vd (r_VerticalActuator r)
    \<and> pt_Replicas p = Some (validated_count obj (b_CurrentReplicas b) d)
    \<and> Q (r_Router (snd (Reconcile env r)))
    \<and> r_statuses (snd (Reconcile env r)) = r_statuses r @ [ob]
    \<and> st_LastScaleTime (ai_Status ob) = Some (e_now env ''persistStatus'')"
proof -
  obtain s2 q where c2: "passes (take 4 steps) env (new_state obj (e_uuid env), r) = Some (s2, r \<lparr>r_Predictor := q\<rparr>)"
      "undecided (ai_Spec obj) b s2"
    using front_runs [OF assms(3,5-7)] by blast
  obtain s3 r3 where c3: "fetchDecision env (s2, r \<lparr>r_Predictor := q\<rparr>) = (Inr None, s3, r3)" "P (ai_Spec obj) b vd d s3"
      and r3: "calm env (ai_Spec obj) r3" "r_patches r3 = r_patches r" "r_statuses r3 = r_statuses r"
        "r_VerticalActuator r3 = r_VerticalActuator r" "Q (r_Router r3)"
    using fetch [OF c2(2)] by blast
  obtain s7 r7 p ob where c7: "run_steps (drop 5 steps) env (s3, r3) =
        (Inr (requeue_after (spec_EvaluationInterval (ai_Spec obj))), s7, r7)"
      "r_patches r7 = r_patches r3 @ p # resize_patches env obj vd (r_VerticalActuator r3)" "pt_Replicas p = Some (validated_count obj (b_CurrentReplicas b) d)" "r_Router r7 = r_Router r3"
      "r_statuses r7 = r_statuses r3 @ [ob]" "st_LastScaleTime (ai_Status ob) = Some (e_now env ''persistStatus'')"
    using carried_out [OF assms(1) c3(2) r3(1) assms(9,10) _ assms(12-14) refl assms(15)] get by auto
  have "run_steps steps env (new_state obj (e_uuid env), r) =
      (Inr (requeue_after (spec_EvaluationInterval (ai_Spec obj))), s7, r7)"
    by (subst steps_fetch) (simp add: run_steps_split c2(1) c3(1) c7(1))
  then show ?thesis using assms(2) c7(2-6) r3(2-5) by (simp add: Reconcile_def)
qed

end

interpretation ruled: settled_decision "\<lambda>spec b vd d s. vd = None \<and> ruled spec b d s"
proof (unfold_locales, goal_cases)
  case (2 spec b vd d s h c r e s')
  then show ?case using undisturbed_resolve [of spec b None s h c r e s'] by (simp add: ruled_def)
next
  case (3 spec b vd d s r e s')
  then show ?case using undisturbed_decision [of spec b None s d r e s'] by (simp add: ruled_def)
qed (simp_all add: ruled_def)

text \<open>
  C9. A reactive rule that fires takes effect: while the subsystems raise nothing (\<open>calm\<close>, which the
  operator is when it starts) and with the default precedence, when the rule's count is
  within the bounds and what the validator makes of it is neither the observed count nor what the Deployment
  already has, the reconcile sends exactly one patch, for the validated count, which is the rule's own count
  when no directional policy is set and that is at most one step away; it does not ask the model provider, records the time of the scaling and asks
  to be called again after the evaluation interval.
\<close>

theorem reactive_rule_scales:
  assumes "server_ok env" and "e_get env = Inr obj" and "ready env obj" and "calm env (ai_Spec obj) r"
    and "NewManager (e_plugins env) (spec_Signals (ai_Spec obj)) = Inr mgr"
    and "fst (manager_Collect (e_plugins env) obj mgr) = Inr b" and "frozen env b = None"
    and "reactive_decision b = Some d" and "spec_Precedence (ai_Spec obj) = None"
    and "\<not> spec_DryRun (ai_Spec obj)"
    and "within_bounds (ai_Constraints obj) (sd_TargetReplicas d)"
    and "validated_count obj (b_CurrentReplicas b) d \<noteq> b_CurrentReplicas b"
    and "cl_get (e_client env) ''actuator.Apply'' ''Deployment'' (target_ns obj) (target_name obj) = Inr w"
    and "replicas_or_1 w \<noteq> validated_count obj (b_CurrentReplicas b) d" and "\<And>p. cl_patch (e_client env) p = None"
    and "\<And>ob. \<exists>ob'. e_status_update env ob = Inr ob'"
  shows "\<exists>p ob. fst (Reconcile env r) = Inr (requeue_after (spec_EvaluationInterval (ai_Spec obj)))
    \<and> r_patches (snd (Reconcile env r)) = r_patches r @ [p]
    \<and> pt_Replicas p = Some (validated_count obj (b_CurrentReplicas b) d)
    \<and> (legal_step obj (b_CurrentReplicas b) d \<longrightarrow> pt_Replicas p = Some (sd_TargetReplicas d))
    \<and> r_Router (snd (Reconcile env r)) = r_Router r
    \<and> r_statuses (snd (Reconcile env r)) = r_statuses r @ [ob]
    \<and> st_LastScaleTime (ai_Status ob) = Some (e_now env ''persistStatus'')"
proof -
  have "\<exists>s' r'. fetchDecision env (s, r \<lparr>r_Predictor := q\<rparr>) = (Inr None, s', r')
      \<and> ((None :: 'a VerticalDecision option) = None \<and> ruled (ai_Spec obj) b d s') \<and> calm env (ai_Spec obj) r' \<and> r_patches r' = r_patches r \<and> r_statuses r' = r_statuses r
      \<and> r_VerticalActuator r' = r_VerticalActuator r \<and> r_Router r' = r_Router r"
    if "undecided (ai_Spec obj) b s" for s q
    using fetch_runs [OF that assms(8,9,11), of env "r \<lparr>r_Predictor := q\<rparr>"] assms(4) by force
  from ruled.reconciled [where Q = "\<lambda>ro. ro = r_Router r", OF assms(1-7) this assms(10,12-16)] show ?thesis
    using validated_legal [OF assms(11)] by (auto simp: resizable_def resize_patches_def)
qed

text \<open>A source that reports three replicas and a rule that always wants two more.\<close>

definition grow_rule :: ReactiveRule where
  "grow_rule = \<lparr>rr_Metric = ''cpu'', rr_Operator = ''>='', rr_Threshold = 0, rr_Action = ''scale_up'', rr_Amount = 2\<rparr>"

definition stub_plugin :: "nat SignalPlugin" where
  "stub_plugin = \<lparr>pg_Name = ''stub'', pg_k8sAware = False, pg_secretReader = False, pg_Init = (\<lambda>_ _. None),
     pg_Collect = (\<lambda>_ _ _ b. (None, b \<lparr>b_CurrentReplicas := 3,
       b_Annotations := zero_AnnotationSignals \<lparr>an_ReactiveRules := [grow_rule]\<rparr>\<rparr>, True))\<rparr>"

definition stub_obj :: "nat AIScaler" where
  "stub_obj = sample_obj \<lparr>ai_Finalizers := [finalizerName], ai_Spec := (ai_Spec sample_obj) \<lparr>spec_Signals :=
     [\<lparr>ss_Name = ''stub'', ss_Required = True, ss_Config = fmempty, ss_SecretRef = None\<rparr>]\<rparr>\<rparr>"

definition stub_env :: "nat Env" where
  "stub_env = (plain_env 7 stub_obj) \<lparr>e_plugins := (builtin_env (sample_client 3) None)
     \<lparr>ge_registry := fmupd ''stub'' stub_plugin fmempty\<rparr>\<rparr>"

lemma reactive_rule_scales_witness:
  "\<exists>p. r_patches (snd (Reconcile stub_env (bare_reconciler \<lparr>r_Coordinator := None\<rparr>))) = [p] \<and> pt_Replicas p = Some 5"
proof -
  define i where "i = \<lparr>pi_plugin = stub_plugin, pi_secret = None, pi_config = fmempty, pi_required = True, pi_healthy = True\<rparr>"
  define b where "b = zero_Bundle \<lparr>b_CollectedAt := 7, b_CurrentReplicas := 3,
    b_Annotations := zero_AnnotationSignals \<lparr>an_ReactiveRules := [grow_rule]\<rparr>, b_SourceHealth := fmupd ''stub'' True fmempty\<rparr>"
  define r where "r = bare_reconciler \<lparr>r_Coordinator := None\<rparr>"
  have spec: "ai_Spec stub_obj = (ai_Spec sample_obj) \<lparr>spec_Signals :=
     [\<lparr>ss_Name = ''stub'', ss_Required = True, ss_Config = fmempty, ss_SecretRef = None\<rparr>]\<rparr>"
    by (simp add: stub_obj_def)
  have c: "sc_MinReplicas (ai_Constraints stub_obj) = 1" "sc_MaxReplicas (ai_Constraints stub_obj) = 10"
      "sc_MaxScaleStep (ai_Constraints stub_obj) = 3" "spec_DryRun (ai_Spec stub_obj) = False"
      "spec_Precedence (ai_Spec stub_obj) = None" "spec_Safety (ai_Spec stub_obj) = None"
      "lc_Fallback (spec_LLM (ai_Spec stub_obj)) = None"
      "st_LastScaleTime (ai_Status stub_obj) = None" "ai_DeletionTimestamp stub_obj = None"
      "ai_Finalizers stub_obj = [finalizerName]"
    by (simp_all add: stub_obj_def sample_obj_def with_constraints_def zero_defs)
  have e: "e_plugins stub_env = (builtin_env (sample_client 3) None) \<lparr>ge_registry := fmupd ''stub'' stub_plugin fmempty\<rparr>"
      "e_get stub_env = Inr stub_obj" "e_client stub_env = sample_client 3" "e_status_update stub_env = Inr"
      "server_ok stub_env" "\<And>x. e_now stub_env x = 7"
    by (simp_all add: stub_env_def plain_env_def server_ok_def)
  have three: "replicas_or_1 (sample_workload 3) = 3" by (simp add: replicas_or_1_def sample_workload_def)
  have new: "NewManager (e_plugins stub_env) (spec_Signals (ai_Spec stub_obj)) = Inr [i]"
    by (simp add: spec e NewManager_def new_instance_def Get_plugin_def plugin_secret_def i_def stub_plugin_def)
  have coll: "fst (manager_Collect (e_plugins stub_env) stub_obj [i]) = Inr b"
    by (simp add: manager_Collect_def run_plugin_def i_def stub_plugin_def e b_def builtin_env_def zero_Bundle_def)
  define d where "d = mk_decision 5 (reactive_reason
      \<lparr>rx_Fired = True, rx_Rule = grow_rule, rx_Actual = 0, rx_Replicas = 5\<rparr>) 1 (actionTypeForTarget 5 3)"
  have d: "reactive_decision b = Some d"
    by (simp add: d_def reactive_decision_def b_def zero_signal_defs grow_rule_def resolveMetric_def evalCondition_def
        computeReactiveReplicas_def f_le_iff)
  have v: "within_bounds (ai_Constraints stub_obj) (sd_TargetReplicas d)"
      "legal_step stub_obj (b_CurrentReplicas b) d"
    by (simp_all add: c has_direction_policy_def within_bounds_def legal_step_def d_def b_def mk_decision_def)
  have five: "validated_count stub_obj 3 d = 5" "b_CurrentReplicas b = 3"
    using validated_legal [OF v] by (simp_all add: d_def mk_decision_def b_def)
  have "\<exists>p ob. fst (Reconcile stub_env r) = Inr (requeue_after (spec_EvaluationInterval (ai_Spec stub_obj)))
    \<and> r_patches (snd (Reconcile stub_env r)) = r_patches r @ [p]
    \<and> pt_Replicas p = Some (validated_count stub_obj (b_CurrentReplicas b) d)
    \<and> (legal_step stub_obj (b_CurrentReplicas b) d \<longrightarrow> pt_Replicas p = Some (sd_TargetReplicas d))
    \<and> r_Router (snd (Reconcile stub_env r)) = r_Router r
    \<and> r_statuses (snd (Reconcile stub_env r)) = r_statuses r @ [ob]
    \<and> st_LastScaleTime (ai_Status ob) = Some (e_now stub_env ''persistStatus'')"
    by (rule reactive_rule_scales [where w = "sample_workload 3", OF e(5,2) _ _ new coll _ d _ _ v(1)])
      (simp_all add: five c e ready_def being_deleted_def cooling_def ValidateSpec_None_iff calm_def r_def bare_reconciler_def
        frozen_def b_def zero_signal_defs sample_client_def three)
  then show ?thesis by (auto simp: five r_def bare_reconciler_def)
qed

text \<open>What is left of a failed step in the reconciler: the status it wrote.\<close>

lemma step_failed_reconciler:
  assumes "\<not> x_coordinationSlotHeld s"
  shows "\<exists>ob. releaseCoordination (step_failed env n err (s, r)) = r\<lparr>r_statuses := r_statuses r @ [ob]\<rparr>
    \<and> ai_Spec ob = ai_Spec (x_obj s)
    \<and> st_Phase (ai_Status ob) = (if pending_change s \<or> resized s then PhaseScaling else PhaseFailed)
    \<and> st_LastScaleTime (ai_Status ob) =
        (if pending_change s then Some (e_now env ''persistStatus'') else st_LastScaleTime (ai_Status (x_obj s)))"
proof -
  define z where "z = (set_cond env ConditionReady ''False'' ''ReconcileFailed'' (n @ '' failed: '' @ err) s) \<lparr>x_phase := PhaseFailed\<rparr>"
  have w: "releaseCoordination (step_failed env n err (s, r)) = r\<lparr>r_statuses := r_statuses r @ [x_obj (new_status env False z)]\<rparr>"
    using assms by (simp add: step_failed_def z_def persistStatus_snd update_status_def Let_def releaseCoordination_def
        split: sum.split option.split)
  have "ai_Spec (x_obj (new_status env False z)) = ai_Spec (x_obj s)" by (simp add: z_def)
  moreover obtain ob where "r_statuses (snd (step_failed env n err (s, r))) = r_statuses r @ [ob]"
      "st_Phase (ai_Status ob) = (if pending_change s \<or> resized s then PhaseScaling else PhaseFailed)"
      "st_LastScaleTime (ai_Status ob) =
        (if pending_change s then Some (e_now env ''persistStatus'') else st_LastScaleTime (ai_Status (x_obj s)))"
    using step_failed_writes by blast
  moreover have "r_statuses (snd (step_failed env n err (s, r))) = r_statuses r @ [x_obj (new_status env False z)]"
    by (simp add: step_failed_def z_def persistStatus_snd write_statuses)
  ultimately show ?thesis using w by auto
qed

text \<open>
  C13. Deleting a resource only takes the finalizer of the operator off, the other finalizers stay, and
  nothing else happens: the reconciler, with its slots, its histories and everything it sends, is as it was
  but for this one update of the resource, and but for one status in phase Failed, which keeps the time of
  the last scaling, when the update fails; then the reconcile returns the error, and else it does not ask to
  be called again.  Without the finalizer it does nothing at all.
\<close>

theorem deletion_releases:
  assumes "e_get env = Inr obj" and "being_deleted obj"
    and "o' = obj \<lparr>ai_Finalizers := removeAll finalizerName (ai_Finalizers obj)\<rparr>"
  shows "if finalizerName \<in> set (ai_Finalizers obj)
    then (case e_update env o' of
        Inr x \<Rightarrow> Reconcile env r = (Inr empty_result, r \<lparr>r_updates := r_updates r @ [o']\<rparr>)
      | Inl e \<Rightarrow> \<exists>ob. Reconcile env r = (Inl (Failed (api_error_text e)),
            r \<lparr>r_updates := r_updates r @ [o'], r_statuses := r_statuses r @ [ob]\<rparr>)
          \<and> ai_Spec ob = ai_Spec obj \<and> st_Phase (ai_Status ob) = PhaseFailed
          \<and> st_LastScaleTime (ai_Status ob) = st_LastScaleTime (ai_Status obj))
    else Reconcile env r = (Inr empty_result, r)"
proof -
  let ?s0 = "new_state obj (e_uuid env)"
  have free: "releaseCoordination (s, q) = q" if "\<not> x_coordinationSlotHeld s" for s and q :: "'a Reconciler"
    using that by (simp add: releaseCoordination_def split: option.split)
  have s1: "x_obj (remove_finalizer ?s0) = o'" "\<not> x_coordinationSlotHeld (remove_finalizer ?s0)"
      "\<not> pending_change (remove_finalizer ?s0)" "\<not> resized (remove_finalizer ?s0)"
    by (simp_all add: remove_finalizer_def assms(3) new_state_def pending_change_def resized_def)
  show ?thesis
  proof (cases "finalizerName \<in> set (ai_Finalizers obj)")
    case True
    show ?thesis
    proof (cases "e_update env o'")
      case (Inl e)
      have "ensureFinalizer env (?s0, r) = (Inl (Failed (api_error_text e)), remove_finalizer ?s0, r \<lparr>r_updates := r_updates r @ [o']\<rparr>)"
        using True assms(2) Inl by (simp add: ensureFinalizer_def update_obj_def s1(1) Let_def)
      then have "Reconcile env r = (Inl (Failed (api_error_text e)), releaseCoordination (step_failed env ''ensureFinalizer''
          (api_error_text e) (remove_finalizer ?s0, r \<lparr>r_updates := r_updates r @ [o']\<rparr>)))"
        using assms(1) by (simp add: Reconcile_def steps_def handle_failure_def split: prod.split)
      then show ?thesis
        using step_failed_reconciler [OF s1(2), of env "''ensureFinalizer''" "api_error_text e" "r \<lparr>r_updates := r_updates r @ [o']\<rparr>"]
          True Inl s1 assms(3) by auto
    next
      case (Inr ob)
      have "ensureFinalizer env (?s0, r) = (Inr (Some empty_result), (remove_finalizer ?s0) \<lparr>x_obj := ob\<rparr>, r \<lparr>r_updates := r_updates r @ [o']\<rparr>)"
        using True assms(2) Inr by (simp add: ensureFinalizer_def update_obj_def s1(1) Let_def)
      then show ?thesis
        using True Inr s1(2) assms(1) by (simp add: Reconcile_def steps_def free)
    qed
  next
    case False
    then have "ensureFinalizer env (?s0, r) = (Inr (Some empty_result), ?s0, r)"
      using assms(2) by (simp add: ensureFinalizer_def)
    then show ?thesis
      using False assms(1) by (simp add: Reconcile_def steps_def free)
  qed
qed

definition deleted_obj :: "nat AIScaler" where
  "deleted_obj = sample_obj \<lparr>ai_DeletionTimestamp := Some 5, ai_Finalizers := [finalizerName, ''other'']\<rparr>"

lemma deletion_releases_witness:
  "Reconcile (plain_env 7 deleted_obj) bare_reconciler =
     (Inr empty_result, bare_reconciler\<lparr>r_updates := [deleted_obj\<lparr>ai_Finalizers := [''other'']\<rparr>]\<rparr>)"
proof -
  have "being_deleted deleted_obj" by (simp add: being_deleted_def deleted_obj_def zero_time_def)
  from deletion_releases [OF plain_get this refl, of 7 bare_reconciler]
  show ?thesis by (simp add: deleted_obj_def bare_reconciler_def finalizerName_def plain_env_def)
qed

end
