(* ===== verification/Panics.thy ===== *)
theory Panics
  imports Lifetime Reconcile_Outcome
begin

text \<open>
  The panics of a reconcile.  A step can panic where Go would: at a missing bundle, at an index outside the
  arrays of the predictor, at the slice of an empty history of events, and at a metric with a wrong number of
  label values.  The bundle is there from its collection on, the arrays and the history are never left, so
  only the last of them happens, and only with a cost client.
\<close>

section \<open>The bundle through a reconcile\<close>

lemma enrich_bundle: "x_bundle (fst (snd (enrichContext env (s, r)))) = x_bundle s"
proof -
  have "x_bundle (enrich_nodes env r s) = x_bundle s" "x_bundle (predicted env r s) = x_bundle s"
      "x_bundle (enrich_resources env s) = x_bundle s" "x_bundle (enrich_feedback env r s) = x_bundle s"
    for s :: "'a reconcileState"
    using predicted_fields [of env r s]
    by (auto simp: enrich_nodes_def enrich_resources_def enrich_feedback_def Let_def split: option.split sum.split)
  then show ?thesis by (simp add: enrichContext_total)
qed

lemma fetch_bundle: "x_bundle (fst (snd (fetchDecision env (s, r)))) = x_bundle s"
proof -
  have ask: "x_bundle (fst (snd (ask_provider env b c s r))) = x_bundle s" for b c s
    using seen_ask [of env b c s r] by (simp add: seen_def)
  have keda: "x_bundle (keda_decision b s) = x_bundle s" and obj: "x_bundle (fst (evaluate_objectives b s)) = x_bundle s"
    for b and s :: "'a reconcileState"
    by (simp_all add: keda_decision_def evaluate_objectives_def Let_def split: option.split)
  show ?thesis
    by (simp add: fetchDecision_def ask keda obj Let_def case_prod_beta split: option.split)
qed

lemma check_bundle:
  "x_bundle (fst (snd (checkOscillation env (s, r)))) = x_bundle s"
  "x_bundle (fst (snd (checkRollback env (s, r)))) = x_bundle s"
  "x_bundle (fst (snd (resolveTentativeDecision env (s, r)))) = x_bundle s"
  "x_bundle (fst (snd (estimateCost env (s, r)))) = x_bundle s"
  "x_bundle (fst (snd (checkApproval env (s, r)))) = x_bundle s"
  using seen_steps(1) [of env s r] seen_steps(2) [of env s r] seen_steps(3) [of env s r] seen_steps(4) [of env s r]
    seen_steps(5) [of env s r]
  by (metis prod.collapse seen_def prod.inject)+

lemma late_bundle:
  "x_bundle (fst (snd (resolveFinalDecision env (s, r)))) = x_bundle s"
  "x_bundle (fst (snd (validateDecision env (s, r)))) = x_bundle s"
  "x_bundle (fst (snd (checkCoordination env (s, r)))) = x_bundle s"
  "x_bundle (fst (snd (actuate env (s, r)))) = x_bundle s"
  "x_bundle (fst (snd (evaluateAlerts env (s, r)))) = x_bundle s"
  "x_bundle (fst (snd (recordAudit env (s, r)))) = x_bundle s"
  "x_bundle (fst (snd (updateStatus env (s, r)))) = x_bundle s"
proof -
  obtain e s1 where f: "resolveDecisionState True True (s, r) = (e, s1)" by force
  then show "x_bundle (fst (snd (resolveFinalDecision env (s, r)))) = x_bundle s"
    using seen_resolve [OF f] by (simp add: resolveFinalDecision_def seen_def split: option.split)
  show "x_bundle (fst (snd (validateDecision env (s, r)))) = x_bundle s"
    by (simp add: validateDecision_def split: option.split)
  show "x_bundle (fst (snd (checkCoordination env (s, r)))) = x_bundle s"
    by (simp add: checkCoordination_def acquire_slot_def defer_change_def Let_def split: option.split sum.split prod.split)
  have a: "x_bundle (fst (snd (apply_vertical env s q))) = x_bundle s" for q
    by (simp add: apply_vertical_def split: option.split prod.split sum.split)
  have b: "x_bundle (scaling_condition env x z) = x_bundle z" for x z
    by (simp add: scaling_condition_def Let_def)
  show "x_bundle (fst (snd (actuate env (s, r)))) = x_bundle s"
    by (simp add: actuate_def case_prod_beta a b split: sum.split option.split)
  show "x_bundle (fst (snd (evaluateAlerts env (s, r)))) = x_bundle s"
    by (simp add: evaluateAlerts_def split: option.split prod.split)
  show "x_bundle (fst (snd (recordAudit env (s, r)))) = x_bundle s"
    by (simp add: recordAudit_def split: option.split)
  have "x_bundle (new_status env m s) = x_bundle s" for m
    by (simp add: new_status_def set_status_def Let_def)
  then show "x_bundle (fst (snd (updateStatus env (s, r)))) = x_bundle s"
    by (simp add: updateStatus_def persistStatus_snd update_status_def Let_def split: sum.split)
qed

lemma passes_ConsE:
  assumes "passes ((n, f) # fs) env (s, r) = Some w"
  obtains s1 r1 where "f env (s, r) = (Inr None, s1, r1)" and "passes fs env (s1, r1) = Some w"
  using assms by (cases "f env (s, r)" rule: prod_cases3) (auto split: sum.splits option.splits)

lemma collected_bundle:
  "collectSignals env (s, r) = (Inr None, s', r') \<Longrightarrow> \<exists>mgr b. NewManager (e_plugins env) (spec_Signals (x_spec s)) = Inr mgr
    \<and> fst (manager_Collect (e_plugins env) (x_obj s) mgr) = Inr b \<and> x_bundle s' = Some b"
  by (auto simp: collectSignals_def Let_def split: sum.splits option.splits prod.splits)

section \<open>The cost client through a reconcile\<close>

definition cost_parts :: "'q Reconciler \<Rightarrow> string option \<times> bool" where
  "cost_parts r = (r_CostClient r, r_CostEstimator r)"

lemma cost_parts_simps [simp]:
  "cost_parts (notify env s a b c r) = cost_parts r"
  "cost_parts (r\<lparr>r_Router := ro\<rparr>) = cost_parts r"
  "cost_parts (r\<lparr>r_Predictor := pr\<rparr>) = cost_parts r"
  "cost_parts (r\<lparr>r_OscillationDetector := od\<rparr>) = cost_parts r"
  "cost_parts (r\<lparr>r_patches := ps\<rparr>) = cost_parts r"
  "cost_parts (r\<lparr>r_updates := us\<rparr>) = cost_parts r"
  "cost_parts (r\<lparr>r_statuses := us\<rparr>) = cost_parts r"
  "cost_parts (r\<lparr>r_auditMaps := m\<rparr>) = cost_parts r"
  "cost_parts (r\<lparr>r_Alerting := e, r_alerts := al\<rparr>) = cost_parts r"
  "cost_parts (set_coordinator co r) = cost_parts r"
  "cost_parts (releaseCoordination (s, r)) = cost_parts r"
  by (simp_all add: cost_parts_def notify_def set_coordinator_def releaseCoordination_def Let_def split: option.split)

lemma write_cost_parts:
  "cost_parts (snd (snd (update_obj env s r))) = cost_parts r"
  "cost_parts (snd (snd (update_status env s r))) = cost_parts r"
  by (simp_all add: update_obj_def update_status_def Let_def split: sum.split)

lemma step_cost_parts:
  "cost_parts (snd (snd (persistStatus m env (s, r)))) = cost_parts r"
  "cost_parts (snd (snd (ensureFinalizer env (s, r)))) = cost_parts r"
  "cost_parts (snd (snd (checkCooldown env (s, r)))) = cost_parts r"
  "cost_parts (snd (snd (collectSignals env (s, r)))) = cost_parts r"
  "cost_parts (snd (snd (enrichContext env (s, r)))) = cost_parts r"
  "cost_parts (snd (snd (ask_provider env b c s r))) = cost_parts r"
  "cost_parts (snd (snd (checkOscillation env (s, r)))) = cost_parts r"
  "cost_parts (snd (snd (checkRollback env (s, r)))) = cost_parts r"
  "cost_parts (snd (snd (resolveTentativeDecision env (s, r)))) = cost_parts r"
  "cost_parts (snd (snd (resolveFinalDecision env (s, r)))) = cost_parts r"
  "cost_parts (snd (snd (estimateCost env (s, r)))) = cost_parts r"
  "cost_parts (snd (snd (checkApproval env (s, r)))) = cost_parts r"
  "cost_parts (snd (snd (validateDecision env (s, r)))) = cost_parts r"
  "cost_parts (snd (snd (evaluateAlerts env (s, r)))) = cost_parts r"
  "cost_parts (snd (snd (recordAudit env (s, r)))) = cost_parts r"
  by (simp_all add: persistStatus_snd ensureFinalizer_def write_cost_parts checkCooldown_def collectSignals_def enrichContext_total
      ask_provider_def checkOscillation_def checkRollback_def resolveTentativeDecision_def resolveFinalDecision_def
      estimateCost_def checkApproval_def validateDecision_def evaluateAlerts_def recordAudit_def Let_def case_prod_beta
      split: option.split sum.split)

lemma late_cost_parts:
  "cost_parts (snd (snd (fetchDecision env (s, r)))) = cost_parts r"
  "cost_parts (snd (snd (checkCoordination env (s, r)))) = cost_parts r"
  "cost_parts (snd (snd (actuate env (s, r)))) = cost_parts r"
proof -
  show "cost_parts (snd (snd (fetchDecision env (s, r)))) = cost_parts r"
    by (simp add: fetchDecision_def step_cost_parts(6) Let_def case_prod_beta split: option.split)
  show "cost_parts (snd (snd (checkCoordination env (s, r)))) = cost_parts r"
    by (simp add: checkCoordination_def acquire_slot_def defer_change_def Let_def split: option.split sum.split prod.split)
  have "cost_parts (snd (apply_replicas env s r)) = cost_parts r" "cost_parts (snd (snd (apply_vertical env s r))) = cost_parts r"
      "cost_parts (notify_applied env a s r) = cost_parts r" for a and s :: "'a reconcileState" and r
    by (simp_all add: apply_replicas_def apply_vertical_def notify_applied_def Let_def split: option.split prod.split sum.split)
  moreover have "cost_parts r' = cost_parts r" if "record_applied env a r = Some r'" for a r r'
    using record_applied_fields [OF that] by auto
  ultimately show "cost_parts (snd (snd (actuate env (s, r)))) = cost_parts r"
    by (simp add: actuate_def case_prod_beta split: sum.split option.split)
qed

interpretation cost: step_invariant "\<lambda>env w. cost_parts (snd w) = cp" steps for cp
proof (unfold_locales, goal_cases)
  case (1 n f env w)
  then show ?case
    by (cases w) (auto simp: steps_def updateStatus_def step_cost_parts late_cost_parts)
next
  case (2 env w)
  then show ?case by (cases w) (simp add: step_cost_parts)
next
  case (3 env s r a b c d p)
  then show ?case by simp
qed

lemma Reconcile_cost_parts: "cost_parts (snd (Reconcile env r)) = cost_parts r"
proof (cases "e_get env")
  case (Inr obj)
  obtain res s1 r1 where run: "run_steps steps env (new_state obj (e_uuid env), r) = (res, s1, r1)" by (metis prod_cases3)
  then have "cost_parts r1 = cost_parts r"
    using cost.run_keeps [where fs = steps and env = env and w = "(new_state obj (e_uuid env), r)"] by simp
  then show ?thesis using Inr run by (simp add: Reconcile_def)
qed (simp add: Reconcile_def)

section \<open>The steps that panic\<close>

abbreviation panics :: "(failure + 'a) \<times> 'b \<Rightarrow> string \<Rightarrow> bool" where
  "panics z m \<equiv> fst z = Inl (Panicked m)"

lemma persist_panics: "\<not> panics (persistStatus k env (s, r)) m"
  by (simp add: persistStatus_def split: prod.split option.split)

lemma first_panics:
  "\<not> panics (ensureFinalizer env (s, r)) m"
  "\<not> panics (checkCooldown env (s, r)) m"
  "\<not> panics (collectSignals env (s, r)) m"
  "\<not> panics (enrichContext env (s, r)) m"
proof -
  have "fst (case z of (Some e, s1, r1) \<Rightarrow> (Inl (Failed (api_error_text e)), s1, r1) | (None, s1, r1) \<Rightarrow> (Inr c, s1, r1))
      \<noteq> Inl (Panicked m)" for z :: "api_error option \<times> 'a reconcileState \<times> 'a Reconciler" and c :: "ctrl_Result option"
    by (cases z rule: prod_cases3) (simp split: option.split)
  then show "\<not> panics (ensureFinalizer env (s, r)) m"
    by (simp add: ensureFinalizer_def split: option.split)
  show "\<not> panics (checkCooldown env (s, r)) m"
    by (simp add: checkCooldown_def Let_def split: option.split)
  have "fst (observe_baselines env b p) = True" for b p using observe_baselines_ok by simp
  then show "\<not> panics (collectSignals env (s, r)) m"
    by (simp add: collectSignals_def Let_def case_prod_beta split: option.split sum.split)
  show "\<not> panics (enrichContext env (s, r)) m"
    by (simp add: enrichContext_total)
qed

lemma fetch_panics:
  assumes "x_bundle s \<noteq> None"
  shows "\<not> panics (fetchDecision env (s, r)) m"
proof -
  have "\<not> panics (ask_provider env b c t r) m" for b c t
    by (simp add: ask_provider_def Let_def split: prod.split sum.split)
  then show ?thesis
    using assms by (auto simp: fetchDecision_def Let_def case_prod_beta split: option.split)
qed

lemma middle_panics:
  "\<not> panics (checkOscillation env (s, r)) m"
  "\<not> panics (checkRollback env (s, r)) m"
  "\<not> panics (resolveTentativeDecision env (s, r)) m"
  "\<not> panics (checkApproval env (s, r)) m"
  "\<not> panics (resolveFinalDecision env (s, r)) m"
  "\<not> panics (validateDecision env (s, r)) m"
  "\<not> panics (checkCoordination env (s, r)) m"
  "\<not> panics (recordAudit env (s, r)) m"
  "\<not> panics (updateStatus env (s, r)) m"
  by (simp_all add: checkOscillation_def checkRollback_def resolveTentativeDecision_def checkApproval_def
      resolveFinalDecision_def validateDecision_def checkCoordination_def acquire_slot_def defer_change_def
      recordAudit_def updateStatus_def persist_panics Let_def split: option.split sum.split prod.split)

lemma estimate_panics_only:
  assumes "panics (estimateCost env (s, r)) m"
  shows "m = inconsistent_cardinality \<and> fst (cost_parts r) \<noteq> None"
  using assms by (auto simp: estimateCost_def cost_parts_def Let_def split: option.splits sum.splits if_splits)

lemma actuate_panics:
  assumes "sound r"
  shows "\<not> panics (actuate env (s, r)) m"
proof -
  obtain x r1 where a: "apply_replicas env s r = (x, r1)" by force
  obtain e s2 r2 where v: "apply_vertical env s r1 = (e, s2, r2)" by (metis prod_cases3)
  have "subsystems r1 = subsystems r" "subsystems r2 = subsystems r1"
    using apply_subsystems(1) [of env s r] apply_subsystems(2) [of env s r1] a v by simp_all
  then have "sound r2" using assms sound_subsystems by blast
  then have recorded: "record_applied env b r2 \<noteq> None" for b using record_sound [of r2 env b] by auto
  show ?thesis
    using a v by (simp add: actuate_def recorded del: not_None_eq split: sum.split option.split)
qed

lemma alerts_panics: "x_bundle s \<noteq> None \<Longrightarrow> \<not> panics (evaluateAlerts env (s, r)) m"
  by (auto simp: evaluateAlerts_def split: option.split prod.split)

section \<open>A run of steps\<close>

text \<open>A run panics only where one of its steps does, in a state that the steps before it keep an invariant of.\<close>

lemma run_panics:
  assumes "\<And>n f w. (n, f) \<in> set fs \<Longrightarrow> I w \<Longrightarrow> (fst (f env w) = Inr None \<longrightarrow> I (snd (f env w)))
      \<and> (\<forall>m. panics (f env w) m \<longrightarrow> Q m)"
    and "I w" and "panics (run_steps fs env w) m"
  shows "Q m"
  using assms
proof (induction fs arbitrary: w)
  case (Cons nf fs)
  obtain n f where nf: "nf = (n, f)" by force
  obtain x s1 r1 where f: "f env w = (x, s1, r1)" by (metis prod_cases3)
  have here: "x = Inr None \<longrightarrow> I (s1, r1)" "\<forall>m. x = Inl (Panicked m) \<longrightarrow> Q m"
    using Cons.prems(1) [of n f w] Cons.prems(2) nf f by simp_all
  have rest: "Q m" if "I w'" "panics (run_steps fs env w') m" for w'
  proof (rule Cons.IH [OF _ that])
    fix n f w assume "(n, f) \<in> set fs" "I w"
    then show "(fst (f env w) = Inr None \<longrightarrow> I (snd (f env w))) \<and> (\<forall>m. panics (f env w) m \<longrightarrow> Q m)"
      using Cons.prems(1) [of n f w] by simp
  qed
  have "\<not> panics (persistStatus False env (s1, r1)) m" by (rule persist_panics)
  then show ?case
    using Cons.prems(3) here rest nf f
    by (cases "persistStatus False env (s1, r1)") (auto split: sum.splits option.splits if_splits)
qed simp

lemma steps_drop3: "drop 3 steps = [(''enrichContext'', enrichContext), (''fetchDecision'', fetchDecision),
    (''checkOscillation'', checkOscillation), (''checkRollback'', checkRollback),
    (''resolveTentativeDecision'', resolveTentativeDecision), (''estimateCost'', estimateCost),
    (''checkApproval'', checkApproval), (''resolveFinalDecision'', resolveFinalDecision),
    (''validateDecision'', validateDecision), (''checkCoordination'', checkCoordination), (''actuate'', actuate),
    (''evaluateAlerts'', evaluateAlerts), (''recordAudit'', recordAudit), (''updateStatus'', updateStatus)]"
  and steps_take3: "take 3 steps = [(''ensureFinalizer'', ensureFinalizer), (''checkCooldown'', checkCooldown),
    (''collectSignals'', collectSignals)]"
  by (simp_all add: steps_def)

text \<open>After the collection: a bundle, sound subsystems, and the cost client as it was.\<close>

definition collected :: "string option \<times> bool \<Rightarrow> 'q reconcileState \<times> 'q Reconciler \<Rightarrow> bool" where
  "collected cp w \<longleftrightarrow> x_bundle (fst w) \<noteq> None \<and> sound (snd w) \<and> cost_parts (snd w) = cp"

lemma collected_step:
  assumes "(n, f) \<in> set (drop 3 steps)" and "collected cp w"
  shows "collected cp (snd (f env w))"
    and "panics (f env w) m \<Longrightarrow> m = inconsistent_cardinality \<and> fst cp \<noteq> None"
proof -
  obtain s r where w: "w = (s, r)" by force
  have c: "x_bundle s \<noteq> None" "sound r" "cost_parts r = cp" using assms(2) by (simp_all add: collected_def w)
  have m: "(n, f) \<in> set steps" using assms(1) in_set_dropD by metis
  have "sound (snd (snd (f env w)))" using sound.step_keeps [OF m, where env = env and w = w] c(2) by (simp add: w)
  moreover have "cost_parts (snd (snd (f env w))) = cp"
    using cost.step_keeps [OF m, where env = env and w = w and cp = cp] c(3) by (simp add: w)
  moreover have "x_bundle (fst (snd (f env w))) = x_bundle s"
    using assms(1) by (auto simp: steps_drop3 w enrich_bundle fetch_bundle check_bundle late_bundle)
  ultimately show "collected cp (snd (f env w))" using c(1) by (simp add: collected_def)
  assume p: "panics (f env w) m"
  then show "m = inconsistent_cardinality \<and> fst cp \<noteq> None"
    using assms(1) c(3) estimate_panics_only [of env s r m] first_panics(4) [of env s r m] fetch_panics [OF c(1), of env r m]
      middle_panics [of env s r m] actuate_panics [OF c(2), of env s m] alerts_panics [OF c(1), of env r m]
    by (auto simp: steps_drop3 w)
qed

lemma run_steps_panics:
  assumes "sound r" and "panics (run_steps steps env (s, r)) m"
  shows "m = inconsistent_cardinality \<and> fst (cost_parts r) \<noteq> None"
proof (cases "passes (take 3 steps) env (s, r)")
  case None
  have "run_steps steps env (s, r) = run_steps (take 3 steps) env (s, r)"
    using run_steps_split [of "take 3 steps" "drop 3 steps" env "(s, r)"] None by simp
  then have p: "panics (run_steps (take 3 steps) env (s, r)) m" using assms(2) by simp
  have "\<not> panics (f env w) k" if "(n, f) \<in> set (take 3 steps)" for n f w k
    using that by (cases w) (auto simp: steps_take3 first_panics)
  then show ?thesis
    using run_panics [where fs = "take 3 steps" and env = env and I = "\<lambda>_. True" and w = "(s, r)" and m = m
        and Q = "\<lambda>_. False"] p by blast
next
  case (Some w)
  obtain s1 r1 where w: "w = (s1, r1)" by force
  have "sound r1" using sound.passes_keeps [OF set_take_subset _ Some] assms(1) by (simp add: w)
  moreover have "cost_parts r1 = cost_parts r"
    using cost.passes_keeps [OF set_take_subset _ Some, of "cost_parts r"] by (simp add: w)
  moreover have "x_bundle s1 \<noteq> None"
    using Some unfolding steps_take3 w by (elim passes_ConsE) (auto dest: collected_bundle)
  ultimately have c: "collected (cost_parts r) w" by (simp add: collected_def w)
  have "panics (run_steps (drop 3 steps) env w) m"
    using run_steps_split [of "take 3 steps" "drop 3 steps" env "(s, r)"] Some assms(2) by simp
  then show ?thesis
    using run_panics [where fs = "drop 3 steps" and env = env and I = "collected (cost_parts r)" and w = w and m = m
        and Q = "\<lambda>m. m = inconsistent_cardinality \<and> fst (cost_parts r) \<noteq> None"] collected_step c by blast
qed

lemma Reconcile_panics:
  assumes "sound r" and "panics (Reconcile env r) m"
  shows "m = inconsistent_cardinality \<and> r_CostClient r \<noteq> None"
proof (cases "e_get env")
  case (Inl e)
  then show ?thesis using assms(2) by (simp add: Reconcile_def split: if_splits)
next
  case (Inr obj)
  then have "panics (run_steps steps env (new_state obj (e_uuid env), r)) m"
    using assms(2) by (simp add: Reconcile_def case_prod_beta)
  then show ?thesis using run_steps_panics [OF assms(1)] by (simp add: cost_parts_def)
qed

lemma reconciles_cost_parts: "cost_parts (reconciles envs r) = cost_parts r"
  by (induction envs arbitrary: r) (simp_all add: Reconcile_cost_parts)

section \<open>Properties\<close>



end
