(* ===== verification/Cost_Panic.thy ===== *)
theory Cost_Panic
  imports Panics Reconcile_Outcome
begin

text \<open>
  What a panic does to a reconcile, and the one that every reconcile with a cost client runs into: the step
  \<open>estimateCost\<close> reports the waste of the workload with one label value to a vector of three labels, and the
  metrics library panics.  The controller runtime recovers and retries; nothing after the step is reached.
\<close>

section \<open>The bundle and the decision before the estimate\<close>

lemma tentative_decides:
  assumes "resolveTentativeDecision env (s, r) = (Inr None, s', r')" and "x_bundle s = Some b"
  shows "x_bundle s' = Some b \<and> (\<exists>d. x_decision s' = Some d)"
proof -
  obtain e s1 where t: "resolveDecisionState False False (s, r) = (e, s1)" by force
  then have "s' = s1" using assms(1) by (simp add: resolveTentativeDecision_def split: option.splits)
  then show ?thesis using resolveDecisionState_target [OF assms(2) t] by auto
qed

text \<open>The steps before the estimate end with a bundle the plugins collected and a decision.\<close>

lemma before_estimate:
  assumes "server_ok env" and "passes (take 8 steps) env (new_state obj u, r) = Some (s', r')"
  shows "\<exists>p mgr b d. ai_Spec p = ai_Spec obj \<and> NewManager (e_plugins env) (spec_Signals (ai_Spec obj)) = Inr mgr
    \<and> fst (manager_Collect (e_plugins env) p mgr) = Inr b \<and> x_bundle s' = Some b \<and> x_decision s' = Some d"
proof -
  have steps8: "take 8 steps = [(''ensureFinalizer'', ensureFinalizer), (''checkCooldown'', checkCooldown),
     (''collectSignals'', collectSignals), (''enrichContext'', enrichContext), (''fetchDecision'', fetchDecision),
     (''checkOscillation'', checkOscillation), (''checkRollback'', checkRollback),
     (''resolveTentativeDecision'', resolveTentativeDecision)]" by (simp add: steps_def)
  obtain s1 r1 where 1: "ensureFinalizer env (new_state obj u, r) = (Inr None, s1, r1)" and
      p1: "passes (tl (take 8 steps)) env (s1, r1) = Some (s', r')"
    using assms(2) unfolding steps8 by (elim passes_ConsE) simp
  obtain s2 r2 where 2: "checkCooldown env (s1, r1) = (Inr None, s2, r2)" and
      p2: "passes (tl (tl (take 8 steps))) env (s2, r2) = Some (s', r')"
    using p1 unfolding steps8 list.sel by (elim passes_ConsE) simp
  obtain s3 r3 where 3: "collectSignals env (s2, r2) = (Inr None, s3, r3)" and
      p3: "passes (tl (tl (tl (take 8 steps)))) env (s3, r3) = Some (s', r')"
    using p2 unfolding steps8 list.sel by (elim passes_ConsE) simp
  have spec: "x_spec s2 = ai_Spec obj"
    using ensureFinalizer_base [OF assms(1), of "(new_state obj u, r)"] core_base [OF checkCooldown_core, of env "(s1, r1)"] 1 2
    by (simp add: base_simp)
  obtain mgr b where b: "NewManager (e_plugins env) (spec_Signals (ai_Spec obj)) = Inr mgr"
      "fst (manager_Collect (e_plugins env) (x_obj s2) mgr) = Inr b" "x_bundle s3 = Some b"
    using collected_bundle [OF 3] spec by auto
  have "x_bundle s' = Some b \<and> (\<exists>d. x_decision s' = Some d)"
    using p3 b(3) unfolding steps8 list.sel
    by (elim passes_ConsE)
      (metis tentative_decides enrich_bundle fetch_bundle check_bundle(1) check_bundle(2) fst_conv snd_conv option.inject passes.simps(1) prod.inject)
  then show ?thesis using b spec by blast
qed

section \<open>The panic\<close>

definition cost_answers :: "'q Env \<Rightarrow> string \<Rightarrow> bool" where
  "cost_answers env endpoint \<longleftrightarrow>
     (\<forall>ns. \<exists>wc. GetWorkloadCost (e_cost_fetch env) (e_cost_decode env) endpoint ns = Inr wc)"

text \<open>Whatever the plugins collect for the resource, its workload has replicas.\<close>

definition populated :: "'q Env \<Rightarrow> 'q AIScaler \<Rightarrow> bool" where
  "populated env obj \<longleftrightarrow> (\<forall>p mgr b. ai_Spec p = ai_Spec obj
     \<and> NewManager (e_plugins env) (spec_Signals (ai_Spec obj)) = Inr mgr
     \<and> fst (manager_Collect (e_plugins env) p mgr) = Inr b \<longrightarrow> 0 <s b_CurrentReplicas b)"

lemma waste_unlabelled:
  assumes "rejects_miscount labels"
  shows "\<not> exported labels [p, report_waste n v]"
proof -
  have "labels (mv_Labels WorkloadWaste) [n] \<longrightarrow> length [n] = length (mv_Labels WorkloadWaste)"
    using assms unfolding rejects_miscount_def by blast
  then show ?thesis by (simp add: exported_def accepted_def report_waste_def WorkloadWaste_def)
qed

lemma estimate_panics:
  assumes "cost_parts r = (Some ep, True)" and "cost_answers env ep" and "rejects_miscount (e_labels env)"
    and "x_bundle s = Some b" and "0 <s b_CurrentReplicas b" and "x_decision s = Some d"
  shows "\<exists>s'. estimateCost env (s, r) = (Inl (Panicked inconsistent_cardinality), s', r)"
proof -
  obtain wc where wc: "GetWorkloadCost (e_cost_fetch env) (e_cost_decode env) ep (target_ns (x_obj s)) = Inr wc"
    using assms(2) unfolding cost_answers_def by blast
  have "\<not> b_CurrentReplicas b <=s 0" using assms(5) by (simp add: sless_sint)
  then obtain est where "Estimate wc (b_CurrentReplicas b) (sd_TargetReplicas d) = Inr est"
    by (simp add: Estimate_def Let_def)
  then show ?thesis
    using assms(1,4,6) wc by (simp add: estimateCost_def cost_parts_def waste_unlabelled [OF assms(3)])
qed

lemma before_estimate_quiet: "set (take 8 steps) \<subseteq> set quiet_steps"
proof -
  have "take 8 steps = take 8 before_actuate" by (simp add: before_actuate_def)
  then have "set (take 8 steps) \<subseteq> set before_actuate" by (metis set_take_subset)
  then show ?thesis unfolding quiet_steps_def set_append by blast
qed

lemma steps_at_estimate: "steps = take 8 steps @ (''estimateCost'', estimateCost) # drop 9 steps"
  by (simp add: steps_def)

lemma released_patches: "r_patches (releaseCoordination w) = r_patches (snd w)"
  by (cases w) simp

lemma priced_reconcile:
  assumes "server_ok env" and "e_get env = Inr obj" and "populated env obj"
    and "cost_parts r = (Some ep, True)" and "cost_answers env ep" and "rejects_miscount (e_labels env)"
  shows "r_patches (snd (Reconcile env r)) = r_patches r"
    and "passes (take 8 steps) env (new_state obj (e_uuid env), r) \<noteq> None \<Longrightarrow>
      fst (Reconcile env r) = Inl (Panicked inconsistent_cardinality)"
proof -
  let ?w = "(new_state obj (e_uuid env), r)"
  obtain res w1 where run: "run_steps steps env ?w = (res, w1)" by (meson surj_pair)
  have q: "quiet (ai_Spec obj) (r_patches r) env ?w" by (rule quiet_new [OF assms(1)])
  have "r_patches (snd w1) = r_patches r
    \<and> (passes (take 8 steps) env ?w \<noteq> None \<longrightarrow> res = Inl (Panicked inconsistent_cardinality))"
  proof (cases "passes (take 8 steps) env ?w")
    case None
    then have "run_steps (take 8 steps) env ?w = (res, w1)"
      using run steps_at_estimate run_steps_split [of "take 8 steps"] by (metis option.case(1))
    then show ?thesis
      using quiet.run_keeps [OF before_estimate_quiet q] None by (auto simp: quiet_def split: prod.splits)
  next
    case (Some w2)
    obtain s2 r2 where w2: "w2 = (s2, r2)" by force
    obtain b d where b: "x_bundle s2 = Some b" "0 <s b_CurrentReplicas b" "x_decision s2 = Some d"
      using before_estimate [OF assms(1) Some [unfolded w2]] assms(3) unfolding populated_def by blast
    have parts: "cost_parts r2 = (Some ep, True)"
      using cost.passes_keeps [of "take 8 steps", OF set_take_subset _ Some] assms(4) w2 by simp
    obtain s3 where e: "estimateCost env (s2, r2) = (Inl (Panicked inconsistent_cardinality), s3, r2)"
      using estimate_panics [OF parts assms(5,6) b] by blast
    have "r_patches r2 = r_patches r"
      using quiet.passes_keeps [OF before_estimate_quiet q Some] by (simp add: quiet_def w2)
    moreover have "(res, w1) = (Inl (Panicked inconsistent_cardinality), s3, r2)"
      using run_steps_fails [where n = "''estimateCost''" and f = estimateCost and gs = "drop 9 steps", OF Some [unfolded w2] e]
        run unfolding steps_at_estimate [symmetric] by (simp add: handle_failure_def)
    ultimately show ?thesis by simp
  qed
  then show "r_patches (snd (Reconcile env r)) = r_patches r"
    "passes (take 8 steps) env ?w \<noteq> None \<Longrightarrow> fst (Reconcile env r) = Inl (Panicked inconsistent_cardinality)"
    using run assms(2) by (simp_all add: Reconcile_def released_patches)
qed

section \<open>Properties\<close>

text \<open>
  C14. A cost client that works stops the operator: once \<open>OPENCOST_ENDPOINT\<close> is set and OpenCost answers, no sequence
  of reconciles of populated workloads ever sends a patch, because every reconcile that decides on a count
  panics before it is applied: it reports the waste of the workload with one value for three labels, and the
  metrics library rejects a wrong number of label values, as its documentation says (\<open>rejects_miscount\<close>).
\<close>

theorem opencost_stops_scaling:
  assumes "getenv ''OPENCOST_ENDPOINT'' \<noteq> []"
    and "list_all (\<lambda>env. server_ok env \<and> rejects_miscount (e_labels env) \<and> cost_answers env (getenv ''OPENCOST_ENDPOINT'')
      \<and> (case e_get env of Inl e \<Rightarrow> True | Inr obj \<Rightarrow> populated env obj)) envs"
  shows "r_patches (reconciles envs (start_reconciler cfg http marshal getenv maps)) = []"
proof -
  have "r_patches (reconciles envs r) = r_patches r" if "cost_parts r = (Some (getenv ''OPENCOST_ENDPOINT''), True)" for r
    using that assms(2)
  proof (induction envs arbitrary: r)
    case (Cons env envs)
    have "r_patches (snd (Reconcile env r)) = r_patches r"
    proof (cases "e_get env")
      case (Inr obj)
      then show ?thesis using priced_reconcile(1) [OF _ Inr _ Cons.prems(1)] Cons.prems(2) by simp
    qed (simp add: Reconcile_def)
    then show ?case using Cons.IH [of "snd (Reconcile env r)"] Cons.prems by (simp add: Reconcile_cost_parts)
  qed simp
  then show ?thesis
    using assms(1) by (simp add: cost_parts_def start_reconciler_def Let_def)
qed

text \<open>The scenario of the reactive rule, with a cost client whose server answers.\<close>

definition priced_env :: "nat Env" where
  "priced_env = stub_env \<lparr>e_cost_fetch := \<lambda>_. Response 200 ''[]'', e_cost_decode := \<lambda>_. Inr []\<rparr>"

definition opencost_set :: "string \<Rightarrow> string" where
  "opencost_set x = (if x = ''OPENCOST_ENDPOINT'' then ''http://opencost:9003'' else [])"

lemma priced_populated: "populated priced_env stub_obj"
proof -
  define i where "i = \<lparr>pi_plugin = stub_plugin, pi_secret = None, pi_config = fmempty, pi_required = True, pi_healthy = True\<rparr>"
  have e: "e_plugins priced_env = (builtin_env (sample_client 3) None) \<lparr>ge_registry := fmupd ''stub'' stub_plugin fmempty\<rparr>"
    by (simp add: priced_env_def stub_env_def plain_env_def)
  have "NewManager (e_plugins priced_env) (spec_Signals (ai_Spec stub_obj)) = Inr [i]"
    by (simp add: stub_obj_def sample_obj_def e NewManager_def new_instance_def Get_plugin_def plugin_secret_def i_def stub_plugin_def)
  moreover have "b_CurrentReplicas b = 3" if "fst (manager_Collect (e_plugins priced_env) p [i]) = Inr b" for p b
    using that by (auto simp: manager_Collect_def run_plugin_def i_def stub_plugin_def e)
  moreover have "(0 :: int32) <s 3" by (simp add: sless_sint)
  ultimately show ?thesis unfolding populated_def by fastforce
qed

lemma opencost_stops_scaling_witness:
  "r_patches (reconciles [priced_env, priced_env]
     (start_reconciler sample_config (\<lambda>_. NoReply ''down'') (\<lambda>_. Inl ''none'') opencost_set fmempty)) = []"
proof -
  have "server_ok priced_env" "e_get priced_env = Inr stub_obj" "rejects_miscount (e_labels priced_env)"
    by (simp_all add: priced_env_def stub_env_def plain_env_def server_ok_def label_count_counts)
  moreover have "cost_answers priced_env ep" for ep
    by (simp add: cost_answers_def priced_env_def GetWorkloadCost_def)
  ultimately show ?thesis
    using priced_populated
    by (intro opencost_stops_scaling) (simp_all add: opencost_set_def)
qed

end
