(* ===== verification/Provider_Outcome.thy ===== *)
theory Provider_Outcome
  imports Lifetime Reconcile_Outcome
begin

text \<open>
  The path the operator exists for: a reconcile in which no rule fires asks the provider, and the answer is
  carried out.
\<close>

section \<open>The provider's decision\<close>

lemma Decide_spec: "ai_Spec p = ai_Spec q \<Longrightarrow> Decide env p req r = Decide env q req r"
  by (simp add: Decide_def secret_key_def Let_def cong: option.case_cong)

text \<open>The answer is trusted when the constraints ask for no confidence, or for no more than it has.\<close>

definition trusted :: "'q AIScalerSpec \<Rightarrow> ScalingDecision \<Rightarrow> bool" where
  "trusted spec d \<longleftrightarrow> \<not> (0 < sc_MinConfidence (spec_Constraints spec)
     \<and> sd_Confidence d < sc_MinConfidence (spec_Constraints spec))"

text \<open>The decision on resources the provider's proposal comes to.\<close>

definition proposed :: "'q Env \<Rightarrow> 'q AIScalerSpec \<Rightarrow> ScalingDecision \<Rightarrow> 'q VerticalDecision option" where
  "proposed env spec d = (case spec_VerticalScaling spec of
     None \<Rightarrow> None
   | Some vs \<Rightarrow> (if vs_Enabled vs
       then (case buildVerticalDecision (e_quantities env) (Some vs) (sd_VerticalChanges d) of
           Inl e \<Rightarrow> None | Inr vd \<Rightarrow> vd) else None))"

definition planned :: "'q AIScalerSpec \<Rightarrow> Bundle \<Rightarrow> 'q VerticalDecision option \<Rightarrow> ScalingDecision
    \<Rightarrow> 'q reconcileState \<Rightarrow> bool" where
  "planned spec b vd d s \<longleftrightarrow> undisturbed spec b vd s \<and> x_reactiveDecision s = None \<and> x_llmDecision s = Some d
     \<and> spec_Precedence spec = None \<and> within_bounds (spec_Constraints spec) (sd_TargetReplicas d)"

interpretation planned: settled_decision planned
proof (unfold_locales, goal_cases)
  case (2 spec b vd d s h c r e s')
  then show ?case using undisturbed_resolve [of spec b vd s h c r e s'] by (simp add: planned_def)
next
  case (3 spec b vd d s r e s')
  then show ?case using undisturbed_decision [of spec b vd s d r e s'] by (simp add: planned_def)
qed (simp_all add: planned_def)

text \<open>KEDA may recommend what it likes: the provider comes first.\<close>

lemma asked_runs:
  assumes "undecided (ai_Spec obj) b s" and "reactive_decision b = None" and "\<not> AnyBreached (EvaluateSLOs (spec_SLOs (ai_Spec obj)) b)"
    and "spec_Precedence (ai_Spec obj) = None"
    and "\<And>req. fst (Decide (e_router env) obj req (r_Router r)) = Inr (d, prov)" and "trusted (ai_Spec obj) d"
    and "within_bounds (ai_Constraints obj) (sd_TargetReplicas d)"
  shows "\<exists>s' req. fetchDecision env (s, r) = (Inr None, s', r \<lparr>r_Router := snd (Decide (e_router env) obj req (r_Router r))\<rparr>)
    \<and> planned (ai_Spec obj) b (proposed env (ai_Spec obj) d) d s'"
proof -
  define t ctx where "t = fst (evaluate_objectives b (keda_decision b s))" and
    "ctx = snd (evaluate_objectives b (keda_decision b s))"
  define req where "req = scaling_request t b ctx"
  have obs: "\<not> AnyBreached (x_currentSLOs (keda_decision b s))"
    using assms(1) by (simp add: undecided_def undisturbed_def keda_decision_def split: option.split)
  have t: "undisturbed (ai_Spec obj) b None t" "x_reactiveDecision t = None" "x_spec t = ai_Spec obj"
    using assms(1,3) obs by (auto simp: t_def undecided_def undisturbed_def keda_decision_def evaluate_objectives_def Let_def
        split: option.splits if_splits)
  have "Decide (e_router env) (x_obj t) req (r_Router r) = Decide (e_router env) obj req (r_Router r)"
    by (rule Decide_spec) (rule t(3))
  then have d: "Decide (e_router env) (x_obj t) req (r_Router r) = (Inr (d, prov), snd (Decide (e_router env) obj req (r_Router r)))"
    using assms(5) [of req] by (metis prod.collapse)
  have "planned (ai_Spec obj) b (proposed env (ai_Spec obj) d) d (accept_decision env b d prov t)"
    using t assms(4,6,7) by (auto simp: accept_decision_def planned_def proposed_def undisturbed_def trusted_def set_cond_def
        setCondition_def Let_def split: option.split sum.split)
  moreover have "fetchDecision env (s, r) = ask_provider env b ctx t r"
    using assms(1,2) by (simp add: fetchDecision_def undecided_def undisturbed_def t_def ctx_def Let_def split: prod.split)
  moreover have "ask_provider env b ctx t r = (Inr None, accept_decision env b d prov t,
      r \<lparr>r_Router := snd (Decide (e_router env) obj req (r_Router r))\<rparr>)"
    using d by (simp add: ask_provider_def req_def)
  ultimately show ?thesis by (intro exI [of _ "accept_decision env b d prov t"] exI [of _ req]) simp
qed

section \<open>KEDA's recommendation\<close>

definition recommended :: "'q AIScalerSpec \<Rightarrow> Bundle \<Rightarrow> ScalingDecision \<Rightarrow> 'q reconcileState \<Rightarrow> bool" where
  "recommended spec b d s \<longleftrightarrow> undisturbed spec b None s \<and> x_reactiveDecision s = None \<and> x_llmDecision s = None
     \<and> x_deterministicDecision s = Some d \<and> spec_Precedence spec = None
     \<and> within_bounds (spec_Constraints spec) (sd_TargetReplicas d)"

interpretation recommended: settled_decision "\<lambda>spec b vd d s. vd = None \<and> recommended spec b d s"
proof (unfold_locales, goal_cases)
  case (2 spec b vd d s h c r e s')
  then show ?case using undisturbed_resolve [of spec b None s h c r e s'] by (simp add: recommended_def)
next
  case (3 spec b vd d s r e s')
  then show ?case using undisturbed_decision [of spec b None s d r e s'] by (simp add: recommended_def)
qed (simp_all add: recommended_def)

definition keda_on :: "'q AIScalerSpec \<Rightarrow> Bundle \<Rightarrow> bool" where
  "keda_on spec b \<longleftrightarrow> (case spec_KEDAIntegration spec of None \<Rightarrow> False | Some k \<Rightarrow> ki_Enabled k \<and> 0 <s b_KEDADesiredReplicas b)"

lemma notify_actuator [simp]: "r_VerticalActuator (notify env s x y z r) = r_VerticalActuator r"
  by (simp add: notify_def Let_def split: option.split)

lemma keda_answer_target: "sd_TargetReplicas (keda_answer b) = b_KEDADesiredReplicas b"
  by (simp add: keda_answer_def mk_decision_def)

text \<open>When the router fails, KEDA's recommendation is left, and the failure is notified.\<close>

lemma fallback_runs:
  assumes "undecided (ai_Spec obj) b s" and "reactive_decision b = None" and "\<not> AnyBreached (EvaluateSLOs (spec_SLOs (ai_Spec obj)) b)"
    and "spec_Precedence (ai_Spec obj) = None" and "keda_on (ai_Spec obj) b"
    and "\<And>req. fst (Decide (e_router env) obj req (r_Router r)) = Inl err"
    and "within_bounds (ai_Constraints obj) (b_KEDADesiredReplicas b)" and "calm env (ai_Spec obj) r"
  shows "\<exists>s' r'. fetchDecision env (s, r) = (Inr None, s', r') \<and> recommended (ai_Spec obj) b (keda_answer b) s'
    \<and> calm env (ai_Spec obj) r' \<and> r_patches r' = r_patches r \<and> r_statuses r' = r_statuses r
    \<and> r_VerticalActuator r' = r_VerticalActuator r"
proof -
  define t ctx where "t = fst (evaluate_objectives b (keda_decision b s))" and
    "ctx = snd (evaluate_objectives b (keda_decision b s))"
  define req where "req = scaling_request t b ctx"
  have obs: "\<not> AnyBreached (x_currentSLOs (keda_decision b s))"
    using assms(1) by (simp add: undecided_def undisturbed_def keda_decision_def split: option.split)
  have t: "undisturbed (ai_Spec obj) b None t" "x_reactiveDecision t = None" "x_llmDecision t = None" "x_spec t = ai_Spec obj"
      "x_deterministicDecision t = Some (keda_answer b)"
    using assms(1,3,5) obs by (auto simp: t_def undecided_def undisturbed_def keda_decision_def keda_on_def evaluate_objectives_def
        Let_def split: option.splits if_splits)
  have "Decide (e_router env) (x_obj t) req (r_Router r) = Decide (e_router env) obj req (r_Router r)"
    by (rule Decide_spec) (rule t(4))
  then obtain ro where d: "Decide (e_router env) (x_obj t) req (r_Router r) = (Inl err, ro)"
    using assms(6) [of req] by (metis prod.collapse)
  define s1 where "s1 = set_cond env ConditionLLMReady ''False'' ''DecisionFailed'' err t"
  define r1 where "r1 = notify env s1 EventLLMFailure SeverityWarning err (r \<lparr>r_Router := ro\<rparr>)"
  have "fetchDecision env (s, r) = ask_provider env b ctx t r"
    using assms(1,2) by (simp add: fetchDecision_def undecided_def undisturbed_def t_def ctx_def Let_def split: prod.split)
  moreover have "ask_provider env b ctx t r = (Inr None, s1, r1)"
    using d t(5) by (simp add: ask_provider_def req_def s1_def r1_def set_cond_def setCondition_def Let_def)
  moreover have "recommended (ai_Spec obj) b (keda_answer b) s1"
    using t assms(4,7) by (simp add: recommended_def keda_answer_target undisturbed_def s1_def set_cond_def setCondition_def)
  moreover have "calm env (ai_Spec obj) r1" "r_patches r1 = r_patches r" "r_statuses r1 = r_statuses r"
      "r_VerticalActuator r1 = r_VerticalActuator r"
    using assms(8) by (simp_all add: r1_def)
  ultimately show ?thesis by auto
qed

section \<open>The operator as it starts\<close>

text \<open>The reconciler of \<open>cmd/main.go\<close> is calm until its workloads give it reason not to be.\<close>

lemma start_calm:
  assumes "getenv ''OPENCOST_ENDPOINT'' = []" and "rollback_conditions spec = []" and "\<not> spec_RequireApproval spec"
    and "case spec_Approval spec of None \<Rightarrow> True | Some a \<Rightarrow> \<not> apc_Enabled a"
    and "\<not> 0 < op_ClusterMaxHourlyCost (cfg_Operator cfg)" and "\<not> isl (e_policies env)"
  shows "calm env spec (start_reconciler cfg http marshal getenv maps)"
  using assms by (simp add: calm_def start_reconciler_def Let_def NewOscillationDetector_def IsOscillating_def
      NewClusterCoordinator_def)

section \<open>Properties\<close>

text \<open>
  C8. The decision of the provider takes effect: while the subsystems raise nothing, with the default precedence,
  and no objective breached, when no rule fires and the router answers with a decision that is trusted
  and within the bounds, and what the validator makes of it is neither the observed count nor what the
  Deployment already has, the reconcile sends a patch for exactly the validated count, the provider's own when no
  directional policy is set and that is at most one step away, whatever KEDA recommends, and then only what the vertical actuator sends for
  the resources the decision proposes; it records the time of the scaling, asks to be called again after
  the evaluation interval, and has asked the router once.
\<close>

theorem provider_decision_scales:
  assumes "server_ok env" and "e_get env = Inr obj" and "ready env obj" and "calm env (ai_Spec obj) r"
    and "NewManager (e_plugins env) (spec_Signals (ai_Spec obj)) = Inr mgr"
    and "fst (manager_Collect (e_plugins env) obj mgr) = Inr b" and "frozen env b = None"
    and "reactive_decision b = None" and "\<not> AnyBreached (EvaluateSLOs (spec_SLOs (ai_Spec obj)) b)"
    and "resizable env obj (proposed env (ai_Spec obj) d)" and "spec_Precedence (ai_Spec obj) = None"
    and "\<And>req. fst (Decide (e_router env) obj req (r_Router r)) = Inr (d, prov)" and "trusted (ai_Spec obj) d"
    and "\<not> spec_DryRun (ai_Spec obj)"
    and "within_bounds (ai_Constraints obj) (sd_TargetReplicas d)"
    and "validated_count obj (b_CurrentReplicas b) d \<noteq> b_CurrentReplicas b"
    and "cl_get (e_client env) ''actuator.Apply'' ''Deployment'' (target_ns obj) (target_name obj) = Inr w"
    and "replicas_or_1 w \<noteq> validated_count obj (b_CurrentReplicas b) d" and "\<And>p. cl_patch (e_client env) p = None"
    and "\<And>ob. \<exists>ob'. e_status_update env ob = Inr ob'"
  shows "\<exists>p ob req. fst (Reconcile env r) = Inr (requeue_after (spec_EvaluationInterval (ai_Spec obj)))
    \<and> r_patches (snd (Reconcile env r)) = r_patches r @ p # resize_patches env obj (proposed env (ai_Spec obj) d) (r_VerticalActuator r)
    \<and> pt_Replicas p = Some (validated_count obj (b_CurrentReplicas b) d)
    \<and> (legal_step obj (b_CurrentReplicas b) d \<longrightarrow> pt_Replicas p = Some (sd_TargetReplicas d))
    \<and> r_Router (snd (Reconcile env r)) = snd (Decide (e_router env) obj req (r_Router r))
    \<and> r_statuses (snd (Reconcile env r)) = r_statuses r @ [ob]
    \<and> st_LastScaleTime (ai_Status ob) = Some (e_now env ''persistStatus'')"
proof -
  have "\<exists>s' r'. fetchDecision env (s, r \<lparr>r_Predictor := q\<rparr>) = (Inr None, s', r') \<and> planned (ai_Spec obj) b (proposed env (ai_Spec obj) d) d s'
      \<and> calm env (ai_Spec obj) r' \<and> r_patches r' = r_patches r \<and> r_statuses r' = r_statuses r
      \<and> r_VerticalActuator r' = r_VerticalActuator r \<and> (\<exists>req. r_Router r' = snd (Decide (e_router env) obj req (r_Router r)))"
    if "undecided (ai_Spec obj) b s" for s q
    using asked_runs [OF that assms(8,9,11), of env "r \<lparr>r_Predictor := q\<rparr>" d prov] assms(4,12,13,15)
    by force
  from planned.reconciled [where Q = "\<lambda>ro. \<exists>req. ro = snd (Decide (e_router env) obj req (r_Router r))",
      OF assms(1-7) this assms(14,16-20,10)]
  show ?thesis using validated_legal [OF assms(15)] by (metis (no_types, lifting))
qed

text \<open>A source that reports three replicas, and a provider that surely answers five, with more resources.\<close>

definition counting_plugin :: "nat SignalPlugin" where
  "counting_plugin = stub_plugin \<lparr>pg_Collect := (\<lambda>_ _ _ b. (None, b \<lparr>b_CurrentReplicas := 3\<rparr>, True))\<rparr>"

definition five :: ScalingDecision where
  "five = zero_ScalingDecision \<lparr>sd_TargetReplicas := 5, sd_Confidence := 1, sd_VerticalChanges := Some
     \<lparr>vp_CPURequest = ''250m'', vp_MemoryRequest = ''512Mi'', vp_CPULimit = [], vp_MemoryLimit = [], vp_ResizeStrategy = []\<rparr>\<rparr>"

definition asking_obj :: "nat AIScaler" where
  "asking_obj = stub_obj \<lparr>ai_Spec := (ai_Spec stub_obj) \<lparr>spec_LLM := zero_LLMConfig \<lparr>lc_Primary := ''ollama''\<rparr>,
     spec_VerticalScaling := Some (vertical_config ''InPlace'')\<rparr>\<rparr>"

definition asking_env :: "nat Env" where
  "asking_env = (plain_env 7 asking_obj)
     \<lparr>e_plugins := (builtin_env (sample_client 3) None) \<lparr>ge_registry := fmupd ''stub'' counting_plugin fmempty\<rparr>,
      e_router := (sample_env (\<lambda>_ _ _ _. Inr [''{}''])) \<lparr>re_unmarshal := (\<lambda>_. Inr five)\<rparr>\<rparr>"

lemma provider_decision_scales_witness:
  "\<exists>p c. r_patches (snd (Reconcile asking_env
      (start_reconciler sample_config (\<lambda>_. NoReply ''down'') (\<lambda>_. Inl ''none'') (\<lambda>_. []) fmempty))) = [p, c]
    \<and> pt_Replicas p = Some 5 \<and> pt_Replicas c = None"
proof -
  define i where "i = \<lparr>pi_plugin = counting_plugin, pi_secret = None, pi_config = fmempty, pi_required = True, pi_healthy = True\<rparr>"
  define b where "b = zero_Bundle \<lparr>b_CollectedAt := 7, b_CurrentReplicas := 3, b_SourceHealth := fmupd ''stub'' True fmempty\<rparr>"
  define r :: "nat Reconciler" where "r = start_reconciler sample_config (\<lambda>_. NoReply ''down'') (\<lambda>_. Inl ''none'') (\<lambda>_. []) fmempty"
  have spec: "ai_Spec asking_obj = (ai_Spec sample_obj) \<lparr>spec_LLM := zero_LLMConfig \<lparr>lc_Primary := ''ollama''\<rparr>,
     spec_VerticalScaling := Some (vertical_config ''InPlace''), spec_Signals := [\<lparr>ss_Name = ''stub'', ss_Required = True, ss_Config = fmempty, ss_SecretRef = None\<rparr>]\<rparr>"
    by (simp add: asking_obj_def stub_obj_def)
  have c: "sc_MinReplicas (ai_Constraints asking_obj) = 1" "sc_MaxReplicas (ai_Constraints asking_obj) = 10"
      "sc_MaxScaleStep (ai_Constraints asking_obj) = 3" "sc_MinConfidence (ai_Constraints asking_obj) = 0"
      "spec_DryRun (ai_Spec asking_obj) = False" "spec_SLOs (ai_Spec asking_obj) = []"
      "spec_VerticalScaling (ai_Spec asking_obj) = Some (vertical_config ''InPlace'')" "spec_Precedence (ai_Spec asking_obj) = None"
      "spec_Safety (ai_Spec asking_obj) = None" "spec_RequireApproval (ai_Spec asking_obj) = False"
      "spec_Approval (ai_Spec asking_obj) = None" "spec_LLM (ai_Spec asking_obj) = zero_LLMConfig \<lparr>lc_Primary := ''ollama''\<rparr>"
      "st_LastScaleTime (ai_Status asking_obj) = None" "ai_DeletionTimestamp asking_obj = None"
      "ai_Finalizers asking_obj = [finalizerName]"
    by (simp_all add: asking_obj_def stub_obj_def sample_obj_def with_constraints_def zero_defs)
  have e: "e_plugins asking_env = (builtin_env (sample_client 3) None) \<lparr>ge_registry := fmupd ''stub'' counting_plugin fmempty\<rparr>"
      "e_get asking_env = Inr asking_obj" "e_client asking_env = sample_client 3" "e_status_update asking_env = Inr"
      "server_ok asking_env" "\<And>x. e_now asking_env x = 7"
      "e_router asking_env = (sample_env (\<lambda>_ _ _ _. Inr [''{}''])) \<lparr>re_unmarshal := (\<lambda>_. Inr five)\<rparr>"
    by (simp_all add: asking_env_def plain_env_def server_ok_def)
  have unasked: "\<not> (0 :: float64) < 0" by (simp add: f_less_iff)
  have three: "replicas_or_1 (sample_workload 3) = 3" by (simp add: replicas_or_1_def sample_workload_def)
  have new: "NewManager (e_plugins asking_env) (spec_Signals (ai_Spec asking_obj)) = Inr [i]"
    by (simp add: spec e NewManager_def new_instance_def Get_plugin_def plugin_secret_def i_def counting_plugin_def stub_plugin_def)
  have coll: "fst (manager_Collect (e_plugins asking_env) asking_obj [i]) = Inr b"
    by (simp add: manager_Collect_def run_plugin_def i_def counting_plugin_def stub_plugin_def e b_def builtin_env_def zero_Bundle_def)
  have ask: "fst (Decide (e_router asking_env) asking_obj req (r_Router r)) = Inr (five, ''ollama'')" for req
    by (simp add: e c r_def start_reconciler_def start_router_def WithCircuitBreaker_def WithCache_def WithK8sClient_def
        NewCache_def NewCircuitBreaker_def cache_Get_def cb_Allow_def Decide_def cached_def NewRouter_def callProviderWithCB_def callProvider_def
        buildClient_def LLMProviderSettings_def sample_config_def sample_env_def zero_defs parseDecision_def five_def
        effectiveModelOverride_def secret_key_def Let_def)
  define vd :: "nat VerticalDecision" where "vd = \<lparr>vd_CPURequest = 4, vd_MemoryRequest = 5, vd_CPULimit = 0, vd_MemoryLimit = 0,
    vd_ResizeStrategy = ''InPlace''\<rparr>"
  have vd: "proposed asking_env (ai_Spec asking_obj) five = Some vd"
    by (simp add: proposed_def c five_def vertical_config_def buildVerticalDecision_def parse_optional_def nat_quantities_def
        asking_env_def plain_env_def vd_def)
  obtain x p2 where v: "vertical_Apply (e_quantities asking_env) (e_client asking_env) asking_obj vd = (Inr x, [p2])"
      "pt_Replicas p2 = None"
    by (simp add: vertical_Apply_def c e vertical_config_def ValidateVerticalChange_def nat_quantities_def asking_env_def
        plain_env_def vd_def sample_client_def sample_workload_def vertical_patch_def Let_def)
  have res: "resizable asking_env asking_obj (proposed asking_env (ai_Spec asking_obj) five)"
    by (simp add: vd resizable_def v)
  have calm: "calm asking_env (ai_Spec asking_obj) r"
    unfolding r_def by (rule start_calm)
      (simp_all add: c rollback_conditions_def sample_config_def unasked asking_env_def plain_env_def)
  have ok: "within_bounds (ai_Constraints asking_obj) (sd_TargetReplicas five)"
      "legal_step asking_obj (b_CurrentReplicas b) five"
    by (simp_all add: c has_direction_policy_def within_bounds_def legal_step_def five_def b_def)
  have five: "validated_count asking_obj 3 five = 5" "b_CurrentReplicas b = 3"
    using validated_legal [OF ok] by (simp_all add: five_def b_def)
  have "\<exists>p ob req. fst (Reconcile asking_env r) = Inr (requeue_after (spec_EvaluationInterval (ai_Spec asking_obj)))
    \<and> r_patches (snd (Reconcile asking_env r)) = r_patches r
        @ p # resize_patches asking_env asking_obj (proposed asking_env (ai_Spec asking_obj) five) (r_VerticalActuator r)
    \<and> pt_Replicas p = Some (validated_count asking_obj (b_CurrentReplicas b) five)
    \<and> (legal_step asking_obj (b_CurrentReplicas b) five \<longrightarrow> pt_Replicas p = Some (sd_TargetReplicas five))
    \<and> r_Router (snd (Reconcile asking_env r)) = snd (Decide (e_router asking_env) asking_obj req (r_Router r))
    \<and> r_statuses (snd (Reconcile asking_env r)) = r_statuses r @ [ob]
    \<and> st_LastScaleTime (ai_Status ob) = Some (e_now asking_env ''persistStatus'')"
    by (rule provider_decision_scales [where w = "sample_workload 3", OF e(5,2) _ calm new coll _ _ _ res _ ask _ _ ok(1)])
      (simp_all add: five c e ready_def being_deleted_def cooling_def ValidateSpec_None_iff frozen_def b_def zero_signal_defs
        trusted_def sample_client_def three reactive_decision_def zero_defs unasked)
  moreover have "r_patches r = []" "r_VerticalActuator r" by (simp_all add: r_def start_reconciler_def Let_def)
  moreover have "resize_patches asking_env asking_obj (proposed asking_env (ai_Spec asking_obj) five) True = [p2]"
    by (simp add: vd resize_patches_def v)
  ultimately show ?thesis
    using v(2) unfolding r_def [symmetric] by (auto simp: five)
qed

text \<open>
  C11. When the provider and its fallback fail, KEDA decides: under the same conditions a positive recommendation of
  KEDA within the bounds takes effect as far as the validator lets it, in full when no directional policy is
  set and it is at most one step away, and the failure does not fail the reconcile.
\<close>

theorem keda_fallback_scales:
  assumes "server_ok env" and "e_get env = Inr obj" and "ready env obj" and "calm env (ai_Spec obj) r"
    and "NewManager (e_plugins env) (spec_Signals (ai_Spec obj)) = Inr mgr"
    and "fst (manager_Collect (e_plugins env) obj mgr) = Inr b" and "frozen env b = None"
    and "reactive_decision b = None" and "\<not> AnyBreached (EvaluateSLOs (spec_SLOs (ai_Spec obj)) b)" and "spec_Precedence (ai_Spec obj) = None"
    and "keda_on (ai_Spec obj) b" and "\<And>req. fst (Decide (e_router env) obj req (r_Router r)) = Inl err"
    and "\<not> spec_DryRun (ai_Spec obj)"
    and "within_bounds (ai_Constraints obj) (b_KEDADesiredReplicas b)"
    and "validated_count obj (b_CurrentReplicas b) (keda_answer b) \<noteq> b_CurrentReplicas b"
    and "cl_get (e_client env) ''actuator.Apply'' ''Deployment'' (target_ns obj) (target_name obj) = Inr w"
    and "replicas_or_1 w \<noteq> validated_count obj (b_CurrentReplicas b) (keda_answer b)" and "\<And>p. cl_patch (e_client env) p = None"
    and "\<And>ob. \<exists>ob'. e_status_update env ob = Inr ob'"
  shows "\<exists>p. fst (Reconcile env r) = Inr (requeue_after (spec_EvaluationInterval (ai_Spec obj)))
    \<and> r_patches (snd (Reconcile env r)) = r_patches r @ [p]
    \<and> pt_Replicas p = Some (validated_count obj (b_CurrentReplicas b) (keda_answer b))
    \<and> (legal_step obj (b_CurrentReplicas b) (keda_answer b) \<longrightarrow> pt_Replicas p = Some (b_KEDADesiredReplicas b))"
proof -
  have "\<exists>s' r'. fetchDecision env (s, r \<lparr>r_Predictor := q\<rparr>) = (Inr None, s', r')
      \<and> ((None :: 'a VerticalDecision option) = None \<and> recommended (ai_Spec obj) b (keda_answer b) s')
      \<and> calm env (ai_Spec obj) r' \<and> r_patches r' = r_patches r \<and> r_statuses r' = r_statuses r
      \<and> r_VerticalActuator r' = r_VerticalActuator r \<and> True"
    if "undecided (ai_Spec obj) b s" for s q
    using fallback_runs [OF that assms(8-11), of env "r \<lparr>r_Predictor := q\<rparr>" err] assms(4,12,14)
    by force
  from recommended.reconciled [where Q = "\<lambda>_. True", OF assms(1-7) this assms(13,15-19)]
  show ?thesis using validated_legal [of obj "keda_answer b" "b_CurrentReplicas b"] assms(14)
    by (auto simp: keda_answer_target resizable_def resize_patches_def)
qed

text \<open>The same source with a recommendation of KEDA two steps away, and a provider that is down.\<close>

definition keda_source :: "nat SignalPlugin" where
  "keda_source = stub_plugin \<lparr>pg_Collect := (\<lambda>_ _ _ b. (None, b \<lparr>b_CurrentReplicas := 3, b_KEDADesiredReplicas := 9\<rparr>, True))\<rparr>"

definition keda_obj :: "nat AIScaler" where
  "keda_obj = stub_obj \<lparr>ai_Spec := (ai_Spec asking_obj) \<lparr>spec_KEDAIntegration :=
     Some \<lparr>ki_Enabled = True, ki_ScaledObjectRef = spec_TargetRef (ai_Spec asking_obj), ki_Mode = []\<rparr>\<rparr>\<rparr>"

definition keda_env :: "nat Env" where
  "keda_env = (plain_env 7 keda_obj) \<lparr>e_plugins := (builtin_env (sample_client 3) None)
     \<lparr>ge_registry := fmupd ''stub'' keda_source fmempty\<rparr>\<rparr>"

lemma keda_fallback_scales_witness:
  "\<exists>p. r_patches (snd (Reconcile keda_env (bare_reconciler \<lparr>r_Coordinator := None\<rparr>))) = [p] \<and> pt_Replicas p = Some 6"
proof -
  define i where "i = \<lparr>pi_plugin = keda_source, pi_secret = None, pi_config = fmempty, pi_required = True, pi_healthy = True\<rparr>"
  define b where "b = zero_Bundle \<lparr>b_CollectedAt := 7, b_CurrentReplicas := 3, b_KEDADesiredReplicas := 9,
    b_SourceHealth := fmupd ''stub'' True fmempty\<rparr>"
  define r where "r = bare_reconciler \<lparr>r_Coordinator := None\<rparr>"
  have spec: "ai_Spec keda_obj = (ai_Spec asking_obj) \<lparr>spec_KEDAIntegration :=
     Some \<lparr>ki_Enabled = True, ki_ScaledObjectRef = spec_TargetRef (ai_Spec asking_obj), ki_Mode = []\<rparr>\<rparr>"
    by (simp add: keda_obj_def)
  have signals: "spec_Signals (ai_Spec keda_obj) = [\<lparr>ss_Name = ''stub'', ss_Required = True, ss_Config = fmempty, ss_SecretRef = None\<rparr>]"
    by (simp add: spec asking_obj_def stub_obj_def)
  have c: "sc_MinReplicas (ai_Constraints keda_obj) = 1" "sc_MaxReplicas (ai_Constraints keda_obj) = 10"
      "sc_MaxScaleStep (ai_Constraints keda_obj) = 3"
      "spec_DryRun (ai_Spec keda_obj) = False" "spec_SLOs (ai_Spec keda_obj) = []"
      "spec_Precedence (ai_Spec keda_obj) = None" "spec_Safety (ai_Spec keda_obj) = None"
      "spec_LLM (ai_Spec keda_obj) = zero_LLMConfig \<lparr>lc_Primary := ''ollama''\<rparr>"
      "st_LastScaleTime (ai_Status keda_obj) = None" "ai_DeletionTimestamp keda_obj = None"
      "ai_Finalizers keda_obj = [finalizerName]"
    by (simp_all add: keda_obj_def asking_obj_def stub_obj_def sample_obj_def with_constraints_def zero_defs)
  have e: "e_plugins keda_env = (builtin_env (sample_client 3) None) \<lparr>ge_registry := fmupd ''stub'' keda_source fmempty\<rparr>"
      "e_get keda_env = Inr keda_obj" "e_client keda_env = sample_client 3" "e_status_update keda_env = Inr"
      "server_ok keda_env" "\<And>x. e_now keda_env x = 7" "e_router keda_env = sample_env (\<lambda>_ _ _ _. Inl ''down'')"
    by (simp_all add: keda_env_def plain_env_def server_ok_def)
  have three: "replicas_or_1 (sample_workload 3) = 3" by (simp add: replicas_or_1_def sample_workload_def)
  have new: "NewManager (e_plugins keda_env) (spec_Signals (ai_Spec keda_obj)) = Inr [i]"
    by (simp add: signals e NewManager_def new_instance_def Get_plugin_def plugin_secret_def i_def keda_source_def stub_plugin_def)
  have coll: "fst (manager_Collect (e_plugins keda_env) keda_obj [i]) = Inr b"
    by (simp add: manager_Collect_def run_plugin_def i_def keda_source_def stub_plugin_def e b_def builtin_env_def zero_Bundle_def)
  have on: "keda_on (ai_Spec keda_obj) b" by (simp add: keda_on_def spec b_def sless_sint)
  obtain err where ask: "\<And>req. fst (Decide (e_router keda_env) keda_obj req (r_Router r)) = Inl err"
    by (simp add: e c r_def bare_reconciler_def Decide_def cached_def NewRouter_def callProviderWithCB_def callProvider_def
        buildClient_def LLMProviderSettings_def sample_config_def sample_env_def zero_defs effectiveModelOverride_def
        secret_key_def Let_def)
  have fields: "b_CurrentReplicas b = 3" "b_KEDADesiredReplicas b = 9" "b_Annotations b = zero_AnnotationSignals"
    by (simp_all add: b_def zero_Bundle_def)
  have six: "validated_count keda_obj 3 (keda_answer b) = 6"
    by (simp add: validated_count_def validate_guard_def Validate_replicas keda_answer_target c has_direction_policy_def
        step_in_range_def clamp32_def b_def sless_sint)
  have "\<exists>p. fst (Reconcile keda_env r) = Inr (requeue_after (spec_EvaluationInterval (ai_Spec keda_obj)))
    \<and> r_patches (snd (Reconcile keda_env r)) = r_patches r @ [p]
    \<and> pt_Replicas p = Some (validated_count keda_obj (b_CurrentReplicas b) (keda_answer b))
    \<and> (legal_step keda_obj (b_CurrentReplicas b) (keda_answer b) \<longrightarrow> pt_Replicas p = Some (b_KEDADesiredReplicas b))"
    by (rule keda_fallback_scales [where w = "sample_workload 3", OF e(5,2) _ _ new coll _ _ _ _ on ask])
      (simp_all add: six fields c e ready_def being_deleted_def cooling_def ValidateSpec_None_iff calm_def r_def bare_reconciler_def
        frozen_def has_direction_policy_def within_bounds_def sample_client_def three reactive_decision_def zero_defs zero_AnnotationSignals_def)
  then show ?thesis using six by (auto simp: r_def bare_reconciler_def b_def)
qed

end
