(* ===== verification/Plugin_Config.thy ===== *)
theory Plugin_Config
  imports Plugin_Manager Http_Exchange
begin

text \<open>
  What the signal plugins of \<open>internal/plugin/builtin\<close> and \<open>internal/plugin/external\<close> share: reading
  a configuration entry, reporting a missing one, writing a custom signal, and the packaging of a
  plugin from its \<open>Init\<close> and its \<open>Collect\<close>.
\<close>

section \<open>Configuration entries\<close>

type_synonym plugin_cfg = "(string, string) fmap"

text \<open>A Go map lookup yields the empty string for a missing key.\<close>

definition cfg_entry :: "plugin_cfg \<Rightarrow> string \<Rightarrow> string" where
  "cfg_entry cfg k = (case fmlookup cfg k of Some v \<Rightarrow> v | None \<Rightarrow> [])"

definition cfg_or :: "plugin_cfg \<Rightarrow> string \<Rightarrow> string \<Rightarrow> string" where
  "cfg_or cfg k d = (if cfg_entry cfg k = [] then d else cfg_entry cfg k)"

definition requires_config :: "string \<Rightarrow> string \<Rightarrow> string" where
  "requires_config plugin k = plugin @ '' plugin requires '' @ [CHR 0x27] @ k @ [CHR 0x27] @ '' config''"

text \<open>The first required entry that is missing.\<close>

fun missing_entry :: "plugin_cfg \<Rightarrow> string list \<Rightarrow> string option" where
  "missing_entry cfg [] = None"
| "missing_entry cfg (k # ks) = (if cfg_entry cfg k = [] then Some k else missing_entry cfg ks)"

definition timeout_entry :: "plugin_cfg \<Rightarrow> duration \<Rightarrow> duration" where
  "timeout_entry cfg d = (case fmlookup cfg ''timeoutSeconds'' of
     None \<Rightarrow> d
   | Some v \<Rightarrow> (case Atoi v of None \<Rightarrow> d | Some secs \<Rightarrow> seconds secs))"

section \<open>Signals\<close>

text \<open>The bundle of the manager always has the map of custom signals.\<close>

definition set_custom :: "string \<Rightarrow> float64 \<Rightarrow> Bundle \<Rightarrow> Bundle" where
  "set_custom k v b = b \<lparr>b_CustomSignals := fmupd k v (b_CustomSignals b)\<rparr>"

lemma set_custom_simps [simp]:
  "b_SourceHealth (set_custom k v b) = b_SourceHealth b"
  "b_CollectedAt (set_custom k v b) = b_CollectedAt b"
  "b_QueueDepth (set_custom k v b) = b_QueueDepth b"
  "b_CustomSignals (set_custom k v b) = fmupd k v (b_CustomSignals b)"
  by (simp_all add: set_custom_def)

section \<open>A plugin from its two methods\<close>

text \<open>
  \<open>Init\<close> builds the fields of the plugin's struct from the secret (\<open>SetSecretData\<close> runs before it) and
  the configuration.  The manager is built anew for every reconcile and collects once, so \<open>Collect\<close>
  always runs on the struct as \<open>Init\<close> left it, with its field \<open>healthy\<close> set.
\<close>

definition plugin_of :: "string \<Rightarrow> bool \<Rightarrow> bool \<Rightarrow> (secret_data option \<Rightarrow> plugin_cfg \<Rightarrow> go_error + 'p)
    \<Rightarrow> ('p \<Rightarrow> 'q AIScaler \<Rightarrow> Bundle \<Rightarrow> go_error option \<times> Bundle \<times> bool) \<Rightarrow> 'q SignalPlugin" where
  "plugin_of n k8s secrets init collect = \<lparr>pg_Name = n, pg_k8sAware = k8s, pg_secretReader = secrets,
     pg_Init = (\<lambda>secret cfg. case init secret cfg of Inl e \<Rightarrow> Some e | Inr _ \<Rightarrow> None),
     pg_Collect = (\<lambda>secret cfg policy b. case init secret cfg of
         Inl e \<Rightarrow> (Some e, b, False) | Inr p \<Rightarrow> collect p policy b)\<rparr>"

definition secret_entry :: "secret_data option \<Rightarrow> string \<Rightarrow> string" where
  "secret_entry secret k = (case secret of None \<Rightarrow> [] | Some d \<Rightarrow> cfg_entry d k)"

lemma plugin_of_signal_plugin:
  assumes "\<And>p. signal_plugin (collect p)"
  shows "signal_plugin (pg_Collect (plugin_of n k8s secrets init collect) secret cfg)"
  using assms by (auto simp: plugin_of_def signal_plugin_def split: sum.splits)

text \<open>A plugin whose required entries are all there, or the error of the first one missing.\<close>

definition with_required :: "string \<Rightarrow> plugin_cfg \<Rightarrow> string list \<Rightarrow> 'p \<Rightarrow> go_error + 'p" where
  "with_required plugin cfg ks p = (case missing_entry cfg ks of
     Some k \<Rightarrow> Inl (requires_config plugin k) | None \<Rightarrow> Inr p)"

end
