(* ===== verification/Prometheus_Plugin.thy ===== *)
theory Prometheus_Plugin
  imports Plugin_Config
begin

text \<open>
  The plugin of \<open>internal/plugin/builtin/prometheus.go\<close>: three core queries, whose failure fails the
  collection, and named custom queries, whose failure does not.  The exchange, the decoders and the
  order in which the map of custom queries is walked are parameters.
\<close>

section \<open>The plugin\<close>

record prometheusPlugin =
  pm_baseURL :: string
  pm_p95LatencyQuery :: string
  pm_errorRateQuery :: string
  pm_queueDepthQuery :: string
  pm_customQueries :: "(string, string) fmap"
  pm_timeout :: duration
  pm_bearerToken :: string
  pm_tlsSkipVerify :: bool

text \<open>Of the envelope only the status and the two cells of every sample are read.\<close>

record prometheusResponse =
  pr_Status :: string
  pr_Result :: "(json \<times> json) list"

record PrometheusEnv =
  pe_http :: transport
  pe_decode :: "http_body \<Rightarrow> go_error + prometheusResponse"
  pe_parse :: float_parser
  pe_unmarshal :: "string \<Rightarrow> go_error + (string, string) fmap"
  pe_order :: "(string, string) fmap \<Rightarrow> (string \<times> string) list"

definition custom_queries_entry :: "PrometheusEnv \<Rightarrow> plugin_cfg \<Rightarrow> go_error + (string, string) fmap" where
  "custom_queries_entry env cfg = (if cfg_entry cfg ''customQueries'' = [] then Inr fmempty
     else (case pe_unmarshal env (cfg_entry cfg ''customQueries'') of
         Inl e \<Rightarrow> Inl (''invalid customQueries JSON: '' @ e) | Inr m \<Rightarrow> Inr m))"

definition prometheus_Init :: "PrometheusEnv \<Rightarrow> secret_data option \<Rightarrow> plugin_cfg \<Rightarrow> go_error + prometheusPlugin" where
  "prometheus_Init env secret cfg = (if cfg_entry cfg ''baseURL'' = []
     then Inl (requires_config ''prometheus'' ''baseURL'')
     else (case custom_queries_entry env cfg of
         Inl e \<Rightarrow> Inl e
       | Inr queries \<Rightarrow> Inr
           \<lparr>pm_baseURL = cfg_entry cfg ''baseURL'',
            pm_p95LatencyQuery = cfg_entry cfg ''p95LatencyQuery'',
            pm_errorRateQuery = cfg_entry cfg ''errorRateQuery'',
            pm_queueDepthQuery = cfg_entry cfg ''queueDepthQuery'',
            pm_customQueries = queries,
            pm_timeout = timeout_entry cfg (10 * second),
            pm_bearerToken = cfg_entry cfg ''bearerToken'',
            pm_tlsSkipVerify = (cfg_entry cfg ''tlsInsecureSkipVerify'' = ''true'')\<rparr>))"

text \<open>
  \<open>strings.NewReplacer\<close> looks for its keys from left to right and does not read what it wrote.
\<close>

abbreviation namespace_var :: string where "namespace_var \<equiv> ''{{namespace}}''"
abbreviation deployment_var :: string where "deployment_var \<equiv> ''{{deployment}}''"

function replace_vars :: "string \<Rightarrow> string \<Rightarrow> string \<Rightarrow> string" where
  "replace_vars ns dep q = (case q of [] \<Rightarrow> [] | c # cs \<Rightarrow>
     (if prefix namespace_var q then ns @ replace_vars ns dep (drop 13 q)
      else if prefix deployment_var q then dep @ replace_vars ns dep (drop 14 q)
      else c # replace_vars ns dep cs))"
  by pat_completeness auto
termination by (relation "measure (\<lambda>(_, _, q). length q)") auto

declare replace_vars.simps [simp del]

definition expandVars :: "string \<Rightarrow> 'q AIScaler \<Rightarrow> string" where
  "expandVars query policy = replace_vars (target_ns policy) (target_name policy) query"

definition query_request :: "prometheusPlugin \<Rightarrow> string \<Rightarrow> http_request" where
  "query_request p promql = bearer (pm_bearerToken p)
     ((get_request (pm_baseURL p @ ''/api/v1/query'' @ ''?'' @ encode_query [(''query'', promql)]) (pm_timeout p))
        \<lparr>hq_SkipVerify := pm_tlsSkipVerify p\<rparr>)"

definition sample_value :: "PrometheusEnv \<Rightarrow> prometheusResponse \<Rightarrow> go_error + float64" where
  "sample_value env r = (if pr_Status r \<noteq> ''success''
     then Inl (''prometheus returned status '' @ go_quote (pr_Status r))
     else (case pr_Result r of
         [] \<Rightarrow> Inr 0
       | (_, v) # _ \<Rightarrow> (case v of
           JStr raw \<Rightarrow> ParseFloat (pe_parse env) raw
         | _ \<Rightarrow> Inl ''unexpected value type in prometheus response'')))"

definition prometheus_query :: "PrometheusEnv \<Rightarrow> prometheusPlugin \<Rightarrow> string \<Rightarrow> go_error + float64" where
  "prometheus_query env p promql = (case pe_http env (query_request p promql) of
     NoRequest e \<Rightarrow> Inl e
   | NoReply e \<Rightarrow> Inl e
   | Reply status body \<Rightarrow> (case pe_decode env body of
       Inl e \<Rightarrow> Inl (''failed to decode prometheus response: '' @ e)
     | Inr r \<Rightarrow> sample_value env r))"

text \<open>One of the three core queries: skipped when it is not configured.\<close>

definition core_query :: "PrometheusEnv \<Rightarrow> prometheusPlugin \<Rightarrow> 'q AIScaler \<Rightarrow> string \<Rightarrow> string
    \<Rightarrow> (float64 \<Rightarrow> Bundle \<Rightarrow> Bundle) \<Rightarrow> Bundle \<Rightarrow> go_error + Bundle" where
  "core_query env p policy what q store b = (if q = [] then Inr b
     else (case prometheus_query env p (expandVars q policy) of
         Inl e \<Rightarrow> Inl (what @ '' query failed: '' @ e)
       | Inr v \<Rightarrow> Inr (store v b)))"

fun custom_queries :: "PrometheusEnv \<Rightarrow> prometheusPlugin \<Rightarrow> 'q AIScaler \<Rightarrow> (string \<times> string) list
    \<Rightarrow> Bundle \<Rightarrow> Bundle" where
  "custom_queries env p policy [] b = b"
| "custom_queries env p policy ((k, promql) # qs) b =
     (case prometheus_query env p (expandVars promql policy) of
        Inl _ \<Rightarrow> custom_queries env p policy qs b
      | Inr v \<Rightarrow> custom_queries env p policy qs (set_custom k v b))"

definition prometheus_Collect :: "PrometheusEnv \<Rightarrow> prometheusPlugin \<Rightarrow> 'q AIScaler \<Rightarrow> Bundle
    \<Rightarrow> go_error option \<times> Bundle \<times> bool" where
  "prometheus_Collect env p policy b0 =
     (case core_query env p policy ''p95 latency'' (pm_p95LatencyQuery p) (\<lambda>v b. b \<lparr>b_P95LatencyMs := v\<rparr>) b0 of
        Inl e \<Rightarrow> (Some e, b0, False)
      | Inr b1 \<Rightarrow>
     (case core_query env p policy ''error rate'' (pm_errorRateQuery p) (\<lambda>v b. b \<lparr>b_ErrorRate := v\<rparr>) b1 of
        Inl e \<Rightarrow> (Some e, b1, False)
      | Inr b2 \<Rightarrow>
     (case core_query env p policy ''queue depth'' (pm_queueDepthQuery p) (\<lambda>v b. b \<lparr>b_QueueDepth := v\<rparr>) b2 of
        Inl e \<Rightarrow> (Some e, b2, False)
      | Inr b3 \<Rightarrow> (None, custom_queries env p policy (pe_order env (pm_customQueries p)) b3, True))))"

definition prometheus_plugin :: "PrometheusEnv \<Rightarrow> 'q SignalPlugin" where
  "prometheus_plugin env = plugin_of ''prometheus'' False False (prometheus_Init env) (prometheus_Collect env)"

section \<open>Lemmas\<close>

lemma core_query_keeps:
  assumes "core_query env p policy what q store b = Inr b'"
    and "\<And>v b. b_SourceHealth (store v b) = b_SourceHealth b" "\<And>v b. b_CollectedAt (store v b) = b_CollectedAt b"
  shows "b_SourceHealth b' = b_SourceHealth b \<and> b_CollectedAt b' = b_CollectedAt b"
  using assms by (auto simp: core_query_def split: if_splits sum.splits)

lemma custom_queries_keeps [simp]:
  "b_SourceHealth (custom_queries env p policy qs b) = b_SourceHealth b"
  "b_CollectedAt (custom_queries env p policy qs b) = b_CollectedAt b"
  "b_P95LatencyMs (custom_queries env p policy qs b) = b_P95LatencyMs b"
  "b_ErrorRate (custom_queries env p policy qs b) = b_ErrorRate b"
  "b_QueueDepth (custom_queries env p policy qs b) = b_QueueDepth b"
  by (induction env p policy qs b rule: custom_queries.induct) (auto simp: set_custom_def split: sum.splits)

lemma prometheus_signal_plugin: "signal_plugin (prometheus_Collect env p)"
  by unfold_locales (auto simp: prometheus_Collect_def dest!: core_query_keeps split: sum.splits)

interpretation prom: signal_plugin "prometheus_Collect env p" for env p
  by (rule prometheus_signal_plugin)

text \<open>A query as a template: literal text without an opening brace, and the two variables.\<close>

datatype template_part = Literal string | NamespaceVar | DeploymentVar

fun template_text :: "template_part list \<Rightarrow> string" where
  "template_text [] = []"
| "template_text (Literal s # ts) = s @ template_text ts"
| "template_text (NamespaceVar # ts) = namespace_var @ template_text ts"
| "template_text (DeploymentVar # ts) = deployment_var @ template_text ts"

fun instantiate :: "string \<Rightarrow> string \<Rightarrow> template_part list \<Rightarrow> string" where
  "instantiate ns dep [] = []"
| "instantiate ns dep (Literal s # ts) = s @ instantiate ns dep ts"
| "instantiate ns dep (NamespaceVar # ts) = ns @ instantiate ns dep ts"
| "instantiate ns dep (DeploymentVar # ts) = dep @ instantiate ns dep ts"

definition plain_literals :: "template_part list \<Rightarrow> bool" where
  "plain_literals = list_all (\<lambda>t. case t of Literal s \<Rightarrow> CHR ''{'' \<notin> set s | _ \<Rightarrow> True)"

lemma replace_literal: "CHR ''{'' \<notin> set s \<Longrightarrow> replace_vars ns dep (s @ q) = s @ replace_vars ns dep q"
  by (induction s) (auto simp: replace_vars.simps [of ns dep "_ # _"])

lemma replace_var:
  "replace_vars ns dep (namespace_var @ q) = ns @ replace_vars ns dep q"
  "replace_vars ns dep (deployment_var @ q) = dep @ replace_vars ns dep q"
  by (simp_all add: replace_vars.simps [of ns dep "_ # _"])

lemma replace_template:
  "plain_literals ts \<Longrightarrow> replace_vars ns dep (template_text ts) = instantiate ns dep ts"
proof (induction ts)
  case Nil
  then show ?case by (simp add: replace_vars.simps)
next
  case (Cons t ts)
  then show ?case by (cases t) (auto simp: plain_literals_def replace_literal replace_var simp del: append_Cons)
qed

text \<open>What the endpoint says to a configured query, the variables replaced.\<close>

definition answer :: "PrometheusEnv \<Rightarrow> prometheusPlugin \<Rightarrow> 'q AIScaler \<Rightarrow> string \<Rightarrow> go_error + float64" where
  "answer env p policy q = prometheus_query env p (expandVars q policy)"

definition core_value :: "PrometheusEnv \<Rightarrow> prometheusPlugin \<Rightarrow> 'q AIScaler \<Rightarrow> string \<Rightarrow> float64 \<Rightarrow> float64" where
  "core_value env p policy q old = (if q = [] then old else (case answer env p policy q of Inl _ \<Rightarrow> old | Inr v \<Rightarrow> v))"

definition answered :: "PrometheusEnv \<Rightarrow> prometheusPlugin \<Rightarrow> 'q AIScaler \<Rightarrow> string \<Rightarrow> bool" where
  "answered env p policy q = (q = [] \<or> \<not> isl (answer env p policy q))"

lemma core_query_cases:
  "core_query env p policy what q store b = (if answered env p policy q
     then Inr (if q = [] then b else store (projr (answer env p policy q)) b)
     else Inl (what @ '' query failed: '' @ projl (answer env p policy q)))"
  by (auto simp: core_query_def answered_def answer_def split: sum.split)

lemma core_value_answered:
  "answered env p policy q \<Longrightarrow> core_value env p policy q old = (if q = [] then old else projr (answer env p policy q))"
  by (auto simp: core_value_def answered_def split: sum.split)

lemma custom_queries_lookup:
  "distinct (List.map fst qs) \<Longrightarrow> fmlookup (b_CustomSignals (custom_queries env p policy qs b)) k =
     (case map_of qs k of None \<Rightarrow> fmlookup (b_CustomSignals b) k
      | Some q \<Rightarrow> (case answer env p policy q of Inl _ \<Rightarrow> fmlookup (b_CustomSignals b) k | Inr v \<Rightarrow> Some v))"
proof (induction env p policy qs b rule: custom_queries.induct)
  case (2 env p policy n q qs b)
  have "map_of qs n = None" if "distinct (n # List.map fst qs)"
    using that by (simp add: map_of_eq_None_iff)
  then show ?case
    using 2 by (auto simp: answer_def split: sum.splits option.splits)
qed simp

section \<open>Properties\<close>

text \<open>
  C38. Collecting from Prometheus succeeds exactly when every core query that is configured is answered with a
  number; then each core signal is the answer of its query (the old value when the query is not
  configured), and a custom signal is the answer of its query, or keeps its old value when the query
  fails, in whatever order the map of custom queries is walked.
\<close>

theorem prometheus_Collect_outcome:
  assumes "prometheus_Collect env p policy b = (err, b', healthy)"
    and "distinct (List.map fst (pe_order env (pm_customQueries p)))"
    and "map_of (pe_order env (pm_customQueries p)) = fmlookup (pm_customQueries p)"
  shows "(err = None \<longleftrightarrow> list_all (answered env p policy)
         [pm_p95LatencyQuery p, pm_errorRateQuery p, pm_queueDepthQuery p])
     \<and> (healthy \<longleftrightarrow> err = None)
     \<and> (err = None \<longrightarrow> b_P95LatencyMs b' = core_value env p policy (pm_p95LatencyQuery p) (b_P95LatencyMs b)
         \<and> b_ErrorRate b' = core_value env p policy (pm_errorRateQuery p) (b_ErrorRate b)
         \<and> b_QueueDepth b' = core_value env p policy (pm_queueDepthQuery p) (b_QueueDepth b)
         \<and> fmlookup (b_CustomSignals b') k = (case fmlookup (pm_customQueries p) k of
             None \<Rightarrow> fmlookup (b_CustomSignals b) k
           | Some q \<Rightarrow> (case answer env p policy q of Inl _ \<Rightarrow> fmlookup (b_CustomSignals b) k | Inr v \<Rightarrow> Some v)))"
  using assms by (auto simp: prometheus_Collect_def core_query_cases core_value_answered custom_queries_lookup
      cong: option.case_cong sum.case_cong split: if_splits)

definition up_env :: PrometheusEnv where
  "up_env = \<lparr>pe_http = (\<lambda>q. if hq_URL q = ''http://prom/api/v1/query?query=up'' then Reply 200 (Body ''1'') else NoReply ''refused''),
     pe_decode = (\<lambda>_. Inr \<lparr>pr_Status = ''success'', pr_Result = [(JNull, JStr ''1'')]\<rparr>),
     pe_parse = (\<lambda>_. (1, None)), pe_unmarshal = (\<lambda>_. Inr fmempty),
     pe_order = (\<lambda>_. [(''x'', ''down'')])\<rparr>"

definition up_plugin :: prometheusPlugin where
  "up_plugin = \<lparr>pm_baseURL = ''http://prom'', pm_p95LatencyQuery = [], pm_errorRateQuery = [], pm_queueDepthQuery = ''up'',
     pm_customQueries = fmupd ''x'' ''down'' fmempty, pm_timeout = second, pm_bearerToken = [], pm_tlsSkipVerify = False\<rparr>"

lemma prometheus_Collect_outcome_witness:
  "\<exists>b'. prometheus_Collect up_env up_plugin (zero_AIScaler :: nat AIScaler) zero_Bundle = (None, b', True)
    \<and> b_QueueDepth b' = 1 \<and> fmlookup (b_CustomSignals b') ''x'' = None"
proof -
  obtain err b' h where run: "prometheus_Collect up_env up_plugin (zero_AIScaler :: nat AIScaler) zero_Bundle = (err, b', h)"
    by (metis prod_cases3)
  have order: "pe_order up_env (pm_customQueries up_plugin) = [(''x'', ''down'')]"
    by (simp add: up_env_def)
  have "distinct (List.map fst (pe_order up_env (pm_customQueries up_plugin)))"
    "map_of (pe_order up_env (pm_customQueries up_plugin)) = fmlookup (pm_customQueries up_plugin)"
    unfolding order by (simp_all add: up_plugin_def fun_eq_iff)
  note outcome = prometheus_Collect_outcome [OF run this, of "''x''"]
  have escape: "QueryEscape ''up'' = ''up''" "QueryEscape ''down'' = ''down''" "QueryEscape ''query'' = ''query''" by code_simp+
  have vars: "expandVars ''up'' (zero_AIScaler :: nat AIScaler) = ''up''" "expandVars ''down'' (zero_AIScaler :: nat AIScaler) = ''down''"
    unfolding expandVars_def by (simp_all add: replace_vars.simps)
  have up: "answer up_env up_plugin (zero_AIScaler :: nat AIScaler) ''up'' = Inr 1"
    "\<exists>e. answer up_env up_plugin (zero_AIScaler :: nat AIScaler) ''down'' = Inl e"
    by (simp_all add: answer_def vars prometheus_query_def query_request_def bearer_def get_request_def encode_query_def
        escape up_env_def up_plugin_def sample_value_def ParseFloat_def)
  have f: "pm_p95LatencyQuery up_plugin = []" "pm_errorRateQuery up_plugin = []" "pm_queueDepthQuery up_plugin = ''up''"
    "pm_customQueries up_plugin = fmupd ''x'' ''down'' fmempty" by (simp_all add: up_plugin_def)
  have ok: "err = None" "h" using outcome up(1) by (simp_all add: answered_def f)
  have "b_QueueDepth b' = 1" using outcome ok up(1) by (simp add: core_value_def f)
  moreover have "fmlookup (b_CustomSignals b') ''x'' = None"
    using outcome ok up(2) by (auto simp: f zero_Bundle_def)
  ultimately show ?thesis using run ok by simp
qed

text \<open>
  The variables of a query are replaced as in a template: where the literal text has no opening brace, the
  expansion puts the target's namespace and name for the variables and leaves the text alone.
\<close>

theorem expandVars_template:
  assumes "plain_literals ts"
  shows "expandVars (template_text ts) policy = instantiate (target_ns policy) (target_name policy) ts"
  using assms by (simp add: expandVars_def replace_template)

lemma expandVars_template_witness:
  "expandVars ''up{ns={{namespace}}}'' (zero_AIScaler :: nat AIScaler) \<noteq> [] \<and> expandVars ''a.{{namespace}}/{{deployment}}'' (zero_AIScaler :: nat AIScaler) = ''a./''"
proof -
  have "plain_literals [Literal ''a.'', NamespaceVar, Literal ''/'', DeploymentVar]" by (simp add: plain_literals_def)
  from expandVars_template [OF this, of "zero_AIScaler :: nat AIScaler"]
  have "expandVars ''a.{{namespace}}/{{deployment}}'' (zero_AIScaler :: nat AIScaler) = ''a./''"
    by (simp add: zero_defs)
  moreover have "expandVars ''up{ns={{namespace}}}'' (zero_AIScaler :: nat AIScaler) \<noteq> []"
    unfolding expandVars_def by (simp add: replace_vars.simps)
  ultimately show ?thesis by simp
qed

end
