(* ===== verification/Http_Plugins.thy ===== *)
theory Http_Plugins
  imports Plugin_Config
begin

text \<open>
  The plugins of \<open>internal/plugin/external\<close> that read one HTTP endpoint: \<open>webhook.go\<close>, \<open>datadog.go\<close>,
  \<open>opencost.go\<close>, and \<open>gcp_monitoring.go\<close> and \<open>gcp_pubsub.go\<close> with \<open>gcp_common.go\<close>.  The exchanges, the
  decoders, the credentials and the formatting of times are parameters.
\<close>

abbreviation dquote :: string where "dquote \<equiv> [CHR 0x22]"

section \<open>Webhook\<close>

record webhookPlugin =
  wh_url :: string
  wh_responseField :: string
  wh_method :: string
  wh_timeout :: duration
  wh_bearerToken :: string
  wh_healthy :: bool

record WebhookEnv =
  we_http :: transport
  we_unmarshal :: "string \<Rightarrow> go_error + (string, json) fmap"
  we_parse :: float_parser

definition webhook_Init :: "secret_data option \<Rightarrow> plugin_cfg \<Rightarrow> go_error + webhookPlugin" where
  "webhook_Init secret cfg = with_required ''webhook'' cfg [''url'', ''responseField'']
     \<lparr>wh_url = cfg_entry cfg ''url'', wh_responseField = cfg_entry cfg ''responseField'',
      wh_method = cfg_or cfg ''method'' ''GET'', wh_timeout = timeout_entry cfg (5 * second),
      wh_bearerToken = secret_entry secret ''bearer-token'', wh_healthy = True\<rparr>"

definition webhook_number :: "WebhookEnv \<Rightarrow> string \<Rightarrow> json \<Rightarrow> go_error + float64" where
  "webhook_number env field raw = (case raw of
     JNum v \<Rightarrow> Inr v
   | JStr s \<Rightarrow> (case ParseFloat (we_parse env) s of
       Inl e \<Rightarrow> Inl (''webhook field '' @ go_quote field @ '' is not numeric: '' @ e) | Inr v \<Rightarrow> Inr v)
   | _ \<Rightarrow> Inl (''webhook field '' @ go_quote field @ '' has unsupported type''))"

definition webhook_request :: "webhookPlugin \<Rightarrow> http_request" where
  "webhook_request p = bearer (wh_bearerToken p)
     ((get_request (wh_url p) (wh_timeout p)) \<lparr>hq_Method := wh_method p\<rparr>)"

text \<open>
  A request that cannot be built and a field that is no number fail without touching \<open>healthy\<close>.
\<close>

definition webhook_Collect :: "WebhookEnv \<Rightarrow> webhookPlugin \<Rightarrow> 'q AIScaler \<Rightarrow> Bundle
    \<Rightarrow> go_error option \<times> Bundle \<times> bool" where
  "webhook_Collect env p policy b = (case we_http env (webhook_request p) of
     NoRequest e \<Rightarrow> (Some e, b, wh_healthy p)
   | NoReply e \<Rightarrow> (Some (''webhook request failed: '' @ e), b, False)
   | Reply status body \<Rightarrow>
      (if status \<noteq> 200 then (Some (''webhook returned status '' @ show_int status), b, False)
       else (case read_limited (2 ^ 20) body of
           Inl e \<Rightarrow> (Some (''failed to read webhook response: '' @ e), b, False)
         | Inr txt \<Rightarrow> (case we_unmarshal env txt of
             Inl e \<Rightarrow> (Some (''failed to decode webhook JSON: '' @ e), b, False)
           | Inr data \<Rightarrow> (case fmlookup data (wh_responseField p) of
               None \<Rightarrow> (Some (''webhook response missing field '' @ go_quote (wh_responseField p)), b, False)
             | Some raw \<Rightarrow> (case webhook_number env (wh_responseField p) raw of
                 Inl e \<Rightarrow> (Some e, b, wh_healthy p)
               | Inr v \<Rightarrow> (None, set_custom (''webhook_'' @ wh_responseField p) v b, True)))))))"

definition webhook_plugin :: "WebhookEnv \<Rightarrow> 'q SignalPlugin" where
  "webhook_plugin env = plugin_of ''webhook'' False True webhook_Init (webhook_Collect env)"

section \<open>Datadog\<close>

record datadogPlugin =
  dd_apiKey :: string
  dd_appKey :: string
  dd_site :: string
  dd_query :: string
  dd_healthy :: bool

text \<open>A decoded reply is the point lists of its series; a point is a list of JSON values.\<close>

record DatadogEnv =
  de_http :: transport
  de_decode :: "http_body \<Rightarrow> go_error + json list list list"
  de_parse :: float_parser
  de_now :: time

definition key_entry :: "plugin_cfg \<Rightarrow> string \<Rightarrow> string \<Rightarrow> string" where
  "key_entry cfg k fromSecret = (case fmlookup cfg k of Some v \<Rightarrow> v | None \<Rightarrow> fromSecret)"

definition datadog_Init :: "secret_data option \<Rightarrow> plugin_cfg \<Rightarrow> go_error + datadogPlugin" where
  "datadog_Init secret cfg = with_required ''datadog'' cfg [''query'']
     \<lparr>dd_apiKey = key_entry cfg ''apiKey'' (secret_entry secret ''api-key''),
      dd_appKey = key_entry cfg ''appKey'' (secret_entry secret ''app-key''),
      dd_site = cfg_or cfg ''site'' ''datadoghq.com'', dd_query = cfg_entry cfg ''query'', dd_healthy = True\<rparr>"

text \<open>The verb \<open>%T\<close> on a decoded value.\<close>

fun json_type :: "json \<Rightarrow> string" where
  "json_type JNull = ''<nil>''"
| "json_type (JBool _) = ''bool''"
| "json_type (JNum _) = ''float64''"
| "json_type (JStr _) = ''string''"
| "json_type (JArr _) = ''[]interface {}''"
| "json_type (JObj _) = ''map[string]interface {}''"

text \<open>The decoder never yields a \<open>json.Number\<close>: it is not asked to.\<close>

definition parseDatadogPointValue :: "float_parser \<Rightarrow> json \<Rightarrow> go_error + float64" where
  "parseDatadogPointValue parse raw = (case raw of
     JNum v \<Rightarrow> Inr v
   | JStr s \<Rightarrow> ParseFloat parse s
   | JNull \<Rightarrow> Inl ''datadog point value is null''
   | _ \<Rightarrow> Inl (''unsupported datadog point value type '' @ json_type raw))"

definition point_value :: "float_parser \<Rightarrow> json list \<Rightarrow> float64 option" where
  "point_value parse point = (if length point < 2 \<or> point ! 1 = JNull then None
     else (case parseDatadogPointValue parse (point ! 1) of Inl _ \<Rightarrow> None | Inr v \<Rightarrow> Some v))"

text \<open>The loop from the last point down: the argument is the list still to search, the last point first.\<close>

fun last_value :: "float_parser \<Rightarrow> json list list \<Rightarrow> float64 option" where
  "last_value parse [] = None"
| "last_value parse (point # points) = (case point_value parse point of
     None \<Rightarrow> last_value parse points | Some v \<Rightarrow> Some v)"

definition datadog_signal :: "float_parser \<Rightarrow> json list list list \<Rightarrow> Bundle \<Rightarrow> Bundle" where
  "datadog_signal parse series b = (case series of [] \<Rightarrow> b
     | pointlist # _ \<Rightarrow> (case last_value parse (rev pointlist) of
         None \<Rightarrow> b | Some v \<Rightarrow> set_custom ''datadog_metric'' v b))"

definition datadog_request :: "datadogPlugin \<Rightarrow> time \<Rightarrow> http_request" where
  "datadog_request p now = (let
     to = now div second;
     q = with_header ''DD-API-KEY'' (dd_apiKey p) (get_request
       (''https://api.'' @ dd_site p @ ''/api/v1/query'' @ ''?'' @ encode_query
          [(''from'', show_int (to - 300)), (''query'', dd_query p), (''to'', show_int to)]) (10 * second))
   in if dd_appKey p = [] then q else with_header ''DD-APPLICATION-KEY'' (dd_appKey p) q)"

definition datadog_Collect :: "DatadogEnv \<Rightarrow> datadogPlugin \<Rightarrow> 'q AIScaler \<Rightarrow> Bundle
    \<Rightarrow> go_error option \<times> Bundle \<times> bool" where
  "datadog_Collect env p policy b = (if dd_apiKey p = [] then (Some ''datadog API key not configured'', b, False)
     else (case de_http env (datadog_request p (de_now env)) of
         NoRequest e \<Rightarrow> (Some e, b, dd_healthy p)
       | NoReply e \<Rightarrow> (Some (''datadog query failed: '' @ e), b, False)
       | Reply status body \<Rightarrow>
          (if status \<noteq> 200 then (Some (''datadog API returned status '' @ show_int status), b, False)
           else (case de_decode env body of
               Inl e \<Rightarrow> (Some (''failed to decode datadog response: '' @ e), b, False)
             | Inr series \<Rightarrow> (None, datadog_signal (de_parse env) series b, True)))))"

definition datadog_plugin :: "DatadogEnv \<Rightarrow> 'q SignalPlugin" where
  "datadog_plugin env = plugin_of ''datadog'' False True datadog_Init (datadog_Collect env)"

section \<open>OpenCost\<close>

record opencostPlugin =
  oc_endpoint :: string
  oc_namespace :: string
  oc_window :: string
  oc_healthy :: bool

record opencostAllocationItem =
  al_TotalCost :: float64
  al_CPUCost :: float64
  al_MemoryCost :: float64
  al_CPUEfficiency :: float64
  al_RAMEfficiency :: float64
  al_TotalEfficiency :: float64

record OpencostEnv =
  oe_http :: transport
  oe_decode :: "http_body \<Rightarrow> go_error + (string, opencostAllocationItem) fmap list"

definition opencost_Init :: "secret_data option \<Rightarrow> plugin_cfg \<Rightarrow> go_error + opencostPlugin" where
  "opencost_Init secret cfg = (if cfg_entry cfg ''endpoint'' = []
     then Inl (requires_config ''opencost'' ''endpoint'' @ '' (e.g. http://opencost.opencost:9003)'')
     else Inr \<lparr>oc_endpoint = cfg_entry cfg ''endpoint'', oc_namespace = cfg_or cfg ''namespace'' ''default'',
       oc_window = cfg_or cfg ''window'' ''1h'', oc_healthy = True\<rparr>)"

definition set_allocation :: "opencostAllocationItem \<Rightarrow> Bundle \<Rightarrow> Bundle" where
  "set_allocation al b = set_custom ''opencost_total_cost'' (al_TotalCost al)
     (set_custom ''opencost_ram_efficiency'' (al_RAMEfficiency al)
     (set_custom ''opencost_cpu_efficiency'' (al_CPUEfficiency al)
     (set_custom ''opencost_memory_cost'' (al_MemoryCost al)
     (set_custom ''opencost_cpu_cost'' (al_CPUCost al)
       (b \<lparr>b_CostPerHour := al_TotalCost al, b_CostEfficiency := al_TotalEfficiency al\<rparr>)))))"

fun first_allocation :: "string \<Rightarrow> (string, opencostAllocationItem) fmap list \<Rightarrow> opencostAllocationItem option" where
  "first_allocation ns [] = None"
| "first_allocation ns (window # windows) = (case fmlookup window ns of
     Some al \<Rightarrow> Some al | None \<Rightarrow> first_allocation ns windows)"

definition opencost_request :: "opencostPlugin \<Rightarrow> http_request" where
  "opencost_request p = get_request (oc_endpoint p @ ''/allocation/compute?window='' @ oc_window p
     @ ''&aggregate=namespace&filterNamespaces='' @ oc_namespace p) (15 * second)"

definition opencost_Collect :: "OpencostEnv \<Rightarrow> opencostPlugin \<Rightarrow> 'q AIScaler \<Rightarrow> Bundle
    \<Rightarrow> go_error option \<times> Bundle \<times> bool" where
  "opencost_Collect env p policy b = (case oe_http env (opencost_request p) of
     NoRequest e \<Rightarrow> (Some (''opencost: failed to build request: '' @ e), b, oc_healthy p)
   | NoReply e \<Rightarrow> (Some (''opencost: request failed: '' @ e), b, False)
   | Reply status body \<Rightarrow>
      (if status \<noteq> 200 then (Some (''opencost: unexpected status '' @ show_int status), b, False)
       else (case oe_decode env body of
           Inl e \<Rightarrow> (Some (''opencost: failed to decode response: '' @ e), b, False)
         | Inr windows \<Rightarrow> (case first_allocation (oc_namespace p) windows of
             None \<Rightarrow> (None, b, True) | Some al \<Rightarrow> (None, set_allocation al b, True)))))"

definition opencost_plugin :: "OpencostEnv \<Rightarrow> 'q SignalPlugin" where
  "opencost_plugin env = plugin_of ''opencost'' False False opencost_Init (opencost_Collect env)"

section \<open>Google Cloud\<close>

definition gcpMonitoringReadScope :: string where
  "gcpMonitoringReadScope = ''https://www.googleapis.com/auth/monitoring.read''"

record GcpEnv =
  gc_credentials :: "string \<Rightarrow> go_error option"
  gc_http :: transport
  gc_now :: time
  gc_rfc3339 :: "time \<Rightarrow> string"
  gc_parse :: float_parser
  gc_decodeValues :: "http_body \<Rightarrow> go_error + (float64 option \<times> string) list list"
  gc_decodeCounts :: "http_body \<Rightarrow> go_error + string list list"

definition newGCPMonitoringClient :: "GcpEnv \<Rightarrow> go_error option" where
  "newGCPMonitoringClient env = (case gc_credentials env gcpMonitoringReadScope of
     None \<Rightarrow> None | Some e \<Rightarrow> Some (''load GCP application default credentials: '' @ e))"

definition newGCPTimeSeriesRequest :: "GcpEnv \<Rightarrow> string \<Rightarrow> string \<Rightarrow> time \<Rightarrow> time \<Rightarrow> duration \<Rightarrow> http_request" where
  "newGCPTimeSeriesRequest env projectID filterExpr start stop timeout = get_request
     (''https://monitoring.googleapis.com/v3/projects/'' @ PathEscape projectID @ ''/timeSeries'' @ ''?''
       @ encode_query [(''filter'', filterExpr), (''interval.endTime'', gc_rfc3339 env stop),
           (''interval.startTime'', gc_rfc3339 env start), (''view'', ''FULL'')]) timeout"

text \<open>The exchange both plugins make, up to the body of a good reply; every failure is unhealthy.\<close>

definition gcp_fetch :: "GcpEnv \<Rightarrow> string \<Rightarrow> string \<Rightarrow> duration \<Rightarrow> duration \<Rightarrow> go_error + http_body" where
  "gcp_fetch env projectID filterExpr window timeout = (case newGCPMonitoringClient env of
     Some e \<Rightarrow> Inl e
   | None \<Rightarrow> (let stop = gc_now env; start = stop - window in
     (case gc_http env (newGCPTimeSeriesRequest env projectID filterExpr start stop timeout) of
        NoRequest e \<Rightarrow> Inl e
      | NoReply e \<Rightarrow> Inl (''gcp monitoring request failed: '' @ e)
      | Reply status body \<Rightarrow>
          (if status \<noteq> 200
           then Inl (''gcp monitoring returned status '' @ show_int status @ '': '' @ read_prefix 4096 body)
           else Inr body))))"

definition first_point :: "'a list list \<Rightarrow> 'a option" where
  "first_point series = (case series of (point # _) # _ \<Rightarrow> Some point | _ \<Rightarrow> None)"

record gcpMonitoringPlugin =
  gm_projectID :: string
  gm_metricType :: string
  gm_filter :: string
  gm_signalName :: string
  gm_timeout :: duration

definition gcpMonitoring_Init :: "secret_data option \<Rightarrow> plugin_cfg \<Rightarrow> go_error + gcpMonitoringPlugin" where
  "gcpMonitoring_Init secret cfg = with_required ''gcp-monitoring'' cfg [''projectID'', ''metricType'']
     \<lparr>gm_projectID = cfg_entry cfg ''projectID'', gm_metricType = cfg_entry cfg ''metricType'',
      gm_filter = cfg_entry cfg ''filter'', gm_signalName = cfg_or cfg ''signalName'' ''gcp_metric'',
      gm_timeout = 10 * second\<rparr>"

definition monitoring_filter :: "gcpMonitoringPlugin \<Rightarrow> string" where
  "monitoring_filter g = (let f = ''metric.type='' @ dquote @ gm_metricType g @ dquote in
     if gm_filter g = [] then f else f @ '' AND '' @ gm_filter g)"

definition monitoring_value :: "float_parser \<Rightarrow> float64 option \<times> string \<Rightarrow> float64" where
  "monitoring_value parse point = (case point of (Some v, _) \<Rightarrow> v | (None, s) \<Rightarrow> fst (parse s))"

definition gcpMonitoring_Collect :: "GcpEnv \<Rightarrow> gcpMonitoringPlugin \<Rightarrow> 'q AIScaler \<Rightarrow> Bundle
    \<Rightarrow> go_error option \<times> Bundle \<times> bool" where
  "gcpMonitoring_Collect env g policy b =
     (case gcp_fetch env (gm_projectID g) (monitoring_filter g) (5 * minute) (gm_timeout g) of
        Inl e \<Rightarrow> (Some e, b, False)
      | Inr body \<Rightarrow> (case gc_decodeValues env body of
          Inl e \<Rightarrow> (Some (''failed to decode gcp monitoring response: '' @ e), b, False)
        | Inr series \<Rightarrow> (None, (case first_point series of None \<Rightarrow> b
            | Some point \<Rightarrow> set_custom (gm_signalName g) (monitoring_value (gc_parse env) point) b), True)))"

definition gcpMonitoring_plugin :: "GcpEnv \<Rightarrow> 'q SignalPlugin" where
  "gcpMonitoring_plugin env = plugin_of ''gcp-monitoring'' False False gcpMonitoring_Init (gcpMonitoring_Collect env)"

record gcpPubSubPlugin =
  ps_projectID :: string
  ps_subscriptionID :: string
  ps_targetDepth :: float64
  ps_timeout :: duration

definition target_depth :: "float_parser \<Rightarrow> plugin_cfg \<Rightarrow> float64" where
  "target_depth parse cfg = (case fmlookup cfg ''targetDepth'' of
     None \<Rightarrow> f_of_int 10
   | Some v \<Rightarrow> (case ParseFloat parse v of
       Inl _ \<Rightarrow> f_of_int 10 | Inr d \<Rightarrow> (if 0 < d then d else f_of_int 10)))"

definition gcpPubSub_Init :: "float_parser \<Rightarrow> secret_data option \<Rightarrow> plugin_cfg \<Rightarrow> go_error + gcpPubSubPlugin" where
  "gcpPubSub_Init parse secret cfg = with_required ''gcp-pubsub'' cfg [''projectID'', ''subscriptionID'']
     \<lparr>ps_projectID = cfg_entry cfg ''projectID'', ps_subscriptionID = cfg_entry cfg ''subscriptionID'',
      ps_targetDepth = target_depth parse cfg, ps_timeout = 10 * second\<rparr>"

definition pubsub_filter :: "gcpPubSubPlugin \<Rightarrow> string" where
  "pubsub_filter g = ''metric.type='' @ dquote @ ''pubsub.googleapis.com/subscription/num_undelivered_messages''
     @ dquote @ '' AND resource.labels.subscription_id='' @ dquote @ ps_subscriptionID g @ dquote"

definition gcpPubSub_Collect :: "GcpEnv \<Rightarrow> gcpPubSubPlugin \<Rightarrow> 'q AIScaler \<Rightarrow> Bundle
    \<Rightarrow> go_error option \<times> Bundle \<times> bool" where
  "gcpPubSub_Collect env g policy b =
     (case gcp_fetch env (ps_projectID g) (pubsub_filter g) (2 * minute) (ps_timeout g) of
        Inl e \<Rightarrow> (Some e, b, False)
      | Inr body \<Rightarrow> (case gc_decodeCounts env body of
          Inl e \<Rightarrow> (Some (''failed to decode gcp monitoring response: '' @ e), b, False)
        | Inr series \<Rightarrow> (None, (case first_point series of None \<Rightarrow> b
            | Some count \<Rightarrow> (let v = fst (gc_parse env count) in
                set_custom ''pubsub_unacked_messages'' v (b \<lparr>b_QueueDepth := v\<rparr>))), True)))"

definition gcpPubSub_plugin :: "GcpEnv \<Rightarrow> 'q SignalPlugin" where
  "gcpPubSub_plugin env =
     plugin_of ''gcp-pubsub'' False False (gcpPubSub_Init (gc_parse env)) (gcpPubSub_Collect env)"

section \<open>Lemmas\<close>

lemma set_allocation_keeps [simp]:
  "b_SourceHealth (set_allocation al b) = b_SourceHealth b" "b_CollectedAt (set_allocation al b) = b_CollectedAt b"
  by (simp_all add: set_allocation_def)

lemma datadog_signal_keeps [simp]:
  "b_SourceHealth (datadog_signal parse series b) = b_SourceHealth b"
  "b_CollectedAt (datadog_signal parse series b) = b_CollectedAt b"
  by (simp_all add: datadog_signal_def split: list.split option.split)

lemmas http_collect_defs = webhook_Collect_def datadog_Collect_def opencost_Collect_def gcpMonitoring_Collect_def
  gcpPubSub_Collect_def

lemma http_signal_plugins:
  "signal_plugin (webhook_Collect we wp)" "signal_plugin (datadog_Collect de dp)" "signal_plugin (opencost_Collect oe op)"
  "signal_plugin (gcpMonitoring_Collect ge gp)" "signal_plugin (gcpPubSub_Collect ge sp)"
  by (unfold_locales; auto simp: http_collect_defs Let_def
      split: http_reply.splits sum.splits option.splits if_splits)+

interpretation webhook: signal_plugin "webhook_Collect env p" for env p by (rule http_signal_plugins)
interpretation datadog: signal_plugin "datadog_Collect env p" for env p by (rule http_signal_plugins)
interpretation opencost: signal_plugin "opencost_Collect env p" for env p by (rule http_signal_plugins)
interpretation gcp_monitoring: signal_plugin "gcpMonitoring_Collect env p" for env p by (rule http_signal_plugins)
interpretation gcp_pubsub: signal_plugin "gcpPubSub_Collect env p" for env p by (rule http_signal_plugins)

text \<open>The Datadog value is that of the last point with a number.\<close>

lemma last_value_filter: "last_value parse ps = (case List.map_filter (point_value parse) ps of [] \<Rightarrow> None | v # _ \<Rightarrow> Some v)"
  by (induction ps) (auto simp: map_filter_simps split: option.split)

lemma map_filter_rev: "List.map_filter f (rev xs) = rev (List.map_filter f xs)"
  by (simp add: List.map_filter_def rev_map rev_filter)

lemma last_value_rev: "last_value parse (rev ps) =
    (if List.map_filter (point_value parse) ps = [] then None else Some (last (List.map_filter (point_value parse) ps)))"
  by (auto simp: last_value_filter map_filter_rev split: list.split)

end
