(* ===== verification/Cluster_Plugins.thy ===== *)
theory Cluster_Plugins
  imports Plugin_Config
begin

text \<open>
  The plugins that read the cluster or a queue through a client library: \<open>builtin/nodes.go\<close>, and
  \<open>keda.go\<close>, \<open>kafka.go\<close>, \<open>aws_sqs.go\<close> and \<open>aws_cloudwatch.go\<close> of \<open>internal/plugin/external\<close>.  The libraries
  (the Kubernetes client, sarama, the AWS SDK) are parameters: what their calls return.
\<close>

section \<open>Nodes\<close>

record 'q ClusterNode =
  cn_Unschedulable :: bool
  cn_Allocatable :: "(string, 'q) fmap"
  cn_Capacity :: "(string, 'q) fmap"

record 'q NodesEnv =
  ne_list :: "api_error + 'q ClusterNode list"
  ne_milliValue :: "'q \<Rightarrow> int64"
  ne_value :: "'q \<Rightarrow> int64"
  ne_zero :: 'q

text \<open>\<open>ResourceList.Cpu\<close> and \<open>Memory\<close>: never nil, the zero quantity when the resource is not listed.\<close>

definition resource :: "'q NodesEnv \<Rightarrow> string \<Rightarrow> (string, 'q) fmap \<Rightarrow> 'q" where
  "resource env name rs = (case fmlookup rs name of Some v \<Rightarrow> v | None \<Rightarrow> ne_zero env)"

record NodeTotals =
  nt_schedulable :: int32
  nt_totalCPUMillis :: int64
  nt_totalMemBytes :: int64
  nt_allocCPUMillis :: int64
  nt_allocMemBytes :: int64

fun node_totals :: "'q NodesEnv \<Rightarrow> 'q ClusterNode list \<Rightarrow> NodeTotals \<Rightarrow> NodeTotals" where
  "node_totals env [] t = t"
| "node_totals env (n # ns) t = (if cn_Unschedulable n then node_totals env ns t
     else node_totals env ns (t
       \<lparr>nt_schedulable := nt_schedulable t + 1,
        nt_totalCPUMillis := nt_totalCPUMillis t + ne_milliValue env (resource env ''cpu'' (cn_Allocatable n)),
        nt_totalMemBytes := nt_totalMemBytes t + ne_value env (resource env ''memory'' (cn_Allocatable n)),
        nt_allocCPUMillis := nt_allocCPUMillis t + ne_milliValue env (resource env ''cpu'' (cn_Capacity n)),
        nt_allocMemBytes := nt_allocMemBytes t + ne_value env (resource env ''memory'' (cn_Capacity n))\<rparr>))"

definition zero_totals :: NodeTotals where
  "zero_totals = \<lparr>nt_schedulable = 0, nt_totalCPUMillis = 0, nt_totalMemBytes = 0, nt_allocCPUMillis = 0,
     nt_allocMemBytes = 0\<rparr>"

definition share :: "int64 \<Rightarrow> int64 \<Rightarrow> float64" where
  "share part whole = f_of_int64 part div f_of_int64 whole * f_of_int 100"

definition nodes_Collect :: "'q NodesEnv \<Rightarrow> 'q AIScaler \<Rightarrow> Bundle \<Rightarrow> go_error option \<times> Bundle \<times> bool" where
  "nodes_Collect env policy b = (case ne_list env of
     Inl e \<Rightarrow> (Some (api_error_text e), b, False)
   | Inr nodes \<Rightarrow> (let
       t = node_totals env nodes zero_totals;
       b1 = b \<lparr>b_ClusterNodes := nt_schedulable t\<rparr>;
       b2 = (if 0 <s nt_allocCPUMillis t
         then b1 \<lparr>b_ClusterCPUAvailable := share (nt_totalCPUMillis t) (nt_allocCPUMillis t)\<rparr> else b1);
       b3 = (if 0 <s nt_allocMemBytes t
         then b2 \<lparr>b_ClusterMemAvailable := share (nt_totalMemBytes t) (nt_allocMemBytes t)\<rparr> else b2)
     in (None, b3, True)))"

definition nodes_plugin :: "'q NodesEnv \<Rightarrow> 'q SignalPlugin" where
  "nodes_plugin env = plugin_of ''nodes'' True False (\<lambda>_ _. Inr ()) (\<lambda>_. nodes_Collect env)"

section \<open>KEDA\<close>

text \<open>The parameter reads \<open>status.desiredReplicas\<close> of a ScaledObject; \<open>None\<close> when it is not there.\<close>

record KedaEnv =
  ke_get :: "string \<Rightarrow> string \<Rightarrow> api_error + int64 option"

record kedaPlugin =
  kd_scaledObjectName :: string

definition keda_Init :: "secret_data option \<Rightarrow> plugin_cfg \<Rightarrow> go_error + kedaPlugin" where
  "keda_Init secret cfg = with_required ''keda'' cfg [''scaledObjectName'']
     \<lparr>kd_scaledObjectName = cfg_entry cfg ''scaledObjectName''\<rparr>"

definition keda_Collect :: "KedaEnv \<Rightarrow> kedaPlugin \<Rightarrow> 'q AIScaler \<Rightarrow> Bundle \<Rightarrow> go_error option \<times> Bundle \<times> bool" where
  "keda_Collect env p policy b = (case ke_get env (target_ns policy) (kd_scaledObjectName p) of
     Inl e \<Rightarrow> (Some (''failed to get KEDA ScaledObject '' @ target_ns policy @ ''/'' @ kd_scaledObjectName p
               @ '': '' @ api_error_text e), b, False)
   | Inr found \<Rightarrow> (None, (case found of
       None \<Rightarrow> set_custom ''keda_desired_replicas'' (f_of_int64 0) b
     | Some n \<Rightarrow> set_custom ''keda_desired_replicas'' (f_of_int64 n) (b \<lparr>b_KEDADesiredReplicas := ucast n\<rparr>)), True))"

definition keda_plugin :: "KedaEnv \<Rightarrow> 'q SignalPlugin" where
  "keda_plugin env = plugin_of ''keda'' True False keda_Init (keda_Collect env)"

section \<open>Kafka\<close>

record kafkaPlugin =
  kp_brokers :: "string list"
  kp_consumerGroup :: string
  kp_topic :: string
  kp_timeout :: duration

record KafkaEnv =
  kf_newAdmin :: "string list \<Rightarrow> duration \<Rightarrow> go_error option"
  kf_newClient :: "string list \<Rightarrow> duration \<Rightarrow> go_error option"
  kf_partitions :: "string \<Rightarrow> go_error + int32 list"
  kf_groupOffsets :: "string \<Rightarrow> string \<Rightarrow> int32 list \<Rightarrow> go_error + (string \<Rightarrow> int32 \<Rightarrow> int64 option)"
  kf_newest :: "string \<Rightarrow> int32 \<Rightarrow> go_error + int64"

text \<open>\<open>strings.Split\<close> at every comma.\<close>

fun split_commas :: "string \<Rightarrow> string list" where
  "split_commas [] = [[]]"
| "split_commas (c # cs) = (if c = CHR '','' then [] # split_commas cs
     else (case split_commas cs of [] \<Rightarrow> [[c]] | p # ps \<Rightarrow> (c # p) # ps))"

definition kafka_Init :: "secret_data option \<Rightarrow> plugin_cfg \<Rightarrow> go_error + kafkaPlugin" where
  "kafka_Init secret cfg = (if cfg_entry cfg ''brokers'' = []
     then Inl (requires_config ''kafka'' ''brokers'' @ '' (comma-separated)'')
     else with_required ''kafka'' cfg [''consumerGroup'', ''topic'']
       \<lparr>kp_brokers = split_commas (cfg_entry cfg ''brokers''), kp_consumerGroup = cfg_entry cfg ''consumerGroup'',
        kp_topic = cfg_entry cfg ''topic'', kp_timeout = timeout_entry cfg (10 * second)\<rparr>)"

text \<open>The lag of one partition: 0 when an offset is missing, negative or ahead of the newest.\<close>

definition partition_lag :: "KafkaEnv \<Rightarrow> string \<Rightarrow> (string \<Rightarrow> int32 \<Rightarrow> int64 option) \<Rightarrow> int32 \<Rightarrow> int64" where
  "partition_lag env topic offsets pid = (case kf_newest env topic pid of
     Inl _ \<Rightarrow> 0
   | Inr latestOffset \<Rightarrow> (case offsets topic pid of
       None \<Rightarrow> 0
     | Some offset \<Rightarrow> (if 0 <=s offset
         then (let lag = latestOffset - offset in if 0 <s lag then lag else 0) else 0)))"

fun total_lag :: "KafkaEnv \<Rightarrow> string \<Rightarrow> (string \<Rightarrow> int32 \<Rightarrow> int64 option) \<Rightarrow> int32 list \<Rightarrow> int64 \<Rightarrow> int64" where
  "total_lag env topic offsets [] totalLag = totalLag"
| "total_lag env topic offsets (p # ps) totalLag =
     total_lag env topic offsets ps (totalLag + partition_lag env topic offsets p)"

definition kafka_Collect :: "KafkaEnv \<Rightarrow> kafkaPlugin \<Rightarrow> 'q AIScaler \<Rightarrow> Bundle \<Rightarrow> go_error option \<times> Bundle \<times> bool" where
  "kafka_Collect env k policy b = (case kf_newAdmin env (kp_brokers k) (kp_timeout k) of
     Some e \<Rightarrow> (Some (''failed to create kafka admin: '' @ e), b, False)
   | None \<Rightarrow> (case kf_newClient env (kp_brokers k) (kp_timeout k) of
     Some e \<Rightarrow> (Some (''failed to create kafka client: '' @ e), b, False)
   | None \<Rightarrow> (case kf_partitions env (kp_topic k) of
     Inl e \<Rightarrow> (Some (''failed to get partitions for topic '' @ go_quote (kp_topic k) @ '': '' @ e), b, False)
   | Inr partitions \<Rightarrow> (case kf_groupOffsets env (kp_consumerGroup k) (kp_topic k) partitions of
     Inl e \<Rightarrow> (Some (''failed to get consumer group offsets: '' @ e), b, False)
   | Inr offsets \<Rightarrow> (let lag = f_of_int64 (total_lag env (kp_topic k) offsets partitions 0) in
       (None, set_custom ''kafka_consumer_lag'' lag (b \<lparr>b_QueueDepth := lag\<rparr>), True))))))"

definition kafka_plugin :: "KafkaEnv \<Rightarrow> 'q SignalPlugin" where
  "kafka_plugin env = plugin_of ''kafka'' False False kafka_Init (kafka_Collect env)"

section \<open>SQS\<close>

record sqsPlugin =
  sq_queueURL :: string
  sq_region :: string
  sq_targetQueueLength :: float64

record SqsEnv =
  qe_load :: "string \<Rightarrow> go_error option"
  qe_attributes :: "string \<Rightarrow> string \<Rightarrow> string list \<Rightarrow> go_error + (string, string) fmap"
  qe_parse :: float_parser

definition target_length :: "float_parser \<Rightarrow> plugin_cfg \<Rightarrow> float64" where
  "target_length parse cfg = (case fmlookup cfg ''targetQueueLength'' of
     None \<Rightarrow> f_of_int 5
   | Some v \<Rightarrow> (case ParseFloat parse v of Inl _ \<Rightarrow> f_of_int 5 | Inr f \<Rightarrow> f))"

definition sqs_Init :: "SqsEnv \<Rightarrow> secret_data option \<Rightarrow> plugin_cfg \<Rightarrow> go_error + sqsPlugin" where
  "sqs_Init env secret cfg = (if cfg_entry cfg ''queueURL'' = [] then Inl (requires_config ''aws-sqs'' ''queueURL'')
     else (let region = cfg_or cfg ''region'' ''us-east-1'' in
       (case qe_load env region of
          Some e \<Rightarrow> Inl (''failed to load AWS config: '' @ e)
        | None \<Rightarrow> Inr \<lparr>sq_queueURL = cfg_entry cfg ''queueURL'', sq_region = region,
            sq_targetQueueLength = target_length (qe_parse env) cfg\<rparr>)))"

definition sqs_Collect :: "SqsEnv \<Rightarrow> sqsPlugin \<Rightarrow> 'q AIScaler \<Rightarrow> Bundle \<Rightarrow> go_error option \<times> Bundle \<times> bool" where
  "sqs_Collect env p policy b = (case qe_attributes env (sq_region p) (sq_queueURL p)
       [''ApproximateNumberOfMessages'', ''ApproximateNumberOfMessagesNotVisible''] of
     Inl e \<Rightarrow> (Some (''failed to get SQS attributes: '' @ e), b, False)
   | Inr attrs \<Rightarrow> (let
       visible = fst (qe_parse env (cfg_entry attrs ''ApproximateNumberOfMessages''));
       inflight = fst (qe_parse env (cfg_entry attrs ''ApproximateNumberOfMessagesNotVisible''));
       b1 = set_custom ''sqs_inflight_messages'' inflight (set_custom ''sqs_visible_messages'' visible
              (b \<lparr>b_QueueDepth := visible + inflight\<rparr>));
       b2 = (if 0 < sq_targetQueueLength p
         then set_custom ''sqs_target_ratio'' ((visible + inflight) div sq_targetQueueLength p) b1 else b1)
     in (None, b2, True)))"

definition sqs_plugin :: "SqsEnv \<Rightarrow> 'q SignalPlugin" where
  "sqs_plugin env = plugin_of ''aws-sqs'' False False (sqs_Init env) (sqs_Collect env)"

section \<open>CloudWatch\<close>

datatype Statistic = StatisticAverage | StatisticSum | StatisticMaximum | StatisticMinimum | StatisticSampleCount

record Datapoint =
  dpt_Timestamp :: "time option"
  dpt_Average :: "float64 option"
  dpt_Sum :: "float64 option"
  dpt_Maximum :: "float64 option"
  dpt_Minimum :: "float64 option"
  dpt_SampleCount :: "float64 option"

record StatisticsInput =
  si_Namespace :: string
  si_MetricName :: string
  si_StartTime :: time
  si_EndTime :: time
  si_Period :: int32
  si_Statistics :: "Statistic list"
  si_Dimensions :: "(string \<times> string) list"

record cloudWatchPlugin =
  cw_region :: string
  cw_namespace :: string
  cw_metricName :: string
  cw_dimensionName :: string
  cw_dimensionValue :: string
  cw_statistic :: Statistic
  cw_period :: int32

record CloudWatchEnv =
  ce_load :: "string \<Rightarrow> go_error option"
  ce_statistics :: "string \<Rightarrow> StatisticsInput \<Rightarrow> go_error + Datapoint list"
  ce_now :: time

definition statistic_entry :: "plugin_cfg \<Rightarrow> Statistic" where
  "statistic_entry cfg = (let s = cfg_entry cfg ''statistic'' in
     if s = ''Sum'' then StatisticSum else if s = ''Maximum'' then StatisticMaximum
     else if s = ''Minimum'' then StatisticMinimum else if s = ''SampleCount'' then StatisticSampleCount
     else StatisticAverage)"

definition period_entry :: "plugin_cfg \<Rightarrow> int32" where
  "period_entry cfg = (case fmlookup cfg ''period'' of
     None \<Rightarrow> 300 | Some v \<Rightarrow> (case Atoi v of None \<Rightarrow> 300 | Some i \<Rightarrow> word_of_int i))"

definition cloudwatch_Init :: "CloudWatchEnv \<Rightarrow> secret_data option \<Rightarrow> plugin_cfg \<Rightarrow> go_error + cloudWatchPlugin" where
  "cloudwatch_Init env secret cfg = (case missing_entry cfg [''region'', ''namespace'', ''metricName''] of
     Some k \<Rightarrow> Inl (requires_config ''cloudwatch'' k)
   | None \<Rightarrow> (case ce_load env (cfg_entry cfg ''region'') of
       Some e \<Rightarrow> Inl (''failed to load AWS config: '' @ e)
     | None \<Rightarrow> Inr \<lparr>cw_region = cfg_entry cfg ''region'', cw_namespace = cfg_entry cfg ''namespace'',
         cw_metricName = cfg_entry cfg ''metricName'', cw_dimensionName = cfg_entry cfg ''dimensionName'',
         cw_dimensionValue = cfg_entry cfg ''dimensionValue'', cw_statistic = statistic_entry cfg,
         cw_period = period_entry cfg\<rparr>))"

text \<open>The loop over the datapoints: a point without a time never replaces one, nor is it replaced.\<close>

fun latest_point :: "Datapoint \<Rightarrow> Datapoint list \<Rightarrow> Datapoint" where
  "latest_point latest [] = latest"
| "latest_point latest (d # ds) = latest_point
     (case (dpt_Timestamp d, dpt_Timestamp latest) of
        (Some t, Some u) \<Rightarrow> (if u < t then d else latest) | _ \<Rightarrow> latest) ds"

definition statistic_of :: "Statistic \<Rightarrow> Datapoint \<Rightarrow> float64 option" where
  "statistic_of s d = (case s of StatisticAverage \<Rightarrow> dpt_Average d | StatisticSum \<Rightarrow> dpt_Sum d
     | StatisticMaximum \<Rightarrow> dpt_Maximum d | StatisticMinimum \<Rightarrow> dpt_Minimum d | StatisticSampleCount \<Rightarrow> dpt_SampleCount d)"

definition statistics_input :: "cloudWatchPlugin \<Rightarrow> time \<Rightarrow> StatisticsInput" where
  "statistics_input p now = \<lparr>si_Namespace = cw_namespace p, si_MetricName = cw_metricName p,
     si_StartTime = now - sint (cw_period p) * second, si_EndTime = now, si_Period = cw_period p,
     si_Statistics = [cw_statistic p],
     si_Dimensions = (if cw_dimensionName p \<noteq> [] \<and> cw_dimensionValue p \<noteq> []
       then [(cw_dimensionName p, cw_dimensionValue p)] else [])\<rparr>"

definition cloudwatch_Collect :: "CloudWatchEnv \<Rightarrow> cloudWatchPlugin \<Rightarrow> 'q AIScaler \<Rightarrow> Bundle
    \<Rightarrow> go_error option \<times> Bundle \<times> bool" where
  "cloudwatch_Collect env p policy b = (case ce_statistics env (cw_region p) (statistics_input p (ce_now env)) of
     Inl e \<Rightarrow> (Some (''cloudwatch GetMetricStatistics failed: '' @ e), b, False)
   | Inr [] \<Rightarrow> (None, b, True)
   | Inr (d # ds) \<Rightarrow> (None, set_custom (''cloudwatch_'' @ cw_namespace p @ ''_'' @ cw_metricName p)
       (case statistic_of (cw_statistic p) (latest_point d (d # ds)) of Some v \<Rightarrow> v | None \<Rightarrow> 0) b, True))"

definition cloudwatch_plugin :: "CloudWatchEnv \<Rightarrow> 'q SignalPlugin" where
  "cloudwatch_plugin env = plugin_of ''cloudwatch'' False False (cloudwatch_Init env) (cloudwatch_Collect env)"

section \<open>Lemmas\<close>

lemmas cluster_collect_defs = nodes_Collect_def keda_Collect_def kafka_Collect_def sqs_Collect_def cloudwatch_Collect_def

lemma cluster_signal_plugins:
  "signal_plugin (nodes_Collect ne)" "signal_plugin (keda_Collect ke kd)" "signal_plugin (kafka_Collect kf kp)"
  "signal_plugin (sqs_Collect qe sq)" "signal_plugin (cloudwatch_Collect ce cw)"
  by (unfold_locales; auto simp: cluster_collect_defs Let_def split: sum.splits option.splits list.splits if_splits)+

interpretation nodes: signal_plugin "nodes_Collect env" for env by (rule cluster_signal_plugins)
interpretation keda: signal_plugin "keda_Collect env p" for env p by (rule cluster_signal_plugins)
interpretation kafka: signal_plugin "kafka_Collect env p" for env p by (rule cluster_signal_plugins)
interpretation sqs: signal_plugin "sqs_Collect env p" for env p by (rule cluster_signal_plugins)
interpretation cloudwatch: signal_plugin "cloudwatch_Collect env p" for env p by (rule cluster_signal_plugins)

section \<open>Lemmas on the sums\<close>

lemma sint64_range: "- (2 ^ 63) \<le> sint (a :: int64)" "sint a < 2 ^ 63"
  using sint_ge [of a] sint_lt [of a] by simp_all

lemma sint64_add: "- (2 ^ 63) \<le> sint a + sint b \<Longrightarrow> sint a + sint b < 2 ^ 63 \<Longrightarrow> sint (a + b :: int64) = sint a + sint b"
  by (simp add: sint_word_ariths signed_take_bit_int_eq_self)

lemma sint64_sub: "0 \<le> sint a \<Longrightarrow> 0 \<le> sint b \<Longrightarrow> sint (a - b :: int64) = sint a - sint b"
  using sint64_range [of a] sint64_range [of b] by (simp add: sint_word_ariths signed_take_bit_int_eq_self)

text \<open>The lag of a partition over the integers.\<close>

definition lag_of :: "KafkaEnv \<Rightarrow> string \<Rightarrow> (string \<Rightarrow> int32 \<Rightarrow> int64 option) \<Rightarrow> int32 \<Rightarrow> int" where
  "lag_of env topic offsets pid = (case (kf_newest env topic pid, offsets topic pid) of
     (Inr newest, Some offset) \<Rightarrow> (if 0 \<le> sint offset then max 0 (sint newest - sint offset) else 0) | _ \<Rightarrow> 0)"

lemma lag_of_nonneg: "0 \<le> lag_of env topic offsets pid"
  by (simp add: lag_of_def split: sum.split option.split)

definition newest_nonneg :: "KafkaEnv \<Rightarrow> string \<Rightarrow> int32 \<Rightarrow> bool" where
  "newest_nonneg env topic pid = (case kf_newest env topic pid of Inl _ \<Rightarrow> True | Inr n \<Rightarrow> 0 \<le> sint n)"

lemma partition_lag_sint:
  assumes "newest_nonneg env topic pid"
  shows "sint (partition_lag env topic offsets pid) = lag_of env topic offsets pid"
  using assms by (auto simp: partition_lag_def lag_of_def newest_nonneg_def sless_sint word_sle_eq Let_def sint64_sub
      split: sum.splits option.splits)

lemma total_lag_sint:
  "list_all (newest_nonneg env topic) ps \<Longrightarrow> 0 \<le> sint t \<Longrightarrow> sint t + (\<Sum>p\<leftarrow>ps. lag_of env topic offsets p) < 2 ^ 63
    \<Longrightarrow> sint (total_lag env topic offsets ps t) = sint t + (\<Sum>p\<leftarrow>ps. lag_of env topic offsets p)"
proof (induction ps arbitrary: t)
  case (Cons p ps)
  have "0 \<le> (\<Sum>p\<leftarrow>ps. lag_of env topic offsets p)"
    by (rule sum_list_nonneg) (auto simp: lag_of_nonneg)
  then have step: "sint (t + partition_lag env topic offsets p) = sint t + lag_of env topic offsets p"
    using Cons.prems lag_of_nonneg [of env topic offsets p] by (subst sint64_add) (simp_all add: partition_lag_sint)
  show ?case
    using Cons.IH [of "t + partition_lag env topic offsets p"] Cons.prems lag_of_nonneg [of env topic offsets p]
    by (simp add: step)
qed simp

lemma latest_point_spec:
  "dpt_Timestamp d \<noteq> None \<Longrightarrow> list_all (\<lambda>e. dpt_Timestamp e \<noteq> None) ds \<Longrightarrow>
     latest_point d ds \<in> set (d # ds) \<and>
     list_all (\<lambda>e. the (dpt_Timestamp e) \<le> the (dpt_Timestamp (latest_point d ds))) (d # ds)"
proof (induction ds arbitrary: d)
  case (Cons e ds)
  define l where "l = (case (dpt_Timestamp e, dpt_Timestamp d) of (Some t, Some u) \<Rightarrow> (if u < t then e else d) | _ \<Rightarrow> d)"
  have l: "l \<in> {d, e}" "the (dpt_Timestamp d) \<le> the (dpt_Timestamp l)" "the (dpt_Timestamp e) \<le> the (dpt_Timestamp l)"
    "dpt_Timestamp l \<noteq> None"
    using Cons.prems by (auto simp: l_def)
  have "latest_point d (e # ds) = latest_point l ds" by (simp add: l_def)
  then show ?case using Cons.IH [of l] l Cons.prems(2) by auto
qed simp

lemma node_totals_count:
  "sint (nt_schedulable t) + int (length (filter (\<lambda>n. \<not> cn_Unschedulable n) ns)) \<le> int32_max \<Longrightarrow>
     0 \<le> sint (nt_schedulable t) \<Longrightarrow>
     sint (nt_schedulable (node_totals env ns t)) = sint (nt_schedulable t) + int (length (filter (\<lambda>n. \<not> cn_Unschedulable n) ns))"
proof (induction ns arbitrary: t)
  case (Cons n ns)
  show ?case
  proof (cases "cn_Unschedulable n")
    case True
    then show ?thesis using Cons by simp
  next
    case False
    then have "sint (nt_schedulable t + 1) = sint (nt_schedulable t) + 1"
      using Cons.prems sint32_add [of "nt_schedulable t" 1] by simp
    then show ?thesis using Cons.IH Cons.prems False by simp
  qed
qed simp

section \<open>Properties\<close>

text \<open>
  C39. The queue depth of a Kafka topic is the sum of what its partitions lag behind, where a partition whose
  newest offset cannot be read, or without a committed offset, counts for nothing: as long as the sum fits
  an \<open>int64\<close> and offsets are not negative, no wrap-around disturbs it.
\<close>

theorem kafka_queue_depth:
  assumes "kafka_Collect env k policy b = (None, b', healthy)"
    and "kf_partitions env (kp_topic k) = Inr ps" and "list_all (newest_nonneg env (kp_topic k)) ps"
    and "kf_groupOffsets env (kp_consumerGroup k) (kp_topic k) ps = Inr offsets"
    and "(\<Sum>p\<leftarrow>ps. lag_of env (kp_topic k) offsets p) < 2 ^ 63"
  shows "b_QueueDepth b' = f_of_int (\<Sum>p\<leftarrow>ps. lag_of env (kp_topic k) offsets p)"
proof -
  have "sint (total_lag env (kp_topic k) offsets ps 0) = (\<Sum>p\<leftarrow>ps. lag_of env (kp_topic k) offsets p)"
    using total_lag_sint [of env "kp_topic k" ps 0 offsets] assms(3,5) by simp
  then show ?thesis
    using assms(1,2,4) by (auto simp: kafka_Collect_def Let_def f_of_int64_def split: option.splits)
qed

definition two_partitions :: KafkaEnv where
  "two_partitions = \<lparr>kf_newAdmin = (\<lambda>_ _. None), kf_newClient = (\<lambda>_ _. None), kf_partitions = (\<lambda>_. Inr [0, 1]),
     kf_groupOffsets = (\<lambda>_ _ _. Inr (\<lambda>_ p. if p = 0 then Some 40 else Some 7)), kf_newest = (\<lambda>_ p. if p = 0 then Inr 45 else Inr 5)\<rparr>"

definition kafka_reader :: kafkaPlugin where
  "kafka_reader = \<lparr>kp_brokers = [''b''], kp_consumerGroup = ''g'', kp_topic = ''t'', kp_timeout = second\<rparr>"

lemma kafka_queue_depth_witness:
  "\<exists>b'. kafka_Collect two_partitions kafka_reader (zero_AIScaler :: nat AIScaler) zero_Bundle = (None, b', True) \<and> b_QueueDepth b' = f_of_int 5"
proof -
  let ?offsets = "\<lambda>(_ :: string) p. if p = (0 :: int32) then Some (40 :: int64) else Some 7"
  obtain b' where run: "kafka_Collect two_partitions kafka_reader (zero_AIScaler :: nat AIScaler) zero_Bundle = (None, b', True)"
    by (simp add: kafka_Collect_def two_partitions_def kafka_reader_def Let_def)
  have "kf_partitions two_partitions (kp_topic kafka_reader) = Inr [0, 1]"
    "list_all (newest_nonneg two_partitions (kp_topic kafka_reader)) [0, 1]"
    "kf_groupOffsets two_partitions (kp_consumerGroup kafka_reader) (kp_topic kafka_reader) [0, 1] = Inr ?offsets"
    "(\<Sum>p\<leftarrow>[0, 1]. lag_of two_partitions (kp_topic kafka_reader) ?offsets p) = 5"
    by (simp_all add: two_partitions_def kafka_reader_def newest_nonneg_def lag_of_def)
  from kafka_queue_depth [OF run this(1,2,3)] this(4) run show ?thesis by simp
qed

text \<open>
  CloudWatch returns the datapoints of the window in no order: when every one carries its time, the value
  recorded is the statistic asked for of a datapoint none of the others is later than.
\<close>

theorem cloudwatch_most_recent:
  assumes "ce_statistics env (cw_region p) (statistics_input p (ce_now env)) = Inr ds"
    and "ds \<noteq> []" and "list_all (\<lambda>d. dpt_Timestamp d \<noteq> None) ds"
  shows "\<exists>d\<in>set ds. list_all (\<lambda>e. the (dpt_Timestamp e) \<le> the (dpt_Timestamp d)) ds
    \<and> cloudwatch_Collect env p policy b = (None,
        set_custom (''cloudwatch_'' @ cw_namespace p @ ''_'' @ cw_metricName p)
          (case statistic_of (cw_statistic p) d of Some v \<Rightarrow> v | None \<Rightarrow> 0) b, True)"
proof -
  obtain e es where ds: "ds = e # es" using assms(2) by (cases ds) auto
  show ?thesis
    using latest_point_spec [of e "e # es"] assms(1,3) ds by (intro bexI [of _ "latest_point e (e # es)"]) (auto simp: cloudwatch_Collect_def)
qed

definition point_at :: "time \<Rightarrow> int \<Rightarrow> Datapoint" where
  "point_at t n = \<lparr>dpt_Timestamp = Some t, dpt_Average = Some (f_of_int n), dpt_Sum = None, dpt_Maximum = None,
     dpt_Minimum = None, dpt_SampleCount = None\<rparr>"

definition unordered_points :: CloudWatchEnv where
  "unordered_points = \<lparr>ce_load = (\<lambda>_. None), ce_statistics = (\<lambda>_ _. Inr [point_at 3 30, point_at 9 90, point_at 5 50]), ce_now = 10\<rparr>"

definition average_reader :: cloudWatchPlugin where
  "average_reader = \<lparr>cw_region = ''eu'', cw_namespace = ''n'', cw_metricName = ''m'', cw_dimensionName = [], cw_dimensionValue = [],
     cw_statistic = StatisticAverage, cw_period = 300\<rparr>"

lemma cloudwatch_most_recent_witness:
  "\<exists>b. cloudwatch_Collect unordered_points average_reader zero_AIScaler zero_Bundle = (None, b, True)
    \<and> fmlookup (b_CustomSignals b) ''cloudwatch_n_m'' = Some (f_of_int 90)"
proof -
  have "\<exists>d\<in>set [point_at 3 30, point_at 9 90, point_at 5 50].
      list_all (\<lambda>e. the (dpt_Timestamp e) \<le> the (dpt_Timestamp d)) [point_at 3 30, point_at 9 90, point_at 5 50]
    \<and> cloudwatch_Collect unordered_points average_reader zero_AIScaler zero_Bundle = (None,
        set_custom (''cloudwatch_'' @ cw_namespace average_reader @ ''_'' @ cw_metricName average_reader)
          (case statistic_of (cw_statistic average_reader) d of Some v \<Rightarrow> v | None \<Rightarrow> 0) zero_Bundle, True)"
    by (rule cloudwatch_most_recent) (simp_all add: unordered_points_def point_at_def)
  then show ?thesis by (auto simp: point_at_def average_reader_def statistic_of_def)
qed

text \<open>
  A desired count of KEDA outside \<open>int32\<close> is cut to its low 32 bits, while the custom signal keeps the
  whole number.
\<close>

lemma keda_wraps:
  "keda_Collect \<lparr>ke_get = (\<lambda>_ _. Inr (Some (2 ^ 32 + 3)))\<rparr> p policy b =
     (None, set_custom ''keda_desired_replicas'' (f_of_int (2 ^ 32 + 3)) (b \<lparr>b_KEDADesiredReplicas := 3\<rparr>), True)"
proof -
  have low: "(4294967299 :: int32) = 3" by (simp add: word_uint_eq_iff)
  show ?thesis by (simp add: keda_Collect_def f_of_int64_def low)
qed

end
