(* ===== verification/Plugin_Registry.thy ===== *)
theory Plugin_Registry
  imports Prometheus_Plugin Http_Plugins Cluster_Plugins
begin

text \<open>
  The registry the operator starts with: the \<open>init\<close> functions of \<open>internal/plugin/builtin\<close> and
  \<open>internal/plugin/external\<close>, which \<open>cmd/main.go\<close> imports, run before \<open>main\<close> and register one factory
  each.  Every registered plugin keeps the contract \<open>signal_plugin\<close>, so the health table of a collection
  says of every plugin whether it worked.
\<close>

record 'q PluginDeps =
  pd_client :: "'q Client"
  pd_annotations :: AnnotationEnv
  pd_metrics :: "'q MetricsEnv"
  pd_nodes :: "'q NodesEnv"
  pd_prometheus :: PrometheusEnv
  pd_webhook :: WebhookEnv
  pd_datadog :: DatadogEnv
  pd_opencost :: OpencostEnv
  pd_gcp :: GcpEnv
  pd_keda :: KedaEnv
  pd_kafka :: KafkaEnv
  pd_sqs :: SqsEnv
  pd_cloudwatch :: CloudWatchEnv

definition builtin_plugins :: "'q PluginDeps \<Rightarrow> (string \<times> 'q SignalPlugin) list" where
  "builtin_plugins d =
     [(''annotations'', annotations_plugin (pd_client d) (pd_annotations d)),
      (''metrics-server'', metrics_plugin (pd_client d) (pd_metrics d)),
      (''nodes'', nodes_plugin (pd_nodes d)),
      (''prometheus'', prometheus_plugin (pd_prometheus d))]"

definition external_plugins :: "'q PluginDeps \<Rightarrow> (string \<times> 'q SignalPlugin) list" where
  "external_plugins d =
     [(''cloudwatch'', cloudwatch_plugin (pd_cloudwatch d)),
      (''aws-sqs'', sqs_plugin (pd_sqs d)),
      (''datadog'', datadog_plugin (pd_datadog d)),
      (''gcp-monitoring'', gcpMonitoring_plugin (pd_gcp d)),
      (''gcp-pubsub'', gcpPubSub_plugin (pd_gcp d)),
      (''kafka'', kafka_plugin (pd_kafka d)),
      (''keda'', keda_plugin (pd_keda d)),
      (''opencost'', opencost_plugin (pd_opencost d)),
      (''webhook'', webhook_plugin (pd_webhook d))]"

fun register_all :: "(string \<times> 'q SignalPlugin) list \<Rightarrow> 'q registry \<Rightarrow> 'q registry option" where
  "register_all [] reg = Some reg"
| "register_all ((n, p) # ps) reg = (case Register n p reg of None \<Rightarrow> None | Some reg' \<Rightarrow> register_all ps reg')"

definition startup_registry :: "'q PluginDeps \<Rightarrow> 'q registry option" where
  "startup_registry d = register_all (builtin_plugins d @ external_plugins d) fmempty"

section \<open>Lemmas\<close>

lemma register_all_fresh:
  "distinct (List.map fst ps) \<Longrightarrow> list_all (\<lambda>n. fmlookup reg n = None) (List.map fst ps) \<Longrightarrow>
     \<exists>reg'. register_all ps reg = Some reg' \<and>
       (\<forall>n. fmlookup reg' n = (case map_of ps n of Some p \<Rightarrow> Some p | None \<Rightarrow> fmlookup reg n))"
proof (induction ps arbitrary: reg)
  case (Cons p ps)
  obtain n g where p: "p = (n, g)" by force
  have "\<exists>reg'. register_all ps (fmupd n g reg) = Some reg' \<and>
       (\<forall>m. fmlookup reg' m = (case map_of ps m of Some p \<Rightarrow> Some p | None \<Rightarrow> fmlookup (fmupd n g reg) m))"
    by (rule Cons.IH) (use Cons.prems p in \<open>auto simp: list_all_iff\<close>)
  moreover have "map_of ps n = None" using Cons.prems p by (simp add: map_of_eq_None_iff)
  ultimately show ?case
    using Cons.prems p by (fastforce simp: Register_def split: option.split)
qed simp

lemma startup_lookup:
  "\<exists>reg. startup_registry d = Some reg \<and> (\<forall>n. fmlookup reg n = map_of (builtin_plugins d @ external_plugins d) n)"
proof -
  have "distinct (List.map fst (builtin_plugins d @ external_plugins d))"
    by (simp add: builtin_plugins_def external_plugins_def)
  from register_all_fresh [OF this, of fmempty] obtain reg where
    reg: "startup_registry d = Some reg"
      "\<And>n. fmlookup reg n = (case map_of (builtin_plugins d @ external_plugins d) n of Some p \<Rightarrow> Some p | None \<Rightarrow> None)"
    by (auto simp: startup_registry_def list_all_iff cong: option.case_cong)
  have "fmlookup reg n = map_of (builtin_plugins d @ external_plugins d) n" for n
    using reg(2) [of n] by (cases "map_of (builtin_plugins d @ external_plugins d) n") (simp_all del: map_of_append)
  with reg(1) show ?thesis by blast
qed

lemma startup_plugins:
  assumes "startup_registry d = Some reg" and "fmlookup reg n = Some p"
  shows "pg_Name p = n" and "signal_plugin (pg_Collect p secret cfg)"
proof -
  have "map_of (builtin_plugins d @ external_plugins d) n = Some p"
    using startup_lookup [of d] assms by auto
  then have p: "(n, p) \<in> set (builtin_plugins d @ external_plugins d)" by (rule map_of_SomeD)
  then show "pg_Name p = n"
    by (auto simp: builtin_plugins_def external_plugins_def annotations_plugin_def metrics_plugin_def nodes_plugin_def
        prometheus_plugin_def cloudwatch_plugin_def sqs_plugin_def datadog_plugin_def gcpMonitoring_plugin_def
        gcpPubSub_plugin_def kafka_plugin_def keda_plugin_def opencost_plugin_def webhook_plugin_def plugin_of_def)
  have direct: "signal_plugin (pg_Collect (annotations_plugin c ae) secret cfg)"
    "signal_plugin (pg_Collect (metrics_plugin c me) secret cfg)" for c ae me
    by (simp_all add: annotations_plugin_def metrics_plugin_def ann.signal_plugin_axioms met.signal_plugin_axioms)
  show "signal_plugin (pg_Collect p secret cfg)"
    using p by (auto simp: builtin_plugins_def external_plugins_def direct nodes_plugin_def
        prometheus_plugin_def cloudwatch_plugin_def sqs_plugin_def datadog_plugin_def gcpMonitoring_plugin_def
        gcpPubSub_plugin_def kafka_plugin_def keda_plugin_def opencost_plugin_def webhook_plugin_def
        intro!: plugin_of_signal_plugin prometheus_signal_plugin http_signal_plugins cluster_signal_plugins)
qed

text \<open>The outcome the table has for a name: that of the last plugin of the name.\<close>

definition last_outcome :: "(string \<times> bool \<times> bool) list \<Rightarrow> string \<Rightarrow> bool option" where
  "last_outcome os n = map_of (rev (List.map (\<lambda>(m, _, ok). (m, ok)) os)) n"

definition keeps_contract :: "'q pluginInstance \<Rightarrow> bool" where
  "keeps_contract i = signal_plugin (pg_Collect (pi_plugin i) (pi_secret i) (pi_config i))"

lemma run_plugin_health:
  assumes "keeps_contract i" and "run_plugin p i b = (e, b', i')"
  shows "b_SourceHealth b' = fmupd (pg_Name (pi_plugin i)) (e = None) (b_SourceHealth b)" "b_CollectedAt b' = b_CollectedAt b"
  using signal_plugin.run_records [OF assms(1) [unfolded keeps_contract_def] assms(2) refl] by simp_all

lemma collect_from_health:
  assumes "list_all keeps_contract is" and "fst (collect_from p is b) = Inr b'"
  shows "b_CollectedAt b' = b_CollectedAt b \<and> fmlookup (b_SourceHealth b') n =
    (case last_outcome (outcomes p is b) n of Some ok \<Rightarrow> Some ok | None \<Rightarrow> fmlookup (b_SourceHealth b) n)"
  using assms
proof (induction "is" arbitrary: b)
  case Nil
  then show ?case by (simp add: last_outcome_def)
next
  case (Cons i "is")
  obtain e b1 i' where run: "run_plugin p i b = (e, b1, i')" by (metis prod_cases3)
  note h = run_plugin_health [OF _ run]
  obtain r is' where rest: "collect_from p is b1 = (r, is')" by force
  have go: "r = Inr b'" "e = None \<or> \<not> pi_required i"
    using Cons.prems(2) run rest by (auto split: option.splits if_splits)
  have "b_CollectedAt b' = b_CollectedAt b1 \<and> fmlookup (b_SourceHealth b') n =
    (case last_outcome (outcomes p is b1) n of Some ok \<Rightarrow> Some ok | None \<Rightarrow> fmlookup (b_SourceHealth b1) n)"
    by (rule Cons.IH) (use Cons.prems(1) rest go in auto)
  then show ?case
    using h Cons.prems(1) run go(2) by (auto simp: last_outcome_def map_add_def split: option.splits)
qed

section \<open>Properties\<close>

text \<open>
  The operator starts: no two plugins register under one name, and the registry has exactly the thirteen
  plugins of the source, each under its own name.
\<close>

theorem startup_registry_complete:
  "\<exists>reg. startup_registry d = Some reg \<and> fmdom' reg = set [''annotations'', ''metrics-server'', ''nodes'', ''prometheus'',
      ''cloudwatch'', ''aws-sqs'', ''datadog'', ''gcp-monitoring'', ''gcp-pubsub'', ''kafka'', ''keda'', ''opencost'', ''webhook'']
    \<and> fmlookup reg ''kafka'' = Some (kafka_plugin (pd_kafka d))"
proof -
  obtain reg where reg: "startup_registry d = Some reg" "\<And>n. fmlookup reg n = map_of (builtin_plugins d @ external_plugins d) n"
    using startup_lookup [of d] by blast
  have "fmdom' reg = dom (map_of (builtin_plugins d @ external_plugins d))"
    by (simp add: fmdom'_def dom_def reg(2))
  also have "\<dots> = fst ` set (builtin_plugins d @ external_plugins d)" by (rule dom_map_of_conv_image_fst)
  finally show ?thesis
    using reg by (simp add: builtin_plugins_def external_plugins_def)
qed

text \<open>
  C36. The health table of a collection that succeeds says, for every plugin of the resource's signal list, whether
  its last run failed, and has no entry for any other name; the bundle keeps the time the
  collection started.  No plugin of the registry can tamper with either.
\<close>

theorem collection_health_exact:
  assumes "startup_registry d = Some (ge_registry env)" and "NewManager env scs = Inr is"
    and "fst (manager_Collect env p is) = Inr b"
  shows "b_CollectedAt b = ge_now env
    \<and> fmlookup (b_SourceHealth b) n = last_outcome (outcomes p is (zero_Bundle \<lparr>b_CollectedAt := ge_now env\<rparr>)) n"
proof -
  let ?b0 = "zero_Bundle \<lparr>b_CollectedAt := ge_now env\<rparr>"
  obtain scs' where "new_instances env scs' = Inr is" using assms(2) by (auto simp: NewManager_def)
  then have all: "list_all2 (\<lambda>sc i. new_instance env sc = Inr i) scs' is" by (simp add: new_instances_Inr)
  have keeps: "keeps_contract i" if "new_instance env sc = Inr i" for sc i
    using new_instance_fields [OF that] startup_plugins(2) [OF assms(1)] by (auto simp: keeps_contract_def)
  from all have "list_all keeps_contract is"
    by (induction rule: list_all2_induct) (auto intro: keeps)
  from collect_from_health [OF this, of p ?b0 b n] assms(3) show ?thesis
    by (auto simp: manager_Collect_def zero_Bundle_def split: option.split)
qed

definition sample_deps :: "nat PluginDeps" where
  "sample_deps = \<lparr>pd_client = sample_client 3,
     pd_annotations = \<lparr>ae_parseTime = (\<lambda>_. Inl ''bad''), ae_parseRules = (\<lambda>_. Inr [])\<rparr>,
     pd_metrics = \<lparr>me_milliValue = (\<lambda>_. 0), me_value = (\<lambda>_. 0), me_podMetrics = (\<lambda>_ _. Inr [])\<rparr>,
     pd_nodes = \<lparr>ne_list = Inr [], ne_milliValue = word_of_nat, ne_value = word_of_nat, ne_zero = 0\<rparr>,
     pd_prometheus = up_env,
     pd_webhook = \<lparr>we_http = (\<lambda>_. NoReply ''refused''), we_unmarshal = (\<lambda>_. Inr fmempty), we_parse = (\<lambda>_. (0, None))\<rparr>,
     pd_datadog = \<lparr>de_http = (\<lambda>_. NoReply ''refused''), de_decode = (\<lambda>_. Inr []), de_parse = (\<lambda>_. (0, None)), de_now = 7\<rparr>,
     pd_opencost = \<lparr>oe_http = (\<lambda>_. NoReply ''refused''), oe_decode = (\<lambda>_. Inr [])\<rparr>,
     pd_gcp = \<lparr>gc_credentials = (\<lambda>_. Some ''none''), gc_http = (\<lambda>_. NoReply ''refused''), gc_now = 7, gc_rfc3339 = show_int,
       gc_parse = (\<lambda>_. (0, None)), gc_decodeValues = (\<lambda>_. Inr []), gc_decodeCounts = (\<lambda>_. Inr [])\<rparr>,
     pd_keda = \<lparr>ke_get = (\<lambda>_ _. Inl (ApiNotFound ''so''))\<rparr>,
     pd_kafka = two_partitions,
     pd_sqs = \<lparr>qe_load = (\<lambda>_. None), qe_attributes = (\<lambda>_ _ _. Inr fmempty), qe_parse = (\<lambda>_. (0, None))\<rparr>,
     pd_cloudwatch = unordered_points\<rparr>"

definition optional_signal :: "string \<Rightarrow> plugin_cfg \<Rightarrow> SignalSourceConfig" where
  "optional_signal n cfg = \<lparr>ss_Name = n, ss_Required = False, ss_Config = cfg, ss_SecretRef = None\<rparr>"

lemma collection_health_exact_witness:
  "\<exists>reg is b. startup_registry sample_deps = Some reg
    \<and> NewManager ((builtin_env (sample_client 3) None) \<lparr>ge_registry := reg\<rparr>)
        [optional_signal ''nodes'' fmempty, optional_signal ''keda'' (fmupd ''scaledObjectName'' ''so'' fmempty)] = Inr is
    \<and> fst (manager_Collect ((builtin_env (sample_client 3) None) \<lparr>ge_registry := reg\<rparr>) zero_AIScaler is) = Inr b
    \<and> fmlookup (b_SourceHealth b) ''nodes'' = Some True \<and> fmlookup (b_SourceHealth b) ''keda'' = Some False"
proof -
  obtain reg where start: "startup_registry sample_deps = Some reg"
    and look: "\<And>n. fmlookup reg n = map_of (builtin_plugins sample_deps @ external_plugins sample_deps) n"
    using startup_lookup [of sample_deps] by blast
  let ?env = "(builtin_env (sample_client 3) None) \<lparr>ge_registry := reg\<rparr>"
  let ?scs = "[optional_signal ''nodes'' fmempty, optional_signal ''keda'' (fmupd ''scaledObjectName'' ''so'' fmempty)]"
  have found: "fmlookup reg ''nodes'' = Some (nodes_plugin (pd_nodes sample_deps))"
    "fmlookup reg ''keda'' = Some (keda_plugin (pd_keda sample_deps))"
    by (simp_all add: look builtin_plugins_def external_plugins_def)
  have start': "startup_registry sample_deps = Some (ge_registry ?env)" using start by simp
  define nodes_i :: "nat pluginInstance" where "nodes_i = \<lparr>pi_plugin = nodes_plugin (pd_nodes sample_deps), pi_secret = None, pi_config = fmempty,
      pi_required = False, pi_healthy = True\<rparr>"
  define keda_i :: "nat pluginInstance" where "keda_i = \<lparr>pi_plugin = keda_plugin (pd_keda sample_deps), pi_secret = None,
      pi_config = fmupd ''scaledObjectName'' ''so'' fmempty, pi_required = False, pi_healthy = True\<rparr>"
  have new: "NewManager ?env ?scs = Inr [nodes_i, keda_i]"
    by (simp add: NewManager_def new_instance_def Get_plugin_def found plugin_secret_def optional_signal_def nodes_i_def
        keda_i_def nodes_plugin_def keda_plugin_def plugin_of_def keda_Init_def with_required_def cfg_entry_def)
  have nodes: "\<exists>b1 i1. run_plugin zero_AIScaler nodes_i b = (None, b1, i1)" for b
    by (simp add: run_plugin_def nodes_i_def nodes_plugin_def plugin_of_def nodes_Collect_def sample_deps_def Let_def)
  have keda: "\<exists>e b1 i1. run_plugin zero_AIScaler keda_i b = (Some e, b1, i1)" for b
    by (simp add: run_plugin_def keda_i_def keda_plugin_def plugin_of_def keda_Init_def with_required_def cfg_entry_def
        keda_Collect_def sample_deps_def)
  have names: "pg_Name (pi_plugin nodes_i) = ''nodes''" "pg_Name (pi_plugin keda_i) = ''keda''"
      "pi_required nodes_i = False" "pi_required keda_i = False"
    by (simp_all add: nodes_i_def keda_i_def nodes_plugin_def keda_plugin_def plugin_of_def)
  let ?b0 = "zero_Bundle \<lparr>b_CollectedAt := ge_now ?env\<rparr>"
  obtain b1 i1 where r1: "run_plugin zero_AIScaler nodes_i ?b0 = (None, b1, i1)" using nodes by blast
  obtain e b2 i2 where r2: "run_plugin zero_AIScaler keda_i b1 = (Some e, b2, i2)" using keda by blast
  have run: "fst (manager_Collect ?env zero_AIScaler [nodes_i, keda_i]) = Inr b2"
    using r1 r2 names by (simp add: manager_Collect_def)
  have os: "outcomes zero_AIScaler [nodes_i, keda_i] ?b0 = [(''nodes'', False, True), (''keda'', False, False)]"
    using r1 r2 names by simp
  have "fmlookup (b_SourceHealth b2) ''nodes'' = Some True" "fmlookup (b_SourceHealth b2) ''keda'' = Some False"
    using collection_health_exact [OF start' new run, of "''nodes''"] collection_health_exact [OF start' new run, of "''keda''"]
    unfolding os by (simp_all add: last_outcome_def)
  then show ?thesis using start new run by blast
qed

end
