(* ===== verification/Legacy_Signals.thy ===== *)
theory Legacy_Signals
  imports Prometheus_Plugin
begin

text \<open>
  \<open>internal/signals\<close>: the collector the plugins replaced, and that its bundle is a part of theirs.  The
  package reads the deprecated field \<open>spec.prometheus\<close>; nothing imports it any more.  The clients, the
  decoders and the addition of quantities (apimachinery's \<open>Quantity.Add\<close>) are parameters.
\<close>

section \<open>The bundle\<close>

record legacy_AnnotationSignals =
  la_ExpectedTraffic :: string
  la_ScaleConservatively :: bool
  la_FreezeUntil :: "time option"
  la_Note :: string
  la_PeakHours :: string

record legacy_Bundle =
  lb_CPUUtilization :: float64
  lb_MemoryUtilization :: float64
  lb_P95LatencyMs :: float64
  lb_ErrorRate :: float64
  lb_CurrentReplicas :: int32
  lb_ReadyReplicas :: int32
  lb_DeploymentReady :: bool
  lb_CollectedAt :: time
  lb_Annotations :: legacy_AnnotationSignals

definition zero_legacy_Bundle :: legacy_Bundle where
  "zero_legacy_Bundle = \<lparr>lb_CPUUtilization = 0, lb_MemoryUtilization = 0, lb_P95LatencyMs = 0, lb_ErrorRate = 0,
     lb_CurrentReplicas = 0, lb_ReadyReplicas = 0, lb_DeploymentReady = False, lb_CollectedAt = zero_time,
     lb_Annotations = \<lparr>la_ExpectedTraffic = [], la_ScaleConservatively = False, la_FreezeUntil = None,
       la_Note = [], la_PeakHours = []\<rparr>\<rparr>"

record 'q Collector =
  lc_client :: "'q Client"
  lc_metrics :: "'q MetricsEnv"
  lc_zero :: 'q
  lc_add :: "'q \<Rightarrow> 'q \<Rightarrow> 'q"
  lc_prometheus :: PrometheusEnv
  lc_parseTime :: "string \<Rightarrow> go_error + time"
  lc_now :: time

definition legacy_get_error :: "'q AIScaler \<Rightarrow> api_error \<Rightarrow> string" where
  "legacy_get_error policy e = ''failed to get deployment '' @ target_ns policy @ ''/'' @ target_name policy
     @ '': '' @ api_error_text e"

section \<open>Metrics\<close>

text \<open>The requests are added as quantities, and the sum is converted.\<close>

fun total_request :: "('q \<Rightarrow> 'q \<Rightarrow> 'q) \<Rightarrow> string \<Rightarrow> 'q Container list \<Rightarrow> 'q \<Rightarrow> 'q" where
  "total_request add name [] t = t"
| "total_request add name (ct # cts) t = total_request add name cts
     (case fmlookup (ct_Requests ct) name of Some req \<Rightarrow> add t req | None \<Rightarrow> t)"

definition request_percent :: "float64 \<Rightarrow> float64 \<Rightarrow> float64" where
  "request_percent avg req = (if 0 < req then avg div req * f_of_int 100 else 0)"

definition legacy_podUtilization :: "'q Collector \<Rightarrow> string \<Rightarrow> 'q Workload \<Rightarrow> go_error + (float64 \<times> float64)" where
  "legacy_podUtilization c ns deploy = (case me_podMetrics (lc_metrics c) ns (w_Selector deploy) of
     Inl e \<Rightarrow> Inl e
   | Inr items \<Rightarrow> (if length items = 0 then Inr (0, 0) else (let
       totalCPUReq = total_request (lc_add c) ''cpu'' (w_Containers deploy) (lc_zero c);
       totalMemReq = total_request (lc_add c) ''memory'' (w_Containers deploy) (lc_zero c);
       n = f_of_int (int (length items));
       avgCpu = sum_usage fst (concat items) 0 div n;
       avgMem = sum_usage snd (concat items) 0 div n;
       cpuReqMilli = f_of_int64 (me_milliValue (lc_metrics c) totalCPUReq);
       memReqBytes = f_of_int64 (me_value (lc_metrics c) totalMemReq)
     in Inr (request_percent avgCpu cpuReqMilli, request_percent avgMem memReqBytes))))"

definition legacy_metrics_collect :: "'q Collector \<Rightarrow> 'q AIScaler \<Rightarrow> legacy_Bundle \<Rightarrow> go_error option \<times> legacy_Bundle" where
  "legacy_metrics_collect c policy bundle =
     (case cl_get (lc_client c) ''metrics.collect'' ''Deployment'' (target_ns policy) (target_name policy) of
        Inl e \<Rightarrow> (Some (legacy_get_error policy e), bundle)
      | Inr deploy \<Rightarrow> (let
          b = bundle \<lparr>lb_CurrentReplicas := w_StatusReplicas deploy, lb_ReadyReplicas := w_ReadyReplicas deploy,
            lb_DeploymentReady := (w_ReadyReplicas deploy = w_StatusReplicas deploy \<and> 0 <s w_StatusReplicas deploy)\<rparr>
        in case legacy_podUtilization c (target_ns policy) deploy of
             Inl e \<Rightarrow> (None, b \<lparr>lb_CPUUtilization := 0, lb_MemoryUtilization := 0\<rparr>)
           | Inr (cpuUtil, memUtil) \<Rightarrow> (None, b \<lparr>lb_CPUUtilization := cpuUtil, lb_MemoryUtilization := memUtil\<rparr>)))"

section \<open>Prometheus\<close>

text \<open>A query without token, template variables or choice of timeout.\<close>

definition legacy_query :: "PrometheusEnv \<Rightarrow> string \<Rightarrow> string \<Rightarrow> go_error + float64" where
  "legacy_query env baseUrl promql =
     (case pe_http env (get_request (baseUrl @ ''/api/v1/query'' @ ''?'' @ encode_query [(''query'', promql)]) (10 * second)) of
        NoRequest e \<Rightarrow> Inl e
      | NoReply e \<Rightarrow> Inl e
      | Reply status body \<Rightarrow> (case pe_decode env body of
          Inl e \<Rightarrow> Inl (''failed to decode prometheus response: '' @ e)
        | Inr result \<Rightarrow>
            (if pr_Status result \<noteq> ''success''
             then Inl (''prometheus returned status '' @ go_quote (pr_Status result))
             else if length (pr_Result result) = 0 then Inr 0
             else (case snd (hd (pr_Result result)) of
                 JStr raw \<Rightarrow> ParseFloat (pe_parse env) raw
               | _ \<Rightarrow> Inl ''unexpected value type in prometheus response''))))"

text \<open>A query that is configured: its failure is the error, its value is stored.\<close>

definition stored_query :: "PrometheusEnv \<Rightarrow> string \<Rightarrow> string \<Rightarrow> string \<Rightarrow> (float64 \<Rightarrow> legacy_Bundle \<Rightarrow> legacy_Bundle)
    \<Rightarrow> legacy_Bundle \<Rightarrow> go_error option \<times> legacy_Bundle" where
  "stored_query env baseUrl what q store b = (if q = [] then (None, b)
     else (case legacy_query env baseUrl q of
         Inl e \<Rightarrow> (Some (''failed to query '' @ what @ '': '' @ e), b)
       | Inr v \<Rightarrow> (None, store v b)))"

definition legacy_prometheus_collect :: "PrometheusEnv \<Rightarrow> 'q AIScaler \<Rightarrow> legacy_Bundle \<Rightarrow> go_error option \<times> legacy_Bundle" where
  "legacy_prometheus_collect env policy bundle = (let prom = spec_Prometheus (ai_Spec policy); baseUrl = pr_BaseURL prom in
     if baseUrl = [] then (None, bundle)
     else (case stored_query env baseUrl ''p95 latency'' (pr_P95LatencyQuery prom) (\<lambda>v b. b \<lparr>lb_P95LatencyMs := v\<rparr>) bundle of
         (Some e, b1) \<Rightarrow> (Some e, b1)
       | (None, b1) \<Rightarrow> stored_query env baseUrl ''error rate'' (pr_ErrorRateQuery prom) (\<lambda>v b. b \<lparr>lb_ErrorRate := v\<rparr>) b1))"

section \<open>Annotations\<close>

definition set_legacy_annotations :: "(legacy_AnnotationSignals \<Rightarrow> legacy_AnnotationSignals) \<Rightarrow> legacy_Bundle \<Rightarrow> legacy_Bundle" where
  "set_legacy_annotations f b = b \<lparr>lb_Annotations := f (lb_Annotations b)\<rparr>"

definition legacy_annotation_signals :: "'q Collector \<Rightarrow> (string, string) fmap \<Rightarrow> legacy_Bundle \<Rightarrow> go_error option \<times> legacy_Bundle" where
  "legacy_annotation_signals c ann bundle = (let
     b = set_legacy_annotations (\<lambda>a. a
       \<lparr>la_ExpectedTraffic := annotation_or_empty ann ''aiscaler.io/expected-traffic'',
        la_ScaleConservatively := annotation_or_empty ann ''aiscaler.io/scale-conservatively'' = ''true'',
        la_Note := annotation_or_empty ann ''aiscaler.io/note'',
        la_PeakHours := annotation_or_empty ann ''aiscaler.io/peak-hours''\<rparr>) bundle
   in case fmlookup ann ''aiscaler.io/freeze-until'' of
        None \<Rightarrow> (None, b)
      | Some raw \<Rightarrow> (case lc_parseTime c raw of
          Inl e \<Rightarrow> (Some (''invalid freeze-until timestamp '' @ go_quote raw @ '': '' @ e), b)
        | Inr t \<Rightarrow> (None, set_legacy_annotations (\<lambda>a. a \<lparr>la_FreezeUntil := Some t\<rparr>) b)))"

definition legacy_annotations_collect :: "'q Collector \<Rightarrow> 'q AIScaler \<Rightarrow> legacy_Bundle \<Rightarrow> go_error option \<times> legacy_Bundle" where
  "legacy_annotations_collect c policy bundle =
     (case cl_get (lc_client c) ''annotations.collect'' ''Deployment'' (target_ns policy) (target_name policy) of
        Inl e \<Rightarrow> (Some (legacy_get_error policy e), bundle)
      | Inr deploy \<Rightarrow> (case w_Annotations deploy of
          None \<Rightarrow> (None, bundle)
        | Some ann \<Rightarrow> legacy_annotation_signals c ann bundle))"

section \<open>The collector\<close>

definition collector_Collect :: "'q Collector \<Rightarrow> 'q AIScaler \<Rightarrow> go_error + legacy_Bundle" where
  "collector_Collect c policy =
     (case legacy_metrics_collect c policy (zero_legacy_Bundle \<lparr>lb_CollectedAt := lc_now c\<rparr>) of
        (Some e, b) \<Rightarrow> Inl (''failed to collect metrics: '' @ e)
      | (None, b1) \<Rightarrow> (case legacy_prometheus_collect (lc_prometheus c) policy b1 of
          (_, b2) \<Rightarrow> (case legacy_annotations_collect c policy b2 of (_, b3) \<Rightarrow> Inr b3)))"

section \<open>Lemmas\<close>

text \<open>The fields of the plugins' bundle that the old bundle had.\<close>

definition legacy_annotations_of :: "AnnotationSignals \<Rightarrow> legacy_AnnotationSignals" where
  "legacy_annotations_of a = \<lparr>la_ExpectedTraffic = an_ExpectedTraffic a, la_ScaleConservatively = an_ScaleConservatively a,
     la_FreezeUntil = an_FreezeUntil a, la_Note = an_Note a, la_PeakHours = an_PeakHours a\<rparr>"

definition legacy_view :: "Bundle \<Rightarrow> legacy_Bundle" where
  "legacy_view b = \<lparr>lb_CPUUtilization = b_CPUUtilization b, lb_MemoryUtilization = b_MemoryUtilization b,
     lb_P95LatencyMs = b_P95LatencyMs b, lb_ErrorRate = b_ErrorRate b, lb_CurrentReplicas = b_CurrentReplicas b,
     lb_ReadyReplicas = b_ReadyReplicas b, lb_DeploymentReady = b_DeploymentReady b,
     lb_CollectedAt = b_CollectedAt b, lb_Annotations = legacy_annotations_of (b_Annotations b)\<rparr>"

text \<open>The sum of the requests converts to the sum of the converted requests: no fraction of a unit is rounded up.\<close>

definition requests_add_up :: "'q Collector \<Rightarrow> 'q Workload \<Rightarrow> bool" where
  "requests_add_up c w \<longleftrightarrow>
     me_milliValue (lc_metrics c) (total_request (lc_add c) ''cpu'' (w_Containers w) (lc_zero c))
       = sum_requests ''cpu'' (me_milliValue (lc_metrics c)) (w_Containers w) 0
   \<and> me_value (lc_metrics c) (total_request (lc_add c) ''memory'' (w_Containers w) (lc_zero c))
       = sum_requests ''memory'' (me_value (lc_metrics c)) (w_Containers w) 0"

lemma f_of_int_pos: "0 < f_of_int n \<longleftrightarrow> 0 < n"
proof (cases "n = 0")
  case True
  then show ?thesis by (simp add: float_zero_of_int [symmetric] f_less_iff)
next
  case False
  have r: "is_rounding (of_int n) (f_of_int n)"
    using f_signed_rounding [of n 1 0] False by (simp add: f_of_int_def)
  obtain k where k: "0 < k" "k < inf_pat" "mval k = 1" using int_representable [of 1] by auto
  obtain m where m: "f_of_int n = F64 (n < 0) (of_nat m)" "rounds \<bar>of_int n\<bar> m"
    using r by (auto simp: is_rounding_def)
  have "k \<le> m" using rounds_ge [OF m(2) k(1,2)] k(3) False by simp
  then have "0 < mval m" using k by (metis mval_pos_iff order_less_le_trans)
  then have "0 < val (f_of_int n) \<longleftrightarrow> 0 < n"
    using rounds_le_inf [OF m(2)] False by (auto simp: m(1) val_F64)
  moreover have "\<not> is_nan (f_of_int n)"
    using rounding_finite_or_inf [OF r] .
  ultimately show ?thesis by (simp add: f_less_iff)
qed

lemma f_of_int64_pos: "0 < f_of_int64 a \<longleftrightarrow> 0 <s a"
  by (simp add: f_of_int64_def f_of_int_pos word_sless_alt)

lemma utilization_agrees:
  "requests_add_up c w \<Longrightarrow> legacy_podUtilization c ns w = podUtilization (lc_metrics c) ns w"
  by (simp add: legacy_podUtilization_def podUtilization_def requests_add_up_def request_percent_def usage_percent_def
      f_of_int64_pos Let_def split: sum.split)

lemma legacy_view_simps [simp]:
  "legacy_view (b \<lparr>b_SourceHealth := h\<rparr>) = legacy_view b"
  "legacy_view (b \<lparr>b_CustomSignals := m\<rparr>) = legacy_view b"
  "legacy_view (b \<lparr>b_P95LatencyMs := v\<rparr>) = (legacy_view b) \<lparr>lb_P95LatencyMs := v\<rparr>"
  "legacy_view (b \<lparr>b_ErrorRate := v\<rparr>) = (legacy_view b) \<lparr>lb_ErrorRate := v\<rparr>"
  "legacy_view (zero_Bundle \<lparr>b_CollectedAt := t\<rparr>) = zero_legacy_Bundle \<lparr>lb_CollectedAt := t\<rparr>"
  by (simp_all add: legacy_view_def zero_legacy_Bundle_def zero_signal_defs legacy_annotations_of_def)

lemma metrics_agrees:
  assumes "\<And>site. cl_get (lc_client c) site ''Deployment'' (target_ns p) (target_name p) = dep"
    and "\<And>w. dep = Inr w \<Longrightarrow> requests_add_up c w"
    and "metrics_Collect (lc_client c) (lc_metrics c) p b = (e, b', h)"
    and "legacy_metrics_collect c p (legacy_view b) = (e', lb)"
  shows "(e = None \<longleftrightarrow> e' = None) \<and> legacy_view b' = lb"
proof (cases dep)
  case (Inl err)
  then show ?thesis using assms by (auto simp: metrics_Collect_def legacy_metrics_collect_def)
next
  case (Inr w)
  have u: "legacy_podUtilization c (target_ns p) w = podUtilization (lc_metrics c) (target_ns p) w"
    using utilization_agrees assms(2) Inr by blast
  show ?thesis
    using assms(3,4) u by (auto simp: metrics_Collect_def legacy_metrics_collect_def assms(1) Inr Let_def legacy_view_def
        split: sum.splits)
qed

lemma query_agrees:
  assumes "pm_baseURL p = url" and "pm_timeout p = 10 * second" and "pm_bearerToken p = []" and "\<not> pm_tlsSkipVerify p"
  shows "legacy_query env url q = prometheus_query env p q"
proof -
  have "query_request p q = get_request (url @ ''/api/v1/query'' @ ''?'' @ encode_query [(''query'', q)]) (10 * second)"
    using assms by (simp add: query_request_def bearer_def get_request_def)
  then show ?thesis
    by (auto simp: legacy_query_def prometheus_query_def sample_value_def neq_Nil_conv
        split: http_reply.split sum.split list.split prod.split json.split)
qed

lemma custom_queries_view [simp]: "legacy_view (custom_queries env p policy qs b) = legacy_view b"
  by (induction env p policy qs b rule: custom_queries.induct) (auto simp: set_custom_def split: sum.splits)

text \<open>The plugin's configuration that says what the deprecated field said.\<close>

definition prometheus_entries :: "PrometheusConfig \<Rightarrow> plugin_cfg" where
  "prometheus_entries prom = fmupd ''baseURL'' (pr_BaseURL prom) (fmupd ''p95LatencyQuery'' (pr_P95LatencyQuery prom)
     (fmupd ''errorRateQuery'' (pr_ErrorRateQuery prom) fmempty))"

definition literal_queries :: "'q AIScaler \<Rightarrow> bool" where
  "literal_queries p \<longleftrightarrow> expandVars (pr_P95LatencyQuery (spec_Prometheus (ai_Spec p))) p = pr_P95LatencyQuery (spec_Prometheus (ai_Spec p))
     \<and> expandVars (pr_ErrorRateQuery (spec_Prometheus (ai_Spec p))) p = pr_ErrorRateQuery (spec_Prometheus (ai_Spec p))"

lemma prometheus_agrees:
  assumes "prometheus_Init env secret (prometheus_entries (spec_Prometheus (ai_Spec p))) = Inr pl" and "literal_queries p"
    and "prometheus_Collect env pl p b = (e, b', h)"
    and "legacy_prometheus_collect env p (legacy_view b) = (e', lb)"
  shows "legacy_view b' = lb"
proof -
  let ?prom = "spec_Prometheus (ai_Spec p)"
  have pl: "pm_p95LatencyQuery pl = pr_P95LatencyQuery ?prom" "pm_errorRateQuery pl = pr_ErrorRateQuery ?prom"
      "pm_queueDepthQuery pl = []" "pr_BaseURL ?prom \<noteq> []"
    and base: "pm_baseURL pl = pr_BaseURL ?prom" "pm_timeout pl = 10 * second" "pm_bearerToken pl = []" "\<not> pm_tlsSkipVerify pl"
    using assms(1) by (auto simp: prometheus_Init_def prometheus_entries_def cfg_entry_def timeout_entry_def
        custom_queries_entry_def split: if_splits sum.splits)
  note q = query_agrees [OF base, of env]
  show ?thesis
    using assms(2-4) pl(4)
    by (auto simp: prometheus_Collect_def core_query_def legacy_prometheus_collect_def stored_query_def q pl(1-3)
        literal_queries_def Let_def split: if_splits sum.splits)
qed

lemma annotation_views:
  "legacy_view (annotation_texts ann b) = set_legacy_annotations (\<lambda>a. a
     \<lparr>la_ExpectedTraffic := annotation_or_empty ann ''aiscaler.io/expected-traffic'',
      la_ScaleConservatively := annotation_or_empty ann ''aiscaler.io/scale-conservatively'' = ''true'',
      la_Note := annotation_or_empty ann ''aiscaler.io/note'',
      la_PeakHours := annotation_or_empty ann ''aiscaler.io/peak-hours''\<rparr>) (legacy_view b)"
  "legacy_view (set_annotations (\<lambda>a. a \<lparr>an_FreezeUntil := t\<rparr>) b) =
     set_legacy_annotations (\<lambda>a. a \<lparr>la_FreezeUntil := t\<rparr>) (legacy_view b)"
  "legacy_view (snd (annotation_rules env ann b)) = legacy_view b"
  by (simp_all add: annotation_texts_def annotation_rules_def set_annotations_def set_legacy_annotations_def
      legacy_view_def legacy_annotations_of_def split: option.split sum.split)

lemma annotation_signals_agree:
  assumes "ae_parseTime env = lc_parseTime c"
  shows "legacy_view (snd (annotation_signals env ann b)) = snd (legacy_annotation_signals c ann (legacy_view b))"
  using assms by (simp add: annotation_signals_def legacy_annotation_signals_def annotation_views Let_def
      split: option.split sum.split)

lemma annotations_agree:
  assumes "\<And>site. cl_get (lc_client c) site ''Deployment'' (target_ns p) (target_name p) = dep"
    and "ae_parseTime env = lc_parseTime c"
  shows "legacy_view (fst (snd (annotations_Collect (lc_client c) env p b)))
    = snd (legacy_annotations_collect c p (legacy_view b))"
  using annotation_signals_agree [OF assms(2)]
  by (simp add: annotations_Collect_def legacy_annotations_collect_def assms(1) prod.case_eq_if
      split: sum.split option.split)

section \<open>Properties\<close>

text \<open>The signal list that takes the place of the collector.\<close>

definition migrated_signals :: "'q AIScaler \<Rightarrow> SignalSourceConfig list" where
  "migrated_signals p =
     [\<lparr>ss_Name = ''metrics-server'', ss_Required = True, ss_Config = fmempty, ss_SecretRef = None\<rparr>,
      \<lparr>ss_Name = ''prometheus'', ss_Required = False, ss_Config = prometheus_entries (spec_Prometheus (ai_Spec p)), ss_SecretRef = None\<rparr>,
      \<lparr>ss_Name = ''annotations'', ss_Required = False, ss_Config = fmempty, ss_SecretRef = None\<rparr>]"

lemma migrated_nonempty: "migrated_signals p \<noteq> []"
  by (simp add: migrated_signals_def)

lemma new_instance_init:
  "new_instance env sc = Inr i \<Longrightarrow> pg_Init (pi_plugin i) (pi_secret i) (pi_config i) = None"
  by (auto simp: new_instance_def split: sum.splits option.splits)

lemma run_plugin_view:
  "legacy_view (fst (snd (run_plugin p i b))) = legacy_view (fst (snd (pg_Collect (pi_plugin i) (pi_secret i) (pi_config i) p b)))"
  "fst (run_plugin p i b) = fst (pg_Collect (pi_plugin i) (pi_secret i) (pi_config i) p b)"
  by (simp_all add: run_plugin_def split: prod.split)

lemma collect_optional:
  assumes "\<not> pi_required i" and "\<not> pi_required j"
  shows "\<exists>b2. fst (collect_from p [i, j] b) = Inr b2
    \<and> legacy_view b2 = legacy_view (fst (snd (run_plugin p j (fst (snd (run_plugin p i b))))))"
  using assms by (auto split: prod.splits option.splits)

lemma collect_required:
  assumes "run_plugin p i b = (e, b1, i1)" and "pi_required i"
  shows "fst (collect_from p (i # is) b) = (case e of None \<Rightarrow> fst (collect_from p is b1)
    | Some e \<Rightarrow> Inl (''required signal plugin '' @ go_quote (pg_Name (pi_plugin i)) @ '' failed: '' @ e))"
  using assms by (simp split: option.split prod.split)

text \<open>The three instances of the migrated list, and what running one does to the shared fields.\<close>

definition migrated :: "'q Collector \<Rightarrow> AnnotationEnv \<Rightarrow> 'q AIScaler \<Rightarrow> 'q pluginInstance \<Rightarrow> 'q pluginInstance
    \<Rightarrow> 'q pluginInstance \<Rightarrow> bool" where
  "migrated c ae p i j k \<longleftrightarrow>
     pi_plugin i = metrics_plugin (lc_client c) (lc_metrics c) \<and> pi_required i
   \<and> pi_plugin j = prometheus_plugin (lc_prometheus c) \<and> \<not> pi_required j
   \<and> pi_config j = prometheus_entries (spec_Prometheus (ai_Spec p))
   \<and> pg_Init (pi_plugin j) (pi_secret j) (pi_config j) = None
   \<and> pi_plugin k = annotations_plugin (lc_client c) ae \<and> \<not> pi_required k"

lemma migrated_instances:
  assumes "fmlookup (ge_registry env) ''metrics-server'' = Some (metrics_plugin (lc_client c) (lc_metrics c))"
    and "fmlookup (ge_registry env) ''prometheus'' = Some (prometheus_plugin (lc_prometheus c))"
    and "fmlookup (ge_registry env) ''annotations'' = Some (annotations_plugin (lc_client c) ae)"
    and "NewManager env (migrated_signals p) = Inr is"
  shows "\<exists>i j k. is = [i, j, k] \<and> migrated c ae p i j k"
proof -
  have "list_all2 (\<lambda>sc i. new_instance env sc = Inr i) (migrated_signals p) is"
    using assms(4) by (simp add: NewManager_def new_instances_Inr migrated_nonempty)
  then obtain i j k where is3: "is = [i, j, k]" and new: "new_instance env (migrated_signals p ! 0) = Inr i"
      "new_instance env (migrated_signals p ! 1) = Inr j" "new_instance env (migrated_signals p ! 2) = Inr k"
    by (auto simp: migrated_signals_def list_all2_Cons1)
  note f = new [THEN new_instance_fields] new(2) [THEN new_instance_init]
  show ?thesis using f assms(1-3) is3 by (simp add: migrated_def migrated_signals_def)
qed

lemma prometheus_run_view:
  assumes "migrated c ae p i j k" and "literal_queries p"
  shows "legacy_view (fst (snd (run_plugin p j b))) = snd (legacy_prometheus_collect (lc_prometheus c) p (legacy_view b))"
proof -
  obtain pl where pl: "prometheus_Init (lc_prometheus c) (pi_secret j) (prometheus_entries (spec_Prometheus (ai_Spec p))) = Inr pl"
    using assms(1) by (auto simp: migrated_def prometheus_plugin_def plugin_of_def split: sum.splits)
  obtain e b' h where run: "prometheus_Collect (lc_prometheus c) pl p b = (e, b', h)" by (metis prod_cases3)
  have "fst (snd (pg_Collect (pi_plugin j) (pi_secret j) (pi_config j) p b)) = b'"
    using assms(1) pl run by (simp add: migrated_def prometheus_plugin_def plugin_of_def)
  then show ?thesis
    using prometheus_agrees [OF pl assms(2) run prod.collapse [symmetric]] by (simp add: run_plugin_view)
qed

lemma annotations_run_view:
  assumes "migrated c ae p i j k" and "ae_parseTime ae = lc_parseTime c"
    and "\<And>site. cl_get (lc_client c) site ''Deployment'' (target_ns p) (target_name p) = dep"
  shows "legacy_view (fst (snd (run_plugin p k b))) = snd (legacy_annotations_collect c p (legacy_view b))"
  using annotations_agree [OF assms(3,2)] assms(1) by (simp add: migrated_def run_plugin_view annotations_plugin_def)

lemma metrics_run_view:
  assumes "migrated c ae p i j k" and "\<And>w. dep = Inr w \<Longrightarrow> requests_add_up c w"
    and "\<And>site. cl_get (lc_client c) site ''Deployment'' (target_ns p) (target_name p) = dep"
  shows "(fst (run_plugin p i b) = None \<longleftrightarrow> fst (legacy_metrics_collect c p (legacy_view b)) = None)
    \<and> legacy_view (fst (snd (run_plugin p i b))) = snd (legacy_metrics_collect c p (legacy_view b))"
proof -
  obtain e b' h where run: "metrics_Collect (lc_client c) (lc_metrics c) p b = (e, b', h)" by (metis prod_cases3)
  show ?thesis
    using metrics_agrees [OF assms(3,2) run prod.collapse [symmetric]] assms(1) run
    by (simp add: migrated_def run_plugin_view metrics_plugin_def)
qed

text \<open>
  C37. The plugins refine the collector they replaced: for a cluster that answers the same at every read, queries
  without template variables and requests that add up, the migrated signal list fails when the collector
  fails, and otherwise its bundle has, in the fields the old bundle had, the same values; a failing query
  or an unreadable annotation leaves both with the same part of the signals.
\<close>

theorem plugins_refine_collector:
  assumes "fmlookup (ge_registry env) ''metrics-server'' = Some (metrics_plugin (lc_client c) (lc_metrics c))"
    and "fmlookup (ge_registry env) ''prometheus'' = Some (prometheus_plugin (lc_prometheus c))"
    and "fmlookup (ge_registry env) ''annotations'' = Some (annotations_plugin (lc_client c) ae)"
    and "NewManager env (migrated_signals p) = Inr is"
    and "ae_parseTime ae = lc_parseTime c" and "ge_now env = lc_now c"
    and dep: "\<And>site. cl_get (lc_client c) site ''Deployment'' (target_ns p) (target_name p) = dep"
    and sums: "\<And>w. dep = Inr w \<Longrightarrow> requests_add_up c w" and "literal_queries p"
  shows "case collector_Collect c p of
      Inl e \<Rightarrow> isl (fst (manager_Collect env p is))
    | Inr b \<Rightarrow> \<exists>b'. fst (manager_Collect env p is) = Inr b' \<and> legacy_view b' = b"
proof -
  obtain i j k where is3: "is = [i, j, k]" and pi: "migrated c ae p i j k"
    using migrated_instances [OF assms(1-4)] by blast
  define b0 where "b0 = zero_Bundle \<lparr>b_CollectedAt := ge_now env\<rparr>"
  have v0: "zero_legacy_Bundle \<lparr>lb_CollectedAt := lc_now c\<rparr> = legacy_view b0" by (simp add: b0_def assms(6))
  obtain e1 b1 i1 where r1: "run_plugin p i b0 = (e1, b1, i1)" by (metis prod_cases3)
  obtain b2 where b2: "fst (collect_from p [j, k] b1) = Inr b2"
      "legacy_view b2 = legacy_view (fst (snd (run_plugin p k (fst (snd (run_plugin p j b1))))))"
    using collect_optional [of j k p b1] pi by (auto simp: migrated_def)
  have view2: "legacy_view b2 = snd (legacy_annotations_collect c p (snd (legacy_prometheus_collect (lc_prometheus c) p (legacy_view b1))))"
    unfolding b2(2) annotations_run_view [OF pi assms(5) dep] prometheus_run_view [OF pi assms(9)] ..
  have m: "e1 = None \<longleftrightarrow> fst (legacy_metrics_collect c p (legacy_view b0)) = None"
      "legacy_view b1 = snd (legacy_metrics_collect c p (legacy_view b0))"
    using metrics_run_view [OF pi sums dep, of b0] r1 by simp_all
  have man: "fst (manager_Collect env p is) = (case e1 of None \<Rightarrow> Inr b2
      | Some e \<Rightarrow> Inl (''required signal plugin '' @ go_quote (pg_Name (pi_plugin i)) @ '' failed: '' @ e))"
    unfolding manager_Collect_def is3 b0_def [symmetric]
    using collect_required [OF r1, of "[j, k]"] pi by (simp only: b2(1) migrated_def simp_thms)
  show ?thesis
    using m view2 by (auto simp: collector_Collect_def man v0 prod.case_eq_if split: option.split)
qed

definition migrating_policy :: "nat AIScaler" where
  "migrating_policy = zero_AIScaler \<lparr>ai_Spec := (ai_Spec zero_AIScaler) \<lparr>spec_Prometheus :=
     \<lparr>pr_BaseURL = ''http://prom'', pr_P95LatencyQuery = ''up'', pr_ErrorRateQuery = ''down''\<rparr>\<rparr>\<rparr>"

definition sample_collector :: "nat Collector" where
  "sample_collector = \<lparr>lc_client = sample_client 3,
     lc_metrics = \<lparr>me_milliValue = of_nat, me_value = of_nat, me_podMetrics = (\<lambda>_ _. Inr [])\<rparr>,
     lc_zero = 0, lc_add = (+), lc_prometheus = up_env, lc_parseTime = (\<lambda>_. Inl ''bad''), lc_now = 7\<rparr>"

definition sample_annotations :: AnnotationEnv where
  "sample_annotations = \<lparr>ae_parseTime = (\<lambda>_. Inl ''bad''), ae_parseRules = (\<lambda>_. Inr [])\<rparr>"

definition migrating_env :: "nat PluginEnv" where
  "migrating_env = \<lparr>ge_registry =
       fmupd ''metrics-server'' (metrics_plugin (lc_client sample_collector) (lc_metrics sample_collector))
       (fmupd ''prometheus'' (prometheus_plugin (lc_prometheus sample_collector))
       (fmupd ''annotations'' (annotations_plugin (lc_client sample_collector) sample_annotations) fmempty)),
     ge_order = (\<lambda>_. []), ge_hasClient = True, ge_secret = (\<lambda>_ _. Inl (ApiNotFound [])), ge_now = 7\<rparr>"

lemma sample_queries:
  "legacy_query up_env ''http://prom'' ''up'' = Inr 1" "legacy_query up_env ''http://prom'' ''down'' = Inl ''refused''"
proof -
  have escape: "QueryEscape ''up'' = ''up''" "QueryEscape ''down'' = ''down''" "QueryEscape ''query'' = ''query''" by code_simp+
  show "legacy_query up_env ''http://prom'' ''up'' = Inr 1" "legacy_query up_env ''http://prom'' ''down'' = Inl ''refused''"
    by (simp_all add: legacy_query_def up_env_def get_request_def encode_query_def escape ParseFloat_def)
qed

lemma sample_collected:
  "\<exists>b. collector_Collect sample_collector migrating_policy = Inr b \<and> lb_P95LatencyMs b = 1 \<and> lb_ErrorRate b = 0 \<and> lb_CurrentReplicas b = 3"
  by (simp add: collector_Collect_def legacy_metrics_collect_def legacy_podUtilization_def legacy_prometheus_collect_def
      legacy_annotations_collect_def stored_query_def sample_queries sample_collector_def sample_client_def sample_workload_def
      migrating_policy_def zero_legacy_Bundle_def Let_def)

lemma migrating_runs: "\<exists>is. NewManager migrating_env (migrated_signals migrating_policy) = Inr is"
  by (simp add: NewManager_def migrated_signals_def new_instance_def Get_plugin_def plugin_secret_def migrating_env_def
      metrics_plugin_def annotations_plugin_def prometheus_plugin_def plugin_of_def prometheus_Init_def prometheus_entries_def
      cfg_entry_def custom_queries_entry_def migrating_policy_def sample_collector_def)

lemma plugins_refine_collector_witness:
  "\<exists>is b'. NewManager migrating_env (migrated_signals migrating_policy) = Inr is
    \<and> fst (manager_Collect migrating_env migrating_policy is) = Inr b' \<and> b_P95LatencyMs b' = 1 \<and> b_CurrentReplicas b' = 3"
proof -
  obtain "is" where new: "NewManager migrating_env (migrated_signals migrating_policy) = Inr is" using migrating_runs by blast
  have reg: "fmlookup (ge_registry migrating_env) ''metrics-server'' = Some (metrics_plugin (lc_client sample_collector) (lc_metrics sample_collector))"
    "fmlookup (ge_registry migrating_env) ''prometheus'' = Some (prometheus_plugin (lc_prometheus sample_collector))"
    "fmlookup (ge_registry migrating_env) ''annotations'' = Some (annotations_plugin (lc_client sample_collector) sample_annotations)"
    by (simp_all add: migrating_env_def)
  have time: "ae_parseTime sample_annotations = lc_parseTime sample_collector" "ge_now migrating_env = lc_now sample_collector"
    by (simp_all add: sample_annotations_def sample_collector_def migrating_env_def)
  have dep: "cl_get (lc_client sample_collector) site ''Deployment'' (target_ns migrating_policy) (target_name migrating_policy)
      = Inr (sample_workload 3)" for site
    by (simp add: sample_collector_def sample_client_def)
  have sums: "requests_add_up sample_collector w" if "(Inr (sample_workload 3) :: api_error + nat Workload) = Inr w" for w
    using that by (auto simp: requests_add_up_def sample_collector_def sample_workload_def)
  have literal: "literal_queries migrating_policy"
    by (simp add: literal_queries_def expandVars_def migrating_policy_def replace_vars.simps)
  show ?thesis
    using plugins_refine_collector [OF reg new time dep sums literal] new sample_collected
    by (auto simp: legacy_view_def)
qed

end
