(* ===== verification/History.thy ===== *)
theory History
  imports Prediction Http_Exchange Config
begin

text \<open>
  \<open>internal/prediction/history.go\<close>: the range query that fills the weekly baselines from Prometheus.
  The exchange, the decoder and the conversion of a float outside \<open>int64\<close> are parameters.
\<close>

section \<open>Query\<close>

text \<open>Of the envelope, the pairs of every series, each a list of JSON values.\<close>

record promRangeResponse =
  rg_Status :: string
  rg_ErrorType :: string
  rg_Error :: string
  rg_Series :: "json list list list"

record HistoryStore =
  hs_prometheusURL :: string

record HistoryEnv =
  he_http :: transport
  he_decode :: "http_body \<Rightarrow> go_error + promRangeResponse"
  he_parse :: float_parser
  he_seconds :: "float64 \<Rightarrow> int"
  he_tz :: "time \<Rightarrow> duration"
  he_now :: time

definition trim_slashes :: "string \<Rightarrow> string" where
  "trim_slashes s = rev (dropWhile (\<lambda>c. c = CHR ''/'') (rev s))"

text \<open>The range query of both Prometheus readers, the keys of the query in their order.\<close>

definition range_request :: "string \<Rightarrow> string \<Rightarrow> time \<Rightarrow> time \<Rightarrow> string \<Rightarrow> http_request" where
  "range_request url query start stop step = get_request (trim_slashes url @ ''/api/v1/query_range'' @ ''?''
     @ encode_query [(''end'', show_int (stop div second)), (''query'', query),
         (''start'', show_int (start div second)), (''step'', step)]) (30 * second)"

definition range_error :: "promRangeResponse \<Rightarrow> go_error" where
  "range_error r = (if rg_Error r \<noteq> []
     then ''prometheus query failed: '' @ rg_Error r @ '' ('' @ rg_ErrorType r @ '')''
     else ''prometheus query failed with status '' @ go_quote (rg_Status r))"

text \<open>One pair of a series: its slot and value, or nothing when it is malformed.\<close>

definition hourly_sample :: "HistoryEnv \<Rightarrow> json list \<Rightarrow> (int \<times> float64) option" where
  "hourly_sample env pair = (case pair of
     JNum ts # JStr s # _ \<Rightarrow> (case ParseFloat (he_parse env) s of
         Inl _ \<Rightarrow> None
       | Inr v \<Rightarrow> Some (int (timeToSlot (he_tz env) (he_seconds env ts * second)), v))
   | _ \<Rightarrow> None)"

fun add_samples :: "HistoryEnv \<Rightarrow> json list list \<Rightarrow> (int, float64) fmap \<Rightarrow> (int, int) fmap
    \<Rightarrow> (int, float64) fmap \<times> (int, int) fmap" where
  "add_samples env [] sm counts = (sm, counts)"
| "add_samples env (pair # pairs) sm counts = (case hourly_sample env pair of
     None \<Rightarrow> add_samples env pairs sm counts
   | Some (slot, v) \<Rightarrow> add_samples env pairs
       (fmupd slot ((case fmlookup sm slot of Some s \<Rightarrow> s | None \<Rightarrow> 0) + v) sm)
       (fmupd slot ((case fmlookup counts slot of Some c \<Rightarrow> c | None \<Rightarrow> 0) + 1) counts))"

definition averages_of :: "(int, float64) fmap \<Rightarrow> (int, int) fmap \<Rightarrow> (int, float64) fmap" where
  "averages_of sm counts = fmmap_keys
     (\<lambda>slot s. s div f_of_int (case fmlookup counts slot of Some c \<Rightarrow> c | None \<Rightarrow> 0))
     (fmfilter (\<lambda>slot. case fmlookup counts slot of Some c \<Rightarrow> 0 < c | None \<Rightarrow> False) sm)"

text \<open>\<open>time.Duration(days) * 24 * time.Hour\<close>, on \<open>int64\<close>.\<close>

definition days_window :: "int \<Rightarrow> duration" where
  "days_window days = sint (word_of_int (days * 24 * hour) :: int64)"

definition QueryHourlyAverages :: "HistoryEnv \<Rightarrow> HistoryStore \<Rightarrow> string \<Rightarrow> int \<Rightarrow> go_error + (int, float64) fmap" where
  "QueryHourlyAverages env h query days =
     (case he_http env (range_request (hs_prometheusURL h) query (he_now env - days_window days) (he_now env) ''3600'') of
        NoRequest e \<Rightarrow> Inl (''build request: '' @ e)
      | NoReply e \<Rightarrow> Inl (''prometheus query: '' @ e)
      | Reply status body \<Rightarrow>
         (if status \<noteq> 200 then Inl (''prometheus status '' @ show_int status @ '': '' @ read_prefix 4096 body)
          else (case he_decode env body of
              Inl e \<Rightarrow> Inl (''decode prometheus response: '' @ e)
            | Inr r \<Rightarrow> (if rg_Status r \<noteq> ''success'' then Inl (range_error r)
                else if rg_Series r = [] then Inr fmempty
                else (case add_samples env (concat (rg_Series r)) fmempty fmempty of
                    (sm, counts) \<Rightarrow> Inr (averages_of sm counts))))))"

section \<open>Lemmas\<close>

text \<open>The values of a slot, in the order they come.\<close>

definition slot_values :: "HistoryEnv \<Rightarrow> json list list \<Rightarrow> int \<Rightarrow> float64 list" where
  "slot_values env pairs slot = List.map snd (filter (\<lambda>(k, _). k = slot) (List.map_filter (hourly_sample env) pairs))"

lemma slot_values_Cons:
  "slot_values env (pair # pairs) slot = (case hourly_sample env pair of
     Some (k, v) \<Rightarrow> (if k = slot then v # slot_values env pairs slot else slot_values env pairs slot)
   | None \<Rightarrow> slot_values env pairs slot)"
  by (auto simp: slot_values_def map_filter_simps split: option.split)

lemma add_samples_counts:
  "add_samples env pairs sm counts = (sm', counts') \<Longrightarrow>
     fmlookup counts' slot = (if slot_values env pairs slot = [] then fmlookup counts slot
       else Some ((case fmlookup counts slot of Some c \<Rightarrow> c | None \<Rightarrow> 0) + int (length (slot_values env pairs slot))))"
  by (induction env pairs sm counts rule: add_samples.induct)
    (auto simp: slot_values_Cons slot_values_def [of _ "[]"] map_filter_simps split: option.splits prod.splits if_splits)

lemma add_samples_sums:
  "add_samples env pairs sm counts = (sm', counts') \<Longrightarrow>
     fmlookup sm' slot = (if slot_values env pairs slot = [] then fmlookup sm slot
       else Some (foldl (+) (case fmlookup sm slot of Some s \<Rightarrow> s | None \<Rightarrow> 0) (slot_values env pairs slot)))"
  by (induction env pairs sm counts rule: add_samples.induct)
    (auto simp: slot_values_Cons slot_values_def [of _ "[]"] map_filter_simps split: option.splits prod.splits if_splits)

lemma hourly_sample_range: "hourly_sample env pair = Some (slot, v) \<Longrightarrow> 0 \<le> slot \<and> slot < 168"
  using timeToSlot_range by (auto simp: hourly_sample_def split: list.splits json.splits sum.splits)

lemma slot_values_range: "slot_values env pairs slot \<noteq> [] \<Longrightarrow> 0 \<le> slot \<and> slot < 168"
proof (induction pairs)
  case (Cons pair pairs)
  then show ?case
    by (cases "hourly_sample env pair") (auto simp: slot_values_Cons dest: hourly_sample_range split: if_splits)
qed (simp add: slot_values_def map_filter_simps)

lemma averages_lookup:
  "add_samples env pairs fmempty fmempty = (sm, counts) \<Longrightarrow> fmlookup (averages_of sm counts) slot =
     (let vs = slot_values env pairs slot in if vs = [] then None else Some (foldl (+) 0 vs div f_of_int (int (length vs))))"
  by (auto simp: averages_of_def Let_def add_samples_sums [of env pairs fmempty fmempty sm counts]
      add_samples_counts [of env pairs fmempty fmempty sm counts])

section \<open>Properties\<close>

text \<open>
  The history read from Prometheus is, for every hour of the week, the mean of the well-formed samples of
  that hour, and only the 168 hours of the week occur; the table built from it holds
  that mean at the hour and 0 where there was no sample.
\<close>

theorem hourly_averages_exact:
  assumes "QueryHourlyAverages env h query days = Inr m"
    and "he_http env (range_request (hs_prometheusURL h) query (he_now env - days_window days) (he_now env) ''3600'')
      = Reply 200 body"
    and "he_decode env body = Inr r"
  shows "fmlookup m slot = (let vs = slot_values env (concat (rg_Series r)) slot in
        if vs = [] then None else Some (foldl (+) 0 vs div f_of_int (int (length vs))))
    \<and> (fmlookup m slot = None \<or> 0 \<le> slot \<and> slot < 168)"
proof -
  have m: "fmlookup m slot = (let vs = slot_values env (concat (rg_Series r)) slot in
        if vs = [] then None else Some (foldl (+) 0 vs div f_of_int (int (length vs))))"
    using assms by (auto simp: QueryHourlyAverages_def averages_lookup slot_values_def map_filter_simps
        split: if_splits prod.splits)
  then show ?thesis using slot_values_range [of env "concat (rg_Series r)" slot] by (auto simp: Let_def)
qed

definition two_samples :: HistoryEnv where
  "two_samples = \<lparr>he_http = (\<lambda>_. Reply 200 (Body [])),
     he_decode = (\<lambda>_. Inr \<lparr>rg_Status = ''success'', rg_ErrorType = [], rg_Error = [],
        rg_Series = [[[JNum 0, JStr ''x''], [JNull], [JNum 0, JStr ''x'']]]\<rparr>),
     he_parse = (\<lambda>_. (f_of_int 3, None)), he_seconds = (\<lambda>_. 0), he_tz = (\<lambda>_. 0), he_now = 0\<rparr>"

lemma hourly_averages_exact_witness:
  "\<exists>m. QueryHourlyAverages two_samples \<lparr>hs_prometheusURL = ''http://p''\<rparr> ''up'' 7 = Inr m
    \<and> fmlookup m 96 = Some ((0 + f_of_int 3 + f_of_int 3) div f_of_int 2) \<and> fmlookup m 0 = None"
proof -
  define r where "r = \<lparr>rg_Status = ''success'', rg_ErrorType = [], rg_Error = [],
        rg_Series = [[[JNum 0, JStr ''x''], [JNull], [JNum 0, JStr ''x'']]]\<rparr>"
  have env: "he_http two_samples q = Reply 200 (Body [])" "he_decode two_samples b = Inr r" for q b
    by (simp_all add: two_samples_def r_def)
  obtain m where m: "QueryHourlyAverages two_samples \<lparr>hs_prometheusURL = ''http://p''\<rparr> ''up'' 7 = Inr m"
    using env by (cases "add_samples two_samples (concat (rg_Series r)) fmempty fmempty")
      (simp add: QueryHourlyAverages_def r_def)
  have slot: "timeToSlot (\<lambda>_. 0) 0 = 96" by (simp add: timeToSlot_def unix_day_def)
  have vs: "slot_values two_samples (concat (rg_Series r)) k = (if k = 96 then [f_of_int 3, f_of_int 3] else [])" for k
    by (simp add: r_def slot_values_def map_filter_simps hourly_sample_def ParseFloat_def two_samples_def slot)
  from hourly_averages_exact [OF m env, of 96] hourly_averages_exact [OF m env, of 0] m show ?thesis
    by (simp add: vs)
qed

end
