(* ===== verification/Finops.thy ===== *)
theory Finops
  imports History Bounded_Log
begin

text \<open>
  \<open>internal/finops\<close>: historical usage percentiles from Prometheus, the judgement on over-provisioning, and
  the tracker of savings.  An index out of range is a panic in Go: such a computation is \<open>None\<close> here, and the
  lemmas show it never happens.
\<close>

section \<open>Percentiles\<close>

record HistoricalUsage =
  hu_CPUP50 :: float64
  hu_CPUP95 :: float64
  hu_CPUP99 :: float64
  hu_CPUMax :: float64
  hu_MemoryP50 :: float64
  hu_MemoryP95 :: float64
  hu_MemoryP99 :: float64
  hu_MemoryMax :: float64
  hu_OOMKills :: int
  hu_Throttled :: float64

definition zero_usage :: HistoricalUsage where
  "zero_usage = \<lparr>hu_CPUP50 = 0, hu_CPUP95 = 0, hu_CPUP99 = 0, hu_CPUMax = 0, hu_MemoryP50 = 0, hu_MemoryP95 = 0,
     hu_MemoryP99 = 0, hu_MemoryMax = 0, hu_OOMKills = 0, hu_Throttled = 0\<rparr>"

text \<open>
  The order of \<open>sort.Float64s\<close>: a NaN before every number.  Equal values differ at most in the sign of zero.
\<close>

definition sort_rank :: "float64 \<Rightarrow> int" where
  "sort_rank a = (if is_nan a then - (2 ^ 64) else f_key a)"

definition sort_floats :: "float64 list \<Rightarrow> float64 list" where
  "sort_floats = sort_key sort_rank"

text \<open>\<open>int(math.Floor(a))\<close> and \<open>int(math.Ceil(a))\<close> of a finite number.\<close>

definition floor_int :: "float64 \<Rightarrow> int option" where
  "floor_int a = (case view a of VFin s m e \<Rightarrow> Some (signed_mant s m * 2 ^ nat e div 2 ^ nat (- e)) | _ \<Rightarrow> None)"

definition ceil_int :: "float64 \<Rightarrow> int option" where
  "ceil_int a = (case view a of VFin s m e \<Rightarrow> Some (- (- (signed_mant s m * 2 ^ nat e) div 2 ^ nat (- e))) | _ \<Rightarrow> None)"

definition percentile :: "float64 list \<Rightarrow> float64 \<Rightarrow> float64 option" where
  "percentile xs p = (if xs = [] then Some 0 else (let
     sorted_xs = sort_floats xs;
     n = int (length sorted_xs);
     idx = p * f_of_int (n - 1)
   in (case (floor_int idx, ceil_int idx) of
       (Some lower, Some upper) \<Rightarrow>
         (if lower < 0 \<or> n \<le> lower then None
          else if lower = upper \<or> n \<le> upper then Some (sorted_xs ! nat lower)
          else if upper < 0 then None
          else (let frac = idx - f_of_int lower in
            Some (sorted_xs ! nat lower * (1 - frac) + sorted_xs ! nat upper * frac)))
     | _ \<Rightarrow> None)))"

section \<open>The collector\<close>

record FinopsEnv =
  fe_http :: transport
  fe_decode :: "http_body \<Rightarrow> go_error + promRangeResponse"
  fe_parse :: float_parser
  fe_now :: time

definition usage_sample :: "FinopsEnv \<Rightarrow> json list \<Rightarrow> float64 option" where
  "usage_sample env pair = (case pair of
     _ # JStr s # _ \<Rightarrow> (case ParseFloat (fe_parse env) s of Inl _ \<Rightarrow> None | Inr v \<Rightarrow> Some v) | _ \<Rightarrow> None)"

definition queryRange :: "FinopsEnv \<Rightarrow> string \<Rightarrow> string \<Rightarrow> duration \<Rightarrow> go_error + float64 list" where
  "queryRange env url query window =
     (case fe_http env (range_request url query (fe_now env - window) (fe_now env) ''300'') of
        NoRequest e \<Rightarrow> Inl e
      | NoReply e \<Rightarrow> Inl e
      | Reply status body \<Rightarrow>
         (if status \<noteq> 200 then Inl (''prometheus status '' @ show_int status @ '': '' @ read_prefix 4096 body)
          else (case fe_decode env body of
              Inl e \<Rightarrow> Inl e
            | Inr r \<Rightarrow> (if rg_Status r \<noteq> ''success'' then Inl (range_error r)
                else Inr (List.map_filter (usage_sample env) (concat (rg_Series r)))))))"

definition pod_selector :: "string \<Rightarrow> string \<Rightarrow> string" where
  "pod_selector ns workload = ''{namespace='' @ [CHR 0x22] @ ns @ [CHR 0x22] @ '',pod=~'' @ [CHR 0x22] @ workload @ ''-.*''
     @ [CHR 0x22] @ ''}''"

definition cpu_query :: "string \<Rightarrow> string \<Rightarrow> string" where
  "cpu_query ns workload = ''rate(container_cpu_usage_seconds_total'' @ pod_selector ns workload @ ''[5m])''"

definition memory_query :: "string \<Rightarrow> string \<Rightarrow> string" where
  "memory_query ns workload = ''container_memory_working_set_bytes'' @ pod_selector ns workload"

text \<open>The percentiles of the values of a query; without values the fields keep their zeros.\<close>

definition percentiles :: "go_error + float64 list \<Rightarrow> (float64 \<times> float64 \<times> float64 \<times> float64) option option" where
  "percentiles result = (case result of
     Inl _ \<Rightarrow> Some None
   | Inr xs \<Rightarrow> (if xs = [] then Some None
       else (case (percentile xs (f_lit 1 2), percentile xs (f_lit 95 100), percentile xs (f_lit 99 100), percentile xs 1) of
           (Some a, Some b, Some c, Some d) \<Rightarrow> Some (Some (a, b, c, d)) | _ \<Rightarrow> None)))"

definition set_cpu :: "(float64 \<times> float64 \<times> float64 \<times> float64) option \<Rightarrow> HistoricalUsage \<Rightarrow> HistoricalUsage" where
  "set_cpu ps u = (case ps of None \<Rightarrow> u | Some (a, b, c, d) \<Rightarrow> u \<lparr>hu_CPUP50 := a * f_of_int 100,
     hu_CPUP95 := b * f_of_int 100, hu_CPUP99 := c * f_of_int 100, hu_CPUMax := d * f_of_int 100\<rparr>)"

definition set_memory :: "(float64 \<times> float64 \<times> float64 \<times> float64) option \<Rightarrow> HistoricalUsage \<Rightarrow> HistoricalUsage" where
  "set_memory ps u = (case ps of None \<Rightarrow> u | Some (a, b, c, d) \<Rightarrow> u \<lparr>hu_MemoryP50 := a,
     hu_MemoryP95 := b, hu_MemoryP99 := c, hu_MemoryMax := d\<rparr>)"

definition QueryUsagePercentiles :: "FinopsEnv \<Rightarrow> string \<Rightarrow> string \<Rightarrow> string \<Rightarrow> duration
    \<Rightarrow> (go_error + HistoricalUsage) option" where
  "QueryUsagePercentiles env url ns workload window =
     (case percentiles (queryRange env url (cpu_query ns workload) window) of
        None \<Rightarrow> None
      | Some cpu \<Rightarrow> (case percentiles (queryRange env url (memory_query ns workload) window) of
          None \<Rightarrow> None
        | Some mem \<Rightarrow> Some (Inr (set_memory mem (set_cpu cpu zero_usage)))))"

section \<open>The analyzer\<close>

record AnalysisResult =
  ar_Workload :: string
  ar_Namespace :: string
  ar_AnalyzedAt :: time
  ar_Usage :: HistoricalUsage
  ar_IsOverProvisioned :: bool
  ar_WastePercent :: float64
  ar_Recommendation :: string

definition judge_cpu :: "AnalysisResult \<Rightarrow> AnalysisResult" where
  "judge_cpu r = (let p95 = hu_CPUP95 (ar_Usage r) in
     if 0 < p95 \<and> p95 < f_of_int 50 then (let waste = f_of_int 100 - p95 in
       r \<lparr>ar_IsOverProvisioned := True, ar_WastePercent := waste,
          ar_Recommendation := ''CPU over-provisioned: P95 utilization is '' @ show_f 1 p95
            @ ''%. Consider reducing CPU request by '' @ show_f 0 (waste * f_lit 1 2) @ ''%''\<rparr>)
     else r)"

definition judge_memory :: "AnalysisResult \<Rightarrow> AnalysisResult" where
  "judge_memory r = (let p95 = hu_MemoryP95 (ar_Usage r) in
     if 0 < p95 \<and> p95 < f_of_int 40 then (let memWaste = f_of_int 100 - p95 in
       r \<lparr>ar_IsOverProvisioned := True,
          ar_WastePercent := (if ar_WastePercent r < memWaste then memWaste else ar_WastePercent r),
          ar_Recommendation := ar_Recommendation r @ nl @ ''Memory over-provisioned: P95 utilization is '' @ show_f 1 p95
            @ ''%. Consider reducing memory request by '' @ show_f 0 (memWaste * f_lit 1 2) @ ''%''\<rparr>)
     else r)"

definition AnalyzeWorkload :: "FinopsEnv \<Rightarrow> string \<Rightarrow> string \<Rightarrow> string \<Rightarrow> duration
    \<Rightarrow> (go_error + AnalysisResult) option" where
  "AnalyzeWorkload env url ns workload window = (case QueryUsagePercentiles env url ns workload window of
     None \<Rightarrow> None
   | Some (Inl e) \<Rightarrow> Some (Inl (''collect historical usage: '' @ e))
   | Some (Inr usage) \<Rightarrow> Some (Inr (judge_memory (judge_cpu
       \<lparr>ar_Workload = workload, ar_Namespace = ns, ar_AnalyzedAt = fe_now env, ar_Usage = usage,
        ar_IsOverProvisioned = False, ar_WastePercent = 0, ar_Recommendation = []\<rparr>))))"

section \<open>The tracker\<close>

record FinopsRecord =
  fs_Timestamp :: time
  fs_Workload :: string
  fs_Namespace :: string
  fs_Type :: string
  fs_Monthly :: float64

record FinopsSummary =
  fu_TotalMonthlySavings :: float64
  fu_EventCount :: int
  fu_ByWorkload :: "(string, float64) fmap"
  fu_ByType :: "(string, float64) fmap"

record SavingsTracker =
  ft_records :: "FinopsRecord list"
  ft_maxSize :: int

definition NewSavingsTracker :: "int \<Rightarrow> SavingsTracker" where
  "NewSavingsTracker maxSize = \<lparr>ft_records = [], ft_maxSize = (if maxSize \<le> 0 then 1 else maxSize)\<rparr>"

definition savings_Record :: "FinopsRecord \<Rightarrow> SavingsTracker \<Rightarrow> SavingsTracker" where
  "savings_Record rec st0 = (let
     st = (if ft_maxSize st0 \<le> 0 then st0 \<lparr>ft_maxSize := 1\<rparr> else st0);
     kept = (if ft_maxSize st \<le> int (length (ft_records st)) then drop 1 (ft_records st) else ft_records st)
   in st \<lparr>ft_records := kept @ [rec]\<rparr>)"

definition add_to :: "string \<Rightarrow> float64 \<Rightarrow> (string, float64) fmap \<Rightarrow> (string, float64) fmap" where
  "add_to k v m = fmupd k ((case fmlookup m k of Some s \<Rightarrow> s | None \<Rightarrow> 0) + v) m"

fun summarize :: "FinopsRecord list \<Rightarrow> FinopsSummary \<Rightarrow> FinopsSummary" where
  "summarize [] s = s"
| "summarize (r # rs) s = summarize rs (s
     \<lparr>fu_TotalMonthlySavings := fu_TotalMonthlySavings s + fs_Monthly r, fu_EventCount := fu_EventCount s + 1,
      fu_ByWorkload := add_to (fs_Workload r) (fs_Monthly r) (fu_ByWorkload s),
      fu_ByType := add_to (fs_Type r) (fs_Monthly r) (fu_ByType s)\<rparr>)"

definition savings_Summary :: "SavingsTracker \<Rightarrow> FinopsSummary" where
  "savings_Summary st = summarize (ft_records st) \<lparr>fu_TotalMonthlySavings = 0, fu_EventCount = 0,
     fu_ByWorkload = fmempty, fu_ByType = fmempty\<rparr>"

interpretation savings: bounded_log savings_Record ft_records ft_maxSize
  by unfold_locales (auto simp: savings_Record_def Let_def drop_Suc)

section \<open>Lemmas\<close>

lemma view_scaled:
  assumes "is_finite a"
  shows "\<exists>s m e. view a = VFin s m e \<and> val a = of_int (signed_mant s m * 2 ^ nat e) / of_int (2 ^ nat (- e))"
proof -
  let ?m = "mant (unat (f_mag a))" and ?e = "expo (unat (f_mag a))"
  have "val a = of_int (signed_mant (f_neg a) ?m) * 2 powi ?e"
    by (simp add: sgn_val mval_def signed_mant_def)
  also have "\<dots> = of_int (signed_mant (f_neg a) ?m * 2 ^ nat ?e) / of_int (2 ^ nat (- ?e))"
    by (simp add: powi_nat_diff)
  finally show ?thesis using finite_view [OF assms] by blast
qed

lemma floor_int_val: "is_finite a \<Longrightarrow> floor_int a = Some \<lfloor>val a\<rfloor>"
  using view_scaled [of a] by (auto simp: floor_int_def floor_divide_of_int_eq simp del: of_int_mult of_int_power)

lemma ceil_int_val: "is_finite a \<Longrightarrow> ceil_int a = Some \<lceil>val a\<rceil>"
  using view_scaled [of a]
  by (auto simp: ceil_int_def ceiling_def minus_divide_left floor_divide_of_int_eq simp flip: of_int_minus
      simp del: of_int_mult of_int_power)

lemma rounding_below:
  assumes "is_rounding x a" and "0 < x" and "x \<le> of_int k" and "0 < k" and "k < 2 ^ 53"
  shows "is_finite a \<and> 0 \<le> val a \<and> val a \<le> of_int k"
proof -
  obtain n where n: "0 < n" "n < inf_pat" "mval n = of_nat (nat k)"
    using int_representable [of "nat k"] assms(4,5) by (auto simp: nat_less_iff)
  then have k: "mval n = of_int k" using assms(4) by simp
  have "unat (f_mag a) \<le> n"
    using rounds_le [OF rounding_mag [OF assms(1)] n(1,2)] assms(2,3) k by simp
  moreover have "\<not> f_neg a" using rounding_neg [OF assms(1)] assms(2) by simp
  ultimately show ?thesis
    using n(2) k mval_le_iff [of "unat (f_mag a)" n] by (simp add: is_finite_def val_def)
qed

text \<open>A fraction of an index is a number between 0 and the index.\<close>

lemma fraction_of_index:
  assumes "is_finite p" and "0 \<le> val p" and "val p \<le> 1" and "0 \<le> k" and "k < 2 ^ 53"
  shows "is_finite (p * f_of_int k) \<and> 0 \<le> val (p * f_of_int k) \<and> val (p * f_of_int k) \<le> of_int k"
proof -
  have k: "is_finite (f_of_int k)" "val (f_of_int k) = of_int k"
    using f_of_int_val [of k] assms by simp_all
  note mul = mul_rounding [OF assms(1) k(1)]
  show ?thesis
  proof (cases "val p * of_int k = 0")
    case True
    then show ?thesis using mul k assms(4) by simp
  next
    case False
    then have "0 < val p * of_int k" "0 < k" using assms(2,4) by (auto simp: order_less_le)
    moreover have "val p * of_int k \<le> 1 * of_int k" using assms(3,4) by (intro mult_right_mono) auto
    moreover have "is_rounding (val p * of_int k) (p * f_of_int k)" using mul False k(2) by simp
    ultimately show ?thesis using rounding_below assms(5) by simp
  qed
qed

lemma fraction_lit:
  assumes "0 < i" and "i \<le> int d"
  shows "is_finite (f_lit i d)" and "0 \<le> val (f_lit i d)" and "val (f_lit i d) \<le> 1"
proof -
  have d: "0 < d" using assms by simp
  have "is_rounding (of_int i / of_nat d) (f_lit i d)"
    using f_signed_rounding [of i d 0] assms d by (simp add: f_lit_def)
  moreover have "(of_int i / of_nat d :: rat) \<le> of_int 1"
    using assms d by (simp add: divide_le_eq)
  ultimately have "is_finite (f_lit i d) \<and> 0 \<le> val (f_lit i d) \<and> val (f_lit i d) \<le> of_int 1"
    using rounding_below [of "of_int i / of_nat d" "f_lit i d" 1] assms d by simp
  then show "is_finite (f_lit i d)" "0 \<le> val (f_lit i d)" "val (f_lit i d) \<le> 1" by simp_all
qed

lemma percentile_in_range:
  assumes "is_finite p" and "0 \<le> val p" and "val p \<le> 1" and "length xs \<le> 2 ^ 53"
  shows "percentile xs p \<noteq> None"
proof (cases "xs = []")
  case False
  define n idx where "n = int (length (sort_floats xs))" and "idx = p * f_of_int (n - 1)"
  have n: "n = int (length xs)" "0 < n" "n \<le> 2 ^ 53"
    using False assms(4) by (simp_all add: n_def sort_floats_def)
  have "is_finite idx \<and> 0 \<le> val idx \<and> val idx \<le> of_int (n - 1)"
    unfolding idx_def by (rule fraction_of_index) (use assms n in auto)
  then have "floor_int idx = Some \<lfloor>val idx\<rfloor>" "ceil_int idx = Some \<lceil>val idx\<rceil>"
      "0 \<le> \<lfloor>val idx\<rfloor>" "\<lfloor>val idx\<rfloor> \<le> n - 1" "0 \<le> \<lceil>val idx\<rceil>"
    by (simp_all add: floor_int_val ceil_int_val floor_le_iff, linarith+)
  then show ?thesis
    using False unfolding percentile_def Let_def n_def [symmetric] idx_def [symmetric] by auto
qed (simp add: percentile_def)

lemma percentile_max:
  assumes "xs \<noteq> []" and "length xs \<le> 2 ^ 53"
  shows "percentile xs 1 = Some (last (sort_floats xs))"
proof -
  define n idx where "n = int (length (sort_floats xs))" and "idx = 1 * f_of_int (n - 1)"
  have n: "n = int (length xs)" "0 < n" "n \<le> 2 ^ 53"
    using assms by (simp_all add: n_def sort_floats_def)
  have k: "is_finite (f_of_int (n - 1))" "val (f_of_int (n - 1)) = of_int (n - 1)"
    using f_of_int_val [of "n - 1"] n by simp_all
  have f: "is_finite idx" and le: "val idx \<le> of_int (n - 1)" and nonneg: "0 \<le> val idx"
    using fraction_of_index [of 1 "n - 1"] n unfolding idx_def by simp_all
  have "val idx = of_int (n - 1)"
  proof (cases "n = 1")
    case False
    then have "is_rounding (of_int (n - 1)) idx"
      using mul_rounding [of 1 "f_of_int (n - 1)"] k unfolding idx_def by simp
    note r = rounding_mag [OF this]
    obtain m where m: "0 < m" "m < inf_pat" "mval m = of_nat (nat (n - 1))"
      using int_representable [of "nat (n - 1)"] n False by (auto simp: nat_less_iff)
    have "m \<le> unat (f_mag idx)" using rounds_ge [OF r m(1,2)] m(3) n by simp
    then have "of_int (n - 1) \<le> mval (unat (f_mag idx))" using m(3) n mval_le_iff [of m] by simp
    then show ?thesis using le nonneg n by (simp add: val_def split: if_splits)
  qed (use le nonneg in simp)
  then have "floor_int idx = Some (n - 1)" "ceil_int idx = Some (n - 1)"
    using f by (simp_all add: floor_int_val ceil_int_val)
  moreover have "sort_floats xs ! nat (n - 1) = last (sort_floats xs)"
  proof -
    have "sort_floats xs \<noteq> []" "nat (n - 1) = length (sort_floats xs) - 1" using n(2) by (auto simp: n_def)
    then show ?thesis by (simp add: last_conv_nth)
  qed
  ultimately show ?thesis
    using assms(1) n(2) unfolding percentile_def Let_def n_def [symmetric] idx_def [symmetric] by simp
qed

lemma percentiles_defined:
  assumes "\<And>xs. result = Inr xs \<Longrightarrow> length xs \<le> 2 ^ 53"
  shows "percentiles result \<noteq> None"
proof (cases result)
  case (Inr xs)
  have "percentile xs (f_lit 1 2) \<noteq> None" "percentile xs (f_lit 95 100) \<noteq> None" "percentile xs (f_lit 99 100) \<noteq> None"
    "percentile xs 1 \<noteq> None"
    using assms [OF Inr] by (simp_all add: percentile_in_range fraction_lit)
  then show ?thesis using Inr by (auto simp: percentiles_def split: option.splits)
qed (simp add: percentiles_def)

definition sensible_size :: "FinopsEnv \<Rightarrow> string \<Rightarrow> string \<Rightarrow> duration \<Rightarrow> bool" where
  "sensible_size env url query window =
     (case queryRange env url query window of Inl _ \<Rightarrow> True | Inr xs \<Rightarrow> length xs \<le> 2 ^ 53)"

lemma percentiles_query: "sensible_size env url query window \<Longrightarrow> percentiles (queryRange env url query window) \<noteq> None"
  by (rule percentiles_defined) (auto simp: sensible_size_def)

section \<open>Properties\<close>

text \<open>
  C40. The analysis of a workload never fails and never reads an array out of range: whatever Prometheus answers, or
  does not answer, comes out as a judgement, and without an answer to either query the judgement is that
  nothing is wasted.
\<close>

theorem AnalyzeWorkload_total:
  assumes "sensible_size env url (cpu_query ns workload) window"
    and "sensible_size env url (memory_query ns workload) window"
  shows "\<exists>r. AnalyzeWorkload env url ns workload window = Some (Inr r) \<and> ar_Workload r = workload
    \<and> (isl (queryRange env url (cpu_query ns workload) window) \<longrightarrow>
       isl (queryRange env url (memory_query ns workload) window) \<longrightarrow>
         \<not> ar_IsOverProvisioned r \<and> ar_WastePercent r = 0 \<and> ar_Recommendation r = [])"
proof -
  obtain cpu mem where p: "percentiles (queryRange env url (cpu_query ns workload) window) = Some cpu"
      "percentiles (queryRange env url (memory_query ns workload) window) = Some mem"
    using percentiles_query [OF assms(1)] percentiles_query [OF assms(2)] by auto
  have failed: "isl q \<Longrightarrow> percentiles q = Some ps \<Longrightarrow> ps = None" for q ps
    by (cases q) (auto simp: percentiles_def)
  define r0 where "r0 = \<lparr>ar_Workload = workload, ar_Namespace = ns, ar_AnalyzedAt = fe_now env,
      ar_Usage = set_memory mem (set_cpu cpu zero_usage), ar_IsOverProvisioned = False, ar_WastePercent = 0,
      ar_Recommendation = []\<rparr>"
  have run: "AnalyzeWorkload env url ns workload window = Some (Inr (judge_memory (judge_cpu r0)))"
    using p by (simp add: AnalyzeWorkload_def QueryUsagePercentiles_def r0_def)
  have "ar_Workload (judge_memory (judge_cpu r0)) = workload"
    by (simp add: judge_memory_def judge_cpu_def Let_def r0_def)
  moreover have "judge_memory (judge_cpu r0) = r0" if "cpu = None" "mem = None"
  proof -
    have "judge_cpu r0 = r0" "judge_memory r0 = r0"
      using that by (simp_all add: judge_cpu_def judge_memory_def r0_def set_cpu_def set_memory_def zero_usage_def f_less_iff)
    then show ?thesis by simp
  qed
  moreover have "ar_IsOverProvisioned r0 = False" "ar_WastePercent r0 = 0" "ar_Recommendation r0 = []"
    by (simp_all add: r0_def)
  ultimately show ?thesis
    using run p failed by auto
qed

text \<open>
  The last percentile is the largest value: at quantile 1 the interpolation takes the last value of the sorted
  list, and at every quantile between 0 and 1 it stays within the list.
\<close>

theorem percentile_quantiles:
  assumes "xs \<noteq> []" and "length xs \<le> 2 ^ 53" and "is_finite p" and "0 \<le> val p" and "val p \<le> 1"
  shows "percentile xs p \<noteq> None \<and> percentile xs 1 = Some (last (sort_floats xs))
    \<and> list_all (\<lambda>x. sort_rank x \<le> sort_rank (last (sort_floats xs))) xs"
proof -
  have s: "sorted (List.map sort_rank (sort_floats xs))" "set (sort_floats xs) = set xs"
    by (simp_all add: sort_floats_def)
  have "sort_rank x \<le> sort_rank (last (sort_floats xs))" if "x \<in> set xs" for x
  proof -
    have "x \<in> set (sort_floats xs)" using that s(2) by simp
    then obtain i where i: "i < length (sort_floats xs)" "sort_floats xs ! i = x"
      unfolding in_set_conv_nth by blast
    then have "List.map sort_rank (sort_floats xs) ! i \<le> List.map sort_rank (sort_floats xs) ! (length (sort_floats xs) - 1)"
      by (intro sorted_nth_mono [OF s(1)]) auto
    then show ?thesis using i by (cases "sort_floats xs = []") (auto simp: last_conv_nth)
  qed
  then show ?thesis
    using percentile_in_range [OF assms(3-5,2)] percentile_max [OF assms(1,2)] by (auto simp: list_all_iff)
qed

lemma f_key_of_int_le: "\<bar>i\<bar> < 2 ^ 53 \<Longrightarrow> \<bar>j\<bar> < 2 ^ 53 \<Longrightarrow> f_key (f_of_int i) \<le> f_key (f_of_int j) \<longleftrightarrow> i \<le> j"
  using f_of_int_le [of i j] by (simp add: less_eq_float64_def f_of_int_not_nan)

lemma percentile_quantiles_witness:
  "percentile [f_of_int 2, f_of_int 9, f_of_int 4] (f_lit 1 2) \<noteq> None
    \<and> percentile [f_of_int 2, f_of_int 9, f_of_int 4] 1 = Some (f_of_int 9)"
proof -
  have "percentile [f_of_int 2, f_of_int 9, f_of_int 4] (f_lit 1 2) \<noteq> None
    \<and> percentile [f_of_int 2, f_of_int 9, f_of_int 4] 1 = Some (last (sort_floats [f_of_int 2, f_of_int 9, f_of_int 4]))
    \<and> list_all (\<lambda>x. sort_rank x \<le> sort_rank (last (sort_floats [f_of_int 2, f_of_int 9, f_of_int 4]))) [f_of_int 2, f_of_int 9, f_of_int 4]"
    using fraction_lit [of 1 2] by (intro percentile_quantiles) simp_all
  moreover have "sort_floats [f_of_int 2, f_of_int 9, f_of_int 4] = [f_of_int 2, f_of_int 4, f_of_int 9]"
    by (simp add: sort_floats_def sort_rank_def f_of_int_not_nan f_key_of_int_le)
  ultimately show ?thesis by simp
qed

definition down_env :: FinopsEnv where
  "down_env = \<lparr>fe_http = (\<lambda>_. NoReply ''refused''), fe_decode = (\<lambda>_. Inl ''eof''), fe_parse = (\<lambda>_. (0, None)), fe_now = 9\<rparr>"

lemma AnalyzeWorkload_total_witness:
  "\<exists>r. AnalyzeWorkload down_env ''http://p'' ''ns'' ''web'' hour = Some (Inr r) \<and> \<not> ar_IsOverProvisioned r"
proof -
  have q: "queryRange down_env u k w = Inl ''refused''" for u k w by (simp add: queryRange_def down_env_def)
  have s: "sensible_size down_env u k w" for u k w by (simp add: sensible_size_def q)
  show ?thesis using AnalyzeWorkload_total [OF s s, of "''http://p''" "''ns''" "''web''" hour] unfolding q by fastforce
qed

text \<open>The working set is compared as a percentage although it is a number of bytes: any real one is no waste.\<close>

lemma memory_bytes_never_wasted:
  "\<not> hu_MemoryP95 (ar_Usage r) < f_of_int 40 \<Longrightarrow> judge_memory r = r"
  by (simp add: judge_memory_def Let_def)

end
