(* ===== verification/Rate_Limiter.thy ===== *)
theory Rate_Limiter
  imports Slots
begin

text \<open>
  \<open>internal/decision/rate_limiter.go\<close>: the token buckets for provider calls.  The methods hold
  the mutex throughout, so any use of the limiter is a sequence of the operations below, each
  with the time its call of \<open>time.Now\<close> returned.
\<close>

record RateLimiter =
  rl_maxPerMinute :: int32
  rl_maxPerHour :: int32
  rl_maxConcurrent :: int32
  rl_minuteTokens :: int32
  rl_hourTokens :: int32
  rl_concurrent :: int32
  rl_lastMinuteReset :: time
  rl_lastHourReset :: time

definition NewRateLimiter :: "time \<Rightarrow> int32 \<Rightarrow> int32 \<Rightarrow> int32 \<Rightarrow> RateLimiter" where
  "NewRateLimiter now maxPerMinute maxPerHour maxConcurrent =
     \<lparr>rl_maxPerMinute = maxPerMinute, rl_maxPerHour = maxPerHour, rl_maxConcurrent = maxConcurrent,
      rl_minuteTokens = maxPerMinute, rl_hourTokens = maxPerHour, rl_concurrent = 0,
      rl_lastMinuteReset = now, rl_lastHourReset = now\<rparr>"

definition refill :: "time \<Rightarrow> RateLimiter \<Rightarrow> RateLimiter" where
  "refill now rl = (let
     rl1 = (if minute \<le> time_sub now (rl_lastMinuteReset rl)
            then rl \<lparr>rl_minuteTokens := rl_maxPerMinute rl, rl_lastMinuteReset := now\<rparr> else rl)
   in if hour \<le> time_sub now (rl_lastHourReset rl1)
      then rl1 \<lparr>rl_hourTokens := rl_maxPerHour rl1, rl_lastHourReset := now\<rparr> else rl1)"

definition Allow :: "time \<Rightarrow> RateLimiter \<Rightarrow> bool \<times> RateLimiter" where
  "Allow now rl0 = (let rl = refill now rl0 in
     if 0 <s rl_maxConcurrent rl \<and> rl_maxConcurrent rl <=s rl_concurrent rl then (False, rl)
     else if 0 <s rl_maxPerMinute rl \<and> rl_minuteTokens rl <=s 0 then (False, rl)
     else if 0 <s rl_maxPerHour rl \<and> rl_hourTokens rl <=s 0 then (False, rl)
     else (let
       rl1 = (if 0 <s rl_maxPerMinute rl then rl \<lparr>rl_minuteTokens := rl_minuteTokens rl - 1\<rparr> else rl);
       rl2 = (if 0 <s rl_maxPerHour rl1 then rl1 \<lparr>rl_hourTokens := rl_hourTokens rl1 - 1\<rparr> else rl1)
       in (True, rl2 \<lparr>rl_concurrent := rl_concurrent rl2 + 1\<rparr>)))"

definition Release :: "RateLimiter \<Rightarrow> RateLimiter" where
  "Release rl = (if 0 <s rl_concurrent rl then rl \<lparr>rl_concurrent := rl_concurrent rl - 1\<rparr> else rl)"

section \<open>Runs\<close>

datatype rl_op = OpAllow time | OpRelease

fun rl_apply :: "rl_op \<Rightarrow> RateLimiter \<Rightarrow> RateLimiter" where
  "rl_apply (OpAllow now) rl = snd (Allow now rl)"
| "rl_apply OpRelease rl = Release rl"

fun granted :: "rl_op list \<Rightarrow> RateLimiter \<Rightarrow> nat" where
  "granted [] rl = 0"
| "granted (OpAllow now # ops) rl = (if fst (Allow now rl) then 1 else 0) + granted ops (snd (Allow now rl))"
| "granted (OpRelease # ops) rl = granted ops (Release rl)"

lemma refill_simps [simp]:
  "rl_maxPerMinute (refill now rl) = rl_maxPerMinute rl"
  "rl_maxPerHour (refill now rl) = rl_maxPerHour rl"
  "rl_maxConcurrent (refill now rl) = rl_maxConcurrent rl"
  "rl_concurrent (refill now rl) = rl_concurrent rl"
  by (simp_all add: refill_def Let_def)

lemma sint_dec: "0 < sint a \<Longrightarrow> sint (a - 1 :: int32) = sint a - 1"
  using sint32_range [of a] by (simp add: sint32_sub)

lemma sint_inc: "sint a < int32_max \<Longrightarrow> sint (a + 1 :: int32) = sint a + 1"
  using sint32_range [of a] by (simp add: sint32_add)

lemma Allow_max [simp]:
  "rl_maxPerMinute (snd (Allow now rl)) = rl_maxPerMinute rl"
  "rl_maxPerHour (snd (Allow now rl)) = rl_maxPerHour rl"
  "rl_maxConcurrent (snd (Allow now rl)) = rl_maxConcurrent rl"
  by (simp_all add: Allow_def Let_def)

lemma Allow_concurrent:
  "rl_concurrent (snd (Allow now rl)) = (if fst (Allow now rl) then rl_concurrent rl + 1 else rl_concurrent rl)"
  by (simp add: Allow_def Let_def)

lemma Allow_blocked:
  "0 < sint (rl_maxConcurrent rl) \<Longrightarrow> fst (Allow now rl) \<Longrightarrow> sint (rl_concurrent rl) < sint (rl_maxConcurrent rl)"
  by (auto simp: Allow_def Let_def sless_sint split: if_splits)

interpretation calls: slots rl_apply "\<lambda>rl. sint (rl_concurrent rl)" "\<lambda>rl. sint (rl_maxConcurrent rl)"
proof (unfold_locales, goal_cases)
  case (1 e s)
  then show ?case by (cases e) (simp_all add: Release_def)
next
  case (2 s e)
  show ?case
  proof (cases e)
    case (OpAllow now)
    then show ?thesis
      using 2 Allow_blocked [of s now] sint32_range [of "rl_maxConcurrent s"] sint_inc [of "rl_concurrent s"]
      by (cases "fst (Allow now s)") (simp_all add: Allow_concurrent)
  next
    case OpRelease
    then show ?thesis using 2 by (simp add: Release_def sless_sint sint_dec)
  qed
qed

lemma refill_same_minute:
  "time_sub now (rl_lastMinuteReset rl) < minute \<Longrightarrow>
    rl_minuteTokens (refill now rl) = rl_minuteTokens rl \<and> rl_lastMinuteReset (refill now rl) = rl_lastMinuteReset rl"
  by (simp add: refill_def Let_def)

lemma Allow_same_minute:
  assumes "time_sub now (rl_lastMinuteReset rl) < minute" and "0 < sint (rl_maxPerMinute rl)"
  shows "rl_lastMinuteReset (snd (Allow now rl)) = rl_lastMinuteReset rl"
    and "fst (Allow now rl) \<Longrightarrow> 0 < sint (rl_minuteTokens rl)
      \<and> sint (rl_minuteTokens (snd (Allow now rl))) = sint (rl_minuteTokens rl) - 1"
    and "\<not> fst (Allow now rl) \<Longrightarrow> rl_minuteTokens (snd (Allow now rl)) = rl_minuteTokens rl"
proof -
  note r = refill_same_minute [OF assms(1)]
  show "rl_lastMinuteReset (snd (Allow now rl)) = rl_lastMinuteReset rl"
    using r by (simp add: Allow_def Let_def)
  show "\<not> fst (Allow now rl) \<Longrightarrow> rl_minuteTokens (snd (Allow now rl)) = rl_minuteTokens rl"
    using r by (auto simp: Allow_def Let_def split: if_splits)
  assume g: "fst (Allow now rl)"
  then have pos: "0 < sint (rl_minuteTokens rl)"
    using r assms(2) by (auto simp: Allow_def Let_def sless_sint split: if_splits)
  moreover have "rl_minuteTokens (snd (Allow now rl)) = rl_minuteTokens rl - 1"
    using g r assms(2) by (auto simp: Allow_def Let_def sless_sint split: if_splits)
  ultimately show "0 < sint (rl_minuteTokens rl)
      \<and> sint (rl_minuteTokens (snd (Allow now rl))) = sint (rl_minuteTokens rl) - 1"
    by (simp add: sint_dec)
qed

section \<open>Properties\<close>

text \<open>
  From a new limiter with a positive concurrency limit, no sequence of calls and releases, at
  any times, ever has more calls in flight than the limit, nor fewer than none.
\<close>

theorem limiter_concurrency:
  assumes "0 < sint conc"
  shows "0 \<le> sint (rl_concurrent (fold rl_apply ops (NewRateLimiter now perMin perHour conc)))
    \<and> sint (rl_concurrent (fold rl_apply ops (NewRateLimiter now perMin perHour conc))) \<le> sint conc"
  using calls.ops_held [of "NewRateLimiter now perMin perHour conc" ops] assms
  by (simp add: NewRateLimiter_def)

lemma limiter_concurrency_witness:
  "sint (rl_concurrent (fold rl_apply [OpAllow 0, OpAllow 1, OpAllow 2] (NewRateLimiter 0 10 10 2))) \<le> 2"
  using limiter_concurrency [of 2 "[OpAllow 0, OpAllow 1, OpAllow 2]" 0 10 10] by simp

text \<open>
  Within one minute of the last refill the limiter grants at most the tokens it has left: of
  all the calls of a run inside the minute, no more than that many are allowed.
\<close>

theorem limiter_minute_budget:
  assumes "0 < sint (rl_maxPerMinute rl)" and "0 \<le> sint (rl_minuteTokens rl)"
    and "\<forall>op\<in>set ops. case op of OpAllow t \<Rightarrow> time_sub t (rl_lastMinuteReset rl) < minute | OpRelease \<Rightarrow> True"
  shows "int (granted ops rl) \<le> sint (rl_minuteTokens rl)"
  using assms
proof (induction ops arbitrary: rl)
  case (Cons op ops)
  show ?case
  proof (cases op)
    case (OpAllow t)
    then have t: "time_sub t (rl_lastMinuteReset rl) < minute" using Cons.prems(3) by simp
    note a = Allow_same_minute [OF t Cons.prems(1)]
    define rl' where "rl' = snd (Allow t rl)"
    have tok: "0 \<le> sint (rl_minuteTokens rl')"
      using a Cons.prems(2) by (cases "fst (Allow t rl)") (simp_all add: rl'_def)
    have lm: "rl_lastMinuteReset rl' = rl_lastMinuteReset rl" using a(1) by (simp add: rl'_def)
    have "\<forall>op\<in>set ops. case op of OpAllow t \<Rightarrow> time_sub t (rl_lastMinuteReset rl') < minute | OpRelease \<Rightarrow> True"
      unfolding lm using Cons.prems(3) by simp
    then have "int (granted ops rl') \<le> sint (rl_minuteTokens rl')"
      using Cons.prems tok by (intro Cons.IH) (simp_all add: rl'_def)
    then show ?thesis
      using a OpAllow by (cases "fst (Allow t rl)") (simp_all add: rl'_def)
  next
    case OpRelease
    have r: "rl_minuteTokens (Release rl) = rl_minuteTokens rl" "rl_maxPerMinute (Release rl) = rl_maxPerMinute rl"
        "rl_lastMinuteReset (Release rl) = rl_lastMinuteReset rl"
      by (simp_all add: Release_def)
    have "int (granted ops (Release rl)) \<le> sint (rl_minuteTokens (Release rl))"
      by (rule Cons.IH) (unfold r, use Cons.prems in simp_all)
    then show ?thesis using OpRelease by (simp add: r)
  qed
qed simp

lemma limiter_minute_budget_witness:
  "int (granted [OpAllow 1, OpAllow 2, OpRelease, OpAllow 3] (NewRateLimiter 0 2 10 5)) \<le> 2"
  using limiter_minute_budget [of "NewRateLimiter 0 2 10 5" "[OpAllow 1, OpAllow 2, OpRelease, OpAllow 3]"]
  by (simp add: NewRateLimiter_def time_sub_def duration_defs)

end
