(* ===== verification/Spec2Isabelle.thy ===== *)
theory Spec2Isabelle
  imports Deep_Copy Startup Cost_Panic Provider_Outcome Plugin_Registry Legacy_Signals Finops Rate_Limiter
begin

text \<open>
  Verification library of the AIScaler operator, a Kubernetes operator written in Go that scales a
  workload from metrics, annotations and the answer of a language model.  The library is a shallow
  embedding of its packages under \<open>src/api\<close>, \<open>src/cmd\<close> and \<open>src/internal\<close>.

  \<^bold>\<open>The program.\<close>  \<open>cmd/main.go\<close> reads flags and the configuration, builds one \<open>AIScalerReconciler\<close> with
  its subsystems and starts the manager.  Each reconcile (\<open>internal/controller/aiscaler_controller.go\<close>)
  reads an AIScaler resource and runs seventeen steps over a \<open>reconcileState\<close>: the finalizer, the cooldown,
  the collection of signals by the plugins, the enrichment of the prompt (cost, nodes, prediction,
  feedback), the candidate decisions (reactive rules, provider, KEDA, objectives), oscillation, rollback,
  a tentative resolution, cost, approval, the final resolution, the replica guards, the coordination with
  other workloads, the patches, alerts and audit; then it writes the status.  A step may fail (the
  status is written, the error returned), panic (nothing more is written; the controller runtime recovers
  and retries), end the reconcile early, or go on.

  \<^bold>\<open>Conventions.\<close>  A Go \<open>int32\<close> or \<open>int64\<close> is a word of that width, compared as signed; an \<open>int\<close> that
  counts is an \<open>int\<close>.  \<open>float64\<close> is the type \<open>float64\<close> of theory \<open>Float64\<close>, IEEE binary64 bit patterns
  with computed rounding.  A time is a number of nanoseconds, and subtraction saturates as in Go
  (\<open>time_sub\<close>).  An error is the left of a sum, a nil error of a \<open>string option\<close> is \<open>None\<close>.  A Go map is a
  finite map; where its iteration order shows, the order is a parameter.  An array of fixed length is a type of
  lists of that length (\<open>week\<close> of theory \<open>Prediction\<close>).  A step that fails ends with \<open>Failed\<close> and its error, or
  with \<open>Panicked\<close> where Go panics: a nil dereference, an index or slice out of range, a metric with the wrong
  labels.  A duration configured in seconds is the product on \<open>int64\<close>, which may wrap (\<open>seconds\<close>).  A struct is a record with the
  struct's field names behind a short prefix.  State is passed explicitly; a method with a pointer
  receiver returns the new receiver.

  \<^bold>\<open>Foundations.\<close>
  \<^item> \<open>Prelude\<close>: machine integers, time, decimal printing, shared collections and list lemmas.
  \<^item> \<open>Float64\<close>: the arithmetic of \<open>float64\<close>; rounding is monotone and exact on representable values, and
    the sign of \<open>(a - b) / c * d\<close> is that of the exact value (\<open>margin_sign\<close>).
  \<^item> \<open>Api\<close>: the structs of \<open>api/v1/aiscaler_types.go\<close> and \<open>ValidateSpec\<close>.  \<open>Signal\<close>: the bundle of
    \<open>plugin/signal.go\<close> and the decision of \<open>llm/router.go\<close>.  \<open>Other_Resources\<close>: the structs of the other
    custom resources and the kinds \<open>api/v1\<close> registers.
  \<^item> The generated deep copies, over an explicit heap.  \<open>Go_Heap\<close>: variables, arrays and tables with a next free
    address, the statement forms of \<open>controller-gen\<close>, \<open>denotes\<close> (the tree a value stands for and the cells it
    reaches) and \<open>deep\<close>, with one rule per form.  \<open>Api_Layouts\<close>: the structs of \<open>api/v1\<close> as they lie in memory.
    \<open>Deep_Copy_Methods\<close>: the methods of \<open>zz_generated.deepcopy.go\<close>.  \<open>Deep_Copy\<close>: a copy and its original share no
    cell.  The informer hands a reconcile such a copy, which is why the records of the other theories can be
    passed around as values.
  \<^item> \<open>Telemetry\<close>: the metric vectors of \<open>metrics/exporter.go\<close>, which of them are registered, and every report of
    the program.  What label values the client library accepts is a parameter (\<open>e_labels\<close> of the environment
    of a reconcile).  Nothing reads a metric back, so a report matters only by its panic: \<open>reports_labelled\<close>
    shows that, with the documented behaviour of the library, all sites but one pass the labels of their
    vector, and the step of that one, \<open>estimateCost\<close>, is the only one whose model checks its reports.

  \<^bold>\<open>Contracts.\<close>  Each interface is a locale, interpreted on the definitions that implement it.
  \<^item> \<open>replica_guard\<close> (theory \<open>Replica_Guard\<close>): a guard moves by at most a step and stays within the bounds.
    Interpreted for \<open>Validate\<close> and \<open>ValidateAsymmetric\<close>; it gives the convergence of repeated cycles.
  \<^item> \<open>slots\<close> (theory \<open>Slots\<close>): a counter never exceeds its capacity.  Interpreted for the rate limiter's
    calls in flight and the coordinator's scaling slots.
  \<^item> \<open>bounded_log\<close> (theory \<open>Bounded_Log\<close>): a history keeps its last entries.  Interpreted for the oscillation
    detector, \<open>cost/tracker.go\<close> and \<open>finops/savings_tracker.go\<close>.
  \<^item> \<open>workload_accessor\<close> (theory \<open>Actuator\<close>): interpreted for Deployments and StatefulSets.
  \<^item> \<open>audit_store\<close> (theory \<open>Audit_Log\<close>): the listing of the ConfigMap store, newest first.
  \<^item> \<open>signal_plugin\<close> (theory \<open>Plugin_Manager\<close>): a plugin leaves the health table and the time of the
    bundle to the manager.  Interpreted for all thirteen plugins.
  \<^item> \<open>step_invariant\<close> (theory \<open>Controller\<close>): an invariant of the single steps is one of the whole chain, error
    handling included.  Interpreted for the patches sent, the slots held, what a dry run may write, the
    idle coordinator, the soundness of the subsystems and the cost client.
  \<^item> \<open>copied_type\<close> (theory \<open>Go_Heap\<close>): a type with a deep \<open>DeepCopyInto\<close>, and what \<open>DeepCopy\<close> and
    \<open>DeepCopyObject\<close> then return.  Interpreted for the ten kinds of objects.
  \<^item> \<open>settled_decision\<close> (theory \<open>Reconcile_Outcome\<close>): one decision is left and the resolution takes over
    its count and confidence; then the rest of the reconcile applies what the replica guard makes of it.  Interpreted for a rule, the provider and KEDA.

  \<^bold>\<open>Decisions\<close> (\<open>internal/decision\<close>).
  \<^item> \<open>Validator\<close> (\<open>validator.go\<close>, \<open>asymmetric_validator.go\<close>): refinement of the integer guard of
    \<open>Replica_Guard\<close>, bounds, step limits, convergence; \<open>Validate_wraps\<close> shows why the refinement needs
    the count and step in range.
  \<^item> \<open>Slo\<close> (\<open>slo.go\<close>), \<open>Reactive\<close> (\<open>reactive.go\<close>), \<open>Precedence\<close> (\<open>precedence.go\<close>: the resolver equals "first
    layer present, then the cost ceiling, then the bounds"), \<open>Oscillation\<close> (\<open>oscillation.go\<close>: equivalent to
    the existence of two reversals among the recent events), \<open>Rollback\<close> (\<open>rollback.go\<close>), \<open>Rate_Limiter\<close>
    (\<open>rate_limiter.go\<close>).

  \<^bold>\<open>Providers\<close> (\<open>internal/llm\<close>, \<open>internal/config\<close>).
  \<^item> \<open>Config\<close> (\<open>config.go\<close>: what a loaded configuration guarantees, and up to which number of seconds its
    durations do), \<open>Circuit_Breaker\<close> (a step relation
    with one label per method; invariant, opening and rejection over its runs), \<open>Cache\<close>, \<open>Router\<close>
    (\<open>prompt.go\<close>, \<open>router.go\<close>: where an answer comes from, and the breakers after any calls).

  \<^bold>\<open>Signals\<close> (\<open>internal/plugin\<close>, \<open>internal/node\<close>, \<open>internal/prediction\<close>, \<open>internal/feedback\<close>).
  \<^item> \<open>Plugin_Manager\<close> (registry, manager, \<open>annotations.go\<close>, \<open>metrics_server.go\<close>), \<open>Plugin_Config\<close>
    (configuration and secrets of a plugin), \<open>Http_Exchange\<close> (requests, replies, JSON, URL escaping),
    \<open>Prometheus_Plugin\<close> (\<open>builtin/prometheus.go\<close>), \<open>Http_Plugins\<close> (\<open>external/webhook.go\<close>, \<open>datadog.go\<close>,
    \<open>opencost.go\<close>, \<open>gcp_*.go\<close>), \<open>Cluster_Plugins\<close> (\<open>builtin/nodes.go\<close>, \<open>external/keda.go\<close>, \<open>kafka.go\<close>,
    \<open>aws_*.go\<close>), \<open>Plugin_Registry\<close> (the registry after the \<open>init\<close> functions, and the health table of a
    collection over it), \<open>Legacy_Signals\<close> (\<open>internal/signals\<close>, the collector before the plugins, and that
    they refine it).
  \<^item> \<open>Node\<close>, \<open>Prediction\<close> (weekly baselines in arrays of 168, whose accesses return an option; events), \<open>History\<close> (\<open>prediction/history.go\<close>), \<open>Feedback\<close>.

  \<^bold>\<open>Cost, governance, reporting.\<close>
  \<^item> \<open>Cost\<close> (\<open>internal/cost\<close>), \<open>Finops\<close> (\<open>internal/finops\<close>: percentiles and waste), \<open>Approval\<close>
    (\<open>internal/approval\<close>), \<open>Coordinator\<close> (\<open>internal/coordinator\<close>), \<open>Audit_Log\<close> (\<open>internal/audit\<close>), \<open>Alerting\<close>
    (\<open>internal/alerting\<close>), \<open>Notification\<close> and \<open>Notifiers\<close> (\<open>internal/notification\<close>).
  \<^item> \<open>Actuator\<close> (\<open>internal/actuator\<close>): the result of an operation lists the patches it sent.

  \<^bold>\<open>The reconcile.\<close>
  \<^item> \<open>Controller_State\<close>: \<open>reconcileState\<close>, the \<open>Reconciler\<close> with its subsystems and what it has sent and
    written, the environment \<open>Env\<close> of one reconcile (clock by call site, API server, providers, parsers)
    and the pure helpers.  \<open>Controller_Steps\<close>: the steps, \<open>steps\<close> in their order, \<open>run_steps\<close>, \<open>Reconcile\<close>.
  \<^item> \<open>Controller_Frames\<close>: what each step leaves alone.  \<open>Controller\<close>: \<open>step_invariant\<close> and its instances.
  \<^item> \<open>Reconcile_Safety\<close>: the patches of a reconcile, when it sends none, dry runs, the slots.
    \<open>Decision_Flow\<close>: which input decides the validated count.  \<open>Reconcile_Outcome\<close>: failed steps,
    deletion, rollback, a firing rule that is applied, and the locale \<open>settled_decision\<close>:
    what the steps after the decision need to carry it out, as far as the replica guards let it.  \<open>Provider_Outcome\<close>: the provider's decision, and
    KEDA's when the providers fail, are carried out.  \<open>Lifetime\<close>: the reconciler \<open>cmd/main.go\<close> builds and
    every sequence of reconciles from the start.  \<open>Panics\<close>: which steps can panic, and that
    from the start none does but the cost estimate.  \<open>Cost_Panic\<close>: a cost client that works ends every
    reconcile that decides on a count with that panic, before anything is applied.
  \<^item> \<open>Startup\<close>: the rest of \<open>cmd/main.go\<close>, from the command line to the exit code: what the manager and its
    servers are asked for, and that the manager starts last.

  \<^bold>\<open>Hypotheses.\<close>  \<open>lawful\<close>: the copy functions of apimachinery are deep.  \<open>server_ok\<close>: a successful write is answered with the object written, its name,
  specification, deletion time and (for the base of the write) status.  \<open>enumerates\<close>: the iteration of a
  map visits every key once.  \<open>rejects_miscount\<close> and \<open>counts_labels\<close>: the metrics library panics at a wrong number
  of label values, and only then.  All other answers of the outside are arbitrary unless a statement says
  otherwise, and each hypothesis is met by a concrete environment in a witness.

  \<^bold>\<open>Bounds and fuel.\<close>  No definition takes fuel.  Loops over lists, maps and pages recurse on the
  structure; rounding is computed from the base-two logarithm.  An index is read through an option
  where the code indexes a slice or an array, so a panic is \<open>None\<close>; theories \<open>Finops\<close>, \<open>Prediction\<close> and \<open>Panics\<close>
  show that it does not happen.

  \<^bold>\<open>Not modelled.\<close>
  \<^item> Logging, contexts and deadlines, and the values the metrics take: nothing the code decides reads them.  The mutexes: a method that holds its lock throughout is one step.
  \<^item> Code outside the repository enters as parameters: the JSON and YAML decoders, \<open>ParseFloat\<close>, RFC 3339
    parsing, the HTTP exchange, the digest of the cache key, the API server, the cloud clients, sarama,
    quantities of apimachinery, the label check of the Prometheus client, the structs of apimachinery in memory and their deep copies.
  \<^item> What the controller runtime and client-go do with the options of \<open>Startup\<close> (servers, leader election, work
    queue): parameters, or outside.
  \<^item> The helpers of the end-to-end tests.
  \<^item> Modelled, although no reconcile reaches them: \<open>internal/signals\<close>, the rate limiter, PagerDuty, the
    history store, the FinOps analysis, the workload accessors, \<open>node/feasibility.go\<close> and the other custom
    resources.

  \<^item> Interleaving of reconciles: the builder of \<open>SetupWithManager\<close> leaves the one worker of the controller
    runtime, so reconciles follow each other, as \<open>reconciles\<close> has them.

  \<^bold>\<open>To be extended.\<close>  \<open>settled_decision\<close> for a breached objective; several replicas of the operator under
  leader election.
\<close>

end
